(* ===== verification/Prelude.thy ===== *)
theory Prelude
  imports Complex_Main "HOL-Library.Sublist"
begin

text \<open>
  Shared vocabulary of the development: the exceptions of the Python program as
  values, Python truthiness (\<open>x or d\<close>), results of fallible calls, and the generic
  list and map lemmas the component theories use.  The \<open>named_theorems\<close>
  collections gather the facts that \<open>simp add:\<close> carries through the component
  proofs: \<open>py_defs\<close> (unfolding of small helper operations) and \<open>run_defs\<close>
  (unfolding of the steps of a handler).
\<close>

named_theorems py_defs "definitions of small helpers, unfolded by component proofs"
named_theorems run_defs "definitions of handler steps, unfolded by component proofs"

section \<open>Exceptions and results\<close>

text \<open>
  The exceptions the source raises.  \<open>HTTPException\<close> carries FastAPI's status code
  and detail; every other exception is named by its Python class and message.
\<close>

datatype exc =
    HTTPException nat string
  | ValueError string
  | IndexError
  | TypeError
  | RuntimeError string
  | OtherError string

type_synonym 'a res = "exc + 'a"

fun res_bind :: "'a res \<Rightarrow> ('a \<Rightarrow> 'b res) \<Rightarrow> 'b res" where
  "res_bind (Inl e) f = Inl e"
| "res_bind (Inr x) f = f x"

lemma res_bind_Inr_iff [simp]:
  "res_bind m f = Inr y \<longleftrightarrow> (\<exists>x. m = Inr x \<and> f x = Inr y)"
  by (cases m) auto

text \<open>\<open>try: body except Exception: handler\<close> for a value-returning body.\<close>

fun py_try :: "'a res \<Rightarrow> 'a \<Rightarrow> 'a" where
  "py_try (Inl _) d = d"
| "py_try (Inr x) d = x"

section \<open>Python truthiness\<close>

text \<open>\<open>x or d\<close> for a value that is \<open>None\<close> or a string.\<close>

definition str_or :: "string option \<Rightarrow> string \<Rightarrow> string" where
  [py_defs]: "str_or x d = (case x of None \<Rightarrow> d | Some s \<Rightarrow> if s = [] then d else s)"

definition truthy :: "string option \<Rightarrow> bool" where
  [py_defs]: "truthy x \<longleftrightarrow> (case x of None \<Rightarrow> False | Some s \<Rightarrow> s \<noteq> [])"

lemma str_or_truthy: "truthy x \<Longrightarrow> Some (str_or x d) = x"
  by (auto simp: py_defs split: option.splits if_splits)

lemma str_or_not_truthy: "\<not> truthy x \<Longrightarrow> str_or x d = d"
  by (auto simp: py_defs split: option.splits)

section \<open>Lists\<close>

lemma concat_map_singleton [simp]: "concat (map (\<lambda>x. [f x]) xs) = map f xs"
  by (induction xs) auto

lemma concat_map_filter: "concat (map (\<lambda>x. if P x then [f x] else []) xs) = map f (filter P xs)"
  by (induction xs) auto

lemma dropWhile_idem [simp]: "dropWhile P (dropWhile P xs) = dropWhile P xs"
  by (induction xs) auto

lemma set_dropWhile_subset: "set (dropWhile P xs) \<subseteq> set xs"
  by (auto dest: set_dropWhileD)

lemma length_takeWhile_dropWhile:
  "length (takeWhile P xs) + length (dropWhile P xs) = length xs"
  by (metis length_append takeWhile_dropWhile_id)

lemma in_take_mapD: "c \<in> set (take m (map f ks)) \<Longrightarrow> \<exists>k\<in>set ks. c = f k"
  by (auto simp: take_map dest: in_set_takeD)

lemma map_of_filter_key:
  "P k \<Longrightarrow> map_of (filter (\<lambda>kv. P (fst kv)) xs) k = map_of xs k"
  by (induction xs) auto

section \<open>Insertion-ordered dictionaries\<close>

text \<open>
  A Python dictionary keeps insertion order and an assignment to a present key
  keeps the key's place: an association list with distinct keys, updated in place
  or at the end.
\<close>

fun dict_put :: "'k \<Rightarrow> 'v \<Rightarrow> ('k \<times> 'v) list \<Rightarrow> ('k \<times> 'v) list" where
  "dict_put k v [] = [(k, v)]"
| "dict_put k v ((k', v') # d) =
     (if k = k' then (k, v) # d else (k', v') # dict_put k v d)"

lemma map_of_dict_put [simp]: "map_of (dict_put k v d) = (map_of d)(k \<mapsto> v)"
  by (induction d) (auto simp: fun_eq_iff)

lemma keys_dict_put [simp]: "fst ` set (dict_put k v d) = insert k (fst ` set d)"
  by (induction k v d rule: dict_put.induct) (auto simp: insert_commute)

lemma distinct_dict_put [simp]:
  "distinct (map fst d) \<Longrightarrow> distinct (map fst (dict_put k v d))"
proof (induction d)
  case Nil
  then show ?case by simp
next
  case (Cons kv d)
  obtain k' v' where kv: "kv = (k', v')" by (cases kv)
  have "fst ` set (dict_put k v d) = insert k (fst ` set d)" by simp
  with Cons kv show ?case by (auto simp: image_iff)
qed

definition dict_of :: "('k \<times> 'v) list \<Rightarrow> ('k \<times> 'v) list" where
  "dict_of kvs = fold (\<lambda>(k, v) d. dict_put k v d) kvs []"

lemma fold_dict_put_keys:
  "fst ` set (fold (\<lambda>(k, v) d. dict_put k v d) kvs d) = fst ` set d \<union> fst ` set kvs"
proof (induction kvs arbitrary: d)
  case Nil
  then show ?case by simp
next
  case (Cons kv kvs)
  obtain k v where kv: "kv = (k, v)" by (cases kv)
  have "fst ` set (dict_put k v d) = insert k (fst ` set d)" by (rule keys_dict_put)
  with Cons.IH [of "dict_put k v d"] kv show ?case by simp
qed

lemma fold_dict_put_distinct:
  "distinct (map fst d) \<Longrightarrow>
    distinct (map fst (fold (\<lambda>(k, v) d. dict_put k v d) kvs d))"
  by (induction kvs arbitrary: d) auto

lemma set_dict_put_subset: "set (dict_put k v d) \<subseteq> insert (k, v) (set d)"
  by (induction k v d rule: dict_put.induct) (auto split: if_splits)

lemma fold_dict_put_values:
  "set (fold (\<lambda>(k, v) d. dict_put k v d) kvs d) \<subseteq> set d \<union> set kvs"
proof (induction kvs arbitrary: d)
  case Nil
  then show ?case by simp
next
  case (Cons kv kvs)
  obtain k v where kv: "kv = (k, v)" by (cases kv)
  have "set (dict_put k v d) \<subseteq> insert (k, v) (set d)"
    by (rule set_dict_put_subset)
  with Cons.IH [of "dict_put k v d"] kv show ?case by auto
qed

lemma keys_dict_of [simp]: "fst ` set (dict_of kvs) = fst ` set kvs"
  by (simp add: dict_of_def fold_dict_put_keys)

lemma distinct_dict_of [simp]: "distinct (map fst (dict_of kvs))"
  by (simp add: dict_of_def fold_dict_put_distinct)

lemma set_dict_of_subset: "set (dict_of kvs) \<subseteq> set kvs"
  using fold_dict_put_values [of kvs "[]"] by (simp add: dict_of_def)

end
