(* ===== verification/PyString.thy ===== *)
theory PyString
  imports Prelude
begin

text \<open>
  The parts of Python's \<open>str\<close> the program uses, on HOL's \<open>string\<close>.  A HOL
  character is one of the 256 code points U+0000 to U+00FF, so the text of the model
  is Latin-1 text; on it the character classes (\<open>isspace\<close>, \<open>\w\<close>, \<open>\d\<close>, \<open>lower\<close>)
  below are those of CPython, the non-ASCII half included.  Code points above U+00FF
  (such as the dash in some fixed messages) are written as ASCII.
\<close>

section \<open>Character classes\<close>

abbreviation ord :: "char \<Rightarrow> nat" where
  "ord c \<equiv> of_char c"

definition py_space :: "char \<Rightarrow> bool" where
  "py_space c \<longleftrightarrow> (let n = ord c in
     (9 \<le> n \<and> n \<le> 13) \<or> (28 \<le> n \<and> n \<le> 32) \<or> n = 133 \<or> n = 160)"

definition py_digit :: "char \<Rightarrow> bool" where
  "py_digit c \<longleftrightarrow> (let n = ord c in 48 \<le> n \<and> n \<le> 57)"

definition py_word :: "char \<Rightarrow> bool" where
  "py_word c \<longleftrightarrow> (let n = ord c in
     (48 \<le> n \<and> n \<le> 57) \<or> (65 \<le> n \<and> n \<le> 90) \<or> n = 95 \<or> (97 \<le> n \<and> n \<le> 122)
     \<or> n = 170 \<or> n = 178 \<or> n = 179 \<or> n = 181 \<or> n = 185 \<or> n = 186
     \<or> (188 \<le> n \<and> n \<le> 190) \<or> (192 \<le> n \<and> n \<le> 214) \<or> (216 \<le> n \<and> n \<le> 246)
     \<or> (248 \<le> n \<and> n \<le> 255))"

definition py_lower_char :: "char \<Rightarrow> char" where
  "py_lower_char c = (let n = ord c in
     if (65 \<le> n \<and> n \<le> 90) \<or> (192 \<le> n \<and> n \<le> 222 \<and> n \<noteq> 215)
     then char_of (n + 32) else c)"

text \<open>
  The same classes on the bits of a character: code equations that make evaluation by
  \<open>code_simp\<close> fast.
\<close>

abbreviation (input) low5_letter :: "bool \<Rightarrow> bool \<Rightarrow> bool \<Rightarrow> bool \<Rightarrow> bool \<Rightarrow> bool" where
  "low5_letter b0 b1 b2 b3 b4 \<equiv>
     (b0 \<or> b1 \<or> b2 \<or> b3 \<or> b4) \<and> \<not> (b4 \<and> b3 \<and> (b2 \<or> b1 \<and> b0))"

lemma py_space_code [code]:
  "py_space (Char b0 b1 b2 b3 b4 b5 b6 b7) \<longleftrightarrow>
     (if b7 then \<not> b6 \<and> (if b5 then \<not> b4 \<and> \<not> b3 \<and> \<not> b2 \<and> \<not> b1 \<and> \<not> b0
                           else \<not> b4 \<and> \<not> b3 \<and> b2 \<and> \<not> b1 \<and> b0)
      else \<not> b6 \<and> (if b5 then \<not> b4 \<and> \<not> b3 \<and> \<not> b2 \<and> \<not> b1 \<and> \<not> b0
        else if b4 then b3 \<and> b2
        else b3 \<and> (if b2 then \<not> b1 else b1 \<or> b0)))"
  by (cases b0; cases b1; cases b2; cases b3; cases b4; cases b5; cases b6; cases b7)
    (simp_all add: py_space_def)

lemma py_digit_code [code]:
  "py_digit (Char b0 b1 b2 b3 b4 b5 b6 b7) \<longleftrightarrow>
     \<not> b7 \<and> \<not> b6 \<and> b5 \<and> b4 \<and> (\<not> b3 \<or> \<not> b2 \<and> \<not> b1)"
  by (cases b0; cases b1; cases b2; cases b3; cases b4; cases b5; cases b6; cases b7)
    (simp_all add: py_digit_def)

lemma py_word_code [code]:
  "py_word (Char b0 b1 b2 b3 b4 b5 b6 b7) \<longleftrightarrow>
     (if b7 then (if b6 then \<not> (b4 \<and> \<not> b3 \<and> b2 \<and> b1 \<and> b0)
        else b5 \<and> (if b4 then (if b3 then (if b2 then \<not> (b1 \<and> b0) else b1 \<noteq> b0)
                                        else (if b2 then b0 \<and> \<not> b1 else b1))
                    else b3 \<and> \<not> b2 \<and> b1 \<and> \<not> b0))
      else if b6 then low5_letter b0 b1 b2 b3 b4 \<or> \<not> b5 \<and> b4 \<and> b3 \<and> b2 \<and> b1 \<and> b0
      else b5 \<and> b4 \<and> (\<not> b3 \<or> \<not> b2 \<and> \<not> b1))"
  by (cases b0; cases b1; cases b2; cases b3; cases b4; cases b5; cases b6; cases b7)
    (simp_all add: py_word_def)

lemma py_lower_char_code [code]:
  "py_lower_char (Char b0 b1 b2 b3 b4 b5 b6 b7) =
     (if b6 \<and> \<not> b5 \<and> (if b7 then \<not> (b4 \<and> b2 \<and> b1 \<and> b0) else low5_letter b0 b1 b2 b3 b4)
      then Char b0 b1 b2 b3 b4 True b6 b7 else Char b0 b1 b2 b3 b4 b5 b6 b7)"
  by (cases b0; cases b1; cases b2; cases b3; cases b4; cases b5; cases b6; cases b7)
    (simp_all add: py_lower_char_def char_of_eq_iff take_bit_eq_mod)

text \<open>
  \<open>str.upper\<close> maps U+00DF to two letters; U+00B5 and U+00FF map outside Latin-1 and
  are left as they are (the program looks for ASCII words in the result only).
\<close>

definition py_upper_char :: "char \<Rightarrow> string" where
  "py_upper_char c = (let n = ord c in
     if (97 \<le> n \<and> n \<le> 122) \<or> (224 \<le> n \<and> n \<le> 254 \<and> n \<noteq> 247) then [char_of (n - 32)]
     else if n = 223 then ''SS'' else [c])"

text \<open>Line boundaries of \<open>str.splitlines\<close>.\<close>

definition py_linebreak :: "char \<Rightarrow> bool" where
  "py_linebreak c \<longleftrightarrow> (let n = ord c in
     (10 \<le> n \<and> n \<le> 13) \<or> (28 \<le> n \<and> n \<le> 30) \<or> n = 133)"

lemma py_linebreak_code [code]:
  "py_linebreak (Char b0 b1 b2 b3 b4 b5 b6 b7) \<longleftrightarrow>
     \<not> b6 \<and> \<not> b5 \<and> (if b7 then \<not> b4 \<and> \<not> b3 \<and> b2 \<and> \<not> b1 \<and> b0
        else if b4 then b3 \<and> b2 \<and> \<not> (b1 \<and> b0)
        else b3 \<and> (if b2 then \<not> b1 else b1))"
  by (cases b0; cases b1; cases b2; cases b3; cases b4; cases b5; cases b6; cases b7)
    (simp_all add: py_linebreak_def)

abbreviation NL :: char where
  "NL \<equiv> CHR 0x0A"

abbreviation TAB :: char where
  "TAB \<equiv> CHR 0x09"

section \<open>String methods\<close>

definition py_lower :: "string \<Rightarrow> string" where
  "py_lower s = map py_lower_char s"

definition py_upper :: "string \<Rightarrow> string" where
  "py_upper s = concat (map py_upper_char s)"

definition rstrip :: "string \<Rightarrow> string" where
  "rstrip s = rev (dropWhile py_space (rev s))"

definition py_strip :: "string \<Rightarrow> string" where
  "py_strip s = rstrip (dropWhile py_space s)"

fun py_startswith :: "string \<Rightarrow> string \<Rightarrow> bool" where
  "py_startswith s [] = True"
| "py_startswith [] (c # p) = False"
| "py_startswith (d # s) (c # p) = (c = d \<and> py_startswith s p)"

text \<open>\<open>p in s\<close>\<close>

fun py_in :: "string \<Rightarrow> string \<Rightarrow> bool" where
  "py_in p [] = (p = [])"
| "py_in p (c # s) = (py_startswith (c # s) p \<or> py_in p s)"

text \<open>\<open>s.count(ch)\<close> for one character.\<close>

definition py_count :: "string \<Rightarrow> char \<Rightarrow> nat" where
  "py_count s c = length (filter ((=) c) s)"

fun py_join :: "string \<Rightarrow> string list \<Rightarrow> string" where
  "py_join sep [] = []"
| "py_join sep [x] = x"
| "py_join sep (x # y # xs) = x @ sep @ py_join sep (y # xs)"

text \<open>\<open>s.split(sep)\<close> for a non-empty separator (\<open>acc\<close>: the part being read, reversed).\<close>

function split_acc :: "string \<Rightarrow> string \<Rightarrow> string \<Rightarrow> string list" where
  "split_acc sep acc [] = [rev acc]"
| "split_acc sep acc (c # s) =
     (if sep \<noteq> [] \<and> py_startswith (c # s) sep
      then rev acc # split_acc sep [] (drop (length sep) (c # s))
      else split_acc sep (c # acc) s)"
  by pat_completeness auto
termination
  by (relation "measure (\<lambda>(sep, acc, s). length s)") auto

definition py_split :: "string \<Rightarrow> string \<Rightarrow> string list" where
  "py_split sep s = split_acc sep [] s"

text \<open>\<open>s.splitlines()\<close>: a CR LF pair is one boundary; no empty last line.\<close>

fun lines_acc :: "string \<Rightarrow> string \<Rightarrow> string list" where
  "lines_acc acc [] = (if acc = [] then [] else [rev acc])"
| "lines_acc acc (c # s) =
     (if py_linebreak c
      then rev acc # (case s of
          [] \<Rightarrow> []
        | d # s' \<Rightarrow> if c = CHR 0x0D \<and> d = NL then lines_acc [] s' else lines_acc [] s)
      else lines_acc (c # acc) s)"

definition splitlines :: "string \<Rightarrow> string list" where
  "splitlines s = lines_acc [] s"

text \<open>\<open>s.find(t, start)\<close> for a start within the text: the least position, or None for -1.\<close>

fun find_from :: "string \<Rightarrow> string \<Rightarrow> nat \<Rightarrow> nat option" where
  "find_from t [] k = (if t = [] then Some k else None)"
| "find_from t (c # s) k =
     (if py_startswith (c # s) t then Some k else find_from t s (Suc k))"

definition py_find :: "string \<Rightarrow> string \<Rightarrow> nat \<Rightarrow> nat option" where
  "py_find s t start =
     (if start \<le> length s then find_from t (drop start s) start else None)"

text \<open>Slices \<open>s[a:b]\<close> and reads \<open>s[i]\<close> with Python's negative positions.\<close>

definition slice_pos :: "nat \<Rightarrow> int \<Rightarrow> nat" where
  "slice_pos n i = (if i < 0 then nat (int n + i) else min n (nat i))"

definition py_slice :: "'a list \<Rightarrow> int \<Rightarrow> int \<Rightarrow> 'a list" where
  "py_slice s a b =
     (let i = slice_pos (length s) a; j = slice_pos (length s) b
      in take (j - i) (drop i s))"

definition py_slice_from :: "'a list \<Rightarrow> int \<Rightarrow> 'a list" where
  "py_slice_from s a = drop (slice_pos (length s) a) s"

definition py_get :: "'a list \<Rightarrow> int \<Rightarrow> 'a res" where
  "py_get s k =
     (if 0 \<le> k \<and> nat k < length s then Inr (s ! nat k)
      else if k < 0 \<and> nat (- k) \<le> length s then Inr (s ! (length s - nat (- k)))
      else Inl IndexError)"

section \<open>Decimal numerals\<close>

definition digit_char :: "nat \<Rightarrow> char" where
  "digit_char d = char_of (48 + d)"

fun dec :: "nat \<Rightarrow> string" where
  "dec n = (if n < 10 then [digit_char n] else dec (n div 10) @ [digit_char (n mod 10)])"

declare dec.simps [simp del]

definition str_int :: "int \<Rightarrow> string" where
  "str_int i = (if i < 0 then CHR ''-'' # dec (nat (- i)) else dec (nat i))"

definition int_of_dec :: "string \<Rightarrow> nat" where
  "int_of_dec s = foldl (\<lambda>a c. a * 10 + (ord c - 48)) 0 s"

section \<open>Lemmas: stripping and case\<close>

lemma rstrip_idem [simp]: "rstrip (rstrip s) = rstrip s"
  by (simp add: rstrip_def)

lemma rstrip_append_space: "\<forall>c\<in>set t. py_space c \<Longrightarrow> rstrip (s @ t) = rstrip s"
  by (simp add: rstrip_def dropWhile_append)

lemma rstrip_append_nonspace: "rstrip t \<noteq> [] \<Longrightarrow> rstrip (s @ t) = s @ rstrip t"
  by (auto simp: rstrip_def dropWhile_append dropWhile_eq_Nil_conv)

lemma rstrip_prefix: "\<exists>t. s = rstrip s @ t \<and> (\<forall>c\<in>set t. py_space c)"
proof -
  have "rev s = takeWhile py_space (rev s) @ dropWhile py_space (rev s)" by simp
  then have "s = rev (dropWhile py_space (rev s)) @ rev (takeWhile py_space (rev s))"
    by (metis rev_append rev_rev_ident)
  moreover have "\<forall>c\<in>set (rev (takeWhile py_space (rev s))). py_space c"
    by (auto dest: set_takeWhileD)
  ultimately show ?thesis unfolding rstrip_def by blast
qed

lemma dropWhile_space_rstrip:
  "dropWhile py_space (rstrip (dropWhile py_space s)) = rstrip (dropWhile py_space s)"
proof (cases "rstrip (dropWhile py_space s)")
  case Nil
  then show ?thesis by simp
next
  case (Cons c r)
  obtain t where "dropWhile py_space s = rstrip (dropWhile py_space s) @ t"
    using rstrip_prefix [of "dropWhile py_space s"] by blast
  with Cons have "\<exists>r'. dropWhile py_space s = c # r'" by (metis append_Cons)
  then have "\<not> py_space c"
    by (metis hd_dropWhile list.distinct(1) list.sel(1))
  with Cons show ?thesis by simp
qed

lemma py_strip_idem [simp]: "py_strip (py_strip s) = py_strip s"
  by (simp add: py_strip_def dropWhile_space_rstrip)

lemma py_strip_empty_iff: "py_strip s = [] \<longleftrightarrow> (\<forall>c\<in>set s. py_space c)"
proof -
  have "py_strip s = [] \<longleftrightarrow> (\<forall>c\<in>set (dropWhile py_space s). py_space c)"
    by (simp add: py_strip_def rstrip_def dropWhile_eq_Nil_conv)
  also have "\<dots> \<longleftrightarrow> (\<forall>c\<in>set s. py_space c)"
    by (induction s) auto
  finally show ?thesis .
qed

lemma py_strip_Nil [simp]: "py_strip [] = []"
  by (simp add: py_strip_def rstrip_def)

lemma set_py_strip: "set (py_strip s) \<subseteq> set s"
  by (auto simp: py_strip_def rstrip_def dest!: set_dropWhileD)

lemma py_strip_infix: "\<exists>a b. s = a @ py_strip s @ b"
proof -
  obtain t where "dropWhile py_space s = py_strip s @ t"
    using rstrip_prefix [of "dropWhile py_space s"] by (auto simp: py_strip_def)
  moreover have "s = takeWhile py_space s @ dropWhile py_space s" by simp
  ultimately show ?thesis by metis
qed

lemma length_py_strip: "length (py_strip s) \<le> length s"
proof -
  obtain a b where "s = a @ py_strip s @ b" using py_strip_infix by blast
  then show ?thesis by (metis length_append le_add1 le_add2 order_trans)
qed

lemma py_strip_id:
  "s \<noteq> [] \<Longrightarrow> \<not> py_space (hd s) \<Longrightarrow> \<not> py_space (last s) \<Longrightarrow> py_strip s = s"
proof -
  assume ne: "s \<noteq> []" and h: "\<not> py_space (hd s)" and l: "\<not> py_space (last s)"
  have "dropWhile py_space s = s" using ne h by (cases s) auto
  moreover have "dropWhile py_space (rev s) = rev s"
    using ne l by (cases "rev s") (auto simp: hd_rev [symmetric])
  ultimately show ?thesis by (simp add: py_strip_def rstrip_def)
qed

lemma py_strip_ends:
  assumes "py_strip s \<noteq> []"
  shows "\<not> py_space (hd (py_strip s)) \<and> \<not> py_space (last (py_strip s))"
proof
  have "dropWhile py_space (py_strip s) = py_strip s"
    by (simp add: py_strip_def dropWhile_space_rstrip)
  with assms show "\<not> py_space (hd (py_strip s))"
    by (metis hd_dropWhile)
  have "last (py_strip s) = hd (dropWhile py_space (rev (dropWhile py_space s)))"
    using assms by (simp add: py_strip_def rstrip_def last_rev)
  with assms show "\<not> py_space (last (py_strip s))"
    by (simp add: py_strip_def rstrip_def hd_dropWhile)
qed

lemma length_py_lower [simp]: "length (py_lower s) = length s"
  by (simp add: py_lower_def)

lemma py_lower_append [simp]: "py_lower (s @ t) = py_lower s @ py_lower t"
  by (simp add: py_lower_def)

lemma py_lower_Nil [simp]: "py_lower [] = []"
  by (simp add: py_lower_def)

lemma ord_less_256 [simp]: "ord c < 256"
  by (metis of_char_of char_of_char mod_less_divisor zero_less_numeral)

lemma ord_char_of: "n < 256 \<Longrightarrow> ord (char_of n) = n"
  by (simp add: of_char_of)

lemma py_lower_char_idem [simp]: "py_lower_char (py_lower_char c) = py_lower_char c"
  by (auto simp: py_lower_char_def Let_def of_char_of)

lemma py_lower_idem [simp]: "py_lower (py_lower s) = py_lower s"
  by (simp add: py_lower_def)

section \<open>Lemmas: searching\<close>

lemma py_startswith_iff: "py_startswith s p \<longleftrightarrow> prefix p s"
  by (induction s p rule: py_startswith.induct) auto

lemma py_in_iff: "py_in p s \<longleftrightarrow> (\<exists>a b. s = a @ p @ b)"
proof -
  have "py_in p s \<longleftrightarrow> sublist p s"
    by (induction p s rule: py_in.induct) (auto simp: py_startswith_iff sublist_Cons_right)
  then show ?thesis by (auto simp: sublist_def)
qed

lemma py_in_append_left: "py_in p s \<Longrightarrow> py_in p (s @ t)"
  by (auto simp: py_in_iff) (metis append_assoc)

lemma py_in_append_right: "py_in p t \<Longrightarrow> py_in p (s @ t)"
  by (auto simp: py_in_iff) (metis append_assoc)

lemma find_from_SomeD:
  "find_from t s k = Some j \<Longrightarrow> k \<le> j \<and> j - k \<le> length s \<and> prefix t (drop (j - k) s)"
proof (induction t s k rule: find_from.induct)
  case (1 t k)
  then show ?case by (auto split: if_splits)
next
  case (2 t c s k)
  show ?case
  proof (cases "py_startswith (c # s) t")
    case True
    with 2 show ?thesis by (auto simp: py_startswith_iff)
  next
    case False
    with 2 have "Suc k \<le> j \<and> j - Suc k \<le> length s \<and> prefix t (drop (j - Suc k) s)" by simp
    then show ?thesis by (auto simp: drop_Cons' Suc_diff_le)
  qed
qed

lemma py_find_SomeD:
  assumes "py_find s t start = Some j"
  shows "start \<le> j \<and> j + length t \<le> length s \<and> take (length t) (drop j s) = t"
proof -
  from assms have start: "start \<le> length s" and f: "find_from t (drop start s) start = Some j"
    by (auto simp: py_find_def split: if_splits)
  from find_from_SomeD [OF f] have j: "start \<le> j" "prefix t (drop (j - start) (drop start s))"
    by auto
  then have "prefix t (drop j s)" by simp
  then have "length t \<le> length s - j" "take (length t) (drop j s) = t"
    by (auto simp: prefix_def dest: arg_cong [of _ _ length])
  moreover have "j \<le> length s" using find_from_SomeD [OF f] start by auto
  ultimately show ?thesis using j by auto
qed

section \<open>Lemmas: decimal numerals\<close>

lemma ord_digit_char: "d < 10 \<Longrightarrow> ord (digit_char d) = 48 + d"
  by (simp add: digit_char_def ord_char_of)

lemma py_digit_digit_char: "d < 10 \<Longrightarrow> py_digit (digit_char d)"
  by (simp add: py_digit_def ord_digit_char)

lemma dec_nonempty [simp]: "dec n \<noteq> []"
  by (subst dec.simps) simp

lemma dec_digits: "c \<in> set (dec n) \<Longrightarrow> py_digit c"
proof (induction n rule: dec.induct)
  case (1 n)
  show ?case
  proof (cases "n < 10")
    case True
    with 1 show ?thesis by (simp add: dec.simps [of n] py_digit_digit_char)
  next
    case False
    with 1 show ?thesis by (auto simp: dec.simps [of n] py_digit_digit_char)
  qed
qed

lemma int_of_dec_snoc: "int_of_dec (s @ [c]) = int_of_dec s * 10 + (ord c - 48)"
  by (simp add: int_of_dec_def)

text \<open>\<open>int(str(n)) = n\<close>\<close>

lemma int_of_dec_dec [simp]: "int_of_dec (dec n) = n"
proof (induction n rule: dec.induct)
  case (1 n)
  show ?case
  proof (cases "n < 10")
    case True
    then show ?thesis by (simp add: dec.simps [of n] int_of_dec_def ord_digit_char)
  next
    case False
    with 1 have "int_of_dec (dec n) = (n div 10) * 10 + n mod 10"
      by (simp add: dec.simps [of n] int_of_dec_snoc ord_digit_char)
    then show ?thesis by simp
  qed
qed

lemma dec_inject [simp]: "dec m = dec n \<longleftrightarrow> m = n"
  by (metis int_of_dec_dec)

lemma str_int_chars: "c \<in> set (str_int i) \<Longrightarrow> py_digit c \<or> c = CHR ''-''"
  by (auto simp: str_int_def dest: dec_digits split: if_splits)

lemma str_int_inject [simp]: "str_int i = str_int j \<longleftrightarrow> i = j"
proof -
  have no_minus: "CHR ''-'' \<notin> set (dec n)" for n
    using dec_digits [of "CHR ''-''" n] by (auto simp: py_digit_def)
  have "dec n \<noteq> CHR ''-'' # s" for n s
    using no_minus [of n] by (metis list.set_intros(1))
  then show ?thesis
    by (auto simp: str_int_def dest: sym)
qed

end
