(* ===== verification/PyRegex.thy ===== *)
theory PyRegex
  imports PyString
begin

text \<open>
  The part of Python's \<open>re\<close> module the program uses, as an executable backtracking
  matcher.  A pattern is a value of \<open>re\<close>; \<open>mt\<close> lists the states in which a match
  from a given state can end, in the order a backtracking matcher finds them, so the
  first one is the match Python returns.  A state is the character before the
  position (needed by \<open>\b\<close>) and the text that is left.  On top of it stand
  \<open>re.search\<close>, \<open>re.findall\<close>, \<open>re.sub\<close> and \<open>re.split\<close> with a capturing group.
  No pattern of the source matches the empty text, so the scanner passes over an empty
  match; iterations of a star that consume nothing stop, as in CPython.
\<close>

section \<open>Patterns and the matcher\<close>

type_synonym rstate = "char option \<times> string"

datatype re =
    Eps
  | Cls "char \<Rightarrow> bool"
  | Cat re re
  | Alt re re
  | Star re
  | LazyStar re
  | UpTo nat re
  | Bnd

text \<open>\<open>\b\<close>: exactly one of the neighbours is a word character.\<close>

definition at_boundary :: "rstate \<Rightarrow> bool" where
  "at_boundary st \<longleftrightarrow>
     (case fst st of None \<Rightarrow> False | Some c \<Rightarrow> py_word c)
      \<noteq> (case snd st of [] \<Rightarrow> False | c # _ \<Rightarrow> py_word c)"

fun step_cls :: "(char \<Rightarrow> bool) \<Rightarrow> rstate \<Rightarrow> rstate list" where
  "step_cls P (p, []) = []"
| "step_cls P (p, c # s) = (if P c then [(Some c, s)] else [])"

text \<open>At most \<open>n\<close> iterations, as many as possible first (or as few as possible first).\<close>

fun iter_greedy :: "(rstate \<Rightarrow> rstate list) \<Rightarrow> nat \<Rightarrow> rstate \<Rightarrow> rstate list" where
  "iter_greedy f 0 st = [st]"
| "iter_greedy f (Suc n) st =
     concat (map (\<lambda>st'. if length (snd st') < length (snd st) then iter_greedy f n st' else [])
       (f st)) @ [st]"

fun iter_lazy :: "(rstate \<Rightarrow> rstate list) \<Rightarrow> nat \<Rightarrow> rstate \<Rightarrow> rstate list" where
  "iter_lazy f 0 st = [st]"
| "iter_lazy f (Suc n) st =
     st # concat (map (\<lambda>st'. if length (snd st') < length (snd st) then iter_lazy f n st' else [])
       (f st))"

primrec mt :: "re \<Rightarrow> rstate \<Rightarrow> rstate list" where
  "mt Eps = (\<lambda>st. [st])"
| "mt (Cls P) = step_cls P"
| "mt (Cat r q) = (\<lambda>st. concat (map (mt q) (mt r st)))"
| "mt (Alt r q) = (\<lambda>st. mt r st @ mt q st)"
| "mt (Star r) = (\<lambda>st. iter_greedy (mt r) (length (snd st)) st)"
| "mt (LazyStar r) = (\<lambda>st. iter_lazy (mt r) (length (snd st)) st)"
| "mt (UpTo n r) = iter_greedy (mt r) n"
| "mt Bnd = (\<lambda>st. if at_boundary st then [st] else [])"

section \<open>Pattern abbreviations\<close>

definition Chr :: "char \<Rightarrow> re" where
  "Chr c = Cls ((=) c)"

definition ChrI :: "char \<Rightarrow> re" where
  "ChrI c = Cls (\<lambda>d. py_lower_char d = py_lower_char c)"

fun seq :: "re list \<Rightarrow> re" where
  "seq [] = Eps"
| "seq [r] = r"
| "seq (r # q # rs) = Cat r (seq (q # rs))"

fun alts :: "re list \<Rightarrow> re" where
  "alts [] = Cls (\<lambda>_. False)"
| "alts [r] = r"
| "alts (r # q # rs) = Alt r (alts (q # rs))"

definition Lit :: "string \<Rightarrow> re" where
  "Lit s = seq (map Chr s)"

definition LitI :: "string \<Rightarrow> re" where
  "LitI s = seq (map ChrI s)"

definition Opt :: "re \<Rightarrow> re" where
  "Opt r = UpTo 1 r"

definition Plus :: "re \<Rightarrow> re" where
  "Plus r = Cat r (Star r)"

definition LazyPlus :: "re \<Rightarrow> re" where
  "LazyPlus r = Cat r (LazyStar r)"

definition Times :: "nat \<Rightarrow> re \<Rightarrow> re" where
  "Times n r = seq (replicate n r)"

text \<open>\<open>r{m,n}\<close> and \<open>r{m,}\<close>\<close>

definition Rep :: "nat \<Rightarrow> nat \<Rightarrow> re \<Rightarrow> re" where
  "Rep m n r = Cat (Times m r) (UpTo (n - m) r)"

definition AtLeast :: "nat \<Rightarrow> re \<Rightarrow> re" where
  "AtLeast m r = Cat (Times m r) (Star r)"

abbreviation Space :: re where "Space \<equiv> Cls py_space"
abbreviation Digit :: re where "Digit \<equiv> Cls py_digit"
abbreviation WordC :: re where "WordC \<equiv> Cls py_word"

section \<open>Matching, searching, substituting\<close>

definition re_match :: "re \<Rightarrow> rstate \<Rightarrow> rstate option" where
  "re_match r st = (case mt r st of [] \<Rightarrow> None | st' # _ \<Rightarrow> Some st')"

text \<open>\<open>bool(re.search(r, s))\<close>\<close>

fun search_from :: "re \<Rightarrow> char option \<Rightarrow> string \<Rightarrow> bool" where
  "search_from r p [] = (re_match r (p, []) \<noteq> None)"
| "search_from r p (c # s) = (re_match r (p, c # s) \<noteq> None \<or> search_from r (Some c) s)"

definition re_search :: "re \<Rightarrow> string \<Rightarrow> bool" where
  "re_search r s = search_from r None s"

text \<open>
  The scan shared by \<open>findall\<close>, \<open>sub\<close> and \<open>split\<close>: the text as the sequence of the
  characters outside matches (\<open>Inl\<close>) and the leftmost non-overlapping matches (\<open>Inr\<close>).
\<close>

function scan :: "re \<Rightarrow> char option \<Rightarrow> string \<Rightarrow> (char + string) list" where
  "scan r p [] = []"
| "scan r p (c # s) =
     (case re_match r (p, c # s) of
        None \<Rightarrow> Inl c # scan r (Some c) s
      | Some (p', s') \<Rightarrow>
          if length s' < length (c # s)
          then Inr (take (length (c # s) - length s') (c # s)) # scan r p' s'
          else Inl c # scan r (Some c) s)"
  by pat_completeness auto
termination
  by (relation "measure (\<lambda>(r, p, s). length s)") auto

definition findall :: "re \<Rightarrow> string \<Rightarrow> string list" where
  "findall r s = concat (map (case_sum (\<lambda>_. []) (\<lambda>m. [m])) (scan r None s))"

definition re_sub :: "re \<Rightarrow> string \<Rightarrow> string \<Rightarrow> string" where
  "re_sub r repl s = concat (map (case_sum (\<lambda>c. [c]) (\<lambda>_. repl)) (scan r None s))"

text \<open>
  \<open>re.split("(r)", s)\<close>: the texts between the matches and the matches, in order.
\<close>

fun split_parts :: "string \<Rightarrow> (char + string) list \<Rightarrow> string list" where
  "split_parts acc [] = [rev acc]"
| "split_parts acc (Inl c # ts) = split_parts (c # acc) ts"
| "split_parts acc (Inr m # ts) = rev acc # m # split_parts [] ts"

definition re_split_keep :: "re \<Rightarrow> string \<Rightarrow> string list" where
  "re_split_keep r s = split_parts [] (scan r None s)"

text \<open>\<open>re.split(r, s)\<close> without a group: the texts between the matches.\<close>

fun split_gaps :: "string \<Rightarrow> (char + string) list \<Rightarrow> string list" where
  "split_gaps acc [] = [rev acc]"
| "split_gaps acc (Inl c # ts) = split_gaps (c # acc) ts"
| "split_gaps acc (Inr m # ts) = rev acc # split_gaps [] ts"

definition re_split :: "re \<Rightarrow> string \<Rightarrow> string list" where
  "re_split r s = split_gaps [] (scan r None s)"

section \<open>What a match consumes\<close>

text \<open>Every end state of a match is a suffix of the text it started from.\<close>

lemma iter_greedy_suffix:
  assumes "\<And>st st'. st' \<in> set (f st) \<Longrightarrow> suffix (snd st') (snd st)"
  shows "st' \<in> set (iter_greedy f n st) \<Longrightarrow> suffix (snd st') (snd st)"
proof (induction n arbitrary: st)
  case 0
  then show ?case by simp
next
  case (Suc n)
  then show ?case by (auto split: if_splits dest!: assms intro: suffix_order.trans)
qed

lemma iter_lazy_suffix:
  assumes "\<And>st st'. st' \<in> set (f st) \<Longrightarrow> suffix (snd st') (snd st)"
  shows "st' \<in> set (iter_lazy f n st) \<Longrightarrow> suffix (snd st') (snd st)"
proof (induction n arbitrary: st)
  case 0
  then show ?case by simp
next
  case (Suc n)
  then show ?case by (auto split: if_splits dest!: assms intro: suffix_order.trans)
qed

lemma step_cls_suffix: "st' \<in> set (step_cls P st) \<Longrightarrow> suffix (snd st') (snd st)"
  by (cases "(P, st)" rule: step_cls.cases) (auto simp: suffix_def split: if_splits)

lemma mt_suffix: "st' \<in> set (mt r st) \<Longrightarrow> suffix (snd st') (snd st)"
proof (induction r arbitrary: st st')
  case (Cat r q)
  from Cat.prems obtain mid where "mid \<in> set (mt r st)" "st' \<in> set (mt q mid)" by auto
  then show ?case by (metis Cat.IH suffix_order.trans)
next
  case (Star r)
  show ?case by (rule iter_greedy_suffix [of "mt r"]) (use Star in auto)
next
  case (LazyStar r)
  show ?case by (rule iter_lazy_suffix [of "mt r"]) (use LazyStar in auto)
next
  case (UpTo n r)
  show ?case by (rule iter_greedy_suffix [of "mt r"]) (use UpTo in auto)
qed (auto dest: step_cls_suffix split: if_splits)

lemma re_match_suffix: "re_match r st = Some st' \<Longrightarrow> suffix (snd st') (snd st)"
  by (auto simp: re_match_def split: list.splits intro: mt_suffix [of _ r])

text \<open>The scan loses nothing: its pieces put together are the text.\<close>

definition piece :: "char + string \<Rightarrow> string" where
  "piece = case_sum (\<lambda>c. [c]) (\<lambda>m. m)"

lemma piece_simps [simp]: "piece (Inl c) = [c]" "piece (Inr m) = m"
  by (simp_all add: piece_def)

lemma scan_pieces: "concat (map piece (scan r p s)) = s"
proof (induction r p s rule: scan.induct)
  case (1 r p)
  then show ?case by simp
next
  case (2 r p c s)
  show ?case
  proof (cases "re_match r (p, c # s)")
    case None
    with 2 show ?thesis by simp
  next
    case (Some st')
    obtain p' s' where st': "st' = (p', s')" by (cases st')
    show ?thesis
    proof (cases "length s' < length (c # s)")
      case True
      from Some st' have "suffix s' (c # s)" using re_match_suffix by fastforce
      then obtain zs where "c # s = zs @ s'" by (auto simp: suffix_def)
      then have "take (length (c # s) - length s') (c # s) @ s' = c # s" by simp
      with 2 Some st' True show ?thesis by simp
    next
      case False
      with 2 Some st' show ?thesis by simp
    qed
  qed
qed

lemma split_parts_concat: "concat (split_parts acc ts) = rev acc @ concat (map piece ts)"
  by (induction acc ts rule: split_parts.induct) auto

theorem re_split_keep_concat: "concat (re_split_keep r s) = s"
  by (simp add: re_split_keep_def split_parts_concat scan_pieces)

section \<open>What the classes of a pattern allow\<close>

text \<open>Every character a pattern can consume satisfies the predicate.\<close>

primrec all_cls :: "(char \<Rightarrow> bool) \<Rightarrow> re \<Rightarrow> bool" where
  "all_cls P Eps \<longleftrightarrow> True"
| "all_cls P (Cls Q) \<longleftrightarrow> (\<forall>c. Q c \<longrightarrow> P c)"
| "all_cls P (Cat r q) \<longleftrightarrow> all_cls P r \<and> all_cls P q"
| "all_cls P (Alt r q) \<longleftrightarrow> all_cls P r \<and> all_cls P q"
| "all_cls P (Star r) \<longleftrightarrow> all_cls P r"
| "all_cls P (LazyStar r) \<longleftrightarrow> all_cls P r"
| "all_cls P (UpTo n r) \<longleftrightarrow> all_cls P r"
| "all_cls P Bnd \<longleftrightarrow> True"

definition consumes :: "(char \<Rightarrow> bool) \<Rightarrow> string \<Rightarrow> string \<Rightarrow> bool" where
  "consumes P s s' \<longleftrightarrow> (\<exists>zs. s = zs @ s' \<and> (\<forall>c\<in>set zs. P c))"

lemma consumes_refl [simp]: "consumes P s s"
  by (simp add: consumes_def)

lemma consumes_trans: "consumes P a b \<Longrightarrow> consumes P b c \<Longrightarrow> consumes P a c"
  unfolding consumes_def by (metis Un_iff append_assoc set_append)

lemma iter_consumes:
  assumes "\<And>st st'. st' \<in> set (f st) \<Longrightarrow> consumes P (snd st) (snd st')"
  shows "st' \<in> set (iter_greedy f n st) \<Longrightarrow> consumes P (snd st) (snd st')"
    and "st' \<in> set (iter_lazy f n st) \<Longrightarrow> consumes P (snd st) (snd st')"
proof -
  show "st' \<in> set (iter_greedy f n st) \<Longrightarrow> consumes P (snd st) (snd st')"
  proof (induction n arbitrary: st)
    case (Suc n)
    then show ?case by (auto split: if_splits dest!: assms intro: consumes_trans)
  qed simp
  show "st' \<in> set (iter_lazy f n st) \<Longrightarrow> consumes P (snd st) (snd st')"
  proof (induction n arbitrary: st)
    case (Suc n)
    then show ?case by (auto split: if_splits dest!: assms intro: consumes_trans)
  qed simp
qed

lemma step_cls_consumes:
  "\<forall>c. Q c \<longrightarrow> P c \<Longrightarrow> st' \<in> set (step_cls Q st) \<Longrightarrow> consumes P (snd st) (snd st')"
  by (cases "(Q, st)" rule: step_cls.cases) (auto simp: consumes_def split: if_splits)

lemma mt_consumes: "all_cls P r \<Longrightarrow> st' \<in> set (mt r st) \<Longrightarrow> consumes P (snd st) (snd st')"
proof (induction r arbitrary: st st')
  case (Cat r q)
  from Cat.prems obtain mid where "mid \<in> set (mt r st)" "st' \<in> set (mt q mid)" by auto
  with Cat have "consumes P (snd st) (snd mid)" "consumes P (snd mid) (snd st')" by simp_all
  then show ?case by (rule consumes_trans)
next
  case (Star r)
  show ?case by (rule iter_consumes(1) [of "mt r"]) (use Star in auto)
next
  case (LazyStar r)
  show ?case by (rule iter_consumes(2) [of "mt r"]) (use LazyStar in auto)
next
  case (UpTo n r)
  show ?case by (rule iter_consumes(1) [of "mt r"]) (use UpTo in auto)
qed (auto dest: step_cls_consumes split: if_splits)

lemma scan_matches: "all_cls P r \<Longrightarrow> Inr m \<in> set (scan r p s) \<Longrightarrow> \<forall>c\<in>set m. P c"
proof (induction r p s rule: scan.induct)
  case (2 r p c s)
  show ?case
  proof (cases "re_match r (p, c # s)")
    case None
    with 2 show ?thesis by simp
  next
    case (Some st')
    obtain p' s' where st': "st' = (p', s')" by (cases st')
    with Some have "(p', s') \<in> set (mt r (p, c # s))"
      by (auto simp: re_match_def split: list.splits)
    with mt_consumes [OF 2(4)] have "consumes P (c # s) s'" by fastforce
    then obtain zs where zs: "c # s = zs @ s'" "\<forall>c\<in>set zs. P c" by (auto simp: consumes_def)
    then have t: "take (length (c # s) - length s') (c # s) = zs" by simp
    show ?thesis
    proof (cases "length s' < length (c # s)")
      case True
      with Some st' t have "scan r p (c # s) = Inr zs # scan r p' s'" by simp
      with 2(2) [OF Some [unfolded st'] refl True] 2(4,5) zs show ?thesis by auto
    next
      case False
      with Some st' have "scan r p (c # s) = Inl c # scan r (Some c) s" by simp
      with 2(3) [OF Some [unfolded st'] refl False] 2(4,5) show ?thesis by auto
    qed
  qed
qed simp

text \<open>Splitting at matches of a class of separators loses separators only.\<close>

lemma split_gaps_filter:
  "\<forall>m. Inr m \<in> set ts \<longrightarrow> (\<forall>c\<in>set m. P c) \<Longrightarrow>
     filter (\<lambda>c. \<not> P c) (concat (split_gaps acc ts))
       = filter (\<lambda>c. \<not> P c) (rev acc @ concat (map piece ts))"
  by (induction acc ts rule: split_gaps.induct) (auto simp: filter_empty_conv)

lemma re_split_filter:
  "all_cls P r \<Longrightarrow> filter (\<lambda>c. \<not> P c) (concat (re_split r s)) = filter (\<lambda>c. \<not> P c) s"
  using split_gaps_filter [of "scan r None s" P "[]"] scan_matches [of P r _ None s]
  by (simp add: re_split_def scan_pieces)

section \<open>Searching for literals\<close>

lemma mt_seq_Chr:
  "mt (seq (map Chr s)) (p, t) \<noteq> [] \<longleftrightarrow> prefix s t"
proof (induction s arbitrary: p t rule: induct_list012)
  case 1
  then show ?case by simp
next
  case (2 x)
  then show ?case by (cases t) (auto simp: Chr_def)
next
  case (3 x y zs)
  then show ?case by (cases t) (auto simp: Chr_def)
qed

lemma mt_seq_ChrI:
  "mt (seq (map ChrI s)) (p, t) \<noteq> [] \<longleftrightarrow> prefix (py_lower s) (py_lower t)"
proof (induction s arbitrary: p t rule: induct_list012)
  case 1
  then show ?case by simp
next
  case (2 x)
  then show ?case by (cases t) (auto simp: ChrI_def py_lower_def)
next
  case (3 x y zs)
  then show ?case by (cases t) (auto simp: ChrI_def py_lower_def)
qed

lemma mt_alts: "mt (alts rs) st \<noteq> [] \<longleftrightarrow> (\<exists>r\<in>set rs. mt r st \<noteq> [])"
proof (induction rs rule: alts.induct)
  case 1
  then show ?case by (cases st; cases "snd st") auto
qed auto

lemma re_match_None: "re_match r st = None \<longleftrightarrow> mt r st = []"
  by (simp add: re_match_def split: list.splits)

lemma search_from_suffix:
  assumes "\<And>p t. mt r (p, t) \<noteq> [] \<longleftrightarrow> Q t"
  shows "search_from r p s \<longleftrightarrow> (\<exists>b. suffix b s \<and> Q b)"
proof (induction s arbitrary: p)
  case Nil
  have "re_match r (p, []) \<noteq> None \<longleftrightarrow> Q []" unfolding re_match_None by (rule assms)
  then show ?case by simp
next
  case (Cons c s)
  have "re_match r (p, c # s) \<noteq> None \<longleftrightarrow> Q (c # s)"
    unfolding re_match_None by (rule assms)
  then show ?case by (auto simp only: search_from.simps Cons.IH suffix_Cons)
qed

lemma py_in_suffix: "py_in p s \<longleftrightarrow> (\<exists>b. suffix b s \<and> prefix p b)"
  by (induction p s rule: py_in.induct) (auto simp: py_startswith_iff suffix_Cons)

lemma suffix_py_lower: "suffix b (py_lower s) \<longleftrightarrow> (\<exists>b'. b = py_lower b' \<and> suffix b' s)"
  by (auto simp: py_lower_def suffix_def map_eq_append_conv)

lemma re_search_LitI: "re_search (LitI l) s \<longleftrightarrow> py_in (py_lower l) (py_lower s)"
proof -
  have "re_search (LitI l) s \<longleftrightarrow> (\<exists>b. suffix b s \<and> prefix (py_lower l) (py_lower b))"
    unfolding re_search_def LitI_def by (rule search_from_suffix [OF mt_seq_ChrI])
  then show ?thesis by (auto simp: py_in_suffix suffix_py_lower)
qed

lemma search_from_alts:
  "search_from (alts rs) p s \<longleftrightarrow> (\<exists>r\<in>set rs. search_from r p s)"
proof (induction s arbitrary: p)
  case Nil
  then show ?case by (simp add: re_match_None mt_alts)
next
  case (Cons c s)
  then show ?case by (auto simp: re_match_None mt_alts)
qed

lemma re_search_alts: "re_search (alts rs) s \<longleftrightarrow> (\<exists>r\<in>set rs. re_search r s)"
  by (simp add: re_search_def search_from_alts)

section \<open>Substituting a character class and a run of it\<close>

lemma scan_Cls:
  "scan (Cls P) p s = map (\<lambda>c. if P c then Inr [c] else Inl c) s"
  by (induction s arbitrary: p) (auto simp: re_match_def)

lemma re_sub_Cls: "re_sub (Cls P) r s = concat (map (\<lambda>c. if P c then r else [c]) s)"
  by (simp add: re_sub_def scan_Cls comp_def if_distrib cong: if_cong)

lemma iter_greedy_Cls:
  "length s \<le> n \<Longrightarrow> \<exists>p' sts. iter_greedy (step_cls P) n (p, s) = (p', dropWhile P s) # sts
     \<and> (takeWhile P s = [] \<longrightarrow> p' = p)
     \<and> (takeWhile P s \<noteq> [] \<longrightarrow> p' = Some (last (takeWhile P s)))"
proof (induction n arbitrary: p s)
  case 0
  then show ?case by auto
next
  case (Suc n)
  show ?case
  proof (cases s)
    case Nil
    then show ?thesis by auto
  next
    case (Cons c t)
    show ?thesis
    proof (cases "P c")
      case True
      from Suc.prems Cons obtain p' sts where
        *: "iter_greedy (step_cls P) n (Some c, t) = (p', dropWhile P t) # sts"
          "takeWhile P t = [] \<longrightarrow> p' = Some c"
          "takeWhile P t \<noteq> [] \<longrightarrow> p' = Some (last (takeWhile P t))"
        using Suc.IH [of t "Some c"] by auto
      with Cons True show ?thesis by auto
    next
      case False
      with Cons show ?thesis by auto
    qed
  qed
qed

lemma re_match_Plus_Cls:
  "re_match (Plus (Cls P)) (p, c # s) =
     (if P c then Some (Some (last (c # takeWhile P s)), dropWhile P s) else None)"
  using iter_greedy_Cls [of s "length s" P "Some c"]
  by (auto simp: re_match_def Plus_def)

lemma scan_Plus_Cls_Cons:
  "P c \<Longrightarrow> scan (Plus (Cls P)) p (c # s) =
     Inr (c # takeWhile P s) # scan (Plus (Cls P)) (Some (last (c # takeWhile P s))) (dropWhile P s)"
proof -
  assume "P c"
  have len: "length (dropWhile P s) < Suc (length s)"
    by (simp add: length_dropWhile_le less_Suc_eq_le)
  have "Suc (length s) - length (dropWhile P s) = Suc (length (takeWhile P s))"
    using length_takeWhile_dropWhile [of P s] by simp
  moreover have "take (length (takeWhile P s)) s = takeWhile P s"
    by (metis takeWhile_eq_take)
  ultimately show ?thesis using \<open>P c\<close> len by (simp add: re_match_Plus_Cls)
qed

text \<open>
  \<open>re.sub(r"[class]+", r, s)\<close> on a text: runs of the class become one replacement.
\<close>

fun squeeze :: "(char \<Rightarrow> bool) \<Rightarrow> string \<Rightarrow> string \<Rightarrow> string" where
  "squeeze P r [] = []"
| "squeeze P r [c] = (if P c then r else [c])"
| "squeeze P r (c # d # s) =
     (if P c then (if P d then squeeze P r (d # s) else r @ squeeze P r (d # s))
      else c # squeeze P r (d # s))"

lemma squeeze_keep: "\<not> P c \<Longrightarrow> squeeze P r (c # s) = c # squeeze P r s"
  by (cases s) simp_all

lemma squeeze_run: "P c \<Longrightarrow> squeeze P r (c # s) = r @ squeeze P r (dropWhile P s)"
proof (induction s arbitrary: c)
  case Nil
  then show ?case by simp
next
  case (Cons d s)
  then show ?case by (cases "P d") simp_all
qed

lemma re_sub_Plus_Cls_aux:
  "concat (map (case_sum (\<lambda>c. [c]) (\<lambda>_. r)) (scan (Plus (Cls P)) p s)) = squeeze P r s"
proof (induction "length s" arbitrary: p s rule: less_induct)
  case less
  show ?case
  proof (cases s)
    case Nil
    then show ?thesis by simp
  next
    case (Cons c t)
    show ?thesis
    proof (cases "P c")
      case True
      have "length (dropWhile P t) < length s"
        using Cons by (simp add: length_dropWhile_le less_Suc_eq_le)
      with less True Cons show ?thesis
        by (simp add: scan_Plus_Cls_Cons squeeze_run del: scan.simps squeeze.simps)
    next
      case False
      with less Cons show ?thesis by (simp add: re_match_Plus_Cls squeeze_keep)
    qed
  qed
qed

lemma re_sub_Plus_Cls: "re_sub (Plus (Cls P)) r s = squeeze P r s"
  by (simp add: re_sub_def re_sub_Plus_Cls_aux)

end
