(* ===== verification/Models.thy ===== *)
theory Models
  imports PyString
begin

text \<open>
  The data the components exchange, from \<open>agent/models.py\<close> and the dataclasses of
  \<open>agent/agent.py\<close>: records with the source's fields, the pydantic validators as
  functions that build a validated value or fail.  Floating-point scores are exact
  rationals (no NaN); document metadata, which the code passes through, is a
  dictionary from names to JSON values.
\<close>

section \<open>JSON values\<close>

datatype json =
    JNull
  | JBool bool
  | JNum rat
  | JStr string
  | JArr "json list"
  | JObj "(string \<times> json) list"

type_synonym meta = "(string \<times> json) list"

text \<open>\<open>bool(v)\<close> of a JSON value.\<close>

fun json_truthy :: "json \<Rightarrow> bool" where
  "json_truthy JNull = False"
| "json_truthy (JBool b) = b"
| "json_truthy (JNum q) = (q \<noteq> 0)"
| "json_truthy (JStr s) = (s \<noteq> [])"
| "json_truthy (JArr xs) = (xs \<noteq> [])"
| "json_truthy (JObj kvs) = (kvs \<noteq> [])"

definition json_get :: "meta \<Rightarrow> string \<Rightarrow> json option" where
  "json_get m k = map_of m k"

section \<open>Enumerations\<close>

datatype MessageRole = USER | ASSISTANT | SYSTEM

datatype SearchType = VECTOR | HYBRID | GRAPH

fun search_type_value :: "SearchType \<Rightarrow> string" where
  "search_type_value VECTOR = ''vector''"
| "search_type_value HYBRID = ''hybrid''"
| "search_type_value GRAPH = ''graph''"

section \<open>Search results\<close>

text \<open>\<open>validate_score\<close>: \<open>max(0.0, min(1.0, v))\<close>.\<close>

definition validate_score :: "rat \<Rightarrow> rat" where
  "validate_score v = max 0 (min 1 v)"

record ChunkResult =
  chunk_id :: string
  document_id :: string
  chunk_content :: string
  score :: rat
  vector_similarity :: rat
  chunk_metadata :: meta
  document_title :: string
  document_source :: string

text \<open>The constructor runs the validator on the score.\<close>

definition mk_chunk_result ::
  "string \<Rightarrow> string \<Rightarrow> string \<Rightarrow> rat \<Rightarrow> rat \<Rightarrow> meta \<Rightarrow> string \<Rightarrow> string \<Rightarrow> ChunkResult" where
  "mk_chunk_result cid did content sc vs meta title src =
     \<lparr>chunk_id = cid, document_id = did, chunk_content = content, score = validate_score sc,
      vector_similarity = vs, chunk_metadata = meta, document_title = title,
      document_source = src\<rparr>"

record GraphSearchResult =
  fact :: string
  fact_uuid :: string
  valid_at :: "string option"
  invalid_at :: "string option"
  source_node_uuid :: "string option"

record ToolCall =
  tool_name :: string
  tool_args :: meta
  tool_call_id :: "string option"

section \<open>Requests and responses\<close>

text \<open>A search type that is not given is \<open>None\<close>.\<close>

record ChatRequest =
  req_message :: string
  req_session_id :: "string option"
  req_user_id :: "string option"
  req_search_type :: "SearchType option"

text \<open>\<open>SearchRequest\<close>: the limit is validated to 1..50.\<close>

record SearchRequest =
  sr_query :: string
  sr_search_type :: SearchType
  sr_limit :: int
  sr_filters :: meta

definition mk_search_request ::
  "string \<Rightarrow> SearchType \<Rightarrow> int \<Rightarrow> meta \<Rightarrow> SearchRequest res" where
  "mk_search_request q st limit filters =
     (if 1 \<le> limit \<and> limit \<le> 50
      then Inr \<lparr>sr_query = q, sr_search_type = st, sr_limit = limit, sr_filters = filters\<rparr>
      else Inl (ValueError ''limit''))"

section \<open>Ingestion configuration\<close>

record IngestionConfig =
  ic_chunk_size :: int
  ic_chunk_overlap :: int
  ic_max_chunk_size :: int
  ic_use_semantic_chunking :: bool
  ic_extract_entities :: bool
  ic_skip_graph_building :: bool

text \<open>
  The bounds of the fields, then \<open>validate_overlap\<close>.  When the chunk csize itself is
  invalid it is absent from \<open>info.data\<close>, but then validation has failed already.
\<close>

definition mk_ingestion_config :: "int \<Rightarrow> int \<Rightarrow> int \<Rightarrow> IngestionConfig res" where
  "mk_ingestion_config csize overlap max_size =
     (if \<not> (100 \<le> csize \<and> csize \<le> 5000) then Inl (ValueError ''chunk_size'')
      else if \<not> (0 \<le> overlap \<and> overlap \<le> 1000) then Inl (ValueError ''chunk_overlap'')
      else if overlap \<ge> csize then Inl (ValueError ''chunk_overlap'')
      else if \<not> (500 \<le> max_size \<and> max_size \<le> 10000) then Inl (ValueError ''max_chunk_size'')
      else Inr \<lparr>ic_chunk_size = csize, ic_chunk_overlap = overlap, ic_max_chunk_size = max_size,
                ic_use_semantic_chunking = True, ic_extract_entities = True,
                ic_skip_graph_building = False\<rparr>)"

text \<open>\<open>Chunk.validate_embedding\<close>: an embedding, when given, is not empty.\<close>

definition validate_embedding :: "rat list option \<Rightarrow> rat list option res" where
  "validate_embedding v =
     (if v = Some [] then Inl (ValueError ''Embedding vector must not be empty'') else Inr v)"

section \<open>The agent's dependencies\<close>

text \<open>
  \<open>AgentDependencies\<close> of \<open>agent/agent.py\<close>; the lists may be \<open>None\<close>.
\<close>

record AgentDependencies =
  dep_session_id :: string
  dep_user_id :: "string option"
  retrieved_chunks :: "ChunkResult list option"
  graph_facts :: "GraphSearchResult list option"
  selected_retrieval_tool :: "string option"

definition new_deps :: "string \<Rightarrow> string option \<Rightarrow> AgentDependencies" where
  "new_deps sid uid =
     \<lparr>dep_session_id = sid, dep_user_id = uid, retrieved_chunks = None, graph_facts = None,
      selected_retrieval_tool = None\<rparr>"

section \<open>Facts\<close>

lemma validate_score_range [simp]: "0 \<le> validate_score v" "validate_score v \<le> 1"
  by (simp_all add: validate_score_def)

lemma validate_score_id: "0 \<le> v \<Longrightarrow> v \<le> 1 \<Longrightarrow> validate_score v = v"
  by (simp add: validate_score_def)

lemma validate_score_idem [simp]: "validate_score (validate_score v) = validate_score v"
  by (simp add: validate_score_id)

lemma mk_chunk_result_sel [simp]:
  "chunk_id (mk_chunk_result cid did content sc vs meta title src) = cid"
  "document_id (mk_chunk_result cid did content sc vs meta title src) = did"
  "chunk_content (mk_chunk_result cid did content sc vs meta title src) = content"
  "score (mk_chunk_result cid did content sc vs meta title src) = validate_score sc"
  "vector_similarity (mk_chunk_result cid did content sc vs meta title src) = vs"
  "chunk_metadata (mk_chunk_result cid did content sc vs meta title src) = meta"
  "document_title (mk_chunk_result cid did content sc vs meta title src) = title"
  "document_source (mk_chunk_result cid did content sc vs meta title src) = src"
  by (simp_all add: mk_chunk_result_def)

lemma mk_ingestion_config_overlap:
  "mk_ingestion_config csize overlap max_size = Inr c \<Longrightarrow>
     0 \<le> ic_chunk_overlap c \<and> ic_chunk_overlap c < ic_chunk_size c
     \<and> 100 \<le> ic_chunk_size c \<and> ic_chunk_size c \<le> 5000"
  by (auto simp: mk_ingestion_config_def split: if_splits)

end
