(* ===== verification/Citations.thy ===== *)
theory Citations
  imports PyRegex Models
begin

text \<open>
  \<open>agent/citations.py\<close>: the citation gate.  An answer is checked against the number
  of chunks retrieved this turn; an answer that fails is replaced by the abstain
  message.
\<close>

section \<open>The module\<close>

text \<open>\<open>_CITATION_RE = \[(\d+)\]\<close>\<close>

definition CITATION_RE :: re where
  "CITATION_RE = seq [Chr CHR ''['', Plus Digit, Chr CHR '']'']"

definition ABSTAIN_MARKERS :: "string list" where
  "ABSTAIN_MARKERS =
     [''don't have'', ''do not have'', ''couldn't find'', ''could not find'',
      ''no information'', ''not able to'', ''outside my scope'', ''out of scope'',
      ''can only answer'', ''reach out to'', ''contact the relevant'']"

definition ABSTAIN_MESSAGE :: string where
  "ABSTAIN_MESSAGE =
     ''I don't have enough grounded information in the knowledge base to answer ''
     @ ''that accurately. Please rephrase, or reach out to the relevant team for ''
     @ ''the most reliable answer.''"

text \<open>The group of a match is the match without its brackets.\<close>

definition extract_citations :: "string \<Rightarrow> nat list" where
  "extract_citations text = map (\<lambda>m. int_of_dec (butlast (tl m))) (findall CITATION_RE text)"

definition looks_like_abstention :: "string \<Rightarrow> bool" where
  "looks_like_abstention text =
     (let low = py_lower text in list_ex (\<lambda>marker. py_in marker low) ABSTAIN_MARKERS)"

definition word_count :: "string \<Rightarrow> nat" where
  "word_count text = length (findall (Plus WordC) text)"

definition is_substantive :: "string \<Rightarrow> bool" where
  "is_substantive text \<longleftrightarrow> word_count text \<ge> 12"

text \<open>The short tags of the second component of the result.\<close>

datatype cite_reason =
    FabricatedCitation "nat list"
  | Ok
  | ExemptNonAnswer
  | UncitedSubstantiveAnswer

definition validate_citations :: "string \<Rightarrow> nat \<Rightarrow> bool \<times> cite_reason" where
  "validate_citations text n_chunks =
     (let cites = extract_citations text;
          out_of_range = filter (\<lambda>c. c < 1 \<or> c > n_chunks) cites
      in if out_of_range \<noteq> [] then (False, FabricatedCitation out_of_range)
         else if cites \<noteq> [] then (True, Ok)
         else if looks_like_abstention text \<or> \<not> is_substantive text
         then (True, ExemptNonAnswer)
         else if n_chunks > 0 then (False, UncitedSubstantiveAnswer)
         else (True, Ok))"

definition enforce_citations :: "string \<Rightarrow> ChunkResult list \<Rightarrow> string \<times> cite_reason" where
  "enforce_citations text chunks =
     (let (ok, reason) = validate_citations text (length chunks)
      in if \<not> ok then (ABSTAIN_MESSAGE, reason) else (text, reason))"

section \<open>Lemmas\<close>

definition cites_in_range :: "string \<Rightarrow> nat \<Rightarrow> bool" where
  "cites_in_range text n \<longleftrightarrow> (\<forall>c\<in>set (extract_citations text). 1 \<le> c \<and> c \<le> n)"

lemma out_of_range_empty:
  "filter (\<lambda>c. c < 1 \<or> c > n) (extract_citations text) = [] \<longleftrightarrow> cites_in_range text n"
  by (auto simp: filter_empty_conv cites_in_range_def)

lemma validate_citations_cases:
  obtains (fabricated) cs where
      "validate_citations text n = (False, FabricatedCitation cs)" "\<not> cites_in_range text n"
  | (cited) "validate_citations text n = (True, Ok)" "extract_citations text \<noteq> []"
      "cites_in_range text n"
  | (exempt) "validate_citations text n = (True, ExemptNonAnswer)" "extract_citations text = []"
      "looks_like_abstention text \<or> \<not> is_substantive text"
  | (uncited) "validate_citations text n = (False, UncitedSubstantiveAnswer)"
      "extract_citations text = []" "is_substantive text" "\<not> looks_like_abstention text" "n > 0"
  | (nothing) "validate_citations text n = (True, Ok)" "extract_citations text = []" "n = 0"
proof (cases "cites_in_range text n")
  case False
  then have "validate_citations text n = (False, FabricatedCitation
      (filter (\<lambda>c. c < 1 \<or> c > n) (extract_citations text)))"
    unfolding validate_citations_def Let_def out_of_range_empty by simp
  then show thesis using False by (rule fabricated)
next
  case True
  then have v: "validate_citations text n =
     (if extract_citations text \<noteq> [] then (True, Ok)
      else if looks_like_abstention text \<or> \<not> is_substantive text then (True, ExemptNonAnswer)
      else if n > 0 then (False, UncitedSubstantiveAnswer) else (True, Ok))"
    unfolding validate_citations_def Let_def out_of_range_empty by simp
  show thesis
  proof (cases "extract_citations text = []")
    case False
    with v True show thesis by (intro cited) auto
  next
    case none: True
    show thesis
    proof (cases "looks_like_abstention text \<or> \<not> is_substantive text")
      case True
      with v none show thesis by (intro exempt) auto
    next
      case False
      show thesis
      proof (cases "n = 0")
        case True
        show thesis by (rule nothing) (use v none False True in simp_all)
      next
        case nz: False
        show thesis by (rule uncited) (use v none False nz in simp_all)
      qed
    qed
  qed
qed

lemma validate_Ok_iff:
  "n > 0 \<Longrightarrow> snd (validate_citations text n) = Ok
     \<longleftrightarrow> extract_citations text \<noteq> [] \<and> cites_in_range text n"
  by (cases rule: validate_citations_cases [of "text" n]) (auto simp: cites_in_range_def)

lemma extract_citations_no_bracket:
  "CHR ''['' \<notin> set text \<Longrightarrow> extract_citations text = []"
proof -
  have "scan CITATION_RE p t = map Inl t" if "CHR ''['' \<notin> set t" for p t
    using that
  proof (induction t arbitrary: p)
    case Nil
    then show ?case by simp
  next
    case (Cons c t)
    then have "re_match CITATION_RE (p, c # t) = None"
      by (simp add: CITATION_RE_def Chr_def re_match_None)
    with Cons show ?case by simp
  qed
  moreover assume "CHR ''['' \<notin> set text"
  ultimately show ?thesis by (simp add: extract_citations_def findall_def comp_def)
qed

lemma ABSTAIN_no_citations [simp]: "extract_citations ABSTAIN_MESSAGE = []"
  by (rule extract_citations_no_bracket) (simp add: ABSTAIN_MESSAGE_def)

lemma ABSTAIN_looks [simp]: "looks_like_abstention ABSTAIN_MESSAGE"
  unfolding looks_like_abstention_def by code_simp

lemma validate_ABSTAIN [simp]: "validate_citations ABSTAIN_MESSAGE n = (True, ExemptNonAnswer)"
  by (simp add: validate_citations_def Let_def)

lemma enforce_citations_cases:
  obtains (pass) "enforce_citations text chunks = (text, snd (validate_citations text (length chunks)))"
      "fst (validate_citations text (length chunks))"
  | (abstain) "enforce_citations text chunks
        = (ABSTAIN_MESSAGE, snd (validate_citations text (length chunks)))"
      "\<not> fst (validate_citations text (length chunks))"
  by (cases "validate_citations text (length chunks)") (auto simp: enforce_citations_def)

section \<open>Properties\<close>

text \<open>C4: the citation gate.  What leaves the gate passes the validator: every citation is
  the number of a retrieved chunk, and a substantive text over a non-empty context cites
  or abstains.  The text is either the answer itself or the fixed abstain message.\<close>

theorem citation_gate:
  "let t = fst (enforce_citations text chunks) in
     fst (validate_citations t (length chunks)) \<and> cites_in_range t (length chunks)
     \<and> t \<in> {text, ABSTAIN_MESSAGE}
     \<and> (chunks \<noteq> [] \<and> is_substantive t \<longrightarrow>
          extract_citations t \<noteq> [] \<or> looks_like_abstention t)"
proof (cases rule: enforce_citations_cases [of "text" chunks])
  case pass
  then show ?thesis
    by (cases rule: validate_citations_cases [of "text" "length chunks"])
      (auto simp: Let_def cites_in_range_def)
next
  case abstain
  then show ?thesis by (simp add: Let_def cites_in_range_def)
qed

theorem citation_gate_witness:
  "let t = fst (enforce_citations ''Fees are 100 [7].'' [mk_chunk_result ''c'' ''d'' ''x'' 1 0 [] ''t'' ''s''])
   in cites_in_range t 1 \<and> t = ABSTAIN_MESSAGE"
proof -
  let ?cs = "[mk_chunk_result ''c'' ''d'' ''x'' 1 0 [] ''t'' ''s'']"
  have "extract_citations ''Fees are 100 [7].'' = [7]" by code_simp
  then have "\<not> cites_in_range ''Fees are 100 [7].'' 1" by (simp add: cites_in_range_def)
  then show ?thesis
    using citation_gate [of "''Fees are 100 [7].''" ?cs] by (auto simp: Let_def)
qed

end
