(* ===== verification/JsonOps.thy ===== *)
theory JsonOps
  imports Models
begin

text \<open>
  Reading JSON objects the way the code does: \<open>d.get(k, default)\<close>, \<open>x or y\<close>, \<open>float\<close>,
  \<open>int\<close>, \<open>str\<close>, and the fields a pydantic model requires.  Numbers are exact
  rationals; a numeric string, which \<open>float\<close> would accept, does not occur in the
  responses the code reads and is a failed conversion here.
\<close>

section \<open>Values\<close>

definition get_or :: "meta \<Rightarrow> string \<Rightarrow> json \<Rightarrow> json" where
  "get_or d k v = (case json_get d k of None \<Rightarrow> v | Some j \<Rightarrow> j)"

definition json_or :: "json \<Rightarrow> json \<Rightarrow> json" where
  "json_or x y = (if json_truthy x then x else y)"

fun py_float :: "json \<Rightarrow> rat res" where
  "py_float (JNum q) = Inr q"
| "py_float (JBool b) = Inr (if b then 1 else 0)"
| "py_float (JStr _) = Inl (ValueError ''float'')"
| "py_float _ = Inl TypeError"

text \<open>\<open>float(v or 0.0)\<close>\<close>

definition float_or_0 :: "json \<Rightarrow> rat res" where
  "float_or_0 v = py_float (json_or v (JNum 0))"

text \<open>\<open>int(v)\<close> cuts towards zero.\<close>

fun py_int :: "json \<Rightarrow> int res" where
  "py_int (JNum q) = Inr (if 0 \<le> q then \<lfloor>q\<rfloor> else \<lceil>q\<rceil>)"
| "py_int (JBool b) = Inr (if b then 1 else 0)"
| "py_int (JStr _) = Inl (ValueError ''int'')"
| "py_int _ = Inl TypeError"

text \<open>An object, or the exception of calling a dictionary's method on something else.\<close>

fun as_obj :: "json \<Rightarrow> meta res" where
  "as_obj (JObj d) = Inr d"
| "as_obj _ = Inl (OtherError ''AttributeError'')"

fun as_arr :: "json \<Rightarrow> json list res" where
  "as_arr (JArr xs) = Inr xs"
| "as_arr _ = Inl TypeError"

text \<open>\<open>str(v)\<close> of a JSON value.\<close>

fun py_str :: "(json \<Rightarrow> string) \<Rightarrow> json \<Rightarrow> string" where
  "py_str render (JStr s) = s"
| "py_str render JNull = ''None''"
| "py_str render (JBool b) = (if b then ''True'' else ''False'')"
| "py_str render v = render v"

section \<open>Fields of a model\<close>

text \<open>
  \<open>ChunkResult(**d)\<close>: missing required fields and wrong types are validation errors
  (the coercions pydantic offers for other JSON types do not occur in a dump).
\<close>

definition load_str :: "meta \<Rightarrow> string \<Rightarrow> string res" where
  "load_str d k = (case json_get d k of
      Some (JStr s) \<Rightarrow> Inr s | _ \<Rightarrow> Inl (ValueError k))"

definition load_num :: "meta \<Rightarrow> string \<Rightarrow> rat option \<Rightarrow> rat res" where
  "load_num d k def = (case json_get d k of
      Some (JNum q) \<Rightarrow> Inr q
    | None \<Rightarrow> (case def of Some q \<Rightarrow> Inr q | None \<Rightarrow> Inl (ValueError k))
    | _ \<Rightarrow> Inl (ValueError k))"

definition load_meta :: "meta \<Rightarrow> string \<Rightarrow> meta res" where
  "load_meta d k = (case json_get d k of
      Some (JObj m) \<Rightarrow> Inr m | None \<Rightarrow> Inr [] | _ \<Rightarrow> Inl (ValueError k))"

fun map_res :: "('a \<Rightarrow> 'b res) \<Rightarrow> 'a list \<Rightarrow> 'b list res" where
  "map_res f [] = Inr []"
| "map_res f (x # xs) = res_bind (f x) (\<lambda>y. res_bind (map_res f xs) (\<lambda>ys. Inr (y # ys)))"

lemma map_res_Inr_length: "map_res f xs = Inr ys \<Longrightarrow> length ys = length xs"
  by (induction xs arbitrary: ys) auto

lemma map_res_Inr_iff: "map_res f xs = Inr ys \<longleftrightarrow> list_all2 (\<lambda>x y. f x = Inr y) xs ys"
  by (induction xs arbitrary: ys) (auto simp: list_all2_Cons1)

lemma map_res_memD: "map_res f xs = Inr ys \<Longrightarrow> y \<in> set ys \<Longrightarrow> \<exists>x\<in>set xs. f x = Inr y"
  by (induction xs arbitrary: ys) auto

end
