(* ===== verification/Groundedness.thy ===== *)
theory Groundedness
  imports Citations JsonOps
begin

text \<open>
  \<open>agent/groundedness.py\<close>: the judge call, its fail-open policy and the claim-level
  remediation.  The judge is the parameter \<open>judge\<close>: from the number of the call in this
  turn, the numbered sources and the answer to an exception or the JSON value parsed
  from the completion.  \<open>render\<close> stands for \<open>str\<close> of JSON numbers, lists and objects.
\<close>

record ground_config =
  gr_enabled :: bool
  gr_remediation :: bool
  gr_reverify :: bool
  gr_min_words :: nat
  gr_max_chunks :: nat

definition default_ground_config :: ground_config where
  "default_ground_config = \<lparr>gr_enabled = True, gr_remediation = True, gr_reverify = False,
     gr_min_words = 12, gr_max_chunks = 8\<rparr>"

definition STATUS_GROUNDED :: string where "STATUS_GROUNDED = ''grounded''"
definition STATUS_REMEDIATED :: string where "STATUS_REMEDIATED = ''remediated''"
definition STATUS_ABSTAINED :: string where "STATUS_ABSTAINED = ''ungrounded_abstained''"
definition STATUS_SKIPPED :: string where "STATUS_SKIPPED = ''skipped''"
definition STATUS_ERROR :: string where "STATUS_ERROR = ''error_failopen''"

lemmas status_defs = STATUS_GROUNDED_def STATUS_REMEDIATED_def STATUS_ABSTAINED_def
  STATUS_SKIPPED_def STATUS_ERROR_def

definition CACHEABLE_STATUSES :: "string list" where
  "CACHEABLE_STATUSES = [STATUS_GROUNDED, STATUS_REMEDIATED, STATUS_SKIPPED]"

record GroundednessVerdict =
  grounded :: bool
  verdict_reason :: string
  unsupported_claims :: "string list"
  corrected :: string

definition verdict0 :: "bool \<Rightarrow> string \<Rightarrow> GroundednessVerdict" where
  "verdict0 g r = \<lparr>grounded = g, verdict_reason = r, unsupported_claims = [], corrected = []\<rparr>"

type_synonym judge_fun = "nat \<Rightarrow> string \<Rightarrow> string \<Rightarrow> json res"

definition ground_substantive :: "ground_config \<Rightarrow> string \<Rightarrow> bool" where
  "ground_substantive cfg text \<longleftrightarrow> word_count text \<ge> gr_min_words cfg"

text \<open>The numbered sources shown to the judge.\<close>

definition judge_sources :: "ground_config \<Rightarrow> ChunkResult list \<Rightarrow> string" where
  "judge_sources cfg chunks =
     py_join [NL, NL]
       (map (\<lambda>(i, c). ''['' @ dec i @ ''] '' @ take 700 (chunk_content c))
         (zip [1..<Suc (gr_max_chunks cfg)] (take (gr_max_chunks cfg) chunks)))"

text \<open>Iterating over \<open>v or []\<close>: a false value gives nothing, a string its characters,
  an object its keys; a number or a boolean raises.\<close>

definition iter_or_empty :: "json option \<Rightarrow> json list res" where
  "iter_or_empty v =
     (case v of
        None \<Rightarrow> Inr []
      | Some j \<Rightarrow> if \<not> json_truthy j then Inr []
          else (case j of
                  JArr xs \<Rightarrow> Inr xs
                | JStr s \<Rightarrow> Inr (map (\<lambda>c. JStr [c]) s)
                | JObj kvs \<Rightarrow> Inr (map (\<lambda>kv. JStr (fst kv)) kvs)
                | _ \<Rightarrow> Inl TypeError))"

text \<open>The verdict read from the judge's JSON; anything but an object raises.\<close>

definition parse_verdict :: "(json \<Rightarrow> string) \<Rightarrow> json \<Rightarrow> GroundednessVerdict res" where
  "parse_verdict render data =
     (case data of
        JObj kvs \<Rightarrow>
          (let g = (case json_get kvs ''grounded'' of None \<Rightarrow> True | Some j \<Rightarrow> json_truthy j);
               r = take 200 (case json_get kvs ''reason'' of None \<Rightarrow> [] | Some j \<Rightarrow> py_str render j);
               cor = (case json_get kvs ''corrected'' of
                        None \<Rightarrow> []
                      | Some j \<Rightarrow> if json_truthy j then py_str render j else [])
           in res_bind (iter_or_empty (json_get kvs ''unsupported_claims''))
                (\<lambda>cs. Inr \<lparr>grounded = g, verdict_reason = (if r = [] then ''grounded'' else r),
                   unsupported_claims = map (\<lambda>c. take 300 (py_str render c)) (filter json_truthy cs),
                   corrected = py_strip cor\<rparr>))
      | _ \<Rightarrow> Inl (OtherError ''AttributeError''))"

definition assess ::
  "ground_config \<Rightarrow> (json \<Rightarrow> string) \<Rightarrow> judge_fun \<Rightarrow> nat \<Rightarrow> string \<Rightarrow> ChunkResult list
   \<Rightarrow> GroundednessVerdict" where
  "assess cfg render judge k answer chunks =
     (if \<not> (gr_enabled cfg \<and> chunks \<noteq> [] \<and> ground_substantive cfg answer)
      then verdict0 True STATUS_SKIPPED
      else py_try (res_bind (judge k (judge_sources cfg chunks) answer) (parse_verdict render))
             (verdict0 True STATUS_ERROR))"

definition is_grounded ::
  "ground_config \<Rightarrow> (json \<Rightarrow> string) \<Rightarrow> judge_fun \<Rightarrow> nat \<Rightarrow> string \<Rightarrow> ChunkResult list
   \<Rightarrow> bool \<times> string" where
  "is_grounded cfg render judge k answer chunks =
     (let v = assess cfg render judge k answer chunks in (grounded v, verdict_reason v))"

definition enforce_groundedness ::
  "ground_config \<Rightarrow> (json \<Rightarrow> string) \<Rightarrow> judge_fun \<Rightarrow> string \<Rightarrow> ChunkResult list
   \<Rightarrow> string \<times> string" where
  "enforce_groundedness cfg render judge answer chunks =
     (let verdict = assess cfg render judge 0 answer chunks in
      if grounded verdict
      then (answer, if verdict_reason verdict \<in> {STATUS_SKIPPED, STATUS_ERROR}
                    then verdict_reason verdict else STATUS_GROUNDED)
      else if gr_remediation cfg
      then let cor = py_strip (corrected verdict);
               (_, cite_reason) = validate_citations cor (length chunks)
           in if cor \<noteq> [] \<and> cite_reason = Ok \<and> \<not> looks_like_abstention cor
              then if gr_reverify cfg \<and> \<not> grounded (assess cfg render judge 1 cor chunks)
                   then (ABSTAIN_MESSAGE, STATUS_ABSTAINED)
                   else (cor, STATUS_REMEDIATED)
              else (ABSTAIN_MESSAGE, STATUS_ABSTAINED)
      else (ABSTAIN_MESSAGE, STATUS_ABSTAINED))"

section \<open>Lemmas\<close>

lemma assess_skipped:
  "\<not> (gr_enabled cfg \<and> chunks \<noteq> [] \<and> ground_substantive cfg answer) \<Longrightarrow>
     assess cfg render judge k answer chunks = verdict0 True STATUS_SKIPPED"
  by (auto simp: assess_def)

lemma assess_ungrounded_chunks:
  "\<not> grounded (assess cfg render judge k answer chunks) \<Longrightarrow> chunks \<noteq> []"
  by (auto simp: assess_def verdict0_def)

lemma enforce_groundedness_cases:
  obtains (kept) s where "enforce_groundedness cfg render judge answer chunks = (answer, s)"
      "grounded (assess cfg render judge 0 answer chunks)"
      "s \<in> {STATUS_GROUNDED, STATUS_SKIPPED, STATUS_ERROR}"
  | (remediated) cor where
      "enforce_groundedness cfg render judge answer chunks = (cor, STATUS_REMEDIATED)"
      "\<not> grounded (assess cfg render judge 0 answer chunks)" "gr_remediation cfg"
      "cor = py_strip (corrected (assess cfg render judge 0 answer chunks))"
      "extract_citations cor \<noteq> []" "cites_in_range cor (length chunks)"
      "\<not> looks_like_abstention cor"
      "gr_reverify cfg \<longrightarrow> grounded (assess cfg render judge 1 cor chunks)"
  | (abstained) "enforce_groundedness cfg render judge answer chunks
      = (ABSTAIN_MESSAGE, STATUS_ABSTAINED)"
      "\<not> grounded (assess cfg render judge 0 answer chunks)"
proof (cases "grounded (assess cfg render judge 0 answer chunks)")
  case True
  then show thesis using that(1) by (auto simp: enforce_groundedness_def Let_def)
next
  case False
  let ?cor = "py_strip (corrected (assess cfg render judge 0 answer chunks))"
  let ?good = "gr_remediation cfg \<and> ?cor \<noteq> [] \<and> snd (validate_citations ?cor (length chunks)) = Ok
    \<and> \<not> looks_like_abstention ?cor
    \<and> (gr_reverify cfg \<longrightarrow> grounded (assess cfg render judge 1 ?cor chunks))"
  from False have e: "enforce_groundedness cfg render judge answer chunks =
      (if ?good then (?cor, STATUS_REMEDIATED) else (ABSTAIN_MESSAGE, STATUS_ABSTAINED))"
    by (auto simp: enforce_groundedness_def Let_def split: prod.splits)
  from False have "length chunks > 0" using assess_ungrounded_chunks by blast
  then have ok: "snd (validate_citations ?cor (length chunks)) = Ok \<longleftrightarrow>
      extract_citations ?cor \<noteq> [] \<and> cites_in_range ?cor (length chunks)"
    by (rule validate_Ok_iff)
  show thesis
  proof (cases ?good)
    case good: True
    show thesis by (rule that(2) [of ?cor]) (use e good ok False in simp_all)
  next
    case bad: False
    show thesis by (rule that(3)) (use e bad False in auto)
  qed
qed

lemma enforce_groundedness_error:
  assumes "judge 0 (judge_sources cfg chunks) answer = Inl e"
  shows "fst (enforce_groundedness cfg render judge answer chunks) = answer"
  using assms
  by (simp add: enforce_groundedness_def assess_def verdict0_def Let_def)

section \<open>Properties\<close>

text \<open>C5: the groundedness gate.  A turn leaves it in one of three ways: with the answer
  untouched (verified, not checked, or judge unavailable), with a corrected answer that
  cites only retrieved chunks, or with the abstain message; the status tells which, and
  the abstain status is never one the answer cache stores.\<close>

theorem groundedness_gate:
  assumes "enforce_groundedness cfg render judge answer chunks = (t, s)"
  shows "t = answer \<and> s \<in> {STATUS_GROUNDED, STATUS_SKIPPED, STATUS_ERROR}
    \<or> s = STATUS_REMEDIATED \<and> extract_citations t \<noteq> [] \<and> cites_in_range t (length chunks)
        \<and> \<not> looks_like_abstention t \<and> chunks \<noteq> []
    \<or> t = ABSTAIN_MESSAGE \<and> s = STATUS_ABSTAINED \<and> s \<notin> set CACHEABLE_STATUSES \<and> chunks \<noteq> []"
proof (cases rule: enforce_groundedness_cases [of cfg render judge answer chunks])
  case (kept s')
  with assms show ?thesis by auto
next
  case (remediated cor)
  with assms assess_ungrounded_chunks [OF remediated(2)] show ?thesis by auto
next
  case abstained
  with assms assess_ungrounded_chunks [OF abstained(2)] show ?thesis
    by (auto simp: CACHEABLE_STATUSES_def status_defs)
qed

theorem groundedness_gate_witness:
  "snd (enforce_groundedness (default_ground_config\<lparr>gr_min_words := 1\<rparr>) (\<lambda>_. [])
     (\<lambda>_ _ _. Inr (JObj [(''grounded'', JBool False)])) ''The fee is 100 [1]''
     [mk_chunk_result ''c'' ''d'' ''x'' 1 0 [] ''t'' ''s'']) \<notin> set CACHEABLE_STATUSES"
proof -
  let ?e = "enforce_groundedness (default_ground_config\<lparr>gr_min_words := 1\<rparr>) (\<lambda>_. [])
     (\<lambda>_ _ _. Inr (JObj [(''grounded'', JBool False)])) ''The fee is 100 [1]''
     [mk_chunk_result ''c'' ''d'' ''x'' 1 0 [] ''t'' ''s'']"
  have "word_count ''The fee is 100 [1]'' = 5" by code_simp
  then have st: "snd ?e = STATUS_ABSTAINED"
    by (simp add: enforce_groundedness_def assess_def ground_substantive_def default_ground_config_def
        parse_verdict_def json_get_def iter_or_empty_def Let_def split: prod.splits)
  then have "?e = (fst ?e, STATUS_ABSTAINED)" by (metis prod.collapse)
  from groundedness_gate [OF this] st show ?thesis
    by (simp add: status_defs CACHEABLE_STATUSES_def)
qed

text \<open>The judge is fail-open, and its failures are never frozen.  When the judge call
  raises, or its reply is not a JSON object, the answer is delivered unchanged; if the
  judge was called at all the status is the error status, which is not cacheable.\<close>

theorem groundedness_fail_open:
  assumes "\<And>d. judge 0 (judge_sources cfg chunks) answer = Inr d \<Longrightarrow> \<forall>kvs. d \<noteq> JObj kvs"
  shows "enforce_groundedness cfg render judge answer chunks
     = (answer, if gr_enabled cfg \<and> chunks \<noteq> [] \<and> ground_substantive cfg answer
                then STATUS_ERROR else STATUS_SKIPPED)
    \<and> STATUS_ERROR \<notin> set CACHEABLE_STATUSES"
proof -
  have "\<exists>e. res_bind (judge 0 (judge_sources cfg chunks) answer) (parse_verdict render) = Inl e"
  proof (cases "judge 0 (judge_sources cfg chunks) answer")
    case (Inr d)
    with assms have "\<forall>kvs. d \<noteq> JObj kvs" by blast
    with Inr show ?thesis by (cases d) (auto simp: parse_verdict_def)
  qed auto
  then show ?thesis
    by (auto simp: enforce_groundedness_def assess_def verdict0_def Let_def status_defs
        CACHEABLE_STATUSES_def)
qed

theorem groundedness_fail_open_witness:
  "enforce_groundedness default_ground_config (\<lambda>_. []) (\<lambda>_ _ _. Inr (JArr [])) ''Short'' []
     = (''Short'', STATUS_SKIPPED)"
  using groundedness_fail_open [of "\<lambda>_ _ _. Inr (JArr [])" default_ground_config "[]" "''Short''"
      "\<lambda>_. []"] by simp

end
