(* ===== verification/QueryRewriter.thy ===== *)
theory QueryRewriter
  imports PyString
begin

text \<open>
  \<open>agent/query_rewriter.py\<close>: the follow-up condenser.  The model call is the parameter
  \<open>llm\<close>: from the history and the question to an exception or the content of the
  completion (which may be \<open>None\<close>).
\<close>

record rewrite_config =
  rw_enabled :: bool
  rw_maxlen :: nat

definition default_rewrite_config :: rewrite_config where
  "default_rewrite_config = \<lparr>rw_enabled = True, rw_maxlen = 400\<rparr>"

type_synonym rewrite_llm = "string \<Rightarrow> string \<Rightarrow> string option res"

definition condense :: "rewrite_config \<Rightarrow> rewrite_llm \<Rightarrow> string \<Rightarrow> string \<Rightarrow> string" where
  "condense cfg llm history question =
     (let q = py_strip question in
      if \<not> (rw_enabled cfg \<and> history \<noteq> [] \<and> q \<noteq> []) then q
      else if length q > rw_maxlen cfg then q
      else (case llm history q of
              Inl _ \<Rightarrow> q
            | Inr content \<Rightarrow>
                let rewritten = py_strip (str_or content [])
                in if rewritten \<noteq> [] \<and> length rewritten \<le> rw_maxlen cfg * 2
                   then rewritten else q))"

lemma condense_stripped: "py_strip (condense cfg llm history question) = condense cfg llm history question"
  by (auto simp: condense_def Let_def split: sum.splits)

lemma condense_empty_iff: "condense cfg llm history question = [] \<longleftrightarrow> py_strip question = []"
  by (auto simp: condense_def Let_def split: sum.splits)

lemma condense_no_history: "condense cfg llm [] question = py_strip question"
  by (simp add: condense_def)

lemma condense_length:
  "length (condense cfg llm history question) \<le> max (length (py_strip question)) (2 * rw_maxlen cfg)"
  by (auto simp: condense_def Let_def split: sum.splits)

section \<open>Properties\<close>

text \<open>The condenser is total and safe.  It always returns a stripped text, empty only
  for a blank question, no longer than the question or twice the limit, and equal to the
  stripped question when there is no history, the call fails or the reply is empty.\<close>

theorem condense_safe:
  "let r = condense cfg llm history question; q = py_strip question in
     py_strip r = r \<and> (r = [] \<longleftrightarrow> q = []) \<and> length r \<le> max (length q) (2 * rw_maxlen cfg)
     \<and> (history = [] \<or> \<not> rw_enabled cfg \<or> length q > rw_maxlen cfg
         \<or> (\<exists>e. llm history q = Inl e) \<or> llm history q = Inr None \<longrightarrow> r = q)"
  using condense_stripped [of cfg llm history question] condense_empty_iff [of cfg llm history question]
    condense_length [of cfg llm history question]
  by (auto simp: condense_def Let_def str_or_def)

theorem condense_safe_witness:
  "condense default_rewrite_config (\<lambda>_ _. Inl (OtherError ''timeout'')) ''User: hi'' '' and fees? ''
     = ''and fees?''"
proof -
  have "py_strip '' and fees? '' = ''and fees?''" by code_simp
  then show ?thesis
    using condense_safe [of default_rewrite_config "\<lambda>_ _. Inl (OtherError ''timeout'')" "''User: hi''"
        "'' and fees? ''"] by (simp add: Let_def)
qed

end
