(* ===== verification/RedisStore.thy ===== *)
theory RedisStore
  imports Models
begin

text \<open>
  The shared Redis client of \<open>agent/redis_utils.py\<close> and the Redis commands the caches
  and the session memory send.  The server is a value: whether it answers, and its
  keys with their expiry times.  Every command on a server that is down raises; \<open>now\<close>
  is the server's clock.  A JSON text stored under a key is the JSON value it denotes.
\<close>

section \<open>The server\<close>

datatype rval = RJson json | RInt int | RList "json list"

type_synonym rstore = "string \<rightharpoonup> rval \<times> rat option"

record redis_server =
  srv_up :: bool
  srv_data :: rstore

definition empty_server :: redis_server where
  "empty_server = \<lparr>srv_up = True, srv_data = Map.empty\<rparr>"

abbreviation redis_down :: exc where
  "redis_down \<equiv> OtherError ''ConnectionError''"

text \<open>A key whose expiry time has come is gone.\<close>

definition live :: "rstore \<Rightarrow> rat \<Rightarrow> string \<Rightarrow> rval option" where
  "live d now k = (case d k of
      None \<Rightarrow> None
    | Some (v, None) \<Rightarrow> Some v
    | Some (v, Some e) \<Rightarrow> if now < e then Some v else None)"

definition live_expiry :: "rstore \<Rightarrow> rat \<Rightarrow> string \<Rightarrow> rat option" where
  "live_expiry d now k = (if live d now k = None then None
     else (case d k of None \<Rightarrow> None | Some (_, e) \<Rightarrow> e))"

section \<open>Commands\<close>

definition rget :: "redis_server \<Rightarrow> rat \<Rightarrow> string \<Rightarrow> rval option res" where
  "rget srv now k =
     (if \<not> srv_up srv then Inl redis_down
      else (case live (srv_data srv) now k of
              Some (RList _) \<Rightarrow> Inl (OtherError ''WRONGTYPE'')
            | r \<Rightarrow> Inr r))"

text \<open>\<open>SETEX\<close> refuses a time to live that is not positive.\<close>

definition rsetex ::
  "redis_server \<Rightarrow> rat \<Rightarrow> string \<Rightarrow> int \<Rightarrow> rval \<Rightarrow> redis_server res" where
  "rsetex srv now k ttl v =
     (if \<not> srv_up srv then Inl redis_down
      else if ttl \<le> 0 then Inl (OtherError ''invalid expire time'')
      else Inr (srv\<lparr>srv_data := (srv_data srv)(k \<mapsto> (v, Some (now + of_int ttl)))\<rparr>))"

definition rincr :: "redis_server \<Rightarrow> rat \<Rightarrow> string \<Rightarrow> redis_server res" where
  "rincr srv now k =
     (if \<not> srv_up srv then Inl redis_down
      else (case live (srv_data srv) now k of
              None \<Rightarrow> Inr (srv\<lparr>srv_data := (srv_data srv)(k \<mapsto> (RInt 1, None))\<rparr>)
            | Some (RInt n) \<Rightarrow>
                Inr (srv\<lparr>srv_data := (srv_data srv)(k \<mapsto> (RInt (n + 1),
                  live_expiry (srv_data srv) now k))\<rparr>)
            | Some _ \<Rightarrow> Inl (OtherError ''not an integer'')))"

section \<open>The shared client\<close>

text \<open>
  \<open>get_redis_client\<close> decides once per process: the backend switch and the first ping
  fix whether there is a client, and later calls return the same.
\<close>

record redis_mod =
  redis_client :: bool
  redis_checked :: bool

definition fresh_redis_mod :: redis_mod where
  "fresh_redis_mod = \<lparr>redis_client = False, redis_checked = False\<rparr>"

definition get_redis_client ::
  "string option \<Rightarrow> redis_server \<Rightarrow> redis_mod \<Rightarrow> bool \<times> redis_mod" where
  "get_redis_client backend srv m =
     (if redis_checked m then (redis_client m, m)
      else if py_lower (case backend of None \<Rightarrow> ''redis'' | Some b \<Rightarrow> b) = ''memory''
      then (False, \<lparr>redis_client = False, redis_checked = True\<rparr>)
      else (srv_up srv, \<lparr>redis_client = srv_up srv, redis_checked = True\<rparr>))"

lemma get_redis_client_sticky:
  "get_redis_client b srv m = (c, m') \<Longrightarrow> get_redis_client b' srv' m' = (c, m')"
  by (auto simp: get_redis_client_def split: if_splits)

section \<open>Environment switches\<close>

text \<open>\<open>os.getenv(...).strip().lower() in {"1", "true", "yes"}\<close>\<close>

definition env_flag :: "string \<Rightarrow> bool" where
  "env_flag v \<longleftrightarrow> py_lower (py_strip v) \<in> {''1'', ''true'', ''yes''}"

section \<open>Lemmas\<close>

lemma live_update_other [simp]: "k \<noteq> k' \<Longrightarrow> live (d(k' \<mapsto> x)) now k = live d now k"
  by (simp add: live_def)

lemma live_update_same [simp]:
  "live (d(k \<mapsto> (v, Some e))) now k = (if now < e then Some v else None)"
  "live (d(k \<mapsto> (v, None))) now k = Some v"
  by (simp_all add: live_def)

lemma rget_rsetex_same:
  "rsetex srv now k ttl (RJson j) = Inr srv' \<Longrightarrow>
     rget srv' now' k = Inr (if now' < now + of_int ttl then Some (RJson j) else None)"
  by (auto simp: rsetex_def rget_def split: if_splits)

lemma rget_rsetex_other:
  "rsetex srv now k ttl v = Inr srv' \<Longrightarrow> k' \<noteq> k \<Longrightarrow> rget srv' now' k' = rget srv now' k'"
  by (auto simp: rsetex_def rget_def split: if_splits)

lemma rincr_other:
  "rincr srv now k = Inr srv' \<Longrightarrow> k' \<noteq> k \<Longrightarrow> rget srv' now' k' = rget srv now' k'"
  by (auto simp: rincr_def rget_def split: if_splits option.splits rval.splits)

end
