(* ===== verification/KeyScheme.thy ===== *)
theory KeyScheme
  imports RedisStore PyRegex
begin

text \<open>
  What the two caches share: the normalisation of a question, a value stored under
  the digest of a raw key for a time to live, and the interface \<open>versioned_keys\<close> a key
  scheme has to meet (the raw key determines the cache generation and the logical
  key).  The lemmas of the interface say when a stored value is found again, when it is
  invisible, and that a new generation hides everything stored before.
\<close>

section \<open>Normalising a question\<close>

definition normalize_query :: "string \<Rightarrow> string" where
  "normalize_query query =
     (let low = py_lower (py_strip query);
          low = re_sub (Cls (\<lambda>c. \<not> py_word c \<and> \<not> py_space c)) '' '' low
      in py_strip (re_sub (Plus Space) '' '' low))"

text \<open>\<open>user_id or "public"\<close>\<close>

definition cache_scope :: "string option \<Rightarrow> string" where
  "cache_scope user_id = str_or user_id ''public''"

section \<open>Entries\<close>

definition cache_fetch ::
  "(string \<Rightarrow> string) \<Rightarrow> string \<Rightarrow> (json \<Rightarrow> 'a res) \<Rightarrow> redis_server \<Rightarrow> rat \<Rightarrow> string \<Rightarrow> 'a option" where
  "cache_fetch sha pfx load srv now raw =
     (case rget srv now (pfx @ sha raw) of
        Inr (Some (RJson j)) \<Rightarrow> (case load j of Inr x \<Rightarrow> Some x | Inl _ \<Rightarrow> None)
      | _ \<Rightarrow> None)"

definition cache_store ::
  "(string \<Rightarrow> string) \<Rightarrow> string \<Rightarrow> int \<Rightarrow> redis_server \<Rightarrow> rat \<Rightarrow> string \<Rightarrow> json \<Rightarrow> redis_server" where
  "cache_store sha pfx ttl srv now raw j =
     (case rsetex srv now (pfx @ sha raw) ttl (RJson j) of Inr srv' \<Rightarrow> srv' | Inl _ \<Rightarrow> srv)"

lemma cache_store_cases:
  obtains (failed) "cache_store sha pfx ttl srv now raw j = srv" "\<not> srv_up srv \<or> ttl \<le> 0"
  | (stored) srv' where "cache_store sha pfx ttl srv now raw j = srv'"
      "rsetex srv now (pfx @ sha raw) ttl (RJson j) = Inr srv'" "srv_up srv" "0 < ttl"
  by (cases "rsetex srv now (pfx @ sha raw) ttl (RJson j)")
    (auto simp: cache_store_def rsetex_def split: if_splits)

lemma cache_store_up [simp]: "srv_up (cache_store sha pfx ttl srv now raw j) = srv_up srv"
  by (auto simp: cache_store_def rsetex_def)

lemma rget_cache_store_other:
  "k \<noteq> pfx @ sha raw \<Longrightarrow> rget (cache_store sha pfx ttl srv now raw j) now' k = rget srv now' k"
  by (cases rule: cache_store_cases [of sha pfx ttl srv now raw j])
    (auto simp: rget_rsetex_other)

lemma cache_fetch_other:
  "sha raw' \<noteq> sha raw \<Longrightarrow>
     cache_fetch sha pfx load (cache_store sha pfx ttl srv now raw j) now' raw'
       = cache_fetch sha pfx load srv now' raw'"
  by (simp add: cache_fetch_def rget_cache_store_other)

lemma cache_fetch_same:
  assumes "srv_up srv" and "0 < ttl" and "now' < now + of_int ttl" and "load j = Inr x"
  shows "cache_fetch sha pfx load (cache_store sha pfx ttl srv now raw j) now' raw = Some x"
proof -
  from assms obtain srv' where "rsetex srv now (pfx @ sha raw) ttl (RJson j) = Inr srv'"
    by (auto simp: rsetex_def)
  with assms show ?thesis
    using rget_rsetex_same [of srv now "pfx @ sha raw" ttl j srv' now']
    by (simp add: cache_fetch_def cache_store_def)
qed

lemma cache_fetch_expired:
  assumes "srv_up srv" and "0 < ttl" and "now + of_int ttl \<le> now'"
  shows "cache_fetch sha pfx load (cache_store sha pfx ttl srv now raw j) now' raw = None"
proof -
  from assms obtain srv' where "rsetex srv now (pfx @ sha raw) ttl (RJson j) = Inr srv'"
    by (auto simp: rsetex_def)
  with assms show ?thesis
    using rget_rsetex_same [of srv now "pfx @ sha raw" ttl j srv' now']
    by (simp add: cache_fetch_def cache_store_def)
qed

section \<open>The interface of a key scheme\<close>

locale versioned_keys =
  fixes raw :: "int \<Rightarrow> 'k \<Rightarrow> string"
    and same :: "'k \<Rightarrow> 'k \<Rightarrow> bool"
  assumes raw_eq: "raw v k = raw v' k' \<longleftrightarrow> v = v' \<and> same k k'"
begin

lemma hit:
  assumes "srv_up srv" and "0 < ttl" and "now' < now + of_int ttl" and "load j = Inr x"
    and "same k k'"
  shows "cache_fetch sha pfx load (cache_store sha pfx ttl srv now (raw v k) j) now' (raw v k')
      = Some x"
proof -
  from assms(5) have "raw v k' = raw v k" using raw_eq by metis
  with assms(1-4) show ?thesis by (simp add: cache_fetch_same)
qed

lemma isolated:
  assumes "inj_on sha {raw v k, raw v k'}" and "\<not> same k k'"
  shows "cache_fetch sha pfx load (cache_store sha pfx ttl srv now (raw v k) j) now' (raw v k')
      = cache_fetch sha pfx load srv now' (raw v k')"
proof -
  from assms(2) have "raw v k \<noteq> raw v k'" using raw_eq by metis
  with assms(1) have "sha (raw v k') \<noteq> sha (raw v k)" by (auto simp: inj_on_def)
  then show ?thesis by (rule cache_fetch_other)
qed

lemma orphaned:
  assumes "inj_on sha {raw v k, raw v' k'}" and "v \<noteq> v'"
  shows "cache_fetch sha pfx load (cache_store sha pfx ttl srv now (raw v k) j) now' (raw v' k')
      = cache_fetch sha pfx load srv now' (raw v' k')"
proof -
  from assms(2) have "raw v k \<noteq> raw v' k'" using raw_eq by metis
  with assms(1) have "sha (raw v' k') \<noteq> sha (raw v k)" by (auto simp: inj_on_def)
  then show ?thesis by (rule cache_fetch_other)
qed

end

section \<open>Separators\<close>

lemma sep_first:
  "c \<notin> set x \<Longrightarrow> c \<notin> set x' \<Longrightarrow> x @ c # a = x' @ c # a' \<longleftrightarrow> x = x' \<and> a = a'"
proof (induction x arbitrary: x')
  case Nil
  then show ?case by (cases x') auto
next
  case (Cons d x)
  then show ?case by (cases x') auto
qed

lemma sep_last:
  assumes "c \<notin> set x" and "c \<notin> set x'"
  shows "a @ c # x = a' @ c # x' \<longleftrightarrow> a = a' \<and> x = x'"
proof
  assume "a @ c # x = a' @ c # x'"
  then have "rev x @ c # rev a = rev x' @ c # rev a'"
    by (metis append.assoc append_Cons append_Nil rev.simps(2) rev_append)
  with assms show "a = a' \<and> x = x'" by (simp add: sep_first)
qed simp

section \<open>Facts about the normal form\<close>

lemma set_squeeze: "set (squeeze P r s) \<subseteq> {c \<in> set s. \<not> P c} \<union> set r"
  by (induction P r s rule: squeeze.induct) (auto split: if_splits)

definition norm_char :: "char \<Rightarrow> bool" where
  "norm_char c \<longleftrightarrow> c = CHR '' '' \<or> (py_word c \<and> \<not> py_space c \<and> py_lower_char c = c)"

lemma norm_char_not_pipe: "norm_char c \<Longrightarrow> c \<noteq> CHR ''|''"
  by (auto simp: norm_char_def py_word_code)

lemma normalize_query_eq:
  "normalize_query q = py_strip (squeeze py_space '' ''
     (concat (map (\<lambda>c. if \<not> py_word c \<and> \<not> py_space c then '' '' else [c])
       (py_lower (py_strip q)))))"
  by (simp add: normalize_query_def re_sub_Cls re_sub_Plus_Cls)

lemma py_space_blank [simp]: "py_space CHR '' ''"
  by (simp add: py_space_code)

lemma normalize_chars: "c \<in> set (normalize_query q) \<Longrightarrow> norm_char c"
proof -
  define t where "t = concat (map (\<lambda>c. if \<not> py_word c \<and> \<not> py_space c then '' '' else [c])
       (py_lower (py_strip q)))"
  assume "c \<in> set (normalize_query q)"
  then have "c \<in> set (squeeze py_space '' '' t)"
    using set_py_strip by (auto simp: normalize_query_eq t_def)
  then have "c = CHR '' '' \<or> (c \<in> set t \<and> \<not> py_space c)"
    using set_squeeze [of py_space "'' ''" t] by auto
  moreover have "py_lower_char c = c \<and> (py_word c \<or> py_space c)" if "c \<in> set t" "c \<noteq> CHR '' ''"
  proof -
    from that obtain d where d: "d \<in> set (py_lower (py_strip q))"
      and c: "c \<in> set (if \<not> py_word d \<and> \<not> py_space d then '' '' else [d])"
      unfolding t_def set_concat set_map by blast
    from c that have "c = d" "py_word d \<or> py_space d" by (auto split: if_splits)
    with d show ?thesis by (auto simp: py_lower_def)
  qed
  ultimately show ?thesis by (auto simp: norm_char_def)
qed

abbreviation (input) no_double :: "string \<Rightarrow> bool" where
  "no_double s \<equiv> successively (\<lambda>a b. \<not> (a = CHR '' '' \<and> b = CHR '' '')) s"

lemma squeeze_hd:
  "\<not> py_space c \<Longrightarrow> squeeze py_space '' '' (c # s) \<noteq> []
     \<and> hd (squeeze py_space '' '' (c # s)) = c"
  by (simp add: squeeze_keep)

lemma squeeze_no_double: "no_double (squeeze py_space '' '' s)"
proof (induction py_space "'' ''" s rule: squeeze.induct)
  case (3 c d s)
  then show ?case
    using squeeze_hd [of d s] by (auto simp: successively_Cons)
qed auto

lemma no_double_strip: "no_double s \<Longrightarrow> no_double (py_strip s)"
proof -
  assume "no_double s"
  moreover obtain a b where "s = a @ py_strip s @ b" using py_strip_infix by blast
  ultimately show ?thesis by (metis successively_append_iff)
qed

lemma squeeze_id:
  "no_double s \<Longrightarrow> \<forall>c\<in>set s. c = CHR '' '' \<or> \<not> py_space c \<Longrightarrow> squeeze py_space '' '' s = s"
proof (induction s rule: induct_list012)
  case (3 c d s)
  then have IH: "squeeze py_space '' '' (d # s) = d # s" by simp
  show ?case
  proof (cases "py_space c")
    case True
    with 3 have "c = CHR '' ''" "\<not> py_space d" by auto
    with IH show ?thesis by simp
  next
    case False
    with IH show ?thesis by simp
  qed
qed auto

lemma normalize_idem: "normalize_query (normalize_query q) = normalize_query q"
proof -
  let ?n = "normalize_query q"
  have strip: "py_strip ?n = ?n" by (simp add: normalize_query_eq)
  have "no_double ?n"
    unfolding normalize_query_eq by (rule no_double_strip) (rule squeeze_no_double)
  moreover have "py_lower ?n = ?n"
  proof -
    have "py_lower_char c = c" if "c \<in> set ?n" for c
      using normalize_chars [OF that] by (auto simp: norm_char_def py_lower_char_code)
    then show ?thesis by (simp add: py_lower_def map_idI)
  qed
  moreover have "concat (map (\<lambda>c. if \<not> py_word c \<and> \<not> py_space c then '' '' else [c]) ?n) = ?n"
  proof -
    have "\<forall>c\<in>set ?n. py_word c \<or> py_space c"
    proof
      fix c assume "c \<in> set ?n"
      then have "norm_char c" by (rule normalize_chars)
      then show "py_word c \<or> py_space c" by (auto simp: norm_char_def)
    qed
    then have m: "map (\<lambda>c. if \<not> py_word c \<and> \<not> py_space c then '' '' else [c]) ?n
        = map (\<lambda>c. [c]) ?n"
      by auto
    show ?thesis unfolding m by simp
  qed
  moreover have "squeeze py_space '' '' ?n = ?n"
    by (rule squeeze_id) (use \<open>no_double ?n\<close> normalize_chars in \<open>auto simp: norm_char_def\<close>)
  ultimately show ?thesis
    unfolding normalize_query_eq [of ?n] using strip by simp
qed

lemma normalize_no_pipe [simp]: "CHR ''|'' \<notin> set (normalize_query q)"
  using normalize_chars norm_char_not_pipe by blast

lemma str_int_no_pipe [simp]: "CHR ''|'' \<notin> set (str_int i)"
  using str_int_chars [of "CHR ''|''" i] by (auto simp: py_digit_code)

end
