(* ===== verification/QueryCache.thy ===== *)
theory QueryCache
  imports KeyScheme JsonOps
begin

text \<open>
  \<open>agent/query_cache.py\<close>: the retrieval cache.  \<open>sha\<close> is the hash of the raw key,
  \<open>client\<close> says whether there is a Redis client; every failure is a miss or a no-op.
\<close>

section \<open>Serialising chunks\<close>

definition dump_chunk :: "ChunkResult \<Rightarrow> json" where
  "dump_chunk c = JObj
     [(''chunk_id'', JStr (chunk_id c)), (''document_id'', JStr (document_id c)),
      (''content'', JStr (chunk_content c)), (''score'', JNum (score c)),
      (''vector_similarity'', JNum (vector_similarity c)),
      (''metadata'', JObj (chunk_metadata c)),
      (''document_title'', JStr (document_title c)),
      (''document_source'', JStr (document_source c))]"

definition load_chunk :: "json \<Rightarrow> ChunkResult res" where
  "load_chunk j = (case j of
      JObj d \<Rightarrow>
        res_bind (load_str d ''chunk_id'') (\<lambda>cid.
        res_bind (load_str d ''document_id'') (\<lambda>did.
        res_bind (load_str d ''content'') (\<lambda>content.
        res_bind (load_num d ''score'' None) (\<lambda>sc.
        res_bind (load_num d ''vector_similarity'' (Some 0)) (\<lambda>vs.
        res_bind (load_meta d ''metadata'') (\<lambda>m.
        res_bind (load_str d ''document_title'') (\<lambda>title.
        res_bind (load_str d ''document_source'') (\<lambda>src.
          Inr (mk_chunk_result cid did content sc vs m title src)))))))))
    | _ \<Rightarrow> Inl TypeError)"

definition load_chunks :: "json \<Rightarrow> ChunkResult list res" where
  "load_chunks j = (case j of JArr xs \<Rightarrow> map_res load_chunk xs | _ \<Rightarrow> Inl TypeError)"

definition dump_chunks :: "ChunkResult list \<Rightarrow> json" where
  "dump_chunks cs = JArr (map dump_chunk cs)"

section \<open>The cache\<close>

record qc_config =
  qc_enabled :: bool
  qc_ttl :: int
  qc_prefix :: string

definition default_qc_config :: qc_config where
  "default_qc_config =
     \<lparr>qc_enabled = True, qc_ttl = 300, qc_prefix = ''uchenab:ragcache:''\<rparr>"

definition ver_key :: "qc_config \<Rightarrow> string" where
  "ver_key cfg = qc_prefix cfg @ ''ver''"

text \<open>The version key is written by \<open>INCR\<close> only; anything else does not parse: 0.\<close>

definition qc_version :: "qc_config \<Rightarrow> bool \<Rightarrow> redis_server \<Rightarrow> rat \<Rightarrow> int" where
  "qc_version cfg client srv now =
     (if \<not> client then 0
      else (case rget srv now (ver_key cfg) of Inr (Some (RInt n)) \<Rightarrow> n | _ \<Rightarrow> 0))"

fun qc_raw :: "int \<Rightarrow> string option \<times> int \<times> string \<Rightarrow> string" where
  "qc_raw version (user_id, limit, query) =
     ''v'' @ str_int version @ ''|'' @ cache_scope user_id @ ''|'' @ str_int limit @ ''|''
     @ normalize_query query"

definition qc_get ::
  "qc_config \<Rightarrow> (string \<Rightarrow> string) \<Rightarrow> bool \<Rightarrow> redis_server \<Rightarrow> rat \<Rightarrow> string \<Rightarrow> string option \<Rightarrow> int
   \<Rightarrow> ChunkResult list option" where
  "qc_get cfg sha client srv now query user_id limit =
     (if \<not> qc_enabled cfg \<or> \<not> client then None
      else cache_fetch sha (qc_prefix cfg) load_chunks srv now
             (qc_raw (qc_version cfg client srv now) (user_id, limit, query)))"

definition qc_set ::
  "qc_config \<Rightarrow> (string \<Rightarrow> string) \<Rightarrow> bool \<Rightarrow> redis_server \<Rightarrow> rat \<Rightarrow> string \<Rightarrow> string option \<Rightarrow> int
   \<Rightarrow> ChunkResult list \<Rightarrow> redis_server" where
  "qc_set cfg sha client srv now query user_id limit chunks =
     (if \<not> (qc_enabled cfg \<and> chunks \<noteq> []) \<or> \<not> client then srv
      else cache_store sha (qc_prefix cfg) (qc_ttl cfg) srv now
             (qc_raw (qc_version cfg client srv now) (user_id, limit, query))
             (dump_chunks chunks))"

definition bump_version :: "qc_config \<Rightarrow> bool \<Rightarrow> redis_server \<Rightarrow> rat \<Rightarrow> redis_server" where
  "bump_version cfg client srv now =
     (if \<not> client then srv
      else (case rincr srv now (ver_key cfg) of Inr srv' \<Rightarrow> srv' | Inl _ \<Rightarrow> srv))"

section \<open>Lemmas\<close>

fun qc_same :: "string option \<times> int \<times> string \<Rightarrow> string option \<times> int \<times> string \<Rightarrow> bool" where
  "qc_same (u, l, q) (u', l', q') \<longleftrightarrow>
     cache_scope u = cache_scope u' \<and> l = l' \<and> normalize_query q = normalize_query q'"

lemma qc_raw_eq: "qc_raw v k = qc_raw v' k' \<longleftrightarrow> v = v' \<and> qc_same k k'"
proof -
  obtain u l q where k: "k = (u, l, q)" by (cases k)
  obtain u' l' q' where k': "k' = (u', l', q')" by (cases k')
  let ?p = "CHR ''|''"
  have "qc_raw v k = qc_raw v' k' \<longleftrightarrow>
      str_int v @ ?p # (cache_scope u @ ?p # str_int l) @ ?p # normalize_query q
      = str_int v' @ ?p # (cache_scope u' @ ?p # str_int l') @ ?p # normalize_query q'"
    by (simp add: k k')
  also have "\<dots> \<longleftrightarrow> v = v' \<and> cache_scope u = cache_scope u' \<and> l = l'
      \<and> normalize_query q = normalize_query q'"
    by (subst sep_first) (auto simp del: append_assoc append_Cons simp: sep_last)
  finally show ?thesis by (simp add: k k')
qed

interpretation qc: versioned_keys qc_raw qc_same
  by unfold_locales (rule qc_raw_eq)

declare qc_raw.simps [simp del]

lemma load_dump_chunk: "load_chunk (dump_chunk c) = Inr (c\<lparr>score := validate_score (score c)\<rparr>)"
  by (simp add: load_chunk_def dump_chunk_def load_str_def load_num_def load_meta_def json_get_def
      mk_chunk_result_def)

text \<open>Chunks as the constructor makes them: their scores are within [0, 1].\<close>

definition valid_chunk :: "ChunkResult \<Rightarrow> bool" where
  "valid_chunk c \<longleftrightarrow> 0 \<le> score c \<and> score c \<le> 1"

lemma load_dump_valid: "valid_chunk c \<Longrightarrow> load_chunk (dump_chunk c) = Inr c"
  by (simp add: load_dump_chunk valid_chunk_def validate_score_id)

lemma load_dump_chunks: "\<forall>c\<in>set cs. valid_chunk c \<Longrightarrow> load_chunks (dump_chunks cs) = Inr cs"
proof -
  assume "\<forall>c\<in>set cs. valid_chunk c"
  then have "map_res load_chunk (map dump_chunk cs) = Inr cs"
    by (induction cs) (auto simp: load_dump_valid)
  then show ?thesis by (simp add: load_chunks_def dump_chunks_def)
qed

lemma qc_version_set:
  "sha (qc_raw (qc_version cfg client srv now) (u, l, q)) \<noteq> ''ver'' \<Longrightarrow>
     qc_version cfg client (qc_set cfg sha client srv now q u l cs) now' = qc_version cfg client srv now'"
  by (cases client) (simp_all add: qc_version_def [of _ _ _ now'] qc_set_def ver_key_def
      rget_cache_store_other)

text \<open>
  The counter as \<open>INCR\<close> keeps it: absent, or an integer that never expires.
\<close>

definition ver_ok :: "qc_config \<Rightarrow> redis_server \<Rightarrow> bool" where
  "ver_ok cfg srv \<longleftrightarrow> (case srv_data srv (ver_key cfg) of
      None \<Rightarrow> True | Some (RInt _, None) \<Rightarrow> True | _ \<Rightarrow> False)"

definition ver_of :: "qc_config \<Rightarrow> redis_server \<Rightarrow> int" where
  "ver_of cfg srv = (case srv_data srv (ver_key cfg) of Some (RInt n, _) \<Rightarrow> n | _ \<Rightarrow> 0)"

lemma qc_version_ver_of:
  "ver_ok cfg srv \<Longrightarrow> srv_up srv \<Longrightarrow> client \<Longrightarrow> qc_version cfg client srv now = ver_of cfg srv"
  by (auto simp: ver_ok_def ver_of_def qc_version_def rget_def live_def
      split: option.splits rval.splits)

lemma bump_ver:
  assumes "ver_ok cfg srv" and "srv_up srv" and "client"
  shows "ver_ok cfg (bump_version cfg client srv now)"
    and "ver_of cfg (bump_version cfg client srv now) = ver_of cfg srv + 1"
    and "srv_up (bump_version cfg client srv now)"
  using assms
  by (auto simp: ver_ok_def ver_of_def bump_version_def rincr_def live_def live_expiry_def
      split: option.splits rval.splits)

lemma cache_store_ver:
  assumes "pfx @ sha raw \<noteq> ver_key cfg"
  shows "srv_data (cache_store sha pfx ttl srv now raw j) (ver_key cfg) = srv_data srv (ver_key cfg)"
  using assms by (cases rule: cache_store_cases [of sha pfx ttl srv now raw j])
    (auto simp: rsetex_def dest!: sym [of _ "cache_store sha pfx ttl srv now raw j"])

lemma qc_set_ver:
  assumes "sha (qc_raw (qc_version cfg client srv now) (u, l, q)) \<noteq> ''ver''"
  shows "ver_ok cfg (qc_set cfg sha client srv now q u l cs) = ver_ok cfg srv"
    and "ver_of cfg (qc_set cfg sha client srv now q u l cs) = ver_of cfg srv"
proof -
  have "srv_data (qc_set cfg sha client srv now q u l cs) (ver_key cfg) = srv_data srv (ver_key cfg)"
    using assms by (auto simp: qc_set_def ver_key_def intro!: cache_store_ver [of _ _ _ cfg, unfolded ver_key_def])
  then show "ver_ok cfg (qc_set cfg sha client srv now q u l cs) = ver_ok cfg srv"
    and "ver_of cfg (qc_set cfg sha client srv now q u l cs) = ver_of cfg srv"
    by (simp_all add: ver_ok_def ver_of_def)
qed

lemma bump_fetch:
  "sha raw \<noteq> ''ver'' \<Longrightarrow>
     cache_fetch sha (qc_prefix cfg) load (bump_version cfg client srv now) now' raw
       = cache_fetch sha (qc_prefix cfg) load srv now' raw"
  by (auto simp: bump_version_def cache_fetch_def ver_key_def rincr_other split: sum.splits)

lemma srv_up_qc_set [simp]: "srv_up (qc_set cfg sha client srv now q u l cs) = srv_up srv"
  by (simp add: qc_set_def)

lemma qc_fetch_set:
  assumes "qc_enabled cfg" and "srv_up srv" and "ver_ok cfg srv" and "0 < qc_ttl cfg"
    and "cs \<noteq> []" and "\<forall>c\<in>set cs. valid_chunk c"
    and "sha (qc_raw (ver_of cfg srv) (u, l, q)) \<noteq> ''ver''"
    and "cache_scope u' = cache_scope u" and "normalize_query q' = normalize_query q"
  shows "qc_get cfg sha True (qc_set cfg sha True srv now q u l cs) now' q' u' l
     = (if now' < now + of_int (qc_ttl cfg) then Some cs else None)"
proof -
  let ?v = "ver_of cfg srv"
  let ?s = "cache_store sha (qc_prefix cfg) (qc_ttl cfg) srv now (qc_raw ?v (u, l, q)) (dump_chunks cs)"
  have v: "qc_version cfg True srv t = ?v" for t
    by (rule qc_version_ver_of) (use assms in simp_all)
  have set: "qc_set cfg sha True srv now q u l cs = ?s"
    using assms by (simp add: qc_set_def v)
  have "ver_ok cfg ?s" "ver_of cfg ?s = ?v"
    using qc_set_ver [of sha cfg True srv now u l q cs] assms set v by simp_all
  then have "qc_version cfg True ?s now' = ?v"
    using qc_version_ver_of [of cfg ?s True now'] assms by simp
  then have get: "qc_get cfg sha True ?s now' q' u' l
      = cache_fetch sha (qc_prefix cfg) load_chunks ?s now' (qc_raw ?v (u', l, q'))"
    using assms by (simp add: qc_get_def)
  have same: "qc_raw ?v (u', l, q') = qc_raw ?v (u, l, q)" using assms by (simp add: qc_raw_eq)
  show ?thesis
  proof (cases "now' < now + of_int (qc_ttl cfg)")
    case True
    with assms show ?thesis
      unfolding set get by (simp add: qc.hit load_dump_chunks)
  next
    case False
    with assms show ?thesis
      unfolding set get same by (simp add: cache_fetch_expired)
  qed
qed

section \<open>Properties\<close>

text \<open>Normalising a question is idempotent: the normal form of a normal form is
  itself, so equivalent wordings share one cache key and nothing further collapses.\<close>

theorem normalize_query_idempotent:
  "normalize_query (normalize_query q) = normalize_query q
   \<and> (\<forall>c\<in>set (normalize_query q). norm_char c)"
  by (simp add: normalize_idem normalize_chars)

theorem normalize_query_idempotent_witness:
  "normalize_query (normalize_query ''What is  the FEE?'') = ''what is the fee''"
proof -
  have "normalize_query ''What is  the FEE?'' = ''what is the fee''" by code_simp
  then show ?thesis using normalize_query_idempotent [of "''What is  the FEE?''"] by simp
qed

text \<open>Chunks stored for a question are returned, unchanged and in order, for every
  question with the same normal form, scope and limit until the time to live has passed,
  and not after it.\<close>

theorem qc_get_set:
  assumes "qc_enabled cfg" and "srv_up srv" and "ver_ok cfg srv" and "0 < qc_ttl cfg"
    and "cs \<noteq> []" and "\<forall>c\<in>set cs. valid_chunk c"
    and "sha (qc_raw (ver_of cfg srv) (u, l, q)) \<noteq> ''ver''"
    and "cache_scope u' = cache_scope u" and "normalize_query q' = normalize_query q"
  shows "qc_get cfg sha True (qc_set cfg sha True srv now q u l cs) now' q' u' l
     = (if now' < now + of_int (qc_ttl cfg) then Some cs else None)"
  using assms by (rule qc_fetch_set)

theorem qc_get_set_witness:
  "qc_get default_qc_config id True
     (qc_set default_qc_config id True empty_server 0 ''Fees?'' None 5
        [mk_chunk_result ''c'' ''d'' ''text'' 2 0 [] ''t'' ''s'']) 299 ''  fees'' (Some ''public'') 5
   = Some [mk_chunk_result ''c'' ''d'' ''text'' 2 0 [] ''t'' ''s'']"
proof -
  have n: "normalize_query ''  fees'' = normalize_query ''Fees?''" by code_simp
  have v: "ver_of default_qc_config empty_server = 0" "ver_ok default_qc_config empty_server"
    by (simp_all add: ver_of_def ver_ok_def empty_server_def)
  have "id (qc_raw 0 (None, 5, ''Fees?'')) \<noteq> ''ver''"
    by (simp add: qc_raw.simps str_int_def dec.simps digit_char_def)
  then show ?thesis
    using qc_get_set [of default_qc_config empty_server
        "[mk_chunk_result ''c'' ''d'' ''text'' 2 0 [] ''t'' ''s'']" id None 5 "''Fees?''"
        "Some ''public''" "''  fees''" 0 299] n v
    by (simp add: default_qc_config_def valid_chunk_def cache_scope_def str_or_def empty_server_def
       )
qed

text \<open>Scope isolation of the retrieval cache.  Storing chunks for one caller, limit
  and question does not change what another scope, limit or question reads, whatever the
  identifiers contain (also the separator).\<close>

theorem qc_scope_isolation:
  assumes "srv_up srv" and "ver_ok cfg srv"
    and "inj_on sha {qc_raw (ver_of cfg srv) (u, l, q), qc_raw (ver_of cfg srv) (u', l', q')}"
    and "sha (qc_raw (ver_of cfg srv) (u, l, q)) \<noteq> ''ver''"
    and "cache_scope u' \<noteq> cache_scope u \<or> l' \<noteq> l \<or> normalize_query q' \<noteq> normalize_query q"
  shows "qc_get cfg sha True (qc_set cfg sha True srv now q u l cs) now' q' u' l'
     = qc_get cfg sha True srv now' q' u' l'"
proof -
  let ?v = "ver_of cfg srv" and ?s = "qc_set cfg sha True srv now q u l cs"
  have v: "qc_version cfg True srv t = ?v" for t
    by (rule qc_version_ver_of) (use assms in simp_all)
  have "ver_ok cfg ?s" "ver_of cfg ?s = ?v"
    using qc_set_ver [of sha cfg True srv now u l q cs] assms v by simp_all
  then have v': "qc_version cfg True ?s now' = ?v"
    using qc_version_ver_of [of cfg ?s True now'] assms by simp
  have "\<not> qc_same (u, l, q) (u', l', q')" using assms(5) by auto
  note iso = qc.isolated [OF assms(3) this]
  show ?thesis by (simp add: qc_get_def v v') (simp add: qc_set_def v iso)
qed

theorem qc_scope_isolation_witness:
  "qc_get default_qc_config id True
     (qc_set default_qc_config id True empty_server 0 ''salary'' (Some ''hr|5'') 5
        [mk_chunk_result ''c'' ''d'' ''text'' 1 0 [] ''t'' ''s'']) 1 ''salary'' None 5
   = qc_get default_qc_config id True empty_server 1 ''salary'' None 5"
proof -
  have v: "ver_of default_qc_config empty_server = 0" "ver_ok default_qc_config empty_server"
    by (simp_all add: ver_of_def ver_ok_def empty_server_def)
  have "id (qc_raw 0 (Some ''hr|5'', 5, ''salary'')) \<noteq> ''ver''"
    by (simp add: qc_raw.simps str_int_def dec.simps digit_char_def)
  then show ?thesis
    using v by (intro qc_scope_isolation)
      (simp_all add: cache_scope_def str_or_def empty_server_def)
qed

end
