(* ===== verification/AnswerCache.thy ===== *)
theory AnswerCache
  imports QueryCache
begin

text \<open>
  \<open>agent/answer_cache.py\<close>: the turn-level answer cache.  It shares the normalisation
  and the generation counter of the retrieval cache (whose configuration is \<open>qcfg\<close>).
  A payload is the JSON object with the answer and the tools used.
\<close>

record ac_config =
  ac_enabled :: bool
  ac_ttl :: int
  ac_prefix :: string

definition default_ac_config :: ac_config where
  "default_ac_config =
     \<lparr>ac_enabled = True, ac_ttl = 600, ac_prefix = ''uchenab:answercache:''\<rparr>"

fun ac_raw :: "int \<Rightarrow> string option \<times> string \<Rightarrow> string" where
  "ac_raw version (user_id, canonical_query) =
     ''v'' @ str_int version @ ''|'' @ cache_scope user_id @ ''|'' @ normalize_query canonical_query"

definition ac_payload :: "string \<Rightarrow> (string \<times> json) list list option \<Rightarrow> json" where
  "ac_payload answer tools =
     JObj [(''answer'', JStr answer),
           (''tools'', JArr (map JObj (case tools of None \<Rightarrow> [] | Some ts \<Rightarrow> ts)))]"

definition ac_get ::
  "ac_config \<Rightarrow> qc_config \<Rightarrow> (string \<Rightarrow> string) \<Rightarrow> bool \<Rightarrow> redis_server \<Rightarrow> rat \<Rightarrow> string
   \<Rightarrow> string option \<Rightarrow> json option" where
  "ac_get cfg qcfg sha client srv now canonical_query user_id =
     (if \<not> (ac_enabled cfg \<and> py_strip canonical_query \<noteq> []) \<or> \<not> client then None
      else cache_fetch sha (ac_prefix cfg) Inr srv now
             (ac_raw (qc_version qcfg client srv now) (user_id, canonical_query)))"

definition ac_set ::
  "ac_config \<Rightarrow> qc_config \<Rightarrow> (string \<Rightarrow> string) \<Rightarrow> bool \<Rightarrow> redis_server \<Rightarrow> rat \<Rightarrow> string
   \<Rightarrow> string option \<Rightarrow> string \<Rightarrow> (string \<times> json) list list option \<Rightarrow> redis_server" where
  "ac_set cfg qcfg sha client srv now canonical_query user_id answer tools =
     (if \<not> (ac_enabled cfg \<and> answer \<noteq> [] \<and> py_strip canonical_query \<noteq> []) \<or> \<not> client then srv
      else cache_store sha (ac_prefix cfg) (ac_ttl cfg) srv now
             (ac_raw (qc_version qcfg client srv now) (user_id, canonical_query))
             (ac_payload answer tools))"

section \<open>Lemmas\<close>

fun ac_same :: "string option \<times> string \<Rightarrow> string option \<times> string \<Rightarrow> bool" where
  "ac_same (u, q) (u', q') \<longleftrightarrow>
     cache_scope u = cache_scope u' \<and> normalize_query q = normalize_query q'"

lemma ac_raw_eq: "ac_raw v k = ac_raw v' k' \<longleftrightarrow> v = v' \<and> ac_same k k'"
proof -
  obtain u q where k: "k = (u, q)" by (cases k)
  obtain u' q' where k': "k' = (u', q')" by (cases k')
  let ?p = "CHR ''|''"
  have "ac_raw v k = ac_raw v' k' \<longleftrightarrow>
      str_int v @ ?p # cache_scope u @ ?p # normalize_query q
      = str_int v' @ ?p # cache_scope u' @ ?p # normalize_query q'"
    by (simp add: k k')
  also have "\<dots> \<longleftrightarrow> v = v' \<and> cache_scope u = cache_scope u'
      \<and> normalize_query q = normalize_query q'"
    by (subst sep_first) (auto simp: sep_last)
  finally show ?thesis by (simp add: k k')
qed

interpretation ac: versioned_keys ac_raw ac_same
  by unfold_locales (rule ac_raw_eq)

declare ac_raw.simps [simp del]

text \<open>
  The generation counter is out of the answers' reach when no answer key is the
  counter's: the two prefixes differ at a position both have.
\<close>

definition keys_apart :: "qc_config \<Rightarrow> ac_config \<Rightarrow> bool" where
  "keys_apart qcfg cfg \<longleftrightarrow>
     \<not> prefix (qc_prefix qcfg) (ac_prefix cfg) \<and> \<not> prefix (ac_prefix cfg) (qc_prefix qcfg)"

lemma keys_apart_neq:
  "keys_apart qcfg cfg \<Longrightarrow> qc_prefix qcfg @ x \<noteq> ac_prefix cfg @ y"
  unfolding keys_apart_def by (metis prefixI prefix_same_cases)

lemma keys_apart_default: "keys_apart default_qc_config default_ac_config"
  by (simp add: keys_apart_def default_qc_config_def default_ac_config_def)

lemma qc_version_ac_set:
  "keys_apart qcfg cfg \<Longrightarrow>
     qc_version qcfg client (ac_set cfg qcfg sha client srv now q u a ts) now'
       = qc_version qcfg client srv now'"
  using keys_apart_neq [of qcfg cfg "''ver''"]
  by (simp add: qc_version_def [of _ _ _ now'] ac_set_def ver_key_def rget_cache_store_other)

lemma ac_set_never_blank:
  "answer = [] \<or> py_strip q = [] \<Longrightarrow> ac_set cfg qcfg sha client srv now q u answer ts = srv"
  by (auto simp: ac_set_def)

lemma bump_fetch_ac:
  "keys_apart qcfg cfg \<Longrightarrow>
     cache_fetch sha (ac_prefix cfg) load (bump_version qcfg client srv now) now' raw
       = cache_fetch sha (ac_prefix cfg) load srv now' raw"
  using keys_apart_neq [of qcfg cfg "''ver''" "sha raw"]
  by (auto simp: bump_version_def cache_fetch_def ver_key_def rincr_other split: sum.splits)

lemma ac_set_ver:
  assumes "keys_apart qcfg cfg"
  shows "ver_ok qcfg (ac_set cfg qcfg sha client srv now q u a ts) = ver_ok qcfg srv"
    and "ver_of qcfg (ac_set cfg qcfg sha client srv now q u a ts) = ver_of qcfg srv"
proof -
  have "srv_data (ac_set cfg qcfg sha client srv now q u a ts) (ver_key qcfg)
      = srv_data srv (ver_key qcfg)"
    using keys_apart_neq [OF assms, of "''ver''"]
    by (auto simp: ac_set_def ver_key_def dest: sym
        intro!: cache_store_ver [of _ _ _ qcfg, unfolded ver_key_def])
  then show "ver_ok qcfg (ac_set cfg qcfg sha client srv now q u a ts) = ver_ok qcfg srv"
    and "ver_of qcfg (ac_set cfg qcfg sha client srv now q u a ts) = ver_of qcfg srv"
    by (simp_all add: ver_ok_def ver_of_def)
qed

lemma srv_up_ac_set [simp]: "srv_up (ac_set cfg qcfg sha client srv now q u a ts) = srv_up srv"
  by (simp add: ac_set_def)

section \<open>Properties\<close>

text \<open>C32: scope isolation of the answer cache.  An answer stored for one caller is not
  seen by a caller of another scope, nor under another question; under the same scope
  and question it is found until its time to live has passed.\<close>

theorem ac_scope_isolation:
  assumes "srv_up srv" and "ver_ok qcfg srv" and "keys_apart qcfg cfg" and "ac_enabled cfg"
    and "0 < ac_ttl cfg" and "answer \<noteq> []" and "py_strip q \<noteq> []" and "py_strip q' \<noteq> []"
    and "inj_on sha {ac_raw (ver_of qcfg srv) (u, q), ac_raw (ver_of qcfg srv) (u', q')}"
  shows "ac_get cfg qcfg sha True (ac_set cfg qcfg sha True srv now q u answer ts) now' q' u'
     = (if cache_scope u' = cache_scope u \<and> normalize_query q' = normalize_query q
        then (if now' < now + of_int (ac_ttl cfg) then Some (ac_payload answer ts) else None)
        else ac_get cfg qcfg sha True srv now' q' u')"
proof -
  let ?v = "ver_of qcfg srv" and ?s = "ac_set cfg qcfg sha True srv now q u answer ts"
  have v: "qc_version qcfg True srv t = ?v" for t
    by (rule qc_version_ver_of) (use assms in simp_all)
  have v': "qc_version qcfg True ?s now' = ?v"
    using qc_version_ver_of [of qcfg ?s True now'] ac_set_ver [OF assms(3)] assms by simp
  have set: "?s = cache_store sha (ac_prefix cfg) (ac_ttl cfg) srv now (ac_raw ?v (u, q))
      (ac_payload answer ts)"
    using assms by (simp add: ac_set_def v)
  have get: "ac_get cfg qcfg sha True ?s now' q' u'
      = cache_fetch sha (ac_prefix cfg) Inr ?s now' (ac_raw ?v (u', q'))"
    using assms by (simp add: ac_get_def v')
  show ?thesis
  proof (cases "ac_same (u, q) (u', q')")
    case True
    then have same: "ac_raw ?v (u', q') = ac_raw ?v (u, q)" by (simp add: ac_raw_eq)
    from True assms show ?thesis
      unfolding get unfolding set same by (simp add: cache_fetch_same cache_fetch_expired)
  next
    case False
    note iso = ac.isolated [OF assms(9) False]
    from False assms show ?thesis unfolding get unfolding set by (auto simp: iso ac_get_def v)
  qed
qed

theorem ac_scope_isolation_witness:
  "ac_get default_ac_config default_qc_config id True
     (ac_set default_ac_config default_qc_config id True empty_server 0 ''fees'' (Some ''u1'')
        ''100'' None) 10 ''Fees'' None
   = ac_get default_ac_config default_qc_config id True empty_server 10 ''Fees'' None"
proof -
  have v: "ver_of default_qc_config empty_server = 0" "ver_ok default_qc_config empty_server"
    by (simp_all add: ver_of_def ver_ok_def empty_server_def)
  have strip: "py_strip ''fees'' \<noteq> []" "py_strip ''Fees'' \<noteq> []" by code_simp+
  show ?thesis
    using ac_scope_isolation [of empty_server default_qc_config default_ac_config "''100''"
        "''fees''" "''Fees''" id "Some ''u1''" None 0 None 10] v strip keys_apart_default
    by (simp add: default_ac_config_def empty_server_def cache_scope_def str_or_def)
qed

text \<open>C22: one version bump orphans both caches.  After it, what was stored before is
  invisible to every lookup: each reads what it would read had nothing been stored.\<close>

theorem bump_orphans_both:
  assumes "srv_up srv" and "ver_ok qcfg srv" and "keys_apart qcfg cfg"
    and "inj_on sha {qc_raw (ver_of qcfg srv) (u, l, q), qc_raw (ver_of qcfg srv + 1) (u', l', q')}"
    and "inj_on sha {ac_raw (ver_of qcfg srv) (u, q), ac_raw (ver_of qcfg srv + 1) (u', q')}"
    and "sha (qc_raw (ver_of qcfg srv) (u, l, q)) \<noteq> ''ver''"
    and "sha (qc_raw (ver_of qcfg srv + 1) (u', l', q')) \<noteq> ''ver''"
  shows "qc_get qcfg sha True (bump_version qcfg True (qc_set qcfg sha True srv now q u l cs) t)
            now' q' u' l'
         = qc_get qcfg sha True (bump_version qcfg True srv t) now' q' u' l'
       \<and> ac_get cfg qcfg sha True
            (bump_version qcfg True (ac_set cfg qcfg sha True srv now q u answer ts) t) now' q' u'
         = ac_get cfg qcfg sha True (bump_version qcfg True srv t) now' q' u'"
proof -
  let ?v = "ver_of qcfg srv"
  let ?qs = "qc_set qcfg sha True srv now q u l cs"
  let ?as = "ac_set cfg qcfg sha True srv now q u answer ts"
  have v: "qc_version qcfg True srv s = ?v" for s
    by (rule qc_version_ver_of) (use assms in simp_all)
  have bumped: "qc_version qcfg True (bump_version qcfg True s t) now' = ver_of qcfg s + 1"
    if "ver_ok qcfg s" "srv_up s" for s
    using qc_version_ver_of [of qcfg "bump_version qcfg True s t" True now'] bump_ver [of qcfg s True t]
      that by simp
  have q: "ver_ok qcfg ?qs" "ver_of qcfg ?qs = ?v"
    using qc_set_ver [of sha qcfg True srv now u l q cs] assms v by simp_all
  have a: "ver_ok qcfg ?as" "ver_of qcfg ?as = ?v"
    using ac_set_ver [OF assms(3)] assms by simp_all
  have vq: "qc_version qcfg True (bump_version qcfg True ?qs t) now' = ?v + 1"
    "qc_version qcfg True (bump_version qcfg True ?as t) now' = ?v + 1"
    "qc_version qcfg True (bump_version qcfg True srv t) now' = ?v + 1"
    using bumped [of ?qs] bumped [of ?as] bumped [of srv] q a assms by simp_all
  have ne: "?v \<noteq> ?v + 1" by simp
  note oq = qc.orphaned [OF assms(4) ne] and oa = ac.orphaned [OF assms(5) ne]
  show ?thesis
    using assms(3,7)
    by (simp add: qc_get_def ac_get_def vq bump_fetch bump_fetch_ac)
      (simp add: qc_set_def ac_set_def v oq oa)
qed

theorem bump_orphans_both_witness:
  "ac_get default_ac_config default_qc_config id True
     (bump_version default_qc_config True
       (ac_set default_ac_config default_qc_config id True empty_server 0 ''fees'' None ''100'' None) 1)
     2 ''fees'' None
   = ac_get default_ac_config default_qc_config id True
       (bump_version default_qc_config True empty_server 1) 2 ''fees'' None"
proof -
  have v: "ver_of default_qc_config empty_server = 0" "ver_ok default_qc_config empty_server"
    by (simp_all add: ver_of_def ver_ok_def empty_server_def)
  show ?thesis
    using bump_orphans_both [of empty_server default_qc_config default_ac_config id None 5 "''fees''"
        None 5 "''fees''" 0 _ 1 2 "''100''" None] v keys_apart_default
    by (simp add: empty_server_def qc_raw.simps)
qed

end
