(* ===== verification/SessionMemory.thy ===== *)
theory SessionMemory
  imports RedisStore
begin

text \<open>
  \<open>agent/session_memory.py\<close>: the history of a session, cut to a sliding window, with a
  Redis backend and an in-process one.  The Redis commands of \<open>add_turn\<close> are sent as
  one pipeline; a failing server raises and changes nothing.
\<close>

section \<open>Messages and state\<close>

datatype message = HumanMessage string | AIMessage string

record memory_manager =
  window_size :: int
  mm_ttl :: int
  mm_prefix :: string
  mm_backend :: string
  mm_redis :: bool
  mm_checked :: bool
  histories :: "(string \<times> message list) list"

text \<open>The arguments are the constructor's and the environment's values.\<close>

definition new_manager :: "int \<Rightarrow> int \<Rightarrow> string \<Rightarrow> string \<Rightarrow> memory_manager" where
  "new_manager window ttl pfx backend = \<lparr>window_size = window, mm_ttl = ttl, mm_prefix = pfx,
     mm_backend = py_lower backend, mm_redis = False, mm_checked = False, histories = []\<rparr>"

text \<open>\<open>_client\<close>: the first ping decides; a failed one degrades the manager for good.\<close>

definition mm_client :: "redis_server \<Rightarrow> memory_manager \<Rightarrow> bool \<times> memory_manager" where
  "mm_client srv m =
     (if mm_backend m = ''memory'' then (False, m)
      else if mm_checked m then (mm_redis m, m)
      else if srv_up srv then (True, m\<lparr>mm_checked := True, mm_redis := True\<rparr>)
      else (False, m\<lparr>mm_checked := True, mm_backend := ''memory'', mm_redis := False\<rparr>))"

definition mm_key :: "memory_manager \<Rightarrow> string \<Rightarrow> string" where
  "mm_key m session_id = mm_prefix m @ session_id"

section \<open>The in-process backend\<close>

text \<open>\<open>_get_history\<close> creates a missing history.\<close>

definition get_history ::
  "string \<Rightarrow> (string \<times> message list) list \<Rightarrow> message list \<times> (string \<times> message list) list" where
  "get_history sid hs = (case map_of hs sid of
      Some h \<Rightarrow> (h, hs)
    | None \<Rightarrow> ([], dict_put sid [] hs))"

text \<open>\<open>_trim_memory\<close>: \<open>history[-max_msgs:]\<close>, with Python's reading of a position.\<close>

definition trim_messages :: "int \<Rightarrow> message list \<Rightarrow> message list" where
  "trim_messages window h =
     (let max_msgs = window * 2
      in if int (length h) > max_msgs then py_slice_from h (- max_msgs) else h)"

definition add_turn_memory ::
  "int \<Rightarrow> string \<Rightarrow> string \<Rightarrow> string \<Rightarrow> (string \<times> message list) list
   \<Rightarrow> (string \<times> message list) list" where
  "add_turn_memory window sid user_message ai_message hs =
     (let (h, hs') = get_history sid hs;
          h' = h @ [HumanMessage user_message, AIMessage ai_message]
      in dict_put sid (trim_messages window h') hs')"

section \<open>The Redis backend\<close>

definition dump_message :: "message \<Rightarrow> json" where
  "dump_message m = (case m of
      HumanMessage s \<Rightarrow> JObj [(''role'', JStr ''user''), (''content'', JStr s)]
    | AIMessage s \<Rightarrow> JObj [(''role'', JStr ''assistant''), (''content'', JStr s)])"

text \<open>
  Reading an item back: whatever is not a user's is the assistant's; a missing content
  is empty.  Only items written by \<open>add_turn\<close> occur under a session key; an item that
  is no object, or whose content is no text, raises.
\<close>

definition load_message :: "json \<Rightarrow> message res" where
  "load_message j = (case j of
      JObj d \<Rightarrow>
        (case (case json_get d ''content'' of None \<Rightarrow> JStr [] | Some c \<Rightarrow> c) of
           JStr s \<Rightarrow> Inr (if json_get d ''role'' = Some (JStr ''user'') then HumanMessage s
                          else AIMessage s)
         | _ \<Rightarrow> Inl (ValueError ''content''))
    | _ \<Rightarrow> Inl (OtherError ''AttributeError''))"

text \<open>\<open>LTRIM key a b\<close>: positions from the end when negative, inclusive, clamped.\<close>

definition ltrim :: "'a list \<Rightarrow> int \<Rightarrow> int \<Rightarrow> 'a list" where
  "ltrim xs a b =
     (let n = int (length xs);
          i = max 0 (if a < 0 then n + a else a);
          j = min (n - 1) (if b < 0 then n + b else b)
      in if i > j then [] else take (nat (j - i + 1)) (drop (nat i) xs))"

text \<open>
  The pipeline of \<open>add_turn\<close>: two pushes, the trim (an empty list deletes the key) and
  the expiry (a time to live that is not positive deletes the key at once).
\<close>

definition add_turn_redis ::
  "int \<Rightarrow> int \<Rightarrow> redis_server \<Rightarrow> rat \<Rightarrow> string \<Rightarrow> string \<Rightarrow> string \<Rightarrow> redis_server res" where
  "add_turn_redis window ttl srv now key user_message ai_message =
     (if \<not> srv_up srv then Inl redis_down
      else
        let push = (\<lambda>xs. ltrim (xs @ [dump_message (HumanMessage user_message),
                                        dump_message (AIMessage ai_message)]) (- window * 2) (- 1));
            put = (\<lambda>xs. srv\<lparr>srv_data := (srv_data srv)
               (key := if xs = [] \<or> ttl \<le> 0 then None else Some (RList xs, Some (now + of_int ttl)))\<rparr>)
        in (case live (srv_data srv) now key of
              None \<Rightarrow> Inr (put (push []))
            | Some (RList xs) \<Rightarrow> Inr (put (push xs))
            | Some _ \<Rightarrow> Inl (OtherError ''WRONGTYPE'')))"

definition lrange_all :: "redis_server \<Rightarrow> rat \<Rightarrow> string \<Rightarrow> json list res" where
  "lrange_all srv now key =
     (if \<not> srv_up srv then Inl redis_down
      else (case live (srv_data srv) now key of
              None \<Rightarrow> Inr []
            | Some (RList xs) \<Rightarrow> Inr xs
            | Some _ \<Rightarrow> Inl (OtherError ''WRONGTYPE'')))"

section \<open>The public operations\<close>

text \<open>\<open>new_id\<close>: the identifier \<open>uuid4\<close> would make.\<close>

definition create_session ::
  "string \<Rightarrow> string option \<Rightarrow> redis_server \<Rightarrow> memory_manager \<Rightarrow> string \<times> memory_manager" where
  "create_session new_id session_id srv m =
     (let sid = str_or session_id new_id;
          (client, m') = mm_client srv m
      in if client then (sid, m')
         else (sid, m'\<lparr>histories := snd (get_history sid (histories m'))\<rparr>))"

definition get_or_create ::
  "string \<Rightarrow> string option \<Rightarrow> redis_server \<Rightarrow> memory_manager \<Rightarrow> string \<times> memory_manager" where
  "get_or_create = create_session"

definition add_turn ::
  "redis_server \<Rightarrow> rat \<Rightarrow> string \<Rightarrow> string \<Rightarrow> string \<Rightarrow> memory_manager
   \<Rightarrow> (redis_server \<times> memory_manager) res" where
  "add_turn srv now session_id user_message ai_message m =
     (let (client, m') = mm_client srv m
      in if \<not> client
         then Inr (srv, m'\<lparr>histories :=
                add_turn_memory (window_size m') session_id user_message ai_message (histories m')\<rparr>)
         else res_bind (add_turn_redis (window_size m') (mm_ttl m') srv now (mm_key m' session_id)
                          user_message ai_message)
                (\<lambda>srv'. Inr (srv', m')))"

fun load_messages :: "json list \<Rightarrow> message list res" where
  "load_messages [] = Inr []"
| "load_messages (j # js) =
     res_bind (load_message j) (\<lambda>m. res_bind (load_messages js) (\<lambda>ms. Inr (m # ms)))"

text \<open>In process, reading registers a missing session, as \<open>_get_history\<close> does.\<close>

definition get_messages ::
  "redis_server \<Rightarrow> rat \<Rightarrow> string \<Rightarrow> memory_manager \<Rightarrow> (message list \<times> memory_manager) res" where
  "get_messages srv now session_id m =
     (let (client, m') = mm_client srv m
      in if \<not> client
         then let (h, hs) = get_history session_id (histories m')
              in Inr (h, m'\<lparr>histories := hs\<rparr>)
         else res_bind (lrange_all srv now (mm_key m' session_id))
                (\<lambda>js. res_bind (load_messages js) (\<lambda>ms. Inr (ms, m'))))"

definition render_message :: "message \<Rightarrow> string" where
  "render_message msg = (case msg of
      HumanMessage s \<Rightarrow> ''User: '' @ s | AIMessage s \<Rightarrow> ''Assistant: '' @ s)"

definition context_string :: "message list \<Rightarrow> string" where
  "context_string messages =
     (if messages = [] then [] else py_join [NL] (map render_message messages))"

definition get_context_string ::
  "redis_server \<Rightarrow> rat \<Rightarrow> string \<Rightarrow> memory_manager \<Rightarrow> (string \<times> memory_manager) res" where
  "get_context_string srv now session_id m =
     res_bind (get_messages srv now session_id m)
       (\<lambda>(messages, m'). Inr (context_string messages, m'))"

definition session_exists ::
  "redis_server \<Rightarrow> rat \<Rightarrow> string \<Rightarrow> memory_manager \<Rightarrow> (bool \<times> memory_manager) res" where
  "session_exists srv now session_id m =
     (let (client, m') = mm_client srv m
      in if \<not> client then Inr (map_of (histories m') session_id \<noteq> None, m')
         else if \<not> srv_up srv then Inl redis_down
         else Inr (live (srv_data srv) now (mm_key m' session_id) \<noteq> None, m'))"

definition clear_session ::
  "redis_server \<Rightarrow> string \<Rightarrow> memory_manager \<Rightarrow> (redis_server \<times> memory_manager) res" where
  "clear_session srv session_id m =
     (let (client, m') = mm_client srv m
      in if \<not> client
         then Inr (srv, m'\<lparr>histories := filter (\<lambda>kv. fst kv \<noteq> session_id) (histories m')\<rparr>)
         else if \<not> srv_up srv then Inl redis_down
         else Inr (srv\<lparr>srv_data := (srv_data srv)(mm_key m' session_id := None)\<rparr>, m'))"

record session_info_rec =
  info_session_id :: string
  turn_count :: nat
  message_count :: nat
  info_window :: int
  info_backend :: string

definition session_info ::
  "redis_server \<Rightarrow> rat \<Rightarrow> string \<Rightarrow> memory_manager \<Rightarrow> (session_info_rec \<times> memory_manager) res" where
  "session_info srv now session_id m =
     res_bind (get_messages srv now session_id m)
       (\<lambda>(messages, m'). Inr (\<lparr>info_session_id = session_id, turn_count = length messages div 2,
          message_count = length messages, info_window = window_size m',
          info_backend = mm_backend m'\<rparr>, m'))"

section \<open>The contract of a backend\<close>

type_synonym turn = "string \<times> string \<times> string"

text \<open>What a session's history is after a sequence of turns (session, question, answer).\<close>

fun replay :: "int \<Rightarrow> string \<Rightarrow> message list \<Rightarrow> turn list \<Rightarrow> message list" where
  "replay window sid h [] = h"
| "replay window sid h ((s, u, a) # ts) =
     replay window sid
       (if s = sid then trim_messages window (h @ [HumanMessage u, AIMessage a]) else h) ts"

locale session_backend =
  fixes window :: int
    and ok :: "'s \<Rightarrow> bool"
    and turn :: "'s \<Rightarrow> string \<Rightarrow> string \<Rightarrow> string \<Rightarrow> 's"
    and history :: "'s \<Rightarrow> string \<Rightarrow> message list"
  assumes turn_ok: "ok s \<Longrightarrow> ok (turn s sid u a)"
    and history_same: "ok s \<Longrightarrow> history (turn s sid u a) sid
          = trim_messages window (history s sid @ [HumanMessage u, AIMessage a])"
    and history_other: "ok s \<Longrightarrow> sid' \<noteq> sid \<Longrightarrow> history (turn s sid u a) sid' = history s sid'"
begin

definition run :: "'s \<Rightarrow> turn list \<Rightarrow> 's" where
  "run = foldl (\<lambda>s (sid, u, a). turn s sid u a)"

lemma run_history:
  "ok s \<Longrightarrow> ok (run s ts) \<and> history (run s ts) sid = replay window sid (history s sid) ts"
proof (induction ts arbitrary: s)
  case Nil
  then show ?case by (simp add: run_def)
next
  case (Cons t ts)
  obtain sid' u a where t: "t = (sid', u, a)" by (cases t)
  from Cons.prems have "ok (turn s sid' u a)" by (rule turn_ok)
  from Cons.IH [OF this] Cons.prems t show ?case
    by (auto simp: run_def history_same history_other)
qed

end

section \<open>Trimming\<close>

lemma trim_window:
  "0 < window \<Longrightarrow> trim_messages window h = drop (length h - nat (2 * window)) h"
  by (auto simp: trim_messages_def Let_def py_slice_from_def slice_pos_def nat_diff_distrib'
      mult.commute)

lemma trim_zero: "trim_messages 0 h = h"
  by (simp add: trim_messages_def py_slice_from_def slice_pos_def)

lemma trim_length: "0 < window \<Longrightarrow> length (trim_messages window h) \<le> nat (2 * window)"
  by (simp add: trim_window)

lemma ltrim_trim:
  assumes "length h \<ge> 2"
  shows "ltrim (map f h) (- window * 2) (- 1) = map f (trim_messages window h)"
  using assms
  by (auto simp: ltrim_def trim_messages_def Let_def py_slice_from_def slice_pos_def drop_map
      min_def max_def)

text \<open>The messages of a session in a sequence of turns.\<close>

definition transcript :: "string \<Rightarrow> turn list \<Rightarrow> message list" where
  "transcript sid ts =
     concat (map (\<lambda>(s, u, a). if s = sid then [HumanMessage u, AIMessage a] else []) ts)"

lemma drop_append_lastn:
  "drop (length (drop (length xs - n) xs @ ys) - n) (drop (length xs - n) xs @ ys)
     = drop (length (xs @ ys) - n) (xs @ ys)"
  by (cases "n \<le> length xs") (auto simp: add.commute)

lemma replay_transcript:
  "0 < window \<Longrightarrow> replay window sid (drop (length h - nat (2 * window)) h) ts
     = drop (length (h @ transcript sid ts) - nat (2 * window)) (h @ transcript sid ts)"
proof (induction ts arbitrary: h)
  case Nil
  then show ?case by (simp add: transcript_def)
next
  case (Cons t ts)
  obtain s u a where t: "t = (s, u, a)" by (cases t)
  show ?case
  proof (cases "s = sid")
    case True
    let ?m = "[HumanMessage u, AIMessage a]"
    have "trim_messages window (drop (length h - nat (2 * window)) h @ ?m)
        = drop (length (h @ ?m) - nat (2 * window)) (h @ ?m)"
      unfolding trim_window [OF Cons.prems] by (rule drop_append_lastn)
    then show ?thesis
      using Cons.IH [OF Cons.prems, of "h @ ?m"] t True by (simp add: transcript_def)
  next
    case False
    with Cons t show ?thesis by (simp add: transcript_def)
  qed
qed

lemma replay_nil:
  "0 < window \<Longrightarrow> replay window sid [] ts
     = drop (length (transcript sid ts) - nat (2 * window)) (transcript sid ts)"
  using replay_transcript [of window sid "[]" ts] by simp

section \<open>The two backends meet the contract\<close>

definition mem_history :: "(string \<times> message list) list \<Rightarrow> string \<Rightarrow> message list" where
  "mem_history hs sid = fst (get_history sid hs)"

lemma mem_history_alt: "mem_history hs sid = (case map_of hs sid of None \<Rightarrow> [] | Some h \<Rightarrow> h)"
  by (simp add: mem_history_def get_history_def split: option.splits)

lemma mem_turn_map:
  "map_of (add_turn_memory window sid u a hs) =
     (map_of hs)(sid \<mapsto> trim_messages window (mem_history hs sid @ [HumanMessage u, AIMessage a]))"
  by (auto simp: add_turn_memory_def get_history_def mem_history_def Let_def split: option.splits)

interpretation in_process: session_backend window "\<lambda>_. True"
  "\<lambda>hs sid u a. add_turn_memory window sid u a hs" mem_history for window
  by unfold_locales (simp_all add: mem_history_alt mem_turn_map)

definition redis_turn :: "int \<Rightarrow> int \<Rightarrow> string \<Rightarrow> rat \<Rightarrow> redis_server \<Rightarrow> string \<Rightarrow> string \<Rightarrow> string
   \<Rightarrow> redis_server" where
  "redis_turn window ttl pfx now srv sid u a =
     (case add_turn_redis window ttl srv now (pfx @ sid) u a of Inr srv' \<Rightarrow> srv' | Inl _ \<Rightarrow> srv)"

definition redis_history :: "string \<Rightarrow> rat \<Rightarrow> redis_server \<Rightarrow> string \<Rightarrow> message list" where
  "redis_history pfx now srv sid =
     (case res_bind (lrange_all srv now (pfx @ sid)) load_messages of Inr ms \<Rightarrow> ms | Inl _ \<Rightarrow> [])"

text \<open>The server answers and holds only message lists under the session keys.\<close>

definition redis_ok :: "int \<Rightarrow> string \<Rightarrow> rat \<Rightarrow> redis_server \<Rightarrow> bool" where
  "redis_ok ttl pfx now srv \<longleftrightarrow> 0 < ttl \<and> srv_up srv
     \<and> (\<forall>sid. live (srv_data srv) now (pfx @ sid) = None
          \<or> (\<exists>ms. live (srv_data srv) now (pfx @ sid) = Some (RList (map dump_message ms))))"

lemma load_dump_message [simp]: "load_message (dump_message msg) = Inr msg"
  by (cases msg) (simp_all add: load_message_def dump_message_def json_get_def)

lemma load_dump_messages [simp]: "load_messages (map dump_message ms) = Inr ms"
  by (induction ms) auto

lemma redis_history_live:
  "srv_up srv \<Longrightarrow> redis_history pfx now srv sid = (case live (srv_data srv) now (pfx @ sid) of
     Some (RList js) \<Rightarrow> (case load_messages js of Inr ms \<Rightarrow> ms | Inl _ \<Rightarrow> []) | _ \<Rightarrow> [])"
  by (simp add: redis_history_def lrange_all_def split: option.splits rval.splits)

lemma redis_ok_cases:
  assumes "redis_ok ttl pfx now srv"
  obtains (absent) "live (srv_data srv) now (pfx @ sid) = None" "redis_history pfx now srv sid = []"
  | (present) "live (srv_data srv) now (pfx @ sid)
      = Some (RList (map dump_message (redis_history pfx now srv sid)))"
proof -
  from assms have up: "srv_up srv" by (simp add: redis_ok_def)
  from assms consider "live (srv_data srv) now (pfx @ sid) = None"
    | ms where "live (srv_data srv) now (pfx @ sid) = Some (RList (map dump_message ms))"
    unfolding redis_ok_def by meson
  then show thesis
    by cases (use up that in \<open>auto simp: redis_history_live\<close>)
qed

lemma add_turn_redis_eq:
  assumes "redis_ok ttl pfx now srv"
  shows "add_turn_redis window ttl srv now (pfx @ sid) u a =
     Inr (srv\<lparr>srv_data := (srv_data srv)(pfx @ sid :=
       (let h = trim_messages window (redis_history pfx now srv sid @ [HumanMessage u, AIMessage a])
        in if h = [] then None
           else Some (RList (map dump_message h), Some (now + of_int ttl))))\<rparr>)"
proof -
  let ?h = "redis_history pfx now srv sid @ [HumanMessage u, AIMessage a]"
  have t: "ltrim (map dump_message ?h) (- window * 2) (- 1)
      = map dump_message (trim_messages window ?h)"
    by (rule ltrim_trim) simp
  from assms have "srv_up srv" "0 < ttl" by (simp_all add: redis_ok_def)
  with t assms show ?thesis
    by (cases rule: redis_ok_cases [OF assms, of sid])
      (simp_all add: add_turn_redis_def Let_def)
qed

lemma live_fun_upd:
  "live (d(k := x)) now k' = (if k' = k then (case x of None \<Rightarrow> None | Some (v, None) \<Rightarrow> Some v
     | Some (v, Some e) \<Rightarrow> if now < e then Some v else None) else live d now k')"
  by (simp add: live_def)

lemma redis_turn_live:
  assumes "redis_ok ttl pfx now srv"
  shows "live (srv_data (redis_turn window ttl pfx now srv sid u a)) now (pfx @ sid') =
     (if sid' = sid
      then (let h = trim_messages window (redis_history pfx now srv sid @ [HumanMessage u, AIMessage a])
            in if h = [] then None else Some (RList (map dump_message h)))
      else live (srv_data srv) now (pfx @ sid'))"
proof -
  from assms have "0 < ttl" by (simp add: redis_ok_def)
  with assms show ?thesis
    by (simp add: redis_turn_def add_turn_redis_eq live_fun_upd Let_def)
qed

lemma redis_turn_up [simp]: "redis_ok ttl pfx now srv \<Longrightarrow>
    srv_up (redis_turn window ttl pfx now srv sid u a) = srv_up srv"
  by (simp add: redis_turn_def add_turn_redis_eq)

lemma redis_turn_ok:
  assumes "redis_ok ttl pfx now srv"
  shows "redis_ok ttl pfx now (redis_turn window ttl pfx now srv sid u a)"
proof -
  from assms have "\<forall>sid. live (srv_data srv) now (pfx @ sid) = None
      \<or> (\<exists>ms. live (srv_data srv) now (pfx @ sid) = Some (RList (map dump_message ms)))"
    by (simp add: redis_ok_def)
  then show ?thesis
    using assms unfolding redis_ok_def [of _ _ _ "redis_turn window ttl pfx now srv sid u a"]
    by (simp add: redis_turn_live Let_def) (auto simp: redis_ok_def)
qed

lemma redis_turn_history:
  assumes "redis_ok ttl pfx now srv"
  shows "redis_history pfx now (redis_turn window ttl pfx now srv sid u a) sid' =
     (if sid' = sid
      then trim_messages window (redis_history pfx now srv sid @ [HumanMessage u, AIMessage a])
      else redis_history pfx now srv sid')"
proof -
  from assms have "srv_up srv" by (simp add: redis_ok_def)
  with assms show ?thesis
    by (simp add: redis_history_live [of "redis_turn window ttl pfx now srv sid u a"]
        redis_turn_live redis_history_live [of srv _ _ sid'] Let_def)
qed

interpretation shared: session_backend window "redis_ok ttl pfx now" "redis_turn window ttl pfx now"
  "redis_history pfx now" for window ttl pfx now
  by unfold_locales (simp_all add: redis_turn_ok redis_turn_history)

section \<open>The manager over its backends\<close>

fun add_turns :: "redis_server \<Rightarrow> rat \<Rightarrow> turn list \<Rightarrow> memory_manager
   \<Rightarrow> (redis_server \<times> memory_manager) res" where
  "add_turns srv now [] m = Inr (srv, m)"
| "add_turns srv now ((sid, u, a) # ts) m =
     res_bind (add_turn srv now sid u a m) (\<lambda>(srv', m'). add_turns srv' now ts m')"

lemma add_turns_memory:
  "mm_backend m = ''memory'' \<Longrightarrow> add_turns srv now ts m =
     Inr (srv, m\<lparr>histories := in_process.run (window_size m) (histories m) ts\<rparr>)"
proof (induction ts arbitrary: m)
  case Nil
  then show ?case by (simp add: in_process.run_def)
next
  case (Cons t ts)
  obtain sid u a where t: "t = (sid, u, a)" by (cases t)
  from Cons t show ?case by (simp add: add_turn_def mm_client_def in_process.run_def)
qed

lemma add_turns_redis:
  "mm_backend m \<noteq> ''memory'' \<Longrightarrow> mm_checked m \<Longrightarrow> mm_redis m \<Longrightarrow>
   redis_ok (mm_ttl m) (mm_prefix m) now srv \<Longrightarrow>
     add_turns srv now ts m = Inr (shared.run (window_size m) (mm_ttl m) (mm_prefix m) now srv ts, m)"
proof (induction ts arbitrary: srv)
  case Nil
  then show ?case by (simp add: shared.run_def)
next
  case (Cons t ts)
  obtain sid u a where t: "t = (sid, u, a)" by (cases t)
  from Cons.prems obtain srv' where
    s: "add_turn_redis (window_size m) (mm_ttl m) srv now (mm_prefix m @ sid) u a = Inr srv'"
    "srv' = redis_turn (window_size m) (mm_ttl m) (mm_prefix m) now srv sid u a"
    by (simp add: redis_turn_def add_turn_redis_eq)
  with Cons.prems have "redis_ok (mm_ttl m) (mm_prefix m) now srv'"
    by (simp add: redis_turn_ok)
  with Cons s t show ?case
    by (simp add: add_turn_def mm_client_def mm_key_def shared.run_def)
qed

lemma get_messages_memory:
  "mm_backend m = ''memory'' \<Longrightarrow>
     \<exists>m'. get_messages srv now sid m = Inr (mem_history (histories m) sid, m')"
  by (simp add: get_messages_def mm_client_def mem_history_def split: prod.splits)

lemma get_messages_redis:
  assumes "mm_backend m \<noteq> ''memory''" and "mm_checked m" and "mm_redis m"
    and "redis_ok (mm_ttl m) (mm_prefix m) now srv"
  shows "get_messages srv now sid m = Inr (redis_history (mm_prefix m) now srv sid, m)"
proof -
  from assms(4) have "srv_up srv" by (simp add: redis_ok_def)
  with assms show ?thesis
    by (cases rule: redis_ok_cases [OF assms(4), of sid])
      (simp_all add: get_messages_def mm_client_def lrange_all_def mm_key_def)
qed

section \<open>Properties\<close>





text \<open>The rolling time to live is where the backends differ.  A Redis session is
  readable until its time to live after the last turn and empty from then on; the
  in-process history of the same turn never expires.\<close>

theorem session_ttl:
  assumes "redis_ok (mm_ttl m) (mm_prefix m) now srv"
    and "mm_backend m \<noteq> ''memory''" and "mm_checked m" and "mm_redis m"
  shows "\<exists>srv'. add_turn srv now sid u a m = Inr (srv', m)
     \<and> get_messages srv' now' sid m
         = Inr (if now' < now + of_int (mm_ttl m)
                then trim_messages (window_size m)
                       (redis_history (mm_prefix m) now srv sid @ [HumanMessage u, AIMessage a])
                else [], m)"
proof -
  let ?h = "trim_messages (window_size m)
    (redis_history (mm_prefix m) now srv sid @ [HumanMessage u, AIMessage a])"
  have "srv_up srv" using assms by (simp add: redis_ok_def)
  moreover note add_turn_redis_eq [OF assms(1), of "window_size m" sid u a]
  ultimately show ?thesis
    using assms(2-4)
    by (cases "?h = []")
      (simp_all add: add_turn_def get_messages_def mm_client_def lrange_all_def mm_key_def
        live_fun_upd Let_def)
qed

theorem session_ttl_witness:
  "\<exists>srv'. add_turn empty_server 0 ''s'' ''u'' ''a''
       ((new_manager 1 60 ''p:'' ''redis'')\<lparr>mm_checked := True, mm_redis := True\<rparr>)
       = Inr (srv', (new_manager 1 60 ''p:'' ''redis'')\<lparr>mm_checked := True, mm_redis := True\<rparr>)
     \<and> get_messages srv' 60 ''s'' ((new_manager 1 60 ''p:'' ''redis'')\<lparr>mm_checked := True, mm_redis := True\<rparr>)
       = Inr ([], (new_manager 1 60 ''p:'' ''redis'')\<lparr>mm_checked := True, mm_redis := True\<rparr>)"
proof -
  have b: "py_lower ''redis'' = ''redis''" by code_simp
  let ?m = "(new_manager 1 60 ''p:'' ''redis'')\<lparr>mm_checked := True, mm_redis := True\<rparr>"
  have "redis_ok (mm_ttl ?m) (mm_prefix ?m) 0 empty_server"
    by (simp add: redis_ok_def empty_server_def live_def new_manager_def)
  from session_ttl [OF this, of "''s''" "''u''" "''a''" 60] show ?thesis
    by (simp add: new_manager_def b)
qed

end
