(* ===== verification/VespaClient.thy ===== *)
theory VespaClient
  imports JsonOps
begin

text \<open>
  \<open>agent/vespa_client.py\<close>: the query sent to Vespa and the mapping of its answer, and the
  best-effort feed and delete.  The engine is a parameter: \<open>post\<close> and \<open>del\<close> give the status
  of one document call or raise, \<open>http\<close> answers a query with JSON.  The index is the
  dictionary of the documents the engine holds.  \<open>loads\<close>, \<open>dumps\<close> stand for the \<open>json\<close>
  module, \<open>cosf\<close> for \<open>math.cos\<close>, \<open>render\<close> for \<open>str\<close> of other JSON values.
\<close>

section \<open>Documents\<close>

definition iter_json :: "json \<Rightarrow> json list res" where
  "iter_json j = (case j of
      JArr xs \<Rightarrow> Inr xs
    | JObj kvs \<Rightarrow> Inr (map (\<lambda>kv. JStr (fst kv)) kvs)
    | JStr s \<Rightarrow> Inr (map (\<lambda>c. JStr [c]) s)
    | _ \<Rightarrow> Inl TypeError)"

definition row_id :: "(json \<Rightarrow> string) \<Rightarrow> meta \<Rightarrow> string res" where
  "row_id render row = (case json_get row ''id'' of
      None \<Rightarrow> Inl (OtherError ''KeyError'') | Some j \<Rightarrow> Inr (py_str render j))"

definition to_doc_fields ::
  "(string \<Rightarrow> json res) \<Rightarrow> (json \<Rightarrow> string) \<Rightarrow> (json \<Rightarrow> string) \<Rightarrow> meta \<Rightarrow> meta res" where
  "to_doc_fields loads dumps render row =
     (let embedding = json_or (get_or row ''embedding'' JNull) (JArr []);
          embedding = (case embedding of JStr s \<Rightarrow> py_try (loads s) (JArr []) | e \<Rightarrow> e);
          metadata = json_or (get_or row ''metadata'' JNull) (JObj []);
          metadata = (case metadata of JStr s \<Rightarrow> JStr s | m \<Rightarrow> JStr (dumps m));
          text_field = (\<lambda>k d. json_or (get_or row k (JStr d)) (JStr d))
      in res_bind (row_id render row) (\<lambda>cid.
         res_bind (py_int (json_or (get_or row ''chunk_index'' (JNum 0)) (JNum 0))) (\<lambda>idx.
         res_bind (iter_json embedding) (\<lambda>values.
           Inr [(''chunk_id'', JStr cid),
                (''document_id'', JStr (py_str render (get_or row ''document_id'' (JStr [])))),
                (''document_title'', text_field ''document_title'' []),
                (''document_source'', text_field ''document_source'' []),
                (''access_level'', text_field ''access_level'' ''public''),
                (''chunk_index'', JNum (of_int idx)),
                (''content'', text_field ''content'' []),
                (''embedding'', JObj [(''values'', JArr values)]),
                (''metadata'', metadata)]))))"

type_synonym vespa_index = "(string \<times> meta) list"

text \<open>The number fed and the index; a row without an id raises.\<close>

fun feed_rows ::
  "(string \<Rightarrow> json res) \<Rightarrow> (json \<Rightarrow> string) \<Rightarrow> (json \<Rightarrow> string) \<Rightarrow> (string \<Rightarrow> nat res) \<Rightarrow> meta list
   \<Rightarrow> nat \<Rightarrow> vespa_index \<Rightarrow> nat res \<times> vespa_index" where
  "feed_rows loads dumps render post [] fed ix = (Inr fed, ix)"
| "feed_rows loads dumps render post (row # rows) fed ix =
     (case row_id render row of
        Inl e \<Rightarrow> (Inl e, ix)
      | Inr cid \<Rightarrow>
          (case to_doc_fields loads dumps render row of
             Inl _ \<Rightarrow> feed_rows loads dumps render post rows fed ix
           | Inr flds \<Rightarrow>
               (case post cid of
                  Inl _ \<Rightarrow> feed_rows loads dumps render post rows fed ix
                | Inr status \<Rightarrow>
                    if status < 300
                    then feed_rows loads dumps render post rows (fed + 1) (dict_put cid flds ix)
                    else feed_rows loads dumps render post rows fed ix)))"

definition feed_chunks ::
  "bool \<Rightarrow> (string \<Rightarrow> json res) \<Rightarrow> (json \<Rightarrow> string) \<Rightarrow> (json \<Rightarrow> string) \<Rightarrow> (string \<Rightarrow> nat res)
   \<Rightarrow> meta list \<Rightarrow> vespa_index \<Rightarrow> nat res \<times> vespa_index" where
  "feed_chunks enabled loads dumps render post rows ix =
     (if \<not> (enabled \<and> rows \<noteq> []) then (Inr 0, ix)
      else feed_rows loads dumps render post rows 0 ix)"

text \<open>\<open>del\<close> raises when the document call fails; the failure is logged.\<close>

definition vespa_delete_chunks ::
  "bool \<Rightarrow> (string \<Rightarrow> unit res) \<Rightarrow> string list \<Rightarrow> vespa_index \<Rightarrow> vespa_index" where
  "vespa_delete_chunks enabled del chunk_ids ix =
     (if \<not> enabled then ix
      else filter (\<lambda>d. \<not> (fst d \<in> set chunk_ids \<and> \<not> isl (del (fst d)))) ix)"

text \<open>
  A selection delete answers page by page: each answer removes a batch and may carry a
  continuation.  \<open>pages\<close> is the sequence of answers: the batch and whether to go on, or an
  exception, which ends the loop.
\<close>

fun delete_pages :: "(string list \<times> bool) res list \<Rightarrow> vespa_index \<Rightarrow> vespa_index" where
  "delete_pages [] ix = ix"
| "delete_pages (Inl _ # ps) ix = ix"
| "delete_pages (Inr (batch, again) # ps) ix =
     (let ix' = filter (\<lambda>d. fst d \<notin> set batch) ix
      in if again then delete_pages ps ix' else ix')"

definition delete_by_document ::
  "bool \<Rightarrow> (string \<Rightarrow> (string list \<times> bool) res list) \<Rightarrow> string \<Rightarrow> vespa_index \<Rightarrow> vespa_index" where
  "delete_by_document enabled pages did ix =
     (if \<not> enabled then ix else delete_pages (pages did) ix)"

section \<open>Queries\<close>

record vespa_query =
  vq_yql :: string
  vq_userquery :: string
  vq_embedding :: "rat list"
  vq_profile :: string
  vq_hits :: int

definition access_clause :: "string option \<Rightarrow> string" where
  "access_clause user_id =
     (if truthy user_id then []
      else '' and access_level contains '' @ [CHR 0x22] @ ''public'' @ [CHR 0x22])"

definition vespa_body :: "string \<Rightarrow> rat list \<Rightarrow> int \<Rightarrow> string option \<Rightarrow> vespa_query" where
  "vespa_body query_text embedding limit user_id =
     \<lparr>vq_yql = ''select * from chunk where (({targetHits:'' @ str_int (max limit 100)
        @ ''}nearestNeighbor(embedding, q)) or userInput(@userquery))'' @ access_clause user_id,
      vq_userquery = query_text, vq_embedding = embedding, vq_profile = ''hybrid'',
      vq_hits = limit\<rparr>"

definition norm_features :: "json \<Rightarrow> meta res" where
  "norm_features mf =
     (if \<not> json_truthy mf then Inr []
      else res_bind (as_obj mf)
        (\<lambda>d. Inr (dict_of (map (\<lambda>(k, v). (filter (\<lambda>c. c \<noteq> CHR '' '') k, v)) d))))"

text \<open>A missing feature and a null one are both \<open>None\<close>.\<close>

definition hit_cosine :: "(rat \<Rightarrow> rat) \<Rightarrow> meta \<Rightarrow> rat res" where
  "hit_cosine cosf mf =
     (case get_or mf ''distance(field,embedding)'' JNull of
        JNull \<Rightarrow> float_or_0 (get_or mf ''closeness(field,embedding)'' (JNum 0))
      | d \<Rightarrow> (case py_float d of Inr x \<Rightarrow> Inr (cosf x) | Inl _ \<Rightarrow> Inr 0))"

definition hit_meta :: "(string \<Rightarrow> json res) \<Rightarrow> meta \<Rightarrow> json" where
  "hit_meta loads flds =
     (case get_or flds ''metadata'' (JObj []) of
        JStr s \<Rightarrow> py_try (loads s) (JObj [])
      | m \<Rightarrow> m)"

definition map_hit :: "(string \<Rightarrow> json res) \<Rightarrow> (rat \<Rightarrow> rat) \<Rightarrow> json \<Rightarrow> meta res" where
  "map_hit loads cosf hit =
     res_bind (as_obj hit) (\<lambda>h.
     res_bind (as_obj (json_or (get_or h ''fields'' (JObj [])) (JObj []))) (\<lambda>flds.
     res_bind (norm_features (get_or flds ''matchfeatures'' (JObj []))) (\<lambda>mf.
     res_bind (hit_cosine cosf mf) (\<lambda>cosine.
     res_bind (float_or_0 (get_or h ''relevance'' (JNum 0))) (\<lambda>relevance.
     res_bind (float_or_0 (get_or mf ''bm25(content)'' (JNum 0))) (\<lambda>bm25.
       Inr [(''chunk_id'', get_or flds ''chunk_id'' (JStr [])),
            (''document_id'', get_or flds ''document_id'' (JStr [])),
            (''content'', get_or flds ''content'' (JStr [])),
            (''similarity'', JNum cosine), (''cosine_similarity'', JNum cosine),
            (''combined_score'', JNum relevance), (''bm25_score'', JNum bm25),
            (''document_title'', get_or flds ''document_title'' (JStr [])),
            (''document_source'', get_or flds ''document_source'' (JStr [])),
            (''metadata'', hit_meta loads flds)]))))))"

definition vespa_search ::
  "bool \<Rightarrow> (vespa_query \<Rightarrow> json res) \<Rightarrow> (string \<Rightarrow> json res) \<Rightarrow> (rat \<Rightarrow> rat) \<Rightarrow> string \<Rightarrow> rat list
   \<Rightarrow> int \<Rightarrow> string option \<Rightarrow> meta list res" where
  "vespa_search enabled http loads cosf query_text embedding limit user_id =
     (if \<not> enabled then Inl (RuntimeError ''Vespa disabled'')
      else
        res_bind (http (vespa_body query_text embedding limit user_id)) (\<lambda>data.
        res_bind (as_obj data) (\<lambda>d.
        res_bind (as_obj (json_or (get_or d ''root'' (JObj [])) (JObj []))) (\<lambda>root.
        res_bind (iter_json (json_or (get_or root ''children'' (JArr [])) (JArr []))) (\<lambda>hits.
          map_res (map_hit loads cosf) hits)))))"

definition vespa_healthy :: "bool \<Rightarrow> nat res \<Rightarrow> bool" where
  "vespa_healthy enabled status = (enabled \<and> status = Inr 200)"

section \<open>Lemmas\<close>

lemma map_hit_fields:
  assumes "map_hit loads cosf hit = Inr r"
  shows "\<exists>cosine. get_or r ''cosine_similarity'' v = JNum cosine \<and> get_or r ''similarity'' w = JNum cosine"
  using assms by (auto simp: map_hit_def get_or_def json_get_def)

text \<open>One row: nothing is fed, or one more document is in the index.\<close>

lemma feed_rows_step:
  obtains (failed) e where "feed_rows loads dumps render post (row # rows) fed ix = (Inl e, ix)"
  | (skipped) "feed_rows loads dumps render post (row # rows) fed ix
      = feed_rows loads dumps render post rows fed ix"
  | (fed) cid flds where "feed_rows loads dumps render post (row # rows) fed ix
      = feed_rows loads dumps render post rows (fed + 1) (dict_put cid flds ix)"
proof (cases "row_id render row")
  case (Inl e)
  then show thesis by (intro failed) simp
next
  case cid: (Inr cid)
  show thesis
  proof (cases "to_doc_fields loads dumps render row")
    case (Inl e)
    with cid show thesis by (intro skipped) simp
  next
    case flds: (Inr flds)
    show thesis
    proof (cases "post cid")
      case (Inl e)
      with cid flds show thesis by (intro skipped) simp
    next
      case (Inr status)
      show thesis
      proof (cases "status < 300")
        case True
        with cid flds Inr show thesis by (intro fed) simp
      next
        case False
        with cid flds Inr show thesis by (intro skipped) simp
      qed
    qed
  qed
qed

lemma feed_rows_count:
  "feed_rows loads dumps render post rows fed ix = (Inr n, ix') \<Longrightarrow>
     fed \<le> n \<and> n \<le> fed + length rows \<and> fst ` set ix \<subseteq> fst ` set ix'"
proof (induction rows arbitrary: fed ix)
  case Nil
  then show ?case by simp
next
  case (Cons row rows)
  show ?case
  proof (cases rule: feed_rows_step [of loads dumps render post row rows fed ix])
    case (failed e)
    with Cons.prems show ?thesis by simp
  next
    case skipped
    with Cons.IH [of fed ix] Cons.prems show ?thesis by simp
  next
    case (fed cid flds)
    then have r: "feed_rows loads dumps render post rows (fed + 1) (dict_put cid flds ix) = (Inr n, ix')"
      using Cons.prems by simp
    have "fst ` set ix \<subseteq> fst ` set (dict_put cid flds ix)" by auto
    with Cons.IH [OF r] show ?thesis by auto
  qed
qed

lemma access_clause_anonymous:
  "\<not> truthy user_id \<Longrightarrow> suffix (access_clause None) (vq_yql (vespa_body q e l user_id))"
proof -
  assume "\<not> truthy user_id"
  then have "vq_yql (vespa_body q e l user_id) = (''select * from chunk where (({targetHits:''
      @ str_int (max l 100) @ ''}nearestNeighbor(embedding, q)) or userInput(@userquery))'')
      @ access_clause None"
    by (simp add: vespa_body_def access_clause_def truthy_def)
  then show ?thesis by (rule suffixI)
qed

end
