(* ===== verification/Reranker.thy ===== *)
theory Reranker
  imports JsonOps
begin

text \<open>
  \<open>agent/reranker.py\<close>: the rerank step.  The HTTP call to the provider is the parameter
  \<open>voyage\<close>; the chunk objects are shared between the pool and the result, so a score
  assigned twice to one chunk is the last one at both places.
\<close>

record rerank_config =
  rr_enabled :: bool
  rr_provider :: string
  rr_candidates :: int
  rr_key :: string

definition default_rerank_config :: rerank_config where
  "default_rerank_config =
     \<lparr>rr_enabled = True, rr_provider = ''voyage'', rr_candidates = 50, rr_key = []\<rparr>"

definition rerank_enabled :: "rerank_config \<Rightarrow> bool" where
  "rerank_enabled cfg \<longleftrightarrow>
     rr_enabled cfg \<and> rr_provider cfg = ''voyage'' \<and> py_strip (rr_key cfg) \<noteq> []"

definition candidate_pool_size :: "rerank_config \<Rightarrow> int \<Rightarrow> int" where
  "candidate_pool_size cfg limit =
     (if \<not> rerank_enabled cfg then limit else max limit (rr_candidates cfg))"

text \<open>The items of the answer: those with an index, with their scores.\<close>

definition rank_item :: "json \<Rightarrow> (int \<times> rat) list res" where
  "rank_item j =
     res_bind (as_obj j) (\<lambda>item.
     res_bind (float_or_0 (get_or item ''relevance_score'' (JNum 0))) (\<lambda>s.
       case get_or item ''index'' JNull of
         JNull \<Rightarrow> Inr []
       | idx \<Rightarrow> res_bind (py_int idx) (\<lambda>i. Inr [(i, s)])))"

definition voyage_rerank ::
  "(string \<Rightarrow> string list \<Rightarrow> int \<Rightarrow> json res) \<Rightarrow> string \<Rightarrow> string list \<Rightarrow> int \<Rightarrow> (int \<times> rat) list res" where
  "voyage_rerank voyage query docs top_n =
     res_bind (voyage query docs top_n) (\<lambda>data.
     res_bind (as_obj data) (\<lambda>d.
     res_bind (as_arr (get_or d ''data'' (JArr []))) (\<lambda>items.
     res_bind (map_res rank_item items) (\<lambda>rs. Inr (concat rs)))))"

text \<open>
  The loop over the ranking: assign the clamped score to the shared chunk, note its
  position; positions out of range are passed over.
\<close>

fun assign_scores :: "(int \<times> rat) list \<Rightarrow> ChunkResult list \<Rightarrow> ChunkResult list \<times> nat list" where
  "assign_scores [] chunks = (chunks, [])"
| "assign_scores ((i, s) # ranked) chunks =
     (if 0 \<le> i \<and> i < int (length chunks)
      then let k = nat i;
               (chunks', ks) = assign_scores ranked (chunks[k := (chunks ! k)\<lparr>score := validate_score s\<rparr>])
           in (chunks', k # ks)
      else assign_scores ranked chunks)"

definition rerank ::
  "rerank_config \<Rightarrow> (string \<Rightarrow> string list \<Rightarrow> int \<Rightarrow> json res) \<Rightarrow> string \<Rightarrow> ChunkResult list \<Rightarrow> int
   \<Rightarrow> ChunkResult list" where
  "rerank cfg voyage query chunks top_n =
     (if chunks = [] then []
      else let top_n = max 1 (min top_n (int (length chunks))) in
        if \<not> rerank_enabled cfg then take (nat top_n) chunks
        else (case voyage_rerank voyage query (map chunk_content chunks) top_n of
                Inl _ \<Rightarrow> take (nat top_n) chunks
              | Inr ranked \<Rightarrow>
                  if ranked = [] then take (nat top_n) chunks
                  else let (chunks', ks) = assign_scores ranked chunks
                       in if ks \<noteq> [] then take (nat top_n) (map ((!) chunks') ks)
                          else take (nat top_n) chunks'))"

section \<open>Lemmas\<close>

lemma assign_scores_length [simp]: "length (fst (assign_scores ranked chunks)) = length chunks"
  by (induction ranked chunks rule: assign_scores.induct) (auto simp: Let_def split: prod.splits)

lemma assign_scores_range:
  "\<forall>k\<in>set (snd (assign_scores ranked chunks)). k < length chunks"
  by (induction ranked chunks rule: assign_scores.induct) (auto simp: Let_def split: prod.splits)

text \<open>Only the score of a chunk changes, and an assigned score is within [0, 1].\<close>

definition same_but_score :: "ChunkResult \<Rightarrow> ChunkResult \<Rightarrow> bool" where
  "same_but_score c d \<longleftrightarrow> (\<exists>s. c = d\<lparr>score := s\<rparr>)"

lemma same_but_score_refl [simp]: "same_but_score c c"
  unfolding same_but_score_def by (rule exI [of _ "score c"]) simp

lemma same_but_score_trans: "same_but_score b c \<Longrightarrow> same_but_score c d \<Longrightarrow> same_but_score b d"
  by (auto simp: same_but_score_def)

lemma same_but_score_update [simp]: "same_but_score (c\<lparr>score := s\<rparr>) c"
  by (auto simp: same_but_score_def)

lemma same_but_score_fields: "same_but_score c d \<Longrightarrow>
    chunk_id c = chunk_id d \<and> chunk_content c = chunk_content d
    \<and> vector_similarity c = vector_similarity d \<and> document_id c = document_id d"
  by (auto simp: same_but_score_def)

lemma assign_scores_same:
  "k < length chunks \<Longrightarrow> same_but_score (fst (assign_scores ranked chunks) ! k) (chunks ! k)"
proof (induction ranked chunks rule: assign_scores.induct)
  case (1 chunks)
  then show ?case by simp
next
  case (2 i s ranked chunks)
  show ?case
  proof (cases "0 \<le> i \<and> i < int (length chunks)")
    case True
    let ?cs = "chunks[nat i := (chunks ! nat i)\<lparr>score := validate_score s\<rparr>]"
    have "same_but_score (fst (assign_scores ranked ?cs) ! k) (?cs ! k)"
      using 2 True by simp
    moreover have "same_but_score (?cs ! k) (chunks ! k)"
      using 2 True by (cases "k = nat i") auto
    ultimately show ?thesis
      using True same_but_score_trans by (auto simp: Let_def split: prod.splits)
  next
    case False
    with 2 show ?thesis by auto
  qed
qed

lemma assign_scores_keeps:
  "k < length chunks \<Longrightarrow> 0 \<le> score (chunks ! k) \<and> score (chunks ! k) \<le> 1 \<Longrightarrow>
     0 \<le> score (fst (assign_scores ranked chunks) ! k) \<and> score (fst (assign_scores ranked chunks) ! k) \<le> 1"
proof (induction ranked chunks rule: assign_scores.induct)
  case (2 i s ranked chunks)
  show ?case
  proof (cases "0 \<le> i \<and> i < int (length chunks)")
    case True
    let ?cs = "chunks[nat i := (chunks ! nat i)\<lparr>score := validate_score s\<rparr>]"
    have "0 \<le> score (?cs ! k) \<and> score (?cs ! k) \<le> 1"
      using 2 True by (cases "k = nat i") auto
    with 2 True show ?thesis by (auto simp: Let_def split: prod.splits)
  next
    case False
    with 2 show ?thesis by auto
  qed
qed auto

lemma rerank_cases:
  obtains (order) "rerank cfg voyage query chunks top_n = []" "chunks = []"
  | (plain) chunks' where "chunks \<noteq> []"
      "rerank cfg voyage query chunks top_n
         = take (nat (max 1 (min top_n (int (length chunks))))) chunks'" "chunks' = chunks"
  | (ranked) ranked chunks' ks where "chunks \<noteq> []" "rerank_enabled cfg" "ks \<noteq> []"
      "assign_scores ranked chunks = (chunks', ks)"
      "rerank cfg voyage query chunks top_n
         = take (nat (max 1 (min top_n (int (length chunks))))) (map ((!) chunks') ks)"
proof (cases "chunks = []")
  case True
  then show thesis by (intro order) (simp_all add: rerank_def)
next
  case False
  let ?n = "max 1 (min top_n (int (length chunks)))"
  show thesis
  proof (cases "rerank_enabled cfg")
    case off: False
    with False show thesis by (intro plain) (simp_all add: rerank_def Let_def)
  next
    case on: True
    show thesis
    proof (cases "voyage_rerank voyage query (map chunk_content chunks) ?n")
      case (Inl e)
      with False on show thesis by (intro plain) (simp_all add: rerank_def Let_def)
    next
      case (Inr r)
      obtain chunks' ks where a: "assign_scores r chunks = (chunks', ks)" by (cases "assign_scores r chunks")
      show thesis
      proof (cases "ks = []")
        case True
        have "chunks' = chunks"
          using a True by (induction r chunks arbitrary: chunks' rule: assign_scores.induct)
            (auto simp: Let_def split: prod.splits if_splits)
        with False on Inr a True show thesis by (intro plain) (simp_all add: rerank_def Let_def)
      next
        case ne: False
        then have "r \<noteq> []" using a by auto
        with False on Inr a ne show thesis by (intro ranked) (simp_all add: rerank_def Let_def)
      qed
    qed
  qed
qed

end
