(* ===== verification/GraphSearch.thy ===== *)
theory GraphSearch
  imports PyRegex JsonOps
begin

text \<open>
  \<open>agent/graph_utils.py\<close>: the full-text search of the knowledge graph with its fallback
  index.  The Neo4j session is the parameter \<open>run\<close>: from the index name and the query
  text to an exception or the records.
\<close>

section \<open>The query text\<close>

text \<open>\<open>[+\-!(){}\[\]^"~*?:\\/]\<close>\<close>

definition LUCENE_OPS :: string where
  "LUCENE_OPS = ''+-!(){}[]^'' @ [CHR 0x22] @ ''~*?:'' @ [CHR 0x5C] @ ''/''"

definition lucene_sanitize :: "string \<Rightarrow> string" where
  "lucene_sanitize query =
     (let cleaned = re_sub (Cls (\<lambda>c. c \<in> set LUCENE_OPS)) '' '' query
      in py_strip (re_sub (Plus Space) '' '' cleaned))"

section \<open>Driver state\<close>

text \<open>
  \<open>initialize_graph\<close> leaves the driver unset without a URI or when it cannot be made
  (\<open>driver_ok\<close>); a failed check never raises.
\<close>

definition initialize_graph :: "string option \<Rightarrow> bool \<Rightarrow> bool \<Rightarrow> bool" where
  "initialize_graph uri driver_ok driver = (if \<not> truthy uri then driver else driver_ok \<or> driver)"

definition close_graph :: "bool \<Rightarrow> bool" where
  "close_graph driver = False"

definition test_graph_connection :: "bool \<Rightarrow> unit res \<Rightarrow> bool" where
  "test_graph_connection driver ping \<longleftrightarrow> driver \<and> \<not> isl ping"

section \<open>Search\<close>

definition search_knowledge_graph ::
  "bool \<Rightarrow> (string \<Rightarrow> string \<Rightarrow> meta list res) \<Rightarrow> string \<Rightarrow> meta list" where
  "search_knowledge_graph driver run query =
     (if \<not> driver then []
      else let safe = lucene_sanitize query in
        if safe = [] then []
        else py_try (res_bind (run ''factIndex'' safe)
               (\<lambda>records. if records \<noteq> [] then Inr records else run ''chunkIndex'' safe)) [])"

section \<open>Lemmas\<close>

lemma lucene_sanitize_eq:
  "lucene_sanitize q = py_strip (squeeze py_space '' ''
     (concat (map (\<lambda>c. if c \<in> set LUCENE_OPS then '' '' else [c]) q)))"
  by (simp add: lucene_sanitize_def re_sub_Cls re_sub_Plus_Cls)

end
