(* ===== verification/Database.thy ===== *)
theory Database
  imports Models
begin

text \<open>
  \<open>agent/db_utils.py\<close>: the requests the program sends to Supabase, on a database that
  is a value: its tables as lists of rows, and the names of the requests that fail at
  the moment (a lost client makes every request fail).  \<open>uuid4\<close> is the parameter \<open>ids\<close>,
  a stream read at the database's counter.  The search functions are remote procedures,
  given as parameters; the calls to Neo4j and Vespa of \<open>delete_document\<close> are arguments.
\<close>

section \<open>Tables\<close>

record doc_row =
  doc_id :: string
  doc_title :: string
  doc_source :: string
  doc_content :: string
  doc_hash :: string
  doc_meta :: meta
  doc_access :: string
  doc_created :: nat

record chunk_row =
  ck_id :: string
  ck_doc :: string
  ck_content :: string
  ck_hash :: "string option"
  ck_embedding :: "rat list option"
  ck_index :: int
  ck_tokens :: "int option"
  ck_meta :: meta

record msg_row =
  msg_id :: string
  msg_session :: string
  msg_role :: string
  msg_content :: string
  msg_meta :: meta

record pg =
  documents :: "doc_row list"
  chunk_rows :: "chunk_row list"
  session_rows :: "(string \<times> string option) list"
  messages :: "msg_row list"
  pg_faults :: "string list"
  pg_next :: nat

definition empty_pg :: pg where
  "empty_pg = \<lparr>documents = [], chunk_rows = [], session_rows = [], messages = [], pg_faults = [],
     pg_next = 0\<rparr>"

definition request :: "string \<Rightarrow> pg \<Rightarrow> unit res" where
  "request r db = (if r \<in> set (pg_faults db) then Inl (OtherError r) else Inr ())"

definition fresh_id :: "(nat \<Rightarrow> string) \<Rightarrow> pg \<Rightarrow> string \<times> pg" where
  "fresh_id ids db = (ids (pg_next db), db\<lparr>pg_next := pg_next db + 1\<rparr>)"

section \<open>Client\<close>

definition initialize_database :: "string option \<Rightarrow> string option \<Rightarrow> bool res" where
  "initialize_database url key =
     (if \<not> truthy url \<or> \<not> truthy key
      then Inl (OtherError ''SUPABASE_URL and SUPABASE_ANON_KEY must be set.'') else Inr True)"

definition test_connection :: "bool \<Rightarrow> pg \<Rightarrow> bool" where
  "test_connection client db = (client \<and> \<not> isl (request ''documents.select'' db))"

section \<open>Messages\<close>

text \<open>An upsert on the primary key: an existing row gets the given user.\<close>

definition ensure_session :: "string \<Rightarrow> string option \<Rightarrow> pg \<Rightarrow> pg res" where
  "ensure_session session_id user_id db =
     res_bind (request ''sessions.upsert'' db)
       (\<lambda>_. Inr (db\<lparr>session_rows := dict_put session_id user_id (session_rows db)\<rparr>))"

text \<open>
  The insert fails without the session's row (the foreign key); the second request
  touches the session's timestamp only, and by then the message is stored.  The result
  pairs what the call returns or raises with the database it leaves.
\<close>

definition add_message ::
  "(nat \<Rightarrow> string) \<Rightarrow> string \<Rightarrow> string \<Rightarrow> string \<Rightarrow> meta \<Rightarrow> pg \<Rightarrow> string res \<times> pg" where
  "add_message ids session_id role content metadata db =
     (let (mid, db) = fresh_id ids db in
      case request ''messages.insert'' db of
        Inl e \<Rightarrow> (Inl e, db)
      | Inr _ \<Rightarrow>
          if map_of (session_rows db) session_id = None
          then (Inl (OtherError ''messages_session_id_fkey''), db)
          else let db' = db\<lparr>messages := messages db @
                 [\<lparr>msg_id = mid, msg_session = session_id, msg_role = role, msg_content = content,
                   msg_meta = metadata\<rparr>]\<rparr>
               in case request ''sessions.update'' db' of
                    Inl e \<Rightarrow> (Inl e, db') | Inr _ \<Rightarrow> (Inr mid, db'))"

section \<open>Search procedures\<close>

text \<open>Both swallow every error; \<open>result.data or []\<close> is the option.\<close>

definition rpc_rows :: "meta list option res \<Rightarrow> meta list" where
  "rpc_rows r = (case r of Inl _ \<Rightarrow> [] | Inr None \<Rightarrow> [] | Inr (Some rows) \<Rightarrow> rows)"

definition vector_search ::
  "(rat list \<Rightarrow> int \<Rightarrow> string option \<Rightarrow> meta list option res) \<Rightarrow> rat list \<Rightarrow> int \<Rightarrow> string option
   \<Rightarrow> meta list" where
  "vector_search match_chunks embedding limit user_id =
     rpc_rows (match_chunks embedding limit user_id)"

type_synonym hybrid_rpc =
  "string \<Rightarrow> rat list \<Rightarrow> int \<Rightarrow> rat \<Rightarrow> string option \<Rightarrow> meta list option res"

definition hybrid_search ::
  "hybrid_rpc \<Rightarrow> rat list \<Rightarrow> string \<Rightarrow> int \<Rightarrow> rat \<Rightarrow> string option \<Rightarrow> meta list" where
  "hybrid_search rpc embedding query_text limit text_weight user_id =
     rpc_rows (rpc query_text embedding limit text_weight user_id)"

section \<open>Documents\<close>

definition get_document_by_source :: "string \<Rightarrow> pg \<Rightarrow> doc_row option res" where
  "get_document_by_source source db =
     res_bind (request ''documents.select'' db)
       (\<lambda>_. Inr (find (\<lambda>d. doc_source d = source) (documents db)))"

text \<open>An update writes title, content, hash and metadata; an insert also the access level.\<close>

definition update_doc ::
  "string \<Rightarrow> string \<Rightarrow> string \<Rightarrow> string \<Rightarrow> meta \<Rightarrow> doc_row list \<Rightarrow> doc_row list" where
  "update_doc did title content content_hash metadata ds =
     map (\<lambda>d. if doc_id d = did
              then d\<lparr>doc_title := title, doc_content := content, doc_hash := content_hash,
                     doc_meta := metadata\<rparr>
              else d) ds"

definition upsert_document ::
  "(nat \<Rightarrow> string) \<Rightarrow> string \<Rightarrow> string \<Rightarrow> string \<Rightarrow> string \<Rightarrow> meta \<Rightarrow> string \<Rightarrow> pg
   \<Rightarrow> (string \<times> pg) res" where
  "upsert_document ids source title content content_hash metadata access_level db =
     res_bind (get_document_by_source source db) (\<lambda>existing.
       case existing of
         Some d \<Rightarrow>
           res_bind (request ''documents.update'' db) (\<lambda>_.
             Inr (doc_id d, db\<lparr>documents :=
               update_doc (doc_id d) title content content_hash metadata (documents db)\<rparr>))
       | None \<Rightarrow>
           (let (did, db) = fresh_id ids db in
            res_bind (request ''documents.insert'' db) (\<lambda>_.
              Inr (did, db\<lparr>documents := documents db @
                [\<lparr>doc_id = did, doc_title = title, doc_source = source, doc_content = content,
                  doc_hash = content_hash, doc_meta = metadata, doc_access = access_level,
                  doc_created = pg_next db\<rparr>]\<rparr>))))"

definition delete_document_chunks :: "string \<Rightarrow> pg \<Rightarrow> pg res" where
  "delete_document_chunks did db =
     res_bind (request ''chunks.delete'' db)
       (\<lambda>_. Inr (db\<lparr>chunk_rows := filter (\<lambda>c. ck_doc c \<noteq> did) (chunk_rows db)\<rparr>))"

definition delete_chunks_by_ids :: "string list \<Rightarrow> pg \<Rightarrow> pg res" where
  "delete_chunks_by_ids chunk_ids db =
     (if chunk_ids = [] then Inr db
      else res_bind (request ''chunks.delete'' db)
        (\<lambda>_. Inr (db\<lparr>chunk_rows := filter (\<lambda>c. ck_id c \<notin> set chunk_ids) (chunk_rows db)\<rparr>)))"

text \<open>
  A document chunk as the chunker and the embedder hand it on; the index, embedding and
  token count are attributes it may lack.
\<close>

record embedded_chunk =
  ec_content :: string
  ec_index :: "int option"
  ec_embedding :: "rat list option"
  ec_tokens :: "int option"
  ec_meta :: meta

fun chunk_rows_from ::
  "(string \<Rightarrow> string) \<Rightarrow> (nat \<Rightarrow> string) \<Rightarrow> string \<Rightarrow> nat \<Rightarrow> nat \<Rightarrow> embedded_chunk list
   \<Rightarrow> chunk_row list" where
  "chunk_rows_from sha ids did next idx [] = []"
| "chunk_rows_from sha ids did next idx (c # cs) =
     \<lparr>ck_id = ids next, ck_doc = did, ck_content = ec_content c, ck_hash = Some (sha (ec_content c)),
      ck_embedding = ec_embedding c,
      ck_index = (case ec_index c of None \<Rightarrow> int idx | Some i \<Rightarrow> i),
      ck_tokens = ec_tokens c, ck_meta = ec_meta c\<rparr>
     # chunk_rows_from sha ids did (next + 1) (idx + 1) cs"

definition save_chunks ::
  "(string \<Rightarrow> string) \<Rightarrow> (nat \<Rightarrow> string) \<Rightarrow> string \<Rightarrow> embedded_chunk list \<Rightarrow> pg
   \<Rightarrow> (chunk_row list \<times> pg) res" where
  "save_chunks sha ids did cs db =
     (if cs = [] then Inr ([], db)
      else let rows = chunk_rows_from sha ids did (pg_next db) 0 cs;
               db = db\<lparr>pg_next := pg_next db + length cs\<rparr>
           in res_bind (request ''chunks.insert'' db)
                (\<lambda>_. Inr (rows, db\<lparr>chunk_rows := chunk_rows db @ rows\<rparr>)))"

definition get_document :: "string \<Rightarrow> pg \<Rightarrow> doc_row option res" where
  "get_document did db =
     res_bind (request ''documents.select'' db)
       (\<lambda>_. Inr (find (\<lambda>d. doc_id d = did) (documents db)))"

definition chunk_count :: "pg \<Rightarrow> string \<Rightarrow> nat" where
  "chunk_count db did = length (filter (\<lambda>c. ck_doc c = did) (chunk_rows db))"

text \<open>
  Newest first; only \<open>None\<close> is anonymous here.  The page is \<open>range(offset, offset+limit-1)\<close>.
\<close>

definition list_documents :: "int \<Rightarrow> int \<Rightarrow> string option \<Rightarrow> pg \<Rightarrow> (doc_row \<times> nat) list res" where
  "list_documents limit offset user_id db =
     res_bind (request ''documents.select'' db) (\<lambda>_.
       let rows = (if user_id = None then filter (\<lambda>d. doc_access d = ''public'') (documents db)
                   else documents db);
           rows = rev (sort_key doc_created rows)
       in Inr (map (\<lambda>d. (d, chunk_count db (doc_id d)))
            (take (nat limit) (drop (nat offset) rows))))"

definition get_document_chunks :: "string \<Rightarrow> pg \<Rightarrow> chunk_row list res" where
  "get_document_chunks did db =
     res_bind (request ''chunks.select'' db)
       (\<lambda>_. Inr (sort_key ck_index (filter (\<lambda>c. ck_doc c = did) (chunk_rows db))))"

text \<open>
  \<open>delete_graph_document\<close>: nothing without a URI; a failing driver is logged.  The graph
  is the list of its chunk nodes, each with the key of its document.
\<close>

definition delete_graph_document ::
  "string option \<Rightarrow> bool \<Rightarrow> string \<Rightarrow> (string \<times> string) list \<Rightarrow> (string \<times> string) list" where
  "delete_graph_document uri driver_ok doc_key nodes =
     (if \<not> truthy uri \<or> \<not> driver_ok then nodes
      else filter (\<lambda>n. fst n \<noteq> doc_key) nodes)"

text \<open>
  \<open>graph_delete\<close> and \<open>vespa_delete\<close> are the calls to the other stores, whose failures are
  swallowed; the result pairs the outcome with the stores as they are left.
\<close>

definition delete_document ::
  "(string \<Rightarrow> 'g \<Rightarrow> 'g) \<Rightarrow> bool \<Rightarrow> (string \<Rightarrow> 'v \<Rightarrow> 'v) \<Rightarrow> string \<Rightarrow> pg \<Rightarrow> 'g \<Rightarrow> 'v
   \<Rightarrow> unit res \<times> pg \<times> 'g \<times> 'v" where
  "delete_document graph_delete vespa_on vespa_delete did db g v =
     (case get_document did db of
        Inl e \<Rightarrow> (Inl e, db, g, v)
      | Inr doc \<Rightarrow>
          let g = (case doc of
                     None \<Rightarrow> g
                   | Some d \<Rightarrow> if doc_source d = [] then g else graph_delete (doc_source d) g)
          in case delete_document_chunks did db of
               Inl e \<Rightarrow> (Inl e, db, g, v)
             | Inr db \<Rightarrow>
                 let v = (if vespa_on then vespa_delete did v else v)
                 in case request ''documents.delete'' db of
                      Inl e \<Rightarrow> (Inl e, db, g, v)
                    | Inr _ \<Rightarrow>
                        (Inr (), db\<lparr>documents := filter (\<lambda>d. doc_id d \<noteq> did) (documents db)\<rparr>, g, v))"

section \<open>Lemmas\<close>

lemma request_Inr [simp]: "request r db = Inr u \<longleftrightarrow> r \<notin> set (pg_faults db)"
  by (cases u) (simp add: request_def)

lemma find_Some_mem: "find P xs = Some x \<Longrightarrow> x \<in> set xs \<and> P x"
  by (induction xs) (auto split: if_splits)

lemma chunk_rows_from_length [simp]:
  "length (chunk_rows_from sha ids did n idx cs) = length cs"
  by (induction cs arbitrary: n idx) auto

lemma chunk_rows_from_content [simp]:
  "map ck_content (chunk_rows_from sha ids did n idx cs) = map ec_content cs"
  by (induction cs arbitrary: n idx) auto

lemma chunk_rows_from_doc: "r \<in> set (chunk_rows_from sha ids did n idx cs) \<Longrightarrow>
    ck_doc r = did \<and> ck_hash r = Some (sha (ck_content r))"
  by (induction cs arbitrary: n idx) auto

lemma chunk_rows_from_ids:
  "map ck_id (chunk_rows_from sha ids did n idx cs) = map ids [n..<n + length cs]"
proof (induction cs arbitrary: n idx)
  case Nil
  then show ?case by simp
next
  case (Cons c cs)
  have "[n..<n + length (c # cs)] = n # [Suc n..<Suc n + length cs]"
    by (simp add: upt_rec)
  with Cons show ?case by simp
qed

lemma update_doc_access: "map doc_access (update_doc did t c h m ds) = map doc_access ds"
  by (simp add: update_doc_def)

lemma update_doc_keys:
  "map doc_id (update_doc did t c h m ds) = map doc_id ds"
  "map doc_source (update_doc did t c h m ds) = map doc_source ds"
  by (simp_all add: update_doc_def)

lemma set_list_documents:
  assumes "list_documents limit offset user_id db = Inr rows" and "(d, n) \<in> set rows"
  shows "d \<in> set (documents db) \<and> n = chunk_count db (doc_id d)
     \<and> (user_id = None \<longrightarrow> doc_access d = ''public'')"
  using assms by (auto simp: list_documents_def Let_def dest!: in_set_takeD in_set_dropD split: if_splits)

end
