(* ===== verification/Retrieval.thy ===== *)
theory Retrieval
  imports QueryCache VespaClient Reranker GraphSearch Database
begin

text \<open>
  \<open>agent/retriever.py\<close> and \<open>agent/tools.py\<close>: Vespa first with the Postgres fallback, and
  the tool functions over them, which never raise.  The services are the fields of
  \<open>services\<close>: each is a function that answers or raises.  The Redis server is the state.
\<close>

record services =
  sv_qc :: qc_config
  sv_sha :: "string \<Rightarrow> string"
  sv_client :: bool
  sv_embed :: "string \<Rightarrow> rat list res"
  sv_vespa_on :: bool
  sv_http :: "vespa_query \<Rightarrow> json res"
  sv_loads :: "string \<Rightarrow> json res"
  sv_cos :: "rat \<Rightarrow> rat"
  sv_match :: "rat list \<Rightarrow> int \<Rightarrow> string option \<Rightarrow> meta list option res"
  sv_rpc :: hybrid_rpc
  sv_rr :: rerank_config
  sv_voyage :: "string \<Rightarrow> string list \<Rightarrow> int \<Rightarrow> json res"
  sv_render :: "json \<Rightarrow> string"
  sv_driver :: bool
  sv_graph :: "string \<Rightarrow> string \<Rightarrow> meta list res"

section \<open>The retriever\<close>

definition with_cosine :: "meta \<Rightarrow> meta res" where
  "with_cosine r = res_bind (float_or_0 (get_or r ''similarity'' (JNum 0)))
     (\<lambda>q. Inr (dict_put ''cosine_similarity'' (JNum q) r))"

definition postgres_fallback ::
  "services \<Rightarrow> string \<Rightarrow> rat list \<Rightarrow> int \<Rightarrow> string option \<Rightarrow> meta list res" where
  "postgres_fallback sv query embedding limit user_id =
     map_res with_cosine (hybrid_search (sv_rpc sv) embedding query limit (3 / 10) user_id)"

definition retrieve ::
  "services \<Rightarrow> string \<Rightarrow> rat list \<Rightarrow> int \<Rightarrow> string option \<Rightarrow> meta list res" where
  "retrieve sv query embedding limit user_id =
     (if sv_vespa_on sv
      then (case vespa_search (sv_vespa_on sv) (sv_http sv) (sv_loads sv) (sv_cos sv) query embedding
                   limit user_id of
              Inr results \<Rightarrow>
                if results \<noteq> [] then Inr results
                else postgres_fallback sv query embedding limit user_id
            | Inl _ \<Rightarrow> postgres_fallback sv query embedding limit user_id)
      else postgres_fallback sv query embedding limit user_id)"

section \<open>The confidence gate\<close>

definition CONFIDENCE_MIN_SIMILARITY :: rat where
  "CONFIDENCE_MIN_SIMILARITY = 1 / 4"

definition max_cosine_similarity :: "ChunkResult list \<Rightarrow> rat" where
  "max_cosine_similarity chunks =
     (case map vector_similarity chunks of [] \<Rightarrow> 0 | x # xs \<Rightarrow> fold max xs x)"

definition is_low_confidence :: "ChunkResult list \<Rightarrow> bool" where
  "is_low_confidence chunks \<longleftrightarrow> max_cosine_similarity chunks < CONFIDENCE_MIN_SIMILARITY"

section \<open>Rows to chunks\<close>

definition req_str :: "(json \<Rightarrow> string) \<Rightarrow> meta \<Rightarrow> string \<Rightarrow> string res" where
  "req_str render r k = (case json_get r k of
      None \<Rightarrow> Inl (OtherError ''KeyError'') | Some j \<Rightarrow> Inr (py_str render j))"

definition row_chunk ::
  "(json \<Rightarrow> string) \<Rightarrow> meta \<Rightarrow> rat res \<Rightarrow> rat res \<Rightarrow> json option \<Rightarrow> ChunkResult res" where
  "row_chunk render r sc cosine m =
     res_bind (req_str render r ''chunk_id'') (\<lambda>cid.
     res_bind (req_str render r ''document_id'') (\<lambda>did.
     res_bind (load_str r ''content'') (\<lambda>content.
     res_bind sc (\<lambda>s.
     res_bind cosine (\<lambda>c.
     res_bind (case m of Some (JObj d) \<Rightarrow> Inr d | _ \<Rightarrow> Inl (ValueError ''metadata'')) (\<lambda>d.
     res_bind (load_str r ''document_title'') (\<lambda>title.
     res_bind (load_str r ''document_source'') (\<lambda>src.
       Inr (mk_chunk_result cid did content s c d title src)))))))))"

definition vector_row :: "(json \<Rightarrow> string) \<Rightarrow> meta \<Rightarrow> ChunkResult res" where
  "vector_row render r =
     row_chunk render r
       (case json_get r ''similarity'' of None \<Rightarrow> Inl (OtherError ''KeyError'') | Some j \<Rightarrow> py_float j)
       (float_or_0 (get_or r ''similarity'' (JNum 0))) (json_get r ''metadata'')"

definition hybrid_row :: "(json \<Rightarrow> string) \<Rightarrow> meta \<Rightarrow> ChunkResult res" where
  "hybrid_row render r =
     row_chunk render r
       (py_float (get_or r ''combined_score'' (get_or r ''similarity'' (JNum 0))))
       (float_or_0 (get_or r ''cosine_similarity'' (get_or r ''similarity'' (JNum 0))))
       (Some (get_or r ''metadata'' (JObj [])))"

section \<open>Tools\<close>

definition vector_search_tool :: "services \<Rightarrow> string \<Rightarrow> int \<Rightarrow> string option \<Rightarrow> ChunkResult list" where
  "vector_search_tool sv query limit user_id =
     py_try (res_bind (sv_embed sv query) (\<lambda>embedding.
       map_res (vector_row (sv_render sv)) (vector_search (sv_match sv) embedding limit user_id))) []"

definition opt_str :: "meta \<Rightarrow> string \<Rightarrow> string option res" where
  "opt_str r k = (case get_or r k JNull of
      JNull \<Rightarrow> Inr None | JStr s \<Rightarrow> Inr (Some s) | _ \<Rightarrow> Inl (ValueError k))"

definition graph_row :: "meta \<Rightarrow> GraphSearchResult res" where
  "graph_row r =
     res_bind (load_str r ''fact'') (\<lambda>f.
     res_bind (load_str r ''uuid'') (\<lambda>u.
     res_bind (opt_str r ''valid_at'') (\<lambda>va.
     res_bind (opt_str r ''invalid_at'') (\<lambda>ia.
     res_bind (opt_str r ''source_node_uuid'') (\<lambda>sn.
       Inr \<lparr>fact = f, fact_uuid = u, valid_at = va, invalid_at = ia, source_node_uuid = sn\<rparr>)))))"

definition graph_search_tool :: "services \<Rightarrow> string \<Rightarrow> GraphSearchResult list" where
  "graph_search_tool sv query =
     py_try (map_res graph_row (search_knowledge_graph (sv_driver sv) (sv_graph sv) query)) []"

text \<open>
  The three stages of \<open>hybrid_search_tool\<close> behind the cache; the exception of any stage
  gives the empty list.  An exception of the retriever itself runs the Postgres search.
\<close>

definition hybrid_candidates ::
  "services \<Rightarrow> string \<Rightarrow> rat list \<Rightarrow> int \<Rightarrow> rat \<Rightarrow> string option \<Rightarrow> ChunkResult list res" where
  "hybrid_candidates sv query embedding limit text_weight user_id =
     (let candidate_limit = candidate_pool_size (sv_rr sv) limit;
          results = py_try (retrieve sv query embedding candidate_limit user_id)
            (hybrid_search (sv_rpc sv) embedding query candidate_limit text_weight user_id)
      in map_res (hybrid_row (sv_render sv)) results)"

definition hybrid_search_tool ::
  "services \<Rightarrow> redis_server \<Rightarrow> rat \<Rightarrow> string \<Rightarrow> int \<Rightarrow> rat \<Rightarrow> string option
   \<Rightarrow> ChunkResult list \<times> redis_server" where
  "hybrid_search_tool sv srv now query limit text_weight user_id =
     (case qc_get (sv_qc sv) (sv_sha sv) (sv_client sv) srv now query user_id limit of
        Some cached \<Rightarrow> (cached, srv)
      | None \<Rightarrow>
          (case res_bind (sv_embed sv query) (\<lambda>embedding.
                  hybrid_candidates sv query embedding limit text_weight user_id) of
             Inl _ \<Rightarrow> ([], srv)
           | Inr candidates \<Rightarrow>
               let reranked = rerank (sv_rr sv) (sv_voyage sv) query candidates limit
               in (reranked, qc_set (sv_qc sv) (sv_sha sv) (sv_client sv) srv now query user_id limit
                               reranked)))"

definition get_document_tool :: "string \<Rightarrow> pg \<Rightarrow> (doc_row \<times> chunk_row list) option" where
  "get_document_tool did db =
     py_try (res_bind (get_document did db) (\<lambda>d. case d of
         None \<Rightarrow> Inr None
       | Some doc \<Rightarrow> res_bind (get_document_chunks did db) (\<lambda>cs. Inr (Some (doc, cs))))) None"

definition list_documents_tool :: "int \<Rightarrow> int \<Rightarrow> string option \<Rightarrow> pg \<Rightarrow> (doc_row \<times> nat) list" where
  "list_documents_tool limit offset user_id db = py_try (list_documents limit offset user_id db) []"

section \<open>Lemmas\<close>

lemma fold_max: "fold max xs (x::rat) < b \<longleftrightarrow> x < b \<and> (\<forall>y\<in>set xs. y < b)"
  by (induction xs arbitrary: x) auto

lemma is_low_confidence_iff:
  "is_low_confidence chunks \<longleftrightarrow> (\<forall>c\<in>set chunks. vector_similarity c < CONFIDENCE_MIN_SIMILARITY)"
proof (cases chunks)
  case Nil
  then show ?thesis
    by (simp add: is_low_confidence_def max_cosine_similarity_def CONFIDENCE_MIN_SIMILARITY_def)
next
  case (Cons c cs)
  then show ?thesis by (simp add: is_low_confidence_def max_cosine_similarity_def fold_max)
qed

lemma row_chunk_valid: "row_chunk render r sc cosine m = Inr c \<Longrightarrow> valid_chunk c"
  by (auto simp: row_chunk_def valid_chunk_def)

lemma hybrid_candidates_valid:
  "hybrid_candidates sv query embedding limit tw user_id = Inr cs \<Longrightarrow> \<forall>c\<in>set cs. valid_chunk c"
  by (auto simp: hybrid_candidates_def Let_def map_res_Inr_iff list_all2_conv_all_nth in_set_conv_nth
      hybrid_row_def dest!: row_chunk_valid)

lemma rerank_valid:
  assumes "\<forall>c\<in>set chunks. valid_chunk c"
  shows "\<forall>c\<in>set (rerank cfg voyage query chunks n). valid_chunk c"
proof (cases rule: rerank_cases [of cfg voyage query chunks n])
  case order
  then show ?thesis by simp
next
  case (plain chunks')
  with assms show ?thesis by (auto dest: in_set_takeD)
next
  case (ranked r chunks' ks)
  have len: "length chunks' = length chunks"
    using assign_scores_length [of r chunks] ranked by simp
  have "valid_chunk (chunks' ! k)" if "k \<in> set ks" for k
  proof -
    from that have "k < length chunks" using assign_scores_range [of r chunks] ranked by simp
    then show ?thesis
      using assign_scores_keeps [of k chunks r] assms ranked by (simp add: valid_chunk_def)
  qed
  then show ?thesis using ranked by (auto dest: in_take_mapD)
qed

lemma rerank_same:
  assumes "c \<in> set (rerank cfg voyage query chunks n)"
  shows "\<exists>d\<in>set chunks. same_but_score c d"
proof (cases rule: rerank_cases [of cfg voyage query chunks n])
  case (ranked r chunks' ks)
  with assms obtain k where k: "k \<in> set ks" "c = chunks' ! k" by (auto dest: in_take_mapD)
  with assign_scores_range [of r chunks] ranked have "k < length chunks" by simp
  moreover from this have "same_but_score c (chunks ! k)"
    using assign_scores_same [of k chunks r] ranked k by simp
  ultimately show ?thesis using nth_mem by blast
qed (use assms in \<open>auto dest: in_set_takeD intro: same_but_score_refl\<close>)

lemma rerank_length:
  "length (rerank cfg voyage query chunks n) \<le> nat (max 1 n)"
  by (cases rule: rerank_cases [of cfg voyage query chunks n]) (auto simp: min_def max_def)

lemma retrieve_vespa_down:
  assumes "\<not> sv_vespa_on sv \<or> (\<forall>q. \<exists>e. sv_http sv q = Inl e)"
  shows "retrieve sv query embedding limit user_id = postgres_fallback sv query embedding limit user_id"
proof (cases "sv_vespa_on sv")
  case True
  with assms obtain e where "sv_http sv (vespa_body query embedding limit user_id) = Inl e" by blast
  with True show ?thesis by (simp add: retrieve_def vespa_search_def)
qed (simp add: retrieve_def)

section \<open>Properties\<close>

text \<open>C31: the rerank step only selects and rescores.  Every chunk of the result is a chunk
  of the pool with at most its score changed, the cosine the confidence gate reads
  included; the result has at most \<open>limit\<close> chunks (one when the limit is smaller) and is
  empty only for an empty pool; when the provider fails it is a prefix of the pool.\<close>

theorem rerank_selects:
  "(\<forall>c\<in>set (rerank cfg voyage query chunks n). \<exists>d\<in>set chunks. same_but_score c d
        \<and> vector_similarity c = vector_similarity d)
   \<and> length (rerank cfg voyage query chunks n) \<le> nat (max 1 n)
   \<and> (rerank cfg voyage query chunks n = [] \<longleftrightarrow> chunks = [])
   \<and> ((\<forall>ds m. \<exists>e. voyage query ds m = Inl e) \<longrightarrow>
        rerank cfg voyage query chunks n = take (nat (max 1 n)) chunks)"
proof -
  have sel: "\<exists>d\<in>set chunks. same_but_score c d \<and> vector_similarity c = vector_similarity d"
    if "c \<in> set (rerank cfg voyage query chunks n)" for c
    using rerank_same [OF that] same_but_score_fields by blast
  have empty: "rerank cfg voyage query chunks n = [] \<longleftrightarrow> chunks = []"
    by (cases rule: rerank_cases [of cfg voyage query chunks n]) (auto simp: max_def)
  have fail: "rerank cfg voyage query chunks n = take (nat (max 1 n)) chunks"
    if "\<forall>ds m. \<exists>e. voyage query ds m = Inl e"
  proof -
    from that obtain e where
      "voyage query (map chunk_content chunks) (max 1 (min n (int (length chunks)))) = Inl e" by blast
    then have "rerank cfg voyage query chunks n = take (nat (max 1 (min n (int (length chunks))))) chunks"
      by (simp add: rerank_def voyage_rerank_def Let_def)
    also have "\<dots> = take (nat (max 1 n)) chunks"
      by (cases chunks) (auto simp: max_def min_def)
    finally show ?thesis .
  qed
  show ?thesis using sel empty fail rerank_length by blast
qed

theorem rerank_selects_witness:
  "rerank (default_rerank_config\<lparr>rr_key := ''k''\<rparr>) (\<lambda>_ _ _. Inl (OtherError ''timeout'')) ''q''
     [mk_chunk_result ''a'' ''d'' ''x'' 1 0 [] ''t'' ''s'', mk_chunk_result ''b'' ''d'' ''y'' 1 0 [] ''t'' ''s'']
     1 = [mk_chunk_result ''a'' ''d'' ''x'' 1 0 [] ''t'' ''s'']"
  using rerank_selects [of "default_rerank_config\<lparr>rr_key := ''k''\<rparr>" "\<lambda>_ _ _. Inl (OtherError ''timeout'')"
      "''q''" "[mk_chunk_result ''a'' ''d'' ''x'' 1 0 [] ''t'' ''s'',
        mk_chunk_result ''b'' ''d'' ''y'' 1 0 [] ''t'' ''s'']" 1] by simp

text \<open>A repeated question costs nothing.  When a search has returned chunks, the same
  question of the same scope and limit is answered with the same chunks from the cache
  alone: whatever the embedding, Vespa, Postgres and rerank services do meanwhile.\<close>

theorem hybrid_search_repeat:
  assumes "qc_enabled (sv_qc sv)" and "sv_client sv" and "srv_up srv" and "ver_ok (sv_qc sv) srv"
    and "0 < qc_ttl (sv_qc sv)" and "now' < now + of_int (qc_ttl (sv_qc sv))"
    and "sv_sha sv (qc_raw (ver_of (sv_qc sv) srv) (u, limit, q)) \<noteq> ''ver''"
    and "qc_get (sv_qc sv) (sv_sha sv) True srv now q u limit = None"
    and "hybrid_search_tool sv srv now q limit w u = (cs, srv')" and "cs \<noteq> []"
    and "sv_qc sv' = sv_qc sv" and "sv_sha sv' = sv_sha sv" and "sv_client sv'"
    and "cache_scope u' = cache_scope u" and "normalize_query q' = normalize_query q"
  shows "hybrid_search_tool sv' srv' now' q' limit w' u' = (cs, srv')"
proof -
  from assms(2,8,9,10) obtain embedding candidates where
    cands: "hybrid_candidates sv q embedding limit w u = Inr candidates"
    and cs: "cs = rerank (sv_rr sv) (sv_voyage sv) q candidates limit"
    and srv': "srv' = qc_set (sv_qc sv) (sv_sha sv) True srv now q u limit cs"
    by (auto simp: hybrid_search_tool_def Let_def split: sum.splits)
  from hybrid_candidates_valid [OF cands] cs have "\<forall>c\<in>set cs. valid_chunk c"
    by (simp add: rerank_valid)
  then have "qc_get (sv_qc sv) (sv_sha sv) True srv' now' q' u' limit = Some cs"
    unfolding srv' using assms qc_fetch_set [of "sv_qc sv" srv cs "sv_sha sv" u limit q u' q' now now']
    by simp
  with assms show ?thesis by (simp add: hybrid_search_tool_def)
qed

definition demo_services :: "meta list option res \<Rightarrow> services" where
  "demo_services rows = \<lparr>sv_qc = default_qc_config, sv_sha = id, sv_client = True,
     sv_embed = (\<lambda>_. Inr [1]), sv_vespa_on = False, sv_http = (\<lambda>_. Inl TypeError),
     sv_loads = (\<lambda>_. Inl TypeError), sv_cos = (\<lambda>_. 0), sv_match = (\<lambda>_ _ _. rows),
     sv_rpc = (\<lambda>_ _ _ _ _. rows), sv_rr = default_rerank_config, sv_voyage = (\<lambda>_ _ _. Inl TypeError),
     sv_render = (\<lambda>_. []), sv_driver = False, sv_graph = (\<lambda>_ _. Inr [])\<rparr>"

definition demo_row :: meta where
  "demo_row = [(''chunk_id'', JStr ''c1''), (''document_id'', JStr ''d1''), (''content'', JStr ''fees are 100''),
     (''similarity'', JNum (1 / 2)), (''combined_score'', JNum (1 / 3)), (''metadata'', JObj []),
     (''document_title'', JStr ''Fees''), (''document_source'', JStr ''fees.pdf'')]"

definition demo_chunk :: ChunkResult where
  "demo_chunk = mk_chunk_result ''c1'' ''d1'' ''fees are 100'' (1 / 3) (1 / 2) [] ''Fees'' ''fees.pdf''"

lemma demo_search:
  "hybrid_search_tool (demo_services (Inr (Some [demo_row]))) empty_server 0 ''fees'' 5 (3 / 10) None
     = ([demo_chunk], qc_set default_qc_config id True empty_server 0 ''fees'' None 5 [demo_chunk])"
  "qc_get default_qc_config id True empty_server 0 ''fees'' None 5 = None"
proof -
  show g: "qc_get default_qc_config id True empty_server 0 ''fees'' None 5 = None"
    by (simp add: qc_get_def cache_fetch_def rget_def live_def empty_server_def)
  have k: "rerank_enabled default_rerank_config = False"
    by (simp add: rerank_enabled_def default_rerank_config_def)
  have r: "with_cosine demo_row = Inr (demo_row @ [(''cosine_similarity'', JNum (1 / 2))])"
    by (simp add: with_cosine_def demo_row_def get_or_def json_get_def float_or_0_def json_or_def)
  have h: "hybrid_row f (demo_row @ [(''cosine_similarity'', JNum (1 / 2))]) = Inr demo_chunk" for f
    by (simp add: hybrid_row_def demo_row_def get_or_def json_get_def float_or_0_def json_or_def
        row_chunk_def req_str_def load_str_def demo_chunk_def)
  show "hybrid_search_tool (demo_services (Inr (Some [demo_row]))) empty_server 0 ''fees'' 5 (3 / 10) None
     = ([demo_chunk], qc_set default_qc_config id True empty_server 0 ''fees'' None 5 [demo_chunk])"
    using g by (simp add: hybrid_search_tool_def demo_services_def hybrid_candidates_def retrieve_def
        postgres_fallback_def hybrid_search_def rpc_rows_def candidate_pool_size_def k r h rerank_def
        Let_def)
qed

theorem hybrid_search_repeat_witness:
  "\<exists>srv'. hybrid_search_tool (demo_services (Inr (Some [demo_row]))) empty_server 0 ''fees'' 5 (3 / 10) None
       = ([demo_chunk], srv')
     \<and> hybrid_search_tool ((demo_services (Inl TypeError))\<lparr>sv_embed := \<lambda>_. Inl TypeError\<rparr>)
         srv' 10 ''fees'' 5 0 None = ([demo_chunk], srv')"
proof -
  let ?sv = "demo_services (Inr (Some [demo_row]))"
  have v: "ver_of default_qc_config empty_server = 0" "ver_ok default_qc_config empty_server"
    by (simp_all add: ver_of_def ver_ok_def empty_server_def)
  show ?thesis
    using hybrid_search_repeat [of ?sv empty_server 10 0 None 5 "''fees''" "3 / 10" "[demo_chunk]" _
        "(demo_services (Inl TypeError))\<lparr>sv_embed := \<lambda>_. Inl TypeError\<rparr>" None "''fees''" 0]
      demo_search v
    by (simp add: demo_services_def default_qc_config_def empty_server_def qc_raw.simps)
qed



end
