(* ===== verification/AccessControl.thy ===== *)
theory AccessControl
  imports PyString
begin

text \<open>
  \<open>agent/access_control.py\<close>: the access level of a bucket, and who may read a document
  of a level.  The two environment variables are arguments.
\<close>

definition assign_access_level :: "string \<Rightarrow> string" where
  "assign_access_level bucket_type = (if bucket_type = ''private'' then ''private'' else ''public'')"

text \<open>\<open>{u.strip() for u in v.split(",") if u.strip()}\<close>\<close>

definition user_set :: "string \<Rightarrow> string set" where
  "user_set v = set (filter (\<lambda>u. u \<noteq> []) (map py_strip (py_split '','' v)))"

definition can_access_document :: "string \<Rightarrow> string \<Rightarrow> string option \<Rightarrow> string \<Rightarrow> bool" where
  "can_access_document admin_env private_env user_id access_level =
     (if access_level = ''public'' then True
      else if \<not> truthy user_id then False
      else str_or user_id [] \<in> user_set admin_env \<or> str_or user_id [] \<in> user_set private_env)"

lemma can_access_anonymous:
  "\<not> truthy user_id \<Longrightarrow> can_access_document a p user_id level \<longleftrightarrow> level = ''public''"
  by (simp add: can_access_document_def)

lemma user_set_nonempty: "[] \<notin> user_set v"
  by (simp add: user_set_def)

end
