(* ===== verification/AgentTools.thy ===== *)
theory AgentTools
  imports Retrieval Citations AccessControl
begin

text \<open>
  The tools of \<open>agent/agent.py\<close>: what the model gets to see, and what each call adds to
  the dependencies of the turn.
\<close>

text \<open>\<open>enumerate(results, 1)\<close> rendered line by line.\<close>

definition numbered :: "('a \<Rightarrow> string) \<Rightarrow> 'a list \<Rightarrow> string list" where
  "numbered f xs = map (\<lambda>(i, x). ''['' @ dec i @ ''] '' @ f x) (zip [1..<Suc (length xs)] xs)"

definition source_line :: "ChunkResult \<Rightarrow> string" where
  "source_line c = document_title c @ '' (source: '' @ document_source c @ '')'' @ [NL] @ ''    ''
     @ take 500 (chunk_content c)"

definition SOURCES_HEADER :: string where
  "SOURCES_HEADER = ''Cite these sources inline using their [n] markers. Sources:'' @ [NL, NL]"

definition chunks_of :: "AgentDependencies \<Rightarrow> ChunkResult list" where
  "chunks_of d = (case retrieved_chunks d of None \<Rightarrow> [] | Some cs \<Rightarrow> cs)"

definition facts_of :: "AgentDependencies \<Rightarrow> GraphSearchResult list" where
  "facts_of d = (case graph_facts d of None \<Rightarrow> [] | Some fs \<Rightarrow> fs)"

definition search_documents ::
  "services \<Rightarrow> redis_server \<Rightarrow> rat \<Rightarrow> string \<Rightarrow> int \<Rightarrow> AgentDependencies
   \<Rightarrow> string \<times> AgentDependencies \<times> redis_server" where
  "search_documents sv srv now query limit deps =
     (let (results, srv') = hybrid_search_tool sv srv now query limit (3 / 10) (dep_user_id deps);
          deps' = deps\<lparr>retrieved_chunks := Some (chunks_of deps @ results),
                       selected_retrieval_tool := Some ''hybrid_search''\<rparr>
      in (if results = [] then ''No relevant documents found.''
          else SOURCES_HEADER @ py_join [NL, NL] (numbered source_line results), deps', srv'))"

definition fact_line :: "GraphSearchResult \<Rightarrow> string" where
  "fact_line r = fact r @ (if truthy (valid_at r) then '' (valid from '' @ str_or (valid_at r) [] @ '')''
                           else [])"

definition search_knowledge_graph_facts ::
  "services \<Rightarrow> string \<Rightarrow> AgentDependencies \<Rightarrow> string \<times> AgentDependencies" where
  "search_knowledge_graph_facts sv query deps =
     (let results = graph_search_tool sv query;
          deps' = deps\<lparr>graph_facts := Some (facts_of deps @ results),
                       selected_retrieval_tool :=
                         if truthy (selected_retrieval_tool deps) then selected_retrieval_tool deps
                         else Some ''graph_search''\<rparr>
      in (if results = [] then ''No knowledge-graph facts found.''
          else py_join [NL, NL] (numbered fact_line results), deps'))"

definition document_line :: "doc_row \<times> nat \<Rightarrow> string" where
  "document_line dn = ''- '' @ doc_title (fst dn) @ ''  (source: '' @ doc_source (fst dn)
     @ '', chunks: '' @ dec (snd dn) @ '')''"

definition list_available_documents :: "int \<Rightarrow> pg \<Rightarrow> AgentDependencies \<Rightarrow> string" where
  "list_available_documents limit db deps =
     (let docs = list_documents_tool limit 0 (dep_user_id deps) db
      in if docs = [] then ''No documents available.''
         else py_join [NL] (map document_line docs))"

section \<open>Lemmas\<close>

lemma numbered_nth:
  "i < length xs \<Longrightarrow> numbered f xs ! i = ''['' @ dec (i + 1) @ ''] '' @ f (xs ! i)"
  by (simp add: numbered_def del: upt_Suc)

lemma length_numbered [simp]: "length (numbered f xs) = length xs"
  by (simp add: numbered_def del: upt_Suc)

lemma search_documents_deps:
  assumes "search_documents sv srv now q n deps = (out, deps', srv')"
    and "hybrid_search_tool sv srv now q n (3 / 10) (dep_user_id deps) = (results, srv'')"
  shows "chunks_of deps' = chunks_of deps @ results"
    and "graph_facts deps' = graph_facts deps" and "dep_user_id deps' = dep_user_id deps"
    and "results \<noteq> [] \<longrightarrow> out = SOURCES_HEADER @ py_join [NL, NL] (numbered source_line results)"
  using assms by (auto simp: search_documents_def Let_def chunks_of_def)

section \<open>Properties\<close>

text \<open>The bracket handles restart with every search call.  The i-th result of a call is
  shown to the model as [i+1], while it stands at position (number of chunks retrieved
  before) + i + 1 of the list the citation gate counts against: the two agree for the
  first call of a turn and for no later call that follows a non-empty one.\<close>

theorem handles_restart:
  assumes "search_documents sv srv now q n deps = (out, deps', srv')"
    and "hybrid_search_tool sv srv now q n (3 / 10) (dep_user_id deps) = (results, srv'')"
    and "i < length results"
  shows "numbered source_line results ! i = ''['' @ dec (i + 1) @ ''] '' @ source_line (results ! i)
    \<and> chunks_of deps' ! (length (chunks_of deps) + i) = results ! i
    \<and> out = SOURCES_HEADER @ py_join [NL, NL] (numbered source_line results)
    \<and> (i + 1 = length (chunks_of deps) + i + 1 \<longleftrightarrow> chunks_of deps = [])"
  using assms search_documents_deps [OF assms(1,2)] numbered_nth [OF assms(3)]
  by (auto simp: nth_append)

theorem handles_restart_witness:
  "\<exists>out deps' srv'. search_documents (demo_services (Inr (Some [demo_row]))) empty_server 0 ''fees'' 5
      ((new_deps ''s'' None)\<lparr>retrieved_chunks := Some [demo_chunk, demo_chunk]\<rparr>) = (out, deps', srv')
    \<and> numbered source_line [demo_chunk] ! 0 = ''[1] '' @ source_line demo_chunk
    \<and> chunks_of deps' ! 2 = demo_chunk"
proof -
  let ?d = "(new_deps ''s'' None)\<lparr>retrieved_chunks := Some [demo_chunk, demo_chunk]\<rparr>"
  have u: "dep_user_id ?d = None" by (simp add: new_deps_def)
  have d1: "dec (Suc 0) = ''1''" by code_simp
  obtain out deps' srv' where
    s: "search_documents (demo_services (Inr (Some [demo_row]))) empty_server 0 ''fees'' 5 ?d
      = (out, deps', srv')" by (metis prod_cases3)
  have "hybrid_search_tool (demo_services (Inr (Some [demo_row]))) empty_server 0 ''fees'' 5 (3 / 10)
      (dep_user_id ?d) = ([demo_chunk], qc_set default_qc_config id True empty_server 0 ''fees'' None 5
        [demo_chunk])"
    unfolding u by (rule demo_search)
  from handles_restart [OF s this, of 0] s show ?thesis
    using d1 by (simp add: chunks_of_def numeral_2_eq_2)
qed

end
