(* ===== verification/Chunker.thy ===== *)
theory Chunker
  imports PyRegex JsonOps
begin

text \<open>
  \<open>ingestion/chunker.py\<close>: the two chunkers.  Positions are integers with Python's slices.
  The loop of \<open>simple_split\<close> may run forever, so what uses it returns an option, \<open>None\<close>
  for a run that does not end, and inside it a result or the exception raised.  The
  language model is the parameter \<open>llm\<close> (its timeout is an exception like others).
\<close>

section \<open>Configuration and chunks\<close>

record ChunkingConfig =
  chunk_size :: int
  chunk_overlap :: int
  max_chunk_size :: int
  min_chunk_size :: int
  use_semantic_splitting :: bool

definition mk_chunking_config ::
  "int \<Rightarrow> int \<Rightarrow> int \<Rightarrow> int \<Rightarrow> bool \<Rightarrow> ChunkingConfig res" where
  "mk_chunking_config csize overlap mx mn semantic =
     (if overlap \<ge> csize then Inl (ValueError ''Chunk overlap must be less than chunk size'')
      else if mn \<le> 0 then Inl (ValueError ''Minimum chunk size must be positive'')
      else Inr \<lparr>chunk_size = csize, chunk_overlap = overlap, max_chunk_size = mx,
                min_chunk_size = mn, use_semantic_splitting = semantic\<rparr>)"

definition default_chunking :: ChunkingConfig where
  "default_chunking = \<lparr>chunk_size = 1000, chunk_overlap = 200, max_chunk_size = 2000,
     min_chunk_size = 100, use_semantic_splitting = True\<rparr>"

record DocumentChunk =
  dc_content :: string
  dc_index :: nat
  dc_start :: int
  dc_end :: int
  dc_meta :: meta
  dc_tokens :: nat

text \<open>The token count is estimated from the content.\<close>

definition mk_document_chunk :: "string \<Rightarrow> nat \<Rightarrow> int \<Rightarrow> int \<Rightarrow> meta \<Rightarrow> DocumentChunk" where
  "mk_document_chunk content i s e m =
     \<lparr>dc_content = content, dc_index = i, dc_start = s, dc_end = e, dc_meta = m,
      dc_tokens = length content div 4\<rparr>"

type_synonym 'a run = "'a res option"

section \<open>Simple splitting\<close>

definition SENTENCE_ENDS :: string where
  "SENTENCE_ENDS = ''.!?'' @ [NL]"

text \<open>\<open>for i in range(hi, lo, -1): if text[i] in ".!?\n"\<close>\<close>

function find_boundary :: "string \<Rightarrow> int \<Rightarrow> int \<Rightarrow> int option res" where
  "find_boundary text i lo =
     (if i \<le> lo then Inr None
      else (case py_get text i of
              Inl e \<Rightarrow> Inl e
            | Inr c \<Rightarrow> if c \<in> set SENTENCE_ENDS then Inr (Some i)
                       else find_boundary text (i - 1) lo))"
  by pat_completeness auto
termination
  by (relation "measure (\<lambda>(text, i, lo). nat (i - lo))") auto

declare find_boundary.simps [simp del]

definition chunk_end :: "ChunkingConfig \<Rightarrow> string \<Rightarrow> int \<Rightarrow> int res" where
  "chunk_end cfg text start =
     (let e = start + chunk_size cfg
      in res_bind (find_boundary text e (max (start + min_chunk_size cfg) (e - 200)))
           (\<lambda>b. Inr (case b of None \<Rightarrow> e | Some i \<Rightarrow> i + 1)))"

partial_function (option) split_loop ::
  "ChunkingConfig \<Rightarrow> string \<Rightarrow> int \<Rightarrow> string list \<Rightarrow> string list run" where
  "split_loop cfg text start chunks =
     (if start \<ge> int (length text) then Some (Inr chunks)
      else if start + chunk_size cfg \<ge> int (length text)
      then Some (Inr (chunks @ [py_slice_from text start]))
      else (case chunk_end cfg text start of
              Inl e \<Rightarrow> Some (Inl e)
            | Inr e \<Rightarrow> split_loop cfg text (e - chunk_overlap cfg)
                         (chunks @ [py_slice text start e])))"

declare split_loop.simps [code]

definition simple_split :: "ChunkingConfig \<Rightarrow> string \<Rightarrow> string list run" where
  "simple_split cfg text = split_loop cfg text 0 []"

section \<open>Structure\<close>

text \<open>With \<open>DOTALL\<close> the dot matches every character.\<close>

definition AnyC :: re where
  "AnyC = Cls (\<lambda>_. True)"

definition STRUCTURE_PATTERNS :: "re list" where
  "STRUCTURE_PATTERNS = [
     seq [Chr NL, Rep 1 6 (Chr CHR ''#''), Plus Space, LazyPlus AnyC, Chr NL],
     seq [Chr NL, Plus (Chr NL)],
     seq [Chr NL, Cls (\<lambda>c. c \<in> set ''-*+''), Plus Space],
     seq [Chr NL, Plus Digit, Chr CHR ''.'', Plus Space],
     seq [Chr NL, Lit ''```'', LazyStar AnyC, Lit ''```'', Chr NL],
     seq [Chr NL, Chr CHR ''|'', Star Space, LazyPlus AnyC, Chr CHR ''|'', Star Space, Chr NL]]"

definition split_by :: "re \<Rightarrow> string list \<Rightarrow> string list" where
  "split_by pattern sections =
     concat (map (\<lambda>s. filter (\<lambda>part. py_strip part \<noteq> []) (re_split_keep pattern s)) sections)"

definition split_on_structure :: "string \<Rightarrow> string list" where
  "split_on_structure content = fold split_by STRUCTURE_PATTERNS [content]"

text \<open>The average of the counts is at least 3.\<close>

definition avg3 :: "nat list \<Rightarrow> bool" where
  "avg3 ns \<longleftrightarrow> 3 * length ns \<le> sum_list ns"

definition is_tabular_data :: "string \<Rightarrow> bool" where
  "is_tabular_data text =
     (let lns = take 10 (py_split [NL] text);
          counted = filter (\<lambda>l. py_strip l \<noteq> []) lns
      in if length lns < 2 then False
         else if counted = [] then False
         else avg3 (map (\<lambda>l. py_count l TAB) counted)
              \<or> avg3 (map (\<lambda>l. py_count l CHR '','') counted))"

section \<open>Semantic chunking\<close>

definition CHUNK_MARK :: string where
  "CHUNK_MARK = ''---CHUNK---''"

text \<open>
  An exception inside the model call, also that of the splitting after it, is answered
  with the simple split.
\<close>

definition split_long_section ::
  "ChunkingConfig \<Rightarrow> (string \<Rightarrow> string res) \<Rightarrow> string \<Rightarrow> string list run" where
  "split_long_section cfg llm section =
     (if is_tabular_data section then simple_split cfg section
      else if length section > 20000 then simple_split cfg section
      else (case llm section of
              Inl _ \<Rightarrow> simple_split cfg section
            | Inr result \<Rightarrow>
                let valid = filter (\<lambda>c. min_chunk_size cfg \<le> int (length c)
                                       \<and> int (length c) \<le> max_chunk_size cfg)
                             (map py_strip (py_split CHUNK_MARK result))
                in if valid \<noteq> [] then Some (Inr valid) else simple_split cfg section))"

fun semantic_loop ::
  "ChunkingConfig \<Rightarrow> (string \<Rightarrow> string res) \<Rightarrow> string list \<Rightarrow> string list \<Rightarrow> string
   \<Rightarrow> string list run" where
  "semantic_loop cfg llm [] chunks cur =
     Some (Inr (if cur \<noteq> [] then chunks @ [py_strip cur] else chunks))"
| "semantic_loop cfg llm (section # sections) chunks cur =
     (let potential = (if cur \<noteq> [] then cur @ [NL, NL] @ section else section)
      in if int (length potential) \<le> chunk_size cfg
         then semantic_loop cfg llm sections chunks potential
         else let chunks = (if cur \<noteq> [] then chunks @ [py_strip cur] else chunks)
              in if int (length section) > max_chunk_size cfg
                 then (case split_long_section cfg llm section of
                         None \<Rightarrow> None
                       | Some (Inl e) \<Rightarrow> Some (Inl e)
                       | Some (Inr subs) \<Rightarrow> semantic_loop cfg llm sections (chunks @ subs) [])
                 else semantic_loop cfg llm sections chunks section)"

definition semantic_chunk ::
  "ChunkingConfig \<Rightarrow> (string \<Rightarrow> string res) \<Rightarrow> string \<Rightarrow> string list run" where
  "semantic_chunk cfg llm content =
     (case semantic_loop cfg llm (split_on_structure content) [] [] of
        Some (Inr chunks) \<Rightarrow>
          Some (Inr (filter (\<lambda>c. int (length (py_strip c)) \<ge> min_chunk_size cfg) chunks))
      | r \<Rightarrow> r)"

section \<open>Chunk objects\<close>

definition dict_merge :: "meta \<Rightarrow> meta \<Rightarrow> meta" where
  "dict_merge a b = fold (\<lambda>(k, v) d. dict_put k v d) b a"

text \<open>
  Each text is searched from the end of the one before; a text that is not found is put
  at that end.
\<close>

fun chunk_objects ::
  "meta \<Rightarrow> string \<Rightarrow> nat \<Rightarrow> nat \<Rightarrow> string list \<Rightarrow> DocumentChunk list" where
  "chunk_objects m content i pos [] = []"
| "chunk_objects m content i pos (t # ts) =
     (let s = (case py_find content t pos of None \<Rightarrow> pos | Some k \<Rightarrow> k); e = s + length t
      in mk_document_chunk (py_strip t) i (int s) (int e) m
         # chunk_objects m content (i + 1) e ts)"

definition create_chunk_objects ::
  "ChunkingConfig \<Rightarrow> string list \<Rightarrow> string \<Rightarrow> meta \<Rightarrow> DocumentChunk list" where
  "create_chunk_objects cfg chunks content base =
     chunk_objects
       (dict_put ''total_chunks'' (JNum (of_nat (length chunks)))
         (dict_put ''chunk_method''
           (JStr (if use_semantic_splitting cfg then ''semantic'' else ''simple'')) base))
       content 0 0 chunks"

definition base_metadata :: "string \<Rightarrow> string \<Rightarrow> meta \<Rightarrow> meta" where
  "base_metadata title src m = dict_merge [(''title'', JStr title), (''source'', JStr src)] m"

fun run_map :: "('a \<Rightarrow> 'b) \<Rightarrow> 'a run \<Rightarrow> 'b run" where
  "run_map f None = None"
| "run_map f (Some (Inl e)) = Some (Inl e)"
| "run_map f (Some (Inr x)) = Some (Inr (f x))"

definition simple_chunk :: "ChunkingConfig \<Rightarrow> string \<Rightarrow> meta \<Rightarrow> DocumentChunk list run" where
  "simple_chunk cfg content base =
     run_map (\<lambda>chunks. create_chunk_objects cfg chunks content base) (simple_split cfg content)"

definition MAX_SEMANTIC :: nat where
  "MAX_SEMANTIC = 500000"

text \<open>\<open>timed_out\<close>: the 60 seconds of the semantic pass are over before it ends.\<close>

definition semantic_chunk_document ::
  "ChunkingConfig \<Rightarrow> (string \<Rightarrow> string res) \<Rightarrow> bool \<Rightarrow> string \<Rightarrow> string \<Rightarrow> string \<Rightarrow> meta
   \<Rightarrow> DocumentChunk list run" where
  "semantic_chunk_document cfg llm timed_out content title src m =
     (if py_strip content = [] then Some (Inr [])
      else let base = base_metadata title src m in
        if is_tabular_data content then simple_chunk cfg content base
        else if length content \<ge> MAX_SEMANTIC then simple_chunk cfg content base
        else if use_semantic_splitting cfg \<and> int (length content) > chunk_size cfg \<and> \<not> timed_out
        then (case semantic_chunk cfg llm content of
                None \<Rightarrow> None
              | Some (Inl _) \<Rightarrow> simple_chunk cfg content base
              | Some (Inr chunks) \<Rightarrow>
                  if chunks \<noteq> [] then Some (Inr (create_chunk_objects cfg chunks content base))
                  else simple_chunk cfg content base)
        else simple_chunk cfg content base)"

section \<open>The simple chunker\<close>

definition PARAGRAPH_SEP :: re where
  "PARAGRAPH_SEP = seq [Chr NL, Star Space, Chr NL]"

fun paragraph_loop ::
  "ChunkingConfig \<Rightarrow> meta \<Rightarrow> string list \<Rightarrow> string \<Rightarrow> int \<Rightarrow> nat \<Rightarrow> DocumentChunk list" where
  "paragraph_loop cfg m [] cur pos idx =
     (if cur \<noteq> [] then [mk_document_chunk (py_strip cur) idx pos (pos + int (length cur)) m] else [])"
| "paragraph_loop cfg m (p # ps) cur pos idx =
     (let paragraph = py_strip p in
      if paragraph = [] then paragraph_loop cfg m ps cur pos idx
      else let potential = (if cur \<noteq> [] then cur @ [NL, NL] @ paragraph else paragraph) in
        if int (length potential) \<le> chunk_size cfg then paragraph_loop cfg m ps potential pos idx
        else if cur \<noteq> []
        then mk_document_chunk (py_strip cur) idx pos (pos + int (length cur)) m
             # paragraph_loop cfg m ps paragraph
                 (pos + max 0 (int (length cur) - chunk_overlap cfg)) (idx + 1)
        else paragraph_loop cfg m ps paragraph pos idx)"

definition simple_chunk_document ::
  "ChunkingConfig \<Rightarrow> string \<Rightarrow> string \<Rightarrow> string \<Rightarrow> meta \<Rightarrow> DocumentChunk list" where
  "simple_chunk_document cfg content title src m =
     (if py_strip content = [] then []
      else let base = dict_merge [(''title'', JStr title), (''source'', JStr src),
                                  (''chunk_method'', JStr ''simple'')] m;
               chunks = paragraph_loop cfg base (re_split PARAGRAPH_SEP content) [] 0 0
           in map (\<lambda>c. c\<lparr>dc_meta :=
                dict_put ''total_chunks'' (JNum (of_nat (length chunks))) (dc_meta c)\<rparr>) chunks)"

datatype chunker = SemanticChunker ChunkingConfig | SimpleChunker ChunkingConfig

definition create_chunker :: "ChunkingConfig \<Rightarrow> chunker" where
  "create_chunker cfg = (if use_semantic_splitting cfg then SemanticChunker cfg else SimpleChunker cfg)"

text \<open>What a caller that does not await gets.\<close>

definition run_chunker ::
  "(string \<Rightarrow> string res) \<Rightarrow> bool \<Rightarrow> chunker \<Rightarrow> string \<Rightarrow> string \<Rightarrow> string \<Rightarrow> meta
   \<Rightarrow> DocumentChunk list run" where
  "run_chunker llm timed_out ch content title src m = (case ch of
      SemanticChunker cfg \<Rightarrow> semantic_chunk_document cfg llm timed_out content title src m
    | SimpleChunker cfg \<Rightarrow> Some (Inr (simple_chunk_document cfg content title src m)))"

end
