(* ===== verification/Embedder.thy ===== *)
theory Embedder
  imports Chunker Database
begin

text \<open>
  \<open>ingestion/embedder.py\<close>: the embedding generator with its retries, batches and
  fallbacks, and the in-process cache \<open>create_embedder\<close> puts in front of it.  The provider
  is the parameter \<open>api\<close>: what the k-th call, with its input texts, answers or raises.
  Delays between attempts are not modelled; \<open>md5\<close> is the hash of the cache keys; the
  cache's clock is the number of times it was read.
\<close>

section \<open>Configuration\<close>

datatype api_exc = RateLimitError | APIError | OtherApiError

type_synonym embedding = "rat list"
type_synonym api = "nat \<Rightarrow> string list \<Rightarrow> api_exc + embedding list"

record gen_config =
  gc_model :: string
  gc_batch_size :: nat
  gc_max_retries :: nat
  gc_use_cache :: bool

definition default_gen_config :: "string \<Rightarrow> gen_config" where
  "default_gen_config model =
     \<lparr>gc_model = model, gc_batch_size = 100, gc_max_retries = 3, gc_use_cache = True\<rparr>"

text \<open>Dimensions and token limit of a model, with the default of an unknown one.\<close>

definition model_config :: "string \<Rightarrow> nat \<times> nat" where
  "model_config model =
     (if model = ''text-embedding-3-large'' then (3072, 8191) else (1536, 8191))"

definition get_embedding_dimension :: "gen_config \<Rightarrow> nat" where
  "get_embedding_dimension cfg = fst (model_config (gc_model cfg))"

definition truncate_text :: "gen_config \<Rightarrow> string \<Rightarrow> string" where
  "truncate_text cfg text =
     (let n = snd (model_config (gc_model cfg)) * 4
      in if length text > n then take n text else text)"

section \<open>The cache\<close>

record emb_cache =
  cache_entries :: "(string \<times> embedding option) list"
  access_times :: "(string \<times> nat) list"
  cache_clock :: nat

definition new_cache :: emb_cache where
  "new_cache = \<lparr>cache_entries = [], access_times = [], cache_clock = 0\<rparr>"

definition emb_get :: "(string \<Rightarrow> string) \<Rightarrow> string \<Rightarrow> emb_cache \<Rightarrow> embedding option option \<times> emb_cache" where
  "emb_get md5 text c =
     (let h = md5 text in
      case map_of (cache_entries c) h of
        Some e \<Rightarrow> (Some e, c\<lparr>access_times := dict_put h (cache_clock c) (access_times c),
                             cache_clock := cache_clock c + 1\<rparr>)
      | None \<Rightarrow> (None, c))"

text \<open>\<open>min(access_times, key=...)\<close>: the first of the least recently used keys.\<close>

definition oldest_key :: "(string \<times> nat) list \<Rightarrow> string" where
  "oldest_key ts = fst (arg_min_list snd ts)"

definition evict :: "string \<Rightarrow> emb_cache \<Rightarrow> emb_cache" where
  "evict k c = c\<lparr>cache_entries := filter (\<lambda>e. fst e \<noteq> k) (cache_entries c),
                 access_times := filter (\<lambda>e. fst e \<noteq> k) (access_times c)\<rparr>"

text \<open>With \<open>max_size\<close> entries (also when the key is one of them) the oldest goes first.\<close>

definition emb_put ::
  "(string \<Rightarrow> string) \<Rightarrow> nat \<Rightarrow> string \<Rightarrow> embedding option \<Rightarrow> emb_cache \<Rightarrow> emb_cache res" where
  "emb_put md5 max_size text e c =
     (let h = md5 text in
      if length (cache_entries c) \<ge> max_size \<and> access_times c = [] then Inl (ValueError ''min'')
      else let c = (if length (cache_entries c) \<ge> max_size
                    then evict (oldest_key (access_times c)) c else c)
           in Inr (c\<lparr>cache_entries := dict_put h e (cache_entries c),
                     access_times := dict_put h (cache_clock c) (access_times c),
                     cache_clock := cache_clock c + 1\<rparr>))"

section \<open>One text\<close>

text \<open>
  The attempts of \<open>generate_embedding\<close>: the last failure is raised; without attempts the
  result is \<open>None\<close>.  An answer without data fails at \<open>data[0]\<close>.
\<close>

fun gen_loop :: "api \<Rightarrow> string \<Rightarrow> nat \<Rightarrow> nat \<Rightarrow> (api_exc + embedding option) \<times> nat" where
  "gen_loop api text 0 k = (Inr None, k)"
| "gen_loop api text (Suc n) k =
     (case api k [text] of
        Inr (e # _) \<Rightarrow> (Inr (Some e), k + 1)
      | Inr [] \<Rightarrow> if n = 0 then (Inl OtherApiError, k + 1) else gen_loop api text n (k + 1)
      | Inl x \<Rightarrow> if n = 0 then (Inl x, k + 1) else gen_loop api text n (k + 1))"

definition generate_raw ::
  "gen_config \<Rightarrow> api \<Rightarrow> string \<Rightarrow> nat \<Rightarrow> (api_exc + embedding option) \<times> nat" where
  "generate_raw cfg api text k = gen_loop api (truncate_text cfg text) (gc_max_retries cfg) k"

record emb_state =
  es_calls :: nat
  es_cache :: emb_cache

definition CACHE_MAX :: nat where
  "CACHE_MAX = 1000"

text \<open>
  \<open>generate_embedding\<close> as the instance has it: through the cache when there is one.  A
  cached \<open>None\<close> does not count as a hit.
\<close>

definition generate_embedding ::
  "gen_config \<Rightarrow> (string \<Rightarrow> string) \<Rightarrow> api \<Rightarrow> string \<Rightarrow> emb_state
   \<Rightarrow> (api_exc + embedding option) \<times> emb_state" where
  "generate_embedding cfg md5 api text st =
     (if \<not> gc_use_cache cfg
      then let (r, k) = generate_raw cfg api text (es_calls st) in (r, st\<lparr>es_calls := k\<rparr>)
      else (case emb_get md5 text (es_cache st) of
              (Some (Some e), c) \<Rightarrow> (Inr (Some e), st\<lparr>es_cache := c\<rparr>)
            | (_, c) \<Rightarrow>
                let (r, k) = generate_raw cfg api text (es_calls st);
                    st = st\<lparr>es_calls := k, es_cache := c\<rparr>
                in (case r of
                      Inl x \<Rightarrow> (Inl x, st)
                    | Inr e \<Rightarrow>
                        (case emb_put md5 CACHE_MAX text e c of
                           Inl _ \<Rightarrow> (Inl OtherApiError, st)
                         | Inr c' \<Rightarrow> (Inr e, st\<lparr>es_cache := c'\<rparr>)))))"

section \<open>Batches\<close>

definition zero_vector :: "gen_config \<Rightarrow> embedding" where
  "zero_vector cfg = replicate (get_embedding_dimension cfg) 0"

fun process_individually ::
  "gen_config \<Rightarrow> (string \<Rightarrow> string) \<Rightarrow> api \<Rightarrow> string list \<Rightarrow> emb_state
   \<Rightarrow> embedding option list \<times> emb_state" where
  "process_individually cfg md5 api [] st = ([], st)"
| "process_individually cfg md5 api (t # ts) st =
     (let (e, st) = (if py_strip t = [] then (Some (zero_vector cfg), st)
            else let (r, st) = generate_embedding cfg md5 api t st
                 in (case r of Inl _ \<Rightarrow> Some (zero_vector cfg) | Inr e \<Rightarrow> e, st));
          (es, st) = process_individually cfg md5 api ts st
      in (e # es, st))"

fun batch_loop ::
  "gen_config \<Rightarrow> (string \<Rightarrow> string) \<Rightarrow> api \<Rightarrow> string list \<Rightarrow> nat \<Rightarrow> emb_state
   \<Rightarrow> (api_exc + embedding option list option) \<times> emb_state" where
  "batch_loop cfg md5 api texts 0 st = (Inr None, st)"
| "batch_loop cfg md5 api texts (Suc n) st =
     (let r = api (es_calls st) texts; st = st\<lparr>es_calls := es_calls st + 1\<rparr> in
      case r of
        Inr es \<Rightarrow> (Inr (Some (map Some es)), st)
      | Inl x \<Rightarrow>
          if n \<noteq> 0 then batch_loop cfg md5 api texts n st
          else if x = RateLimitError then (Inl x, st)
          else let (es, st) = process_individually cfg md5 api texts st in (Inr (Some es), st))"

definition batch_texts :: "gen_config \<Rightarrow> string list \<Rightarrow> string list" where
  "batch_texts cfg texts = map (\<lambda>t. if py_strip t = [] then [] else truncate_text cfg t) texts"

definition generate_embeddings_batch ::
  "gen_config \<Rightarrow> (string \<Rightarrow> string) \<Rightarrow> api \<Rightarrow> string list \<Rightarrow> emb_state
   \<Rightarrow> (api_exc + embedding option list option) \<times> emb_state" where
  "generate_embeddings_batch cfg md5 api texts st =
     batch_loop cfg md5 api (batch_texts cfg texts) (gc_max_retries cfg) st"

section \<open>Chunks\<close>

function batches :: "nat \<Rightarrow> 'a list \<Rightarrow> 'a list list" where
  "batches n xs = (if n = 0 \<or> xs = [] then [] else take n xs # batches n (drop n xs))"
  by pat_completeness auto
termination
  by (relation "measure (\<lambda>(n, xs). length xs)") auto

declare batches.simps [simp del]

text \<open>\<open>stamp\<close>: the time of the embedding as text; \<open>what\<close>: the message of an exception.\<close>

definition with_embedding ::
  "gen_config \<Rightarrow> string \<Rightarrow> DocumentChunk \<Rightarrow> embedding option \<Rightarrow> embedded_chunk" where
  "with_embedding cfg stamp c e =
     \<lparr>ec_content = dc_content c, ec_index = Some (int (dc_index c)), ec_embedding = e,
      ec_tokens = Some (int (dc_tokens c)),
      ec_meta = dict_put ''embedding_generated_at'' (JStr stamp)
        (dict_put ''embedding_model'' (JStr (gc_model cfg)) (dc_meta c))\<rparr>"

definition without_embedding ::
  "gen_config \<Rightarrow> string \<Rightarrow> string \<Rightarrow> DocumentChunk \<Rightarrow> embedded_chunk" where
  "without_embedding cfg stamp what c =
     \<lparr>ec_content = dc_content c, ec_index = Some (int (dc_index c)),
      ec_embedding = Some (zero_vector cfg), ec_tokens = Some (int (dc_tokens c)),
      ec_meta = dict_put ''embedding_generated_at'' (JStr stamp)
        (dict_put ''embedding_error'' (JStr what) (dc_meta c))\<rparr>"

definition embed_batch ::
  "gen_config \<Rightarrow> (string \<Rightarrow> string) \<Rightarrow> api \<Rightarrow> string \<Rightarrow> (api_exc \<Rightarrow> string) \<Rightarrow> DocumentChunk list
   \<Rightarrow> emb_state \<Rightarrow> embedded_chunk list \<times> emb_state" where
  "embed_batch cfg md5 api stamp what cs st =
     (case generate_embeddings_batch cfg md5 api (map dc_content cs) st of
        (Inr (Some es), st) \<Rightarrow> (map (\<lambda>(c, e). with_embedding cfg stamp c e) (zip cs es), st)
      | (Inr None, st) \<Rightarrow> (map (without_embedding cfg stamp (what OtherApiError)) cs, st)
      | (Inl x, st) \<Rightarrow> (map (without_embedding cfg stamp (what x)) cs, st))"

fun embed_batches ::
  "gen_config \<Rightarrow> (string \<Rightarrow> string) \<Rightarrow> api \<Rightarrow> string \<Rightarrow> (api_exc \<Rightarrow> string) \<Rightarrow> DocumentChunk list list
   \<Rightarrow> emb_state \<Rightarrow> embedded_chunk list \<times> emb_state" where
  "embed_batches cfg md5 api stamp what [] st = ([], st)"
| "embed_batches cfg md5 api stamp what (b # bs) st =
     (let (es, st) = embed_batch cfg md5 api stamp what b st;
          (fs, st) = embed_batches cfg md5 api stamp what bs st
      in (es @ fs, st))"

text \<open>\<open>range\<close> refuses a step of zero.\<close>

definition embed_chunks ::
  "gen_config \<Rightarrow> (string \<Rightarrow> string) \<Rightarrow> api \<Rightarrow> string \<Rightarrow> (api_exc \<Rightarrow> string) \<Rightarrow> DocumentChunk list
   \<Rightarrow> emb_state \<Rightarrow> embedded_chunk list res \<times> emb_state" where
  "embed_chunks cfg md5 api stamp what cs st =
     (if cs = [] then (Inr [], st)
      else if gc_batch_size cfg = 0 then (Inl (ValueError ''division by zero''), st)
      else let (es, st) = embed_batches cfg md5 api stamp what (batches (gc_batch_size cfg) cs) st
           in (Inr es, st))"

section \<open>Lemmas: the cache\<close>

definition cache_ok :: "nat \<Rightarrow> emb_cache \<Rightarrow> bool" where
  "cache_ok max_size c \<longleftrightarrow> distinct (map fst (cache_entries c)) \<and> distinct (map fst (access_times c))
     \<and> fst ` set (cache_entries c) = fst ` set (access_times c)
     \<and> length (cache_entries c) \<le> max_size"

lemma cache_ok_new: "cache_ok n new_cache"
  by (simp add: cache_ok_def new_cache_def)

lemma length_keys: "distinct (map fst d) \<Longrightarrow> length d = card (fst ` set d)"
  by (metis distinct_card length_map list.set_map)

lemma oldest_key_mem: "ts \<noteq> [] \<Longrightarrow> oldest_key ts \<in> fst ` set ts"
  by (simp add: oldest_key_def arg_min_list_in)

lemma keys_filter: "fst ` set (filter (\<lambda>e. fst e \<noteq> k) d) = fst ` set d - {k}"
  by auto

lemma distinct_filter_keys:
  "distinct (map fst d) \<Longrightarrow> distinct (map fst (filter (\<lambda>e. P (fst e)) d))"
  by (induction d) auto

lemma evict_ok:
  assumes "cache_ok n c" and "k \<in> fst ` set (access_times c)"
  shows "cache_ok (n - 1) (evict k c)"
proof -
  let ?d = "filter (\<lambda>e. fst e \<noteq> k) (cache_entries c)"
  have d: "distinct (map fst ?d)"
    using assms distinct_filter_keys [of "cache_entries c" "\<lambda>x. x \<noteq> k"] by (simp add: cache_ok_def)
  have "length ?d = card (fst ` set (cache_entries c) - {k})"
    unfolding length_keys [OF d] keys_filter ..
  also have "\<dots> = card (fst ` set (cache_entries c)) - 1"
    using assms by (simp add: cache_ok_def)
  also have "\<dots> = length (cache_entries c) - 1"
    using assms length_keys [of "cache_entries c"] by (simp add: cache_ok_def)
  finally show ?thesis
    using assms d distinct_filter_keys [of "access_times c" "\<lambda>x. x \<noteq> k"]
    by (simp add: cache_ok_def evict_def keys_filter diff_le_mono del: set_filter)
qed

lemma length_dict_put: "length (dict_put k v d) \<le> length d + 1"
  by (induction k v d rule: dict_put.induct) auto

lemma emb_put_ok:
  assumes "cache_ok n c" and "0 < n"
  shows "\<exists>c'. emb_put md5 n text e c = Inr c' \<and> cache_ok n c'
     \<and> fst (emb_get md5 text c') = Some e"
proof -
  let ?full = "length (cache_entries c) \<ge> n"
  have ne: "access_times c \<noteq> []" if ?full
  proof
    assume "access_times c = []"
    then have "fst ` set (cache_entries c) = {}" using assms by (simp add: cache_ok_def)
    with that assms show False by simp
  qed
  let ?c = "if ?full then evict (oldest_key (access_times c)) c else c"
  have small: "cache_ok (n - 1) ?c"
  proof (cases ?full)
    case True
    with evict_ok [OF assms(1) oldest_key_mem [OF ne [OF True]]] show ?thesis by simp
  next
    case False
    with assms show ?thesis by (simp add: cache_ok_def)
  qed
  let ?r = "?c\<lparr>cache_entries := dict_put (md5 text) e (cache_entries ?c),
      access_times := dict_put (md5 text) (cache_clock ?c) (access_times ?c),
      cache_clock := cache_clock ?c + 1\<rparr>"
  have "emb_put md5 n text e c = Inr ?r" using ne by (auto simp: emb_put_def Let_def)
  moreover have "cache_ok n ?r"
    using small assms(2) length_dict_put [of "md5 text" e "cache_entries ?c"]
    by (auto simp: cache_ok_def simp del: if_split_asm split del: if_split)
  moreover have "fst (emb_get md5 text ?r) = Some e" by (simp add: emb_get_def Let_def)
  ultimately show ?thesis by blast
qed

lemma emb_get_ok: "cache_ok n c \<Longrightarrow> cache_ok n (snd (emb_get md5 text c))"
proof (cases "map_of (cache_entries c) (md5 text)")
  case (Some e)
  then have "md5 text \<in> fst ` set (cache_entries c)" by (metis domI dom_map_of_conv_image_fst)
  moreover assume "cache_ok n c"
  ultimately show ?thesis using Some by (auto simp: emb_get_def Let_def cache_ok_def)
qed (simp add: emb_get_def Let_def)

section \<open>Lemmas: batches\<close>

lemma batches_Nil [simp]: "batches n [] = []"
  by (simp add: batches.simps)

lemma batches_concat: "0 < n \<Longrightarrow> concat (batches n xs) = xs"
proof (induction n xs rule: batches.induct)
  case (1 n xs)
  then show ?case by (cases "xs = []") (simp_all add: batches.simps [of n xs])
qed

lemma process_individually_length:
  "length (fst (process_individually cfg md5 api ts st)) = length ts"
  by (induction cfg md5 api ts st rule: process_individually.induct)
    (auto simp: Let_def split: prod.splits)

text \<open>The provider's promise: one embedding per input text.\<close>

definition api_complete :: "api \<Rightarrow> bool" where
  "api_complete api \<longleftrightarrow> (\<forall>k texts es. api k texts = Inr es \<longrightarrow> length es = length texts)"

lemma batch_loop_length:
  "api_complete api \<Longrightarrow> fst (batch_loop cfg md5 api texts n st) = Inr (Some es) \<Longrightarrow>
     length es = length texts"
proof (induction cfg md5 api texts n st rule: batch_loop.induct)
  case (2 cfg md5 api texts n st)
  show ?case
  proof (cases "api (es_calls st) texts")
    case (Inr fs)
    with 2 show ?thesis by (auto simp: api_complete_def)
  next
    case (Inl x)
    with 2 process_individually_length [of cfg md5 api texts "st\<lparr>es_calls := es_calls st + 1\<rparr>"]
    show ?thesis by (auto simp: Let_def split: if_splits prod.splits)
  qed
qed simp

lemma map_zip_fst: "length cs = length es \<Longrightarrow> map (\<lambda>p. f (fst p)) (zip cs es) = map f cs"
  by (induction cs es rule: list_induct2) auto

lemma embed_batch_content:
  assumes "api_complete api"
  shows "map ec_content (fst (embed_batch cfg md5 api stamp what cs st)) = map dc_content cs
     \<and> map ec_index (fst (embed_batch cfg md5 api stamp what cs st)) = map (\<lambda>c. Some (int (dc_index c))) cs"
proof -
  obtain r st' where r: "generate_embeddings_batch cfg md5 api (map dc_content cs) st = (r, st')"
    by (cases "generate_embeddings_batch cfg md5 api (map dc_content cs) st")
  show ?thesis
  proof (cases r)
    case (Inl x)
    with r show ?thesis by (simp add: embed_batch_def without_embedding_def comp_def)
  next
    case (Inr o')
    show ?thesis
    proof (cases o')
      case None
      with r Inr show ?thesis by (simp add: embed_batch_def without_embedding_def comp_def)
    next
      case (Some es)
      with r Inr have "fst (batch_loop cfg md5 api (batch_texts cfg (map dc_content cs))
          (gc_max_retries cfg) st) = Inr (Some es)"
        by (simp add: generate_embeddings_batch_def)
      from batch_loop_length [OF assms this] have len: "length es = length cs"
        by (simp add: batch_texts_def)
      then show ?thesis
        using r Inr Some map_zip_fst [of cs es dc_content]
          map_zip_fst [of cs es "\<lambda>c. Some (int (dc_index c))"]
        by (simp add: embed_batch_def with_embedding_def comp_def case_prod_unfold)
    qed
  qed
qed

lemma embed_batches_content:
  "api_complete api \<Longrightarrow>
     map ec_content (fst (embed_batches cfg md5 api stamp what bs st)) = map dc_content (concat bs)
     \<and> map ec_index (fst (embed_batches cfg md5 api stamp what bs st))
         = map (\<lambda>c. Some (int (dc_index c))) (concat bs)"
proof (induction bs arbitrary: st)
  case (Cons b bs)
  obtain es st' where b: "embed_batch cfg md5 api stamp what b st = (es, st')"
    by (cases "embed_batch cfg md5 api stamp what b st")
  obtain fs st'' where f: "embed_batches cfg md5 api stamp what bs st' = (fs, st'')"
    by (cases "embed_batches cfg md5 api stamp what bs st'")
  from Cons.IH [OF Cons.prems, of st'] embed_batch_content [OF Cons.prems, of cfg md5 stamp what b st]
  show ?case by (simp add: b f)
qed simp

lemma embed_chunks_content:
  assumes "api_complete api" and "0 < gc_batch_size cfg"
  shows "\<exists>es st'. embed_chunks cfg md5 api stamp what cs st = (Inr es, st')
     \<and> map ec_content es = map dc_content cs
     \<and> map ec_index es = map (\<lambda>c. Some (int (dc_index c))) cs"
proof (cases "cs = []")
  case True
  then show ?thesis by (simp add: embed_chunks_def)
next
  case False
  with assms embed_batches_content [OF assms(1), of cfg md5 stamp what "batches (gc_batch_size cfg) cs" st]
    batches_concat [OF assms(2), of cs]
  show ?thesis by (auto simp: embed_chunks_def split: prod.splits)
qed

section \<open>Properties\<close>

text \<open>C30: embedding keeps the chunks.  For every batch size and every pattern of failures of
  a provider that answers one embedding per text, \<open>embed_chunks\<close> succeeds and returns the
  chunks in order, with their contents and indices; it never raises.\<close>

theorem embed_keeps_chunks:
  assumes "api_complete api" and "0 < gc_batch_size cfg"
  shows "\<exists>es st'. embed_chunks cfg md5 api stamp what cs st = (Inr es, st')
     \<and> map ec_content es = map dc_content cs
     \<and> map ec_index es = map (\<lambda>c. Some (int (dc_index c))) cs"
  by (rule embed_chunks_content) (rule assms)+

theorem embed_keeps_chunks_witness:
  "\<exists>es st'. embed_chunks ((default_gen_config ''m'')\<lparr>gc_batch_size := 2\<rparr>) id
       (\<lambda>k ts. if k = 0 then Inl RateLimitError else Inr (map (\<lambda>t. [1]) ts)) ''now'' (\<lambda>_. ''x'')
       [mk_document_chunk ''a'' 0 0 1 [], mk_document_chunk ''b'' 1 1 2 [], mk_document_chunk ''c'' 2 2 3 []]
       \<lparr>es_calls = 0, es_cache = new_cache\<rparr> = (Inr es, st')
     \<and> map ec_content es = [''a'', ''b'', ''c'']"
proof -
  let ?api = "\<lambda>k ts. if k = 0 then Inl RateLimitError else Inr (map (\<lambda>t. [1]) ts)"
  have "api_complete ?api" by (auto simp: api_complete_def)
  then show ?thesis
    using embed_keeps_chunks [of ?api "(default_gen_config ''m'')\<lparr>gc_batch_size := 2\<rparr>" id "''now''"
        "\<lambda>_. ''x''" "[mk_document_chunk ''a'' 0 0 1 [], mk_document_chunk ''b'' 1 1 2 [],
          mk_document_chunk ''c'' 2 2 3 []]" "\<lparr>es_calls = 0, es_cache = new_cache\<rparr>"]
    by (auto simp: default_gen_config_def mk_document_chunk_def)
qed

text \<open>C39: the embedding cache is bounded and coherent.  From a coherent cache of a positive
  maximal size, storing succeeds, finds the stored embedding again, keeps one access time
  per entry and never exceeds the maximal size, whether the text was in the cache or not.\<close>

theorem embedding_cache_bounded:
  assumes "cache_ok n c" and "0 < n"
  shows "\<exists>c'. emb_put md5 n text e c = Inr c' \<and> cache_ok n c'
     \<and> fst (emb_get md5 text c') = Some e \<and> cache_ok n (snd (emb_get md5 text c'))"
  using emb_put_ok [OF assms] emb_get_ok by blast

theorem embedding_cache_bounded_witness:
  "\<exists>c'. emb_put id 1 ''a'' (Some [1]) new_cache = Inr c' \<and> fst (emb_get id ''a'' c') = Some (Some [1])"
  using embedding_cache_bounded [OF cache_ok_new, of 1 id "''a''" "Some [1]"] by auto

end
