(* ===== verification/FileParsers.thy ===== *)
theory FileParsers
  imports JsonOps PyRegex
begin

text \<open>
  \<open>ingestion/file_parsers.py\<close> and \<open>ingestion/s3_utils.py\<close>: choosing a parser by the
  suffix, what each parser makes of what its library reads from the file, and the object
  keys an ingestion run considers.  The libraries and S3 are parameters.
\<close>

section \<open>Paths\<close>

text \<open>The last component of a path, \<open>Path(p).name\<close>: empty components and dots are dropped.\<close>

definition path_name :: "string \<Rightarrow> string" where
  "path_name p = (case rev (filter (\<lambda>c. c \<noteq> [] \<and> c \<noteq> ''.'') (py_split ''/'' p)) of
      [] \<Rightarrow> [] | c # _ \<Rightarrow> c)"

text \<open>The part of a name before its last dot and from it, when both have something in them.\<close>

definition split_suffix :: "string \<Rightarrow> string \<times> string" where
  "split_suffix name =
     (let ext = takeWhile (\<lambda>c. c \<noteq> CHR ''.'') (rev name);
          base = drop (length ext) (rev name)
      in case base of
           [] \<Rightarrow> (name, [])
         | _ # stem \<Rightarrow> if stem = [] \<or> ext = [] then (name, []) else (rev stem, CHR ''.'' # rev ext))"

definition path_suffix :: "string \<Rightarrow> string" where
  "path_suffix p = snd (split_suffix (path_name p))"

definition path_stem :: "string \<Rightarrow> string" where
  "path_stem p = fst (split_suffix (path_name p))"

section \<open>Parsers\<close>

text \<open>What a library call can do: be absent, fail, or answer.\<close>

datatype 'a lib = NotInstalled | LibError string | LibOk 'a

text \<open>A cell of a spreadsheet as its text, \<open>None\<close> when empty; the shapes of a slide that
  have a text.\<close>

record library =
  lb_text :: "string res"
  lb_pdf :: "string option list lib"
  lb_docx :: "(string list \<times> string list list list) lib"
  lb_excel :: "(string \<times> string option list list) list lib"
  lb_pptx :: "string list list lib"
  lb_rows :: "string \<Rightarrow> (string \<times> string) list list res"
  lb_json :: "string res"
  lb_lines :: "string list res"
  lb_relines :: "string \<Rightarrow> string option"
  lb_html :: "(string \<times> string option option) lib"

type_synonym parsed = "(string \<times> meta) res"

definition fmt :: "string \<Rightarrow> meta" where
  "fmt f = [(''format'', JStr f)]"

definition fmt_error :: "string \<Rightarrow> string \<Rightarrow> meta" where
  "fmt_error f what = fmt f @ [(''error'', JStr what)]"

definition count_field :: "string \<Rightarrow> nat \<Rightarrow> string \<times> json" where
  "count_field k n = (k, JNum (of_nat n))"

definition parse_text :: "library \<Rightarrow> parsed" where
  "parse_text lb = res_bind (lb_text lb) (\<lambda>s. Inr (s, fmt ''text''))"

definition with_lib :: "library \<Rightarrow> string \<Rightarrow> ('a \<Rightarrow> string \<times> meta) \<Rightarrow> 'a lib \<Rightarrow> parsed" where
  "with_lib lb f mk r = (case r of
      NotInstalled \<Rightarrow> parse_text lb
    | LibError what \<Rightarrow> Inr ([], fmt_error f what)
    | LibOk x \<Rightarrow> Inr (mk x))"

definition parse_pdf :: "library \<Rightarrow> parsed" where
  "parse_pdf lb = with_lib lb ''pdf'' (\<lambda>pages.
     (py_join [NL, NL] (filter (\<lambda>p. py_strip p \<noteq> []) (map (\<lambda>p. str_or p []) pages)),
      fmt ''pdf'' @ [count_field ''page_count'' (length pages)])) (lb_pdf lb)"

definition parse_docx :: "library \<Rightarrow> parsed" where
  "parse_docx lb = with_lib lb ''docx'' (\<lambda>(paragraphs, tables).
     (py_join [NL, NL] (filter (\<lambda>p. py_strip p \<noteq> []) paragraphs
        @ map (py_join [TAB]) (concat tables)),
      fmt ''docx'' @ [count_field ''paragraph_count'' (length paragraphs)])) (lb_docx lb)"

definition parse_excel :: "library \<Rightarrow> parsed" where
  "parse_excel lb = with_lib lb ''xlsx'' (\<lambda>sheets.
     (py_join [NL] (concat (map (\<lambda>(title, rows).
        (''## Sheet: '' @ title)
        # filter (\<lambda>r. py_strip r \<noteq> []) (map (\<lambda>row. py_join [TAB] (map (\<lambda>v. str_or v []) row)) rows))
        sheets)),
      fmt ''xlsx'' @ [count_field ''sheet_count'' (length sheets)])) (lb_excel lb)"

definition parse_pptx :: "library \<Rightarrow> parsed" where
  "parse_pptx lb = with_lib lb ''pptx'' (\<lambda>slides.
     (py_join [NL, NL] (concat (map (\<lambda>(i, shapes).
        let texts = filter (\<lambda>t. py_strip t \<noteq> []) shapes
        in if texts = [] then [] else [''## Slide '' @ dec i @ [NL] @ py_join [NL] texts])
        (zip [1..<Suc (length slides)] slides))),
      fmt ''pptx'' @ [count_field ''slide_count'' (length slides)])) (lb_pptx lb)"

definition parse_delimited :: "library \<Rightarrow> string \<Rightarrow> string \<Rightarrow> (exc \<Rightarrow> string) \<Rightarrow> parsed" where
  "parse_delimited lb delimiter f what = (case lb_rows lb delimiter of
      Inl e \<Rightarrow> Inr ([], fmt_error f (what e))
    | Inr rows \<Rightarrow> Inr (py_join [NL] (map (\<lambda>row. py_join [TAB] (map (\<lambda>(k, v). k @ '': '' @ v) row)) rows),
        fmt f @ [count_field ''row_count'' (length rows)]))"

definition parse_json :: "library \<Rightarrow> (exc \<Rightarrow> string) \<Rightarrow> parsed" where
  "parse_json lb what = (case lb_json lb of
      Inl e \<Rightarrow> Inr ([], fmt_error ''json'' (what e)) | Inr s \<Rightarrow> Inr (s, fmt ''json''))"

text \<open>\<open>lb_relines\<close>: a line decoded and dumped again, \<open>None\<close> when it is not JSON.\<close>

definition parse_jsonl :: "library \<Rightarrow> (exc \<Rightarrow> string) \<Rightarrow> parsed" where
  "parse_jsonl lb what = (case lb_lines lb of
      Inl e \<Rightarrow> Inr ([], fmt_error ''jsonl'' (what e))
    | Inr raw \<Rightarrow>
        let lns = map (\<lambda>l. case lb_relines lb l of None \<Rightarrow> l | Some s \<Rightarrow> s)
                    (filter (\<lambda>l. l \<noteq> []) (map py_strip raw))
        in Inr (py_join [NL] lns, fmt ''jsonl'' @ [count_field ''record_count'' (length lns)]))"

definition parse_html :: "library \<Rightarrow> parsed" where
  "parse_html lb = with_lib lb ''html'' (\<lambda>(content, title).
     (content, fmt ''html'' @ [(''title'', case title of None \<Rightarrow> JStr [] | Some None \<Rightarrow> JNull | Some (Some t) \<Rightarrow> JStr t)]))
     (lb_html lb)"

definition parser_for :: "string \<Rightarrow> library \<Rightarrow> (exc \<Rightarrow> string) \<Rightarrow> parsed" where
  "parser_for ext lb what =
     (if ext = ''.pdf'' then parse_pdf lb
      else if ext = ''.docx'' then parse_docx lb
      else if ext = ''.xlsx'' \<or> ext = ''.xls'' then parse_excel lb
      else if ext = ''.pptx'' then parse_pptx lb
      else if ext = ''.csv'' then parse_delimited lb '','' ''csv'' what
      else if ext = ''.tsv'' then parse_delimited lb [TAB] ''tsv'' what
      else if ext = ''.json'' then parse_json lb what
      else if ext = ''.jsonl'' then parse_jsonl lb what
      else if ext = ''.html'' \<or> ext = ''.htm'' then parse_html lb
      else parse_text lb)"

definition parse_document :: "string \<Rightarrow> library \<Rightarrow> (exc \<Rightarrow> string) \<Rightarrow> parsed" where
  "parse_document file_path lb what =
     (let ext = py_lower (path_suffix file_path)
      in res_bind (parser_for ext lb what) (\<lambda>(content, m).
           Inr (content, dict_put ''file_extension'' (JStr ext)
                 (dict_put ''file_name'' (JStr (path_name file_path)) m))))"

section \<open>S3\<close>

definition SUPPORTED_EXTENSIONS :: "string list" where
  "SUPPORTED_EXTENSIONS =
     [''.txt'', ''.md'', ''.rst'', ''.log'', ''.pdf'', ''.docx'', ''.xlsx'', ''.xls'', ''.pptx'', ''.csv'', ''.tsv'',
      ''.json'', ''.jsonl'', ''.html'', ''.htm'', ''.py'', ''.js'', ''.ts'', ''.yaml'', ''.yml'', ''.toml'', ''.xml'']"

definition S3_EXTENSIONS :: "string list" where
  "S3_EXTENSIONS = [''.txt'', ''.md'', ''.pdf'', ''.docx'', ''.csv'']"

record s3_env =
  s3_private :: string
  s3_public :: string
  s3_head :: "string \<Rightarrow> unit res"
  s3_list :: "string \<Rightarrow> string \<Rightarrow> string list res"
  s3_get :: "string \<Rightarrow> string \<Rightarrow> library res"

definition bucket_name :: "s3_env \<Rightarrow> string \<Rightarrow> string" where
  "bucket_name s3 bucket_type = (if bucket_type = ''private'' then s3_private s3 else s3_public s3)"

definition verify_s3_access :: "s3_env \<Rightarrow> bool" where
  "verify_s3_access s3 = list_all (\<lambda>b. \<not> isl (s3_head s3 b))
     (filter (\<lambda>b. b \<noteq> []) [s3_private s3, s3_public s3])"

definition list_documents_from_s3 :: "s3_env \<Rightarrow> string \<Rightarrow> string \<Rightarrow> string list" where
  "list_documents_from_s3 s3 bucket_type pfx =
     (let bucket = bucket_name s3 bucket_type
      in if bucket = [] then []
         else py_try (res_bind (s3_list s3 bucket pfx) (\<lambda>keys.
           Inr (filter (\<lambda>k. py_lower (path_suffix k) \<in> set S3_EXTENSIONS) keys))) [])"

text \<open>The downloaded object, as what the libraries read from it.\<close>

definition download_document_from_s3 :: "s3_env \<Rightarrow> string \<Rightarrow> string \<Rightarrow> library option" where
  "download_document_from_s3 s3 doc_key bucket_type =
     (let bucket = bucket_name s3 bucket_type
      in if bucket = [] then None
         else (case s3_get s3 bucket doc_key of Inl _ \<Rightarrow> None | Inr lb \<Rightarrow> Some lb))"

section \<open>Lemmas\<close>

lemma listed_keys_supported:
  "k \<in> set (list_documents_from_s3 s3 bt pfx) \<Longrightarrow> py_lower (path_suffix k) \<in> set S3_EXTENSIONS"
  by (cases "s3_list s3 (bucket_name s3 bt) pfx")
    (auto simp: list_documents_from_s3_def Let_def split: if_splits)

lemma s3_extensions_parseable: "set S3_EXTENSIONS \<subseteq> set SUPPORTED_EXTENSIONS"
  by (simp add: S3_EXTENSIONS_def SUPPORTED_EXTENSIONS_def)

end
