(* ===== verification/GraphBuilder.thy ===== *)
theory GraphBuilder
  imports JsonOps
begin

text \<open>
  \<open>ingestion/graph_builder.py\<close>: the fact extraction and the writes of one chunk.  The
  graph is its chunk nodes by document key and content hash, its fact nodes by their
  hash, and the two kinds of edges.  The model call, the driver and the outcome of each
  write are parameters.
\<close>

section \<open>The graph\<close>

record fact_node =
  fn_content :: string
  fn_doc_key :: string
  fn_access :: string

record kgraph =
  g_chunks :: "((string \<times> string) \<times> (string \<times> string)) list"
  g_facts :: "(string \<times> fact_node) list"
  g_from :: "(string \<times> (string \<times> string)) list"
  g_has :: "(string \<times> string) list"

definition empty_graph :: kgraph where
  "empty_graph = \<lparr>g_chunks = [], g_facts = [], g_from = [], g_has = []\<rparr>"

section \<open>Extraction\<close>

record graph_env =
  ge_driver :: "bool res"
  ge_extract :: bool
  ge_max_facts :: nat
  ge_client :: bool
  ge_llm :: "string \<Rightarrow> json res"
  ge_write1 :: "unit res"
  ge_write2 :: "unit res"
  ge_hash :: "string \<Rightarrow> string"

definition strip_str :: "json \<Rightarrow> string res" where
  "strip_str j = (case j of JStr s \<Rightarrow> Inr (py_strip s) | _ \<Rightarrow> Inl (OtherError ''AttributeError''))"

definition entity_names :: "json \<Rightarrow> string list res" where
  "entity_names j =
     res_bind (case j of
         JArr xs \<Rightarrow> Inr xs
       | JObj kvs \<Rightarrow> Inr (map (\<lambda>kv. JStr (fst kv)) kvs)
       | JStr s \<Rightarrow> Inr (map (\<lambda>c. JStr [c]) s)
       | _ \<Rightarrow> Inl TypeError)
       (\<lambda>xs. Inr (concat (map (\<lambda>e. case e of
           JStr s \<Rightarrow> if py_strip s = [] then [] else [py_strip s] | _ \<Rightarrow> []) xs)))"

definition clean_fact :: "json \<Rightarrow> (string \<times> string list) list res" where
  "clean_fact j =
     res_bind (as_obj j) (\<lambda>f.
     res_bind (strip_str (json_or (get_or f ''fact'' JNull) (JStr []))) (\<lambda>t.
       if t = [] then Inr []
       else res_bind (entity_names (json_or (get_or f ''entities'' JNull) (JArr [])))
              (\<lambda>ents. Inr [(t, take 8 ents)])))"

text \<open>The call fails softly; what it returns may still have the wrong shape.\<close>

definition extract_facts :: "graph_env \<Rightarrow> string \<Rightarrow> (string \<times> string list) list res" where
  "extract_facts ge content =
     (if \<not> ge_client ge then Inr []
      else (case res_bind (ge_llm ge (take 4000 content)) (\<lambda>data.
                  res_bind (as_obj data) (\<lambda>d. Inr (json_or (get_or d ''facts'' JNull) (JArr [])))) of
              Inl _ \<Rightarrow> Inr []
            | Inr facts \<Rightarrow>
                (case facts of
                   JArr xs \<Rightarrow> res_bind (map_res clean_fact (take (ge_max_facts ge) xs))
                                (\<lambda>fs. Inr (concat fs))
                 | JStr s \<Rightarrow> if take (ge_max_facts ge) s = [] then Inr []
                             else Inl (OtherError ''AttributeError'')
                 | _ \<Rightarrow> Inl TypeError)))"

section \<open>Writes\<close>

definition merge_edge :: "'a \<Rightarrow> 'a list \<Rightarrow> 'a list" where
  "merge_edge e es = (if e \<in> set es then es else es @ [e])"

definition write_chunk :: "string \<Rightarrow> string \<Rightarrow> string \<Rightarrow> string \<Rightarrow> kgraph \<Rightarrow> kgraph" where
  "write_chunk doc_key content_hash chunk access g =
     g\<lparr>g_chunks := dict_put (doc_key, content_hash) (take 2000 chunk, access) (g_chunks g)\<rparr>"

definition write_fact ::
  "string \<Rightarrow> string \<Rightarrow> string \<Rightarrow> string \<times> string \<times> string list \<Rightarrow> kgraph \<Rightarrow> kgraph" where
  "write_fact doc_key content_hash access = (\<lambda>(uuid, f, ents) g.
     g\<lparr>g_facts := dict_put uuid \<lparr>fn_content = f, fn_doc_key = doc_key, fn_access = access\<rparr> (g_facts g),
       g_from := merge_edge (uuid, doc_key, content_hash) (g_from g),
       g_has := fold (\<lambda>e. merge_edge (e, uuid)) ents (g_has g)\<rparr>)"

text \<open>
  An exception inside the session is logged; one of getting the driver is not caught here.
\<close>

definition build_knowledge_graph ::
  "graph_env \<Rightarrow> string \<Rightarrow> string \<Rightarrow> meta \<Rightarrow> kgraph \<Rightarrow> unit res \<times> kgraph" where
  "build_knowledge_graph ge chunk doc_key m g =
     (case ge_driver ge of
        Inl e \<Rightarrow> (Inl e, g)
      | Inr False \<Rightarrow> (Inr (), g)
      | Inr True \<Rightarrow>
          let access = (case get_or m ''access_level'' (JStr ''public'') of JStr s \<Rightarrow> s | _ \<Rightarrow> []);
              h = ge_hash ge chunk
          in (case ge_write1 ge of
                Inl _ \<Rightarrow> (Inr (), g)
              | Inr _ \<Rightarrow>
                  let g = write_chunk doc_key h chunk access g in
                  (case (if ge_extract ge then extract_facts ge chunk else Inr []) of
                     Inl _ \<Rightarrow> (Inr (), g)
                   | Inr facts \<Rightarrow>
                       if facts = [] \<or> isl (ge_write2 ge) then (Inr (), g)
                       else (Inr (), fold (write_fact doc_key h access)
                              (map (\<lambda>(f, ents). (ge_hash ge (doc_key @ f), f, ents)) facts) g))))"

section \<open>Lemmas\<close>

lemma map_res_concat_bound:
  assumes "\<And>x ys. f x = Inr ys \<Longrightarrow> length ys \<le> 1"
  shows "map_res f xs = Inr yss \<Longrightarrow> length (concat yss) \<le> length xs"
proof (induction xs arbitrary: yss)
  case (Cons x xs)
  then obtain ys yss' where "f x = Inr ys" "map_res f xs = Inr yss'" "yss = ys # yss'" by auto
  with Cons.IH [of yss'] assms [of x ys] show ?case by simp
qed simp

lemma extract_facts_bound:
  "extract_facts ge content = Inr fs \<Longrightarrow>
     length fs \<le> ge_max_facts ge \<and> (\<forall>(f, ents)\<in>set fs. f \<noteq> [] \<and> length ents \<le> 8)"
proof -
  assume a: "extract_facts ge content = Inr fs"
  have one: "length ys \<le> 1 \<and> (\<forall>(f, ents)\<in>set ys. f \<noteq> [] \<and> length ents \<le> 8)"
    if "clean_fact x = Inr ys" for x ys
    using that by (auto simp: clean_fact_def split: if_splits)
  show ?thesis
  proof (cases "fs = []")
    case False
    with a obtain xs yss where xs: "map_res clean_fact (take (ge_max_facts ge) xs) = Inr yss"
      and fs: "fs = concat yss"
      by (auto simp: extract_facts_def split: if_splits sum.splits json.splits)
    have "length fs \<le> length (take (ge_max_facts ge) xs)"
      unfolding fs by (rule map_res_concat_bound [OF _ xs]) (use one in blast)
    moreover have "\<forall>(f, ents)\<in>set fs. f \<noteq> [] \<and> length ents \<le> 8"
    proof
      fix p assume "p \<in> set fs"
      then obtain ys where "ys \<in> set yss" "p \<in> set ys" unfolding fs by auto
      moreover from this(1) obtain x where "clean_fact x = Inr ys"
        using map_res_memD [OF xs] by blast
      ultimately show "case p of (f, ents) \<Rightarrow> f \<noteq> [] \<and> length ents \<le> 8" using one by blast
    qed
    ultimately show ?thesis by simp
  qed simp
qed

text \<open>Building never removes a node; the chunk it is called for is in the graph.\<close>

lemma write_fact_keeps:
  "fst ` set (g_chunks (write_fact dk h a p g)) = fst ` set (g_chunks g)
   \<and> fst ` set (g_facts g) \<subseteq> fst ` set (g_facts (write_fact dk h a p g))"
  by (cases p) (auto simp: write_fact_def)

lemma fold_write_fact_keeps:
  "fst ` set (g_chunks (fold (write_fact dk h a) ps g)) = fst ` set (g_chunks g)
   \<and> fst ` set (g_facts g) \<subseteq> fst ` set (g_facts (fold (write_fact dk h a) ps g))"
proof (induction ps arbitrary: g)
  case (Cons p ps)
  note IH = Cons [of "write_fact dk h a p g"] and st = write_fact_keeps [of dk h a p g]
  from subset_trans [OF conjunct2 [OF st] conjunct2 [OF IH]] conjunct1 [OF IH] conjunct1 [OF st]
  show ?case by simp
qed simp

end
