(* ===== verification/ChunkerFacts.thy ===== *)
theory ChunkerFacts
  imports Chunker
begin

text \<open>
  What the chunkers of theory Chunker guarantee: when the splitting loop ends, what its
  pieces are, what the structural split and the paragraph chunker keep of a text, and
  the numbering contract both chunkers meet (the locale \<open>numbered_chunks\<close>).
\<close>

section \<open>The splitting loop\<close>

text \<open>The least advance of the loop before the overlap is taken back.\<close>

definition advance :: "ChunkingConfig \<Rightarrow> int" where
  "advance cfg = max (min_chunk_size cfg) (chunk_size cfg - 200)"

definition good_config :: "ChunkingConfig \<Rightarrow> bool" where
  "good_config cfg \<longleftrightarrow> 0 \<le> chunk_overlap cfg \<and> chunk_overlap cfg < chunk_size cfg
     \<and> 0 < min_chunk_size cfg \<and> chunk_overlap cfg \<le> advance cfg + 1"

lemma good_default: "good_config default_chunking"
  by (simp add: good_config_def default_chunking_def advance_def)

lemma find_boundary_total:
  "i < int (length text) \<Longrightarrow> -1 \<le> lo \<Longrightarrow> \<exists>b. find_boundary text i lo = Inr b
     \<and> (\<forall>k. b = Some k \<longrightarrow> lo < k \<and> k \<le> i)"
proof (induction "text" i lo rule: find_boundary.induct)
  case (1 "text" i lo)
  show ?case
  proof (cases "i \<le> lo")
    case True
    then show ?thesis by (simp add: find_boundary.simps)
  next
    case False
    with 1 have g: "py_get text i = Inr (text ! nat i)" by (simp add: py_get_def nat_less_iff)
    show ?thesis
    proof (cases "text ! nat i \<in> set SENTENCE_ENDS")
      case True
      with g False show ?thesis by (subst find_boundary.simps) simp
    next
      case no: False
      from 1(1) [OF False g no] 1 obtain b where
        "find_boundary text (i - 1) lo = Inr b" "\<forall>k. b = Some k \<longrightarrow> lo < k \<and> k \<le> i - 1"
        by auto
      with g False no show ?thesis by (subst find_boundary.simps) auto
    qed
  qed
qed

lemma chunk_end_bounds:
  assumes "0 < min_chunk_size cfg" and "0 \<le> start" and "start + chunk_size cfg < int (length text)"
  shows "\<exists>e. chunk_end cfg text start = Inr e \<and> e \<le> start + chunk_size cfg + 1
     \<and> (e = start + chunk_size cfg \<or> start + advance cfg + 2 \<le> e)"
proof -
  let ?e = "start + chunk_size cfg" and ?lo = "max (start + min_chunk_size cfg) (start + chunk_size cfg - 200)"
  have "-1 \<le> ?lo" using assms by auto
  from find_boundary_total [OF assms(3) this] obtain b where
    "find_boundary text ?e ?lo = Inr b" "\<forall>k. b = Some k \<longrightarrow> ?lo < k \<and> k \<le> ?e" by auto
  moreover have "?lo = start + advance cfg" by (simp add: advance_def)
  ultimately show ?thesis by (cases b) (auto simp: chunk_end_def Let_def)
qed

lemma py_slice_nat:
  "0 \<le> a \<Longrightarrow> a \<le> b \<Longrightarrow> b \<le> int (length s) \<Longrightarrow>
     py_slice s a b = take (nat (b - a)) (drop (nat a) s)"
  by (auto simp: py_slice_def slice_pos_def Let_def nat_diff_distrib min_def)

lemma py_slice_from_nat:
  "0 \<le> a \<Longrightarrow> a \<le> int (length s) \<Longrightarrow> py_slice_from s a = drop (nat a) s"
  by (auto simp: py_slice_from_def slice_pos_def min_def nat_le_iff)

text \<open>
  What a run of the loop from a position appends: pieces that overlap by exactly the
  configured amount, put together the rest of the text, and keep the length bound.
\<close>

definition pieces_ok :: "ChunkingConfig \<Rightarrow> string \<Rightarrow> int \<Rightarrow> string list \<Rightarrow> bool" where
  "pieces_ok cfg text start cs \<longleftrightarrow>
     (if start = int (length text) then cs = []
      else cs \<noteq> [] \<and> drop (nat start) text
             = hd cs @ concat (map (drop (nat (chunk_overlap cfg))) (tl cs))
         \<and> (start + chunk_overlap cfg \<le> int (length text) \<longrightarrow>
              chunk_overlap cfg \<le> int (length (hd cs))))
     \<and> (\<forall>c\<in>set cs. c \<noteq> [] \<and> int (length c) \<le> chunk_size cfg + 1)"

lemma pieces_ok_step:
  assumes good: "good_config cfg" and "0 \<le> start" and "e \<le> int (length text)"
    and "start < e - chunk_overlap cfg" and "e \<le> start + chunk_size cfg + 1"
    and ok: "pieces_ok cfg text (e - chunk_overlap cfg) cs"
  shows "pieces_ok cfg text start (py_slice text start e # cs)"
proof -
  let ?ov = "chunk_overlap cfg" and ?n = "int (length text)"
  have ov: "0 \<le> ?ov" using good by (simp add: good_config_def)
  have c: "py_slice text start e = take (nat (e - start)) (drop (nat start) text)"
    by (rule py_slice_nat) (use assms ov in auto)
  have len: "int (length (py_slice text start e)) = e - start"
    unfolding c using assms ov by (simp add: nat_diff_distrib)
  have rest: "concat (map (drop (nat ?ov)) cs) = drop (nat e) text"
  proof (cases "e - ?ov = ?n")
    case True
    with ok ov assms have "cs = []" "?n \<le> e" by (auto simp: pieces_ok_def)
    with True show ?thesis by simp
  next
    case False
    with ok have cs: "cs \<noteq> []" "drop (nat (e - ?ov)) text = hd cs @ concat (map (drop (nat ?ov)) (tl cs))"
      "e - ?ov + ?ov \<le> ?n \<longrightarrow> ?ov \<le> int (length (hd cs))"
      unfolding pieces_ok_def by auto
    then have "?ov \<le> int (length (hd cs))" using assms by simp
    then have "nat ?ov \<le> length (hd cs)" by simp
    have "drop (nat e) text = drop (nat ?ov) (drop (nat (e - ?ov)) text)"
      using assms ov by (simp add: nat_diff_distrib)
    also have "\<dots> = drop (nat ?ov) (hd cs) @ concat (map (drop (nat ?ov)) (tl cs))"
      unfolding cs(2) using \<open>nat ?ov \<le> length (hd cs)\<close> by simp
    also have "\<dots> = concat (map (drop (nat ?ov)) cs)" using cs(1) by (cases cs) simp_all
    finally show ?thesis by simp
  qed
  have "drop (nat start) text = py_slice text start e @ drop (nat e) text"
  proof -
    have "nat e = nat (e - start) + nat start" using assms ov by (simp add: nat_add_distrib [symmetric])
    then show ?thesis unfolding c by (metis append_take_drop_id drop_drop)
  qed
  moreover have "py_slice text start e \<noteq> []" using len assms ov by auto
  ultimately show ?thesis
    using ok rest len assms ov by (auto simp: pieces_ok_def split: if_splits)
qed

lemma split_loop_good:
  assumes good: "good_config cfg"
  shows "0 \<le> start \<Longrightarrow> start \<le> int (length text) \<Longrightarrow>
     \<exists>cs. split_loop cfg text start acc = Some (Inr (acc @ cs)) \<and> pieces_ok cfg text start cs"
proof (induction "nat (int (length text) - start)" arbitrary: start acc rule: less_induct)
  case less
  let ?n = "int (length text)"
  from good have ov: "0 \<le> chunk_overlap cfg" "0 < chunk_size cfg" "0 < min_chunk_size cfg"
    by (auto simp: good_config_def)
  consider "start = ?n" | "start < ?n" "start + chunk_size cfg \<ge> ?n"
    | "start < ?n" "start + chunk_size cfg < ?n" using less.prems by linarith
  then show ?case
  proof cases
    case 1
    then show ?thesis by (subst split_loop.simps) (auto simp: pieces_ok_def)
  next
    case 2
    then have "pieces_ok cfg text start [py_slice_from text start]"
      using less.prems ov by (auto simp: pieces_ok_def py_slice_from_nat)
    with 2 show ?thesis by (subst split_loop.simps) auto
  next
    case 3
    from chunk_end_bounds [OF ov(3) less.prems(1) 3(2)] obtain e where
      e: "chunk_end cfg text start = Inr e" "e \<le> start + chunk_size cfg + 1"
      "e = start + chunk_size cfg \<or> start + advance cfg + 2 \<le> e" by blast
    let ?s = "e - chunk_overlap cfg"
    have s: "start < ?s" "e \<le> ?n" using e 3 good by (auto simp: good_config_def)
    then have dec: "nat (?n - ?s) < nat (?n - start)" "0 \<le> ?s" "?s \<le> ?n"
      using less.prems ov 3 by auto
    from less.hyps [OF dec, of "acc @ [py_slice text start e]"] obtain cs where
      cs: "split_loop cfg text ?s (acc @ [py_slice text start e])
        = Some (Inr ((acc @ [py_slice text start e]) @ cs))" "pieces_ok cfg text ?s cs" by blast
    have "pieces_ok cfg text start (py_slice text start e # cs)"
      by (rule pieces_ok_step [OF good less.prems(1) s(2,1) e(2) cs(2)])
    with 3 e(1) cs(1) show ?thesis by (subst split_loop.simps) auto
  qed
qed

lemma simple_split_good:
  assumes "good_config cfg"
  shows "\<exists>cs. simple_split cfg text = Some (Inr cs) \<and> pieces_ok cfg text 0 cs"
  using split_loop_good [OF assms, of 0 "text" "[]"] by (simp add: simple_split_def)

text \<open>
  When the overlap takes back exactly the least advance, a text whose only sentence end is
  at that place keeps the loop where it is.
\<close>

definition stuck_text :: "ChunkingConfig \<Rightarrow> string" where
  "stuck_text cfg = replicate (nat (advance cfg + 1)) CHR ''a'' @ ''.''
     @ replicate (nat (chunk_size cfg)) CHR ''a''"

lemma stuck_nth:
  assumes "0 \<le> advance cfg"
  shows "k < length (stuck_text cfg) \<Longrightarrow>
     stuck_text cfg ! k = (if k = nat (advance cfg + 1) then CHR ''.'' else CHR ''a'')"
  by (auto simp: stuck_text_def nth_append nth_Cons split: nat.splits)

lemma find_boundary_skip:
  "lo < b \<Longrightarrow> b \<le> i \<Longrightarrow> 0 \<le> b \<Longrightarrow> i < int (length text) \<Longrightarrow> text ! nat b \<in> set SENTENCE_ENDS \<Longrightarrow>
   \<forall>k. b < k \<and> k \<le> i \<longrightarrow> text ! nat k \<notin> set SENTENCE_ENDS \<Longrightarrow> find_boundary text i lo = Inr (Some b)"
proof (induction "text" i lo rule: find_boundary.induct)
  case (1 "text" i lo)
  then have g: "py_get text i = Inr (text ! nat i)" by (simp add: py_get_def nat_less_iff)
  show ?case
  proof (cases "i = b")
    case True
    with 1 g show ?thesis by (subst find_boundary.simps) simp
  next
    case False
    with 1 have no: "text ! nat i \<notin> set SENTENCE_ENDS" by auto
    from False 1 have "\<not> i \<le> lo" by linarith
    from 1(1) [OF this g no] 1 False have "find_boundary text (i - 1) lo = Inr (Some b)" by auto
    with g no \<open>\<not> i \<le> lo\<close> show ?thesis by (subst find_boundary.simps) simp
  qed
qed

lemma stuck_chunk_end:
  assumes "0 < min_chunk_size cfg" and "advance cfg + 2 \<le> chunk_size cfg"
  shows "chunk_end cfg (stuck_text cfg) 0 = Inr (advance cfg + 2)"
proof -
  have adv: "0 < advance cfg" using assms by (simp add: advance_def)
  have len: "int (length (stuck_text cfg)) = advance cfg + 2 + chunk_size cfg"
    using adv assms by (simp add: stuck_text_def)
  have "find_boundary (stuck_text cfg) (chunk_size cfg) (advance cfg) = Inr (Some (advance cfg + 1))"
  proof (rule find_boundary_skip)
    show "stuck_text cfg ! nat (advance cfg + 1) \<in> set SENTENCE_ENDS"
      using adv len assms by (subst stuck_nth) (auto simp: SENTENCE_ENDS_def nat_less_iff)
    show "\<forall>k. advance cfg + 1 < k \<and> k \<le> chunk_size cfg \<longrightarrow> stuck_text cfg ! nat k \<notin> set SENTENCE_ENDS"
      using adv len assms by (auto simp: stuck_nth SENTENCE_ENDS_def nat_less_iff)
  qed (use adv len assms in auto)
  then show ?thesis by (simp add: chunk_end_def Let_def advance_def)
qed

lemma split_loop_stuck:
  assumes "0 < min_chunk_size cfg" and "advance cfg + 2 \<le> chunk_size cfg"
    and "chunk_overlap cfg = advance cfg + 2"
  shows "split_loop cfg (stuck_text cfg) 0 acc = None"
proof -
  have adv: "0 < advance cfg" using assms by (simp add: advance_def)
  have len: "int (length (stuck_text cfg)) = advance cfg + 2 + chunk_size cfg"
    using adv assms by (simp add: stuck_text_def)
  let ?P = "\<lambda>c t s (a::string list) (r::string list res). c = cfg \<longrightarrow> t = stuck_text cfg \<longrightarrow> s \<noteq> (0::int)"
  have "?P c t s a r" if "split_loop c t s a = Some r" for c t s a r
  proof (rule split_loop.raw_induct [where P = ?P, OF _ that])
    fix f :: "ChunkingConfig \<Rightarrow> string \<Rightarrow> int \<Rightarrow> string list \<Rightarrow> string list run"
      and c t s and a :: "string list" and r :: "string list res"
    assume IH: "\<And>c t s a r. f c t s a = Some r \<Longrightarrow> ?P c t s a r"
      and body: "(if s \<ge> int (length t) then Some (Inr a)
        else if s + chunk_size c \<ge> int (length t) then Some (Inr (a @ [py_slice_from t s]))
        else (case chunk_end c t s of Inl e \<Rightarrow> Some (Inl e)
              | Inr e \<Rightarrow> f c t (e - chunk_overlap c) (a @ [py_slice t s e]))) = Some r"
    show "?P c t s a r"
    proof (intro impI notI)
      assume "c = cfg" "t = stuck_text cfg" "s = 0"
      with body have "f cfg (stuck_text cfg) 0 (a @ [py_slice (stuck_text cfg) 0 (advance cfg + 2)])
          = Some r"
        using len adv assms stuck_chunk_end [OF assms(1,2)] by auto
      from IH [OF this] show False by simp
    qed
  qed
  note no = this [of cfg "stuck_text cfg" 0 acc]
  have "split_loop cfg (stuck_text cfg) 0 acc \<noteq> Some r" for r using no [of r] by auto
  then show ?thesis by (cases "split_loop cfg (stuck_text cfg) 0 acc") auto
qed

section \<open>What is kept of a text\<close>

abbreviation ink :: "string \<Rightarrow> string" where
  "ink s \<equiv> filter (\<lambda>c. \<not> py_space c) s"

lemma filter_dropWhile: "filter (\<lambda>c. \<not> P c) (dropWhile P xs) = filter (\<lambda>c. \<not> P c) xs"
  by (induction xs) auto

lemma ink_strip [simp]: "ink (py_strip s) = ink s"
  by (simp add: py_strip_def rstrip_def rev_filter [symmetric] filter_dropWhile)

lemma ink_blank: "py_strip s = [] \<Longrightarrow> ink s = []"
  by (metis ink_strip filter.simps(1))

lemma ink_drop_blank: "ink (concat (filter (\<lambda>p. py_strip p \<noteq> []) ps)) = ink (concat ps)"
  by (induction ps) (auto simp: ink_blank)

lemma ink_split_by: "ink (concat (split_by r ss)) = ink (concat ss)"
proof (induction ss)
  case Nil
  then show ?case by (simp add: split_by_def)
next
  case (Cons s ss)
  have "split_by r (s # ss) = filter (\<lambda>p. py_strip p \<noteq> []) (re_split_keep r s) @ split_by r ss"
    by (simp add: split_by_def)
  with Cons ink_drop_blank [of "re_split_keep r s"] re_split_keep_concat [of r s] show ?case
    by simp
qed

lemma ink_structure: "ink (concat (split_on_structure content)) = ink content"
proof -
  have "ink (concat (fold split_by rs ss)) = ink (concat ss)" for rs ss
    by (induction rs arbitrary: ss) (simp_all add: ink_split_by)
  from this [of STRUCTURE_PATTERNS "[content]"] show ?thesis by (simp add: split_on_structure_def)
qed

lemma py_space_NL [simp]: "py_space NL"
  by (simp add: py_space_code)

lemma ink_paragraphs:
  "ink (concat (map dc_content (paragraph_loop cfg m ps cur pos idx))) = ink cur @ ink (concat ps)"
proof (induction cfg m ps cur pos idx rule: paragraph_loop.induct)
  case (1 cfg m cur pos idx)
  then show ?case by (simp add: mk_document_chunk_def)
next
  case (2 cfg m p ps cur pos idx)
  have blank: "py_strip p = [] \<Longrightarrow> ink p = []" by (rule ink_blank)
  from 2 blank show ?case by (simp add: Let_def mk_document_chunk_def)
qed

lemma ink_simple_chunks:
  "ink (concat (map dc_content (simple_chunk_document cfg content title src m))) = ink content"
proof (cases "py_strip content = []")
  case True
  then show ?thesis by (simp add: simple_chunk_document_def ink_blank)
next
  case False
  have "all_cls py_space PARAGRAPH_SEP" by (simp add: PARAGRAPH_SEP_def Chr_def)
  from re_split_filter [OF this, of content] False show ?thesis
    by (simp add: simple_chunk_document_def Let_def comp_def ink_paragraphs)
qed

lemma paragraph_bound:
  "cur = [] \<or> int (length cur) \<le> chunk_size cfg \<or> cur \<in> py_strip ` S \<Longrightarrow> set ps \<subseteq> S \<Longrightarrow>
     c \<in> set (paragraph_loop cfg m ps cur pos idx) \<Longrightarrow>
     int (length (dc_content c)) \<le> chunk_size cfg \<or> dc_content c \<in> py_strip ` S"
proof (induction cfg m ps cur pos idx rule: paragraph_loop.induct)
  case (1 cfg m cur pos idx)
  then show ?case
    using length_py_strip [of cur] by (auto simp: mk_document_chunk_def split: if_splits)
next
  case (2 cfg m p ps cur pos idx)
  have cur: "int (length (py_strip cur)) \<le> chunk_size cfg \<or> py_strip cur \<in> py_strip ` S" if "cur \<noteq> []"
    using 2(5) that length_py_strip [of cur] by auto
  have S: "py_strip p \<in> py_strip ` S" "set ps \<subseteq> S" using 2(6) by auto
  show ?case
  proof (cases "py_strip p = []")
    case True
    with 2 S show ?thesis by (simp add: Let_def)
  next
    case p: False
    let ?pot = "if cur \<noteq> [] then cur @ [NL, NL] @ py_strip p else py_strip p"
    show ?thesis
    proof (cases "int (length ?pot) \<le> chunk_size cfg")
      case True
      with 2 p S show ?thesis by (simp add: Let_def)
    next
      case False
      with 2 p S cur show ?thesis
        by (auto simp: Let_def mk_document_chunk_def split: if_splits)
    qed
  qed
qed

section \<open>The numbering contract\<close>

text \<open>
  What the ingest service relies on: a chunker's chunks are numbered from 0 in order, and
  each carries the total and the token estimate of its text.
\<close>

locale numbered_chunks =
  fixes make :: "'i \<Rightarrow> DocumentChunk list option"
  assumes numbered: "make i = Some cs \<Longrightarrow> map dc_index cs = [0..<length cs]"
    and counted: "make i = Some cs \<Longrightarrow> c \<in> set cs \<Longrightarrow>
      json_get (dc_meta c) ''total_chunks'' = Some (JNum (of_nat (length cs)))
      \<and> dc_tokens c = length (dc_content c) div 4"
begin

lemma nth_index: "make i = Some cs \<Longrightarrow> k < length cs \<Longrightarrow> dc_index (cs ! k) = k"
  using numbered [of i cs] by (metis add_0 length_map nth_map nth_upt)

lemma in_order: "make i = Some cs \<Longrightarrow> sort_key dc_index cs = cs"
  using numbered [of i cs] by (intro sort_key_id_if_sorted) (simp add: sorted_upt)

lemma distinct_indices: "make i = Some cs \<Longrightarrow> distinct (map dc_index cs)"
  by (simp add: numbered)

end

lemma chunk_objects_index:
  "map dc_index (chunk_objects m content i pos ts) = [i..<i + length ts]"
proof (induction ts arbitrary: i pos)
  case Nil
  then show ?case by simp
next
  case (Cons t ts)
  have "[i..<i + length (t # ts)] = i # [i + 1..<i + 1 + length ts]" by (simp add: upt_rec)
  with Cons show ?case by (simp add: Let_def mk_document_chunk_def)
qed

lemma chunk_objects_content:
  "map dc_content (chunk_objects m content i pos ts) = map py_strip ts"
  by (induction ts arbitrary: i pos) (simp_all add: Let_def mk_document_chunk_def)

lemma chunk_objects_mem: "c \<in> set (chunk_objects m content i pos ts) \<Longrightarrow>
    dc_meta c = m \<and> dc_tokens c = length (dc_content c) div 4"
  by (induction ts arbitrary: i pos) (auto simp: Let_def mk_document_chunk_def)

lemma length_chunk_objects [simp]: "length (chunk_objects m content i pos ts) = length ts"
  by (induction ts arbitrary: i pos) (simp_all add: Let_def)

lemma paragraph_index:
  "map dc_index (paragraph_loop cfg m ps cur pos idx)
     = [idx..<idx + length (paragraph_loop cfg m ps cur pos idx)]"
proof (induction cfg m ps cur pos idx rule: paragraph_loop.induct)
  case (2 cfg m p ps cur pos idx)
  then show ?case by (simp add: Let_def mk_document_chunk_def upt_rec)
qed (simp add: mk_document_chunk_def)

lemma paragraph_mem: "c \<in> set (paragraph_loop cfg m ps cur pos idx) \<Longrightarrow>
    dc_meta c = m \<and> dc_tokens c = length (dc_content c) div 4"
  by (induction cfg m ps cur pos idx rule: paragraph_loop.induct)
    (auto simp: Let_def mk_document_chunk_def split: if_splits)

definition finished :: "'a run \<Rightarrow> 'a option" where
  "finished r = (case r of Some (Inr x) \<Rightarrow> Some x | _ \<Rightarrow> None)"

lemma run_map_Inr: "run_map f r = Some (Inr y) \<longleftrightarrow> (\<exists>x. r = Some (Inr x) \<and> y = f x)"
proof (cases r)
  case (Some a)
  then show ?thesis by (cases a) auto
qed simp

text \<open>Every way out of the semantic chunker makes its objects of some list of texts.\<close>

lemma semantic_chunk_document_objects:
  assumes "semantic_chunk_document cfg llm timed_out content title src m = Some (Inr cs)"
  shows "cs = [] \<or> (\<exists>ts. cs = create_chunk_objects cfg ts content (base_metadata title src m))"
proof -
  let ?base = "base_metadata title src m"
  have s: "\<exists>ts. cs = create_chunk_objects cfg ts content ?base"
    if "simple_chunk cfg content ?base = Some (Inr cs)"
    using that by (auto simp: simple_chunk_def run_map_Inr)
  show ?thesis
    using assms s
    by (auto simp: semantic_chunk_document_def Let_def split: if_splits option.splits sum.splits)
qed

interpretation semantic_chunker: numbered_chunks
  "\<lambda>(cfg, llm, timed_out, content, title, src, m).
     finished (semantic_chunk_document cfg llm timed_out content title src m)"
proof unfold_locales
  fix i cs c
  assume "(case i of (cfg, llm, timed_out, content, title, src, m) \<Rightarrow>
     finished (semantic_chunk_document cfg llm timed_out content title src m)) = Some cs"
  then obtain cfg llm to content title src m where
    "semantic_chunk_document cfg llm to content title src m = Some (Inr cs)"
    by (cases i) (auto simp: finished_def split: option.splits sum.splits)
  then have o: "cs = [] \<or> (\<exists>ts. cs = create_chunk_objects cfg ts content (base_metadata title src m))"
    by (rule semantic_chunk_document_objects)
  show "map dc_index cs = [0..<length cs]"
    using o by (auto simp: create_chunk_objects_def chunk_objects_index)
  show "json_get (dc_meta c) ''total_chunks'' = Some (JNum (of_nat (length cs)))
      \<and> dc_tokens c = length (dc_content c) div 4" if "c \<in> set cs"
    using o that by (auto simp: create_chunk_objects_def json_get_def dest: chunk_objects_mem)
qed

interpretation paragraph_chunker: numbered_chunks
  "\<lambda>(cfg, content, title, src, m). Some (simple_chunk_document cfg content title src m)"
proof unfold_locales
  fix i cs c
  assume "(case i of (cfg, content, title, src, m) \<Rightarrow>
    Some (simple_chunk_document cfg content title src m)) = Some cs"
  then obtain cfg content title src m where cs: "cs = simple_chunk_document cfg content title src m"
    by (cases i) auto
  show "map dc_index cs = [0..<length cs]"
    unfolding cs by (simp add: simple_chunk_document_def Let_def comp_def paragraph_index)
  show "json_get (dc_meta c) ''total_chunks'' = Some (JNum (of_nat (length cs)))
      \<and> dc_tokens c = length (dc_content c) div 4" if "c \<in> set cs"
    using that unfolding cs
    by (auto simp: simple_chunk_document_def Let_def json_get_def dest!: paragraph_mem split: if_splits)
qed

section \<open>Properties\<close>

text \<open>C25: the splitting loop ends and loses nothing.  For every configuration whose overlap
  is not larger than the least advance plus one (the default is one), and every text, the
  loop returns pieces that overlap by exactly the configured amount and put together the
  text, each non-empty and at most one character longer than the chunk size.\<close>

theorem simple_split_reconstructs:
  assumes "good_config cfg" and "text \<noteq> []"
  shows "\<exists>c cs. simple_split cfg text = Some (Inr (c # cs))
     \<and> text = c @ concat (map (drop (nat (chunk_overlap cfg))) cs)
     \<and> (\<forall>d\<in>set (c # cs). d \<noteq> [] \<and> int (length d) \<le> chunk_size cfg + 1)"
proof -
  obtain cs where cs: "simple_split cfg text = Some (Inr cs)" "pieces_ok cfg text 0 cs"
    using simple_split_good [OF assms(1)] by blast
  with assms(2) show ?thesis by (cases cs) (auto simp: pieces_ok_def)
qed

theorem simple_split_reconstructs_witness:
  "\<exists>c cs. simple_split default_chunking ''A short text.'' = Some (Inr (c # cs))
     \<and> ''A short text.'' = c @ concat (map (drop 200) cs)"
  using simple_split_reconstructs [OF good_default, of "''A short text.''"]
  by (auto simp: default_chunking_def)

text \<open>C40: a validated configuration can make the splitter run forever.  When the overlap is
  the least advance plus two, still below the chunk size, the constructor accepts the
  configuration and there is a text on which the loop never ends.\<close>

theorem simple_split_can_diverge:
  assumes "0 < min_chunk_size cfg" and "chunk_overlap cfg = advance cfg + 2"
    and "chunk_overlap cfg < chunk_size cfg"
  shows "mk_chunking_config (chunk_size cfg) (chunk_overlap cfg) (max_chunk_size cfg)
       (min_chunk_size cfg) (use_semantic_splitting cfg) = Inr cfg
     \<and> simple_split cfg (stuck_text cfg) = None"
  using assms split_loop_stuck [of cfg "[]"] by (simp add: mk_chunking_config_def simple_split_def)

theorem simple_split_can_diverge_witness:
  "\<exists>cfg text. mk_chunking_config 200 102 2000 100 True = Inr cfg \<and> simple_split cfg text = None"
proof -
  let ?c = "\<lparr>chunk_size = 200, chunk_overlap = 102, max_chunk_size = 2000, min_chunk_size = 100,
    use_semantic_splitting = True\<rparr>"
  show ?thesis using simple_split_can_diverge [of ?c] by (auto simp: advance_def)
qed

text \<open>C26: the chunkers keep the text.  The structural split and the paragraph chunker lose
  white space only: the non-blank characters of their pieces, in order, are those of the
  document; a chunk of the paragraph chunker is longer than the chunk size only when it
  is a single paragraph.\<close>

theorem chunkers_keep_text:
  "ink (concat (split_on_structure content)) = ink content
   \<and> ink (concat (map dc_content (simple_chunk_document cfg content title src m))) = ink content
   \<and> (\<forall>c\<in>set (simple_chunk_document cfg content title src m).
        int (length (dc_content c)) \<le> chunk_size cfg
        \<or> dc_content c \<in> py_strip ` set (re_split PARAGRAPH_SEP content))"
proof -
  have "int (length (dc_content c)) \<le> chunk_size cfg
      \<or> dc_content c \<in> py_strip ` set (re_split PARAGRAPH_SEP content)"
    if "c \<in> set (simple_chunk_document cfg content title src m)" for c
  proof -
    from that obtain ca base where
      "ca \<in> set (paragraph_loop cfg base (re_split PARAGRAPH_SEP content) [] 0 0)"
      "dc_content c = dc_content ca"
      by (auto simp: simple_chunk_document_def Let_def split: if_splits)
    with paragraph_bound [of "[]" cfg "set (re_split PARAGRAPH_SEP content)"
        "re_split PARAGRAPH_SEP content" ca base 0 0] show ?thesis by auto
  qed
  then show ?thesis by (simp add: ink_structure ink_simple_chunks)
qed

theorem chunkers_keep_text_witness:
  "ink (concat (map dc_content (simple_chunk_document default_chunking
     (''One two.'' @ [NL, NL] @ ''Three.'') ''t'' ''s'' []))) = ''Onetwo.Three.''"
proof -
  have "ink (''One two.'' @ [NL, NL] @ ''Three.'') = ''Onetwo.Three.''" by code_simp
  then show ?thesis
    using chunkers_keep_text [of "''One two.'' @ [NL, NL] @ ''Three.''" default_chunking "''t''" "''s''"
        "[]"] by simp
qed

text \<open>The numbering contract.  Whatever the chunker, configuration and model, the k-th
  chunk of a document has index k, carries the total number of chunks and estimates its
  tokens as a quarter of its length.\<close>

theorem chunk_numbering:
  assumes "run_chunker llm timed_out ch content title src m = Some (Inr cs)" and "k < length cs"
  shows "dc_index (cs ! k) = k
     \<and> json_get (dc_meta (cs ! k)) ''total_chunks'' = Some (JNum (of_nat (length cs)))
     \<and> dc_tokens (cs ! k) = length (dc_content (cs ! k)) div 4"
proof (cases ch)
  case (SemanticChunker cfg)
  with assms have "finished (semantic_chunk_document cfg llm timed_out content title src m) = Some cs"
    by (simp add: run_chunker_def finished_def)
  with assms(2) show ?thesis
    using semantic_chunker.nth_index [of "(cfg, llm, timed_out, content, title, src, m)" cs k]
      semantic_chunker.counted [of "(cfg, llm, timed_out, content, title, src, m)" cs "cs ! k"] by simp
next
  case (SimpleChunker cfg)
  with assms show ?thesis
    using paragraph_chunker.nth_index [of "(cfg, content, title, src, m)" cs k]
      paragraph_chunker.counted [of "(cfg, content, title, src, m)" cs "cs ! k"]
    by (simp add: run_chunker_def)
qed

theorem chunk_numbering_witness:
  "\<exists>c. run_chunker (\<lambda>_. Inl TypeError) False (SimpleChunker default_chunking) ''Hello'' ''t'' ''s'' []
     = Some (Inr [c]) \<and> dc_index c = 0"
proof -
  have "length (simple_chunk_document default_chunking ''Hello'' ''t'' ''s'' []) = 1" by code_simp
  then obtain c where "run_chunker (\<lambda>_. Inl TypeError) False (SimpleChunker default_chunking) ''Hello''
      ''t'' ''s'' [] = Some (Inr [c])" by (auto simp: run_chunker_def length_Suc_conv)
  with chunk_numbering [OF this, of 0] show ?thesis by simp
qed

text \<open>The semantic pass can drop text.  A short section before an oversized one is a
  chunk of its own, below the minimum size, and is filtered out: here the heading of the
  document is in no chunk.\<close>

theorem semantic_pass_drops_text:
  "\<exists>cs. semantic_chunk \<lparr>chunk_size = 10, chunk_overlap = 2, max_chunk_size = 20, min_chunk_size = 5,
       use_semantic_splitting = True\<rparr> (\<lambda>_. Inl (OtherError ''timeout''))
       (''ABC'' @ [NL, NL] @ replicate 25 CHR ''x'') = Some (Inr cs)
     \<and> cs \<noteq> [] \<and> CHR ''A'' \<notin> set (concat cs)"
proof -
  have "semantic_chunk \<lparr>chunk_size = 10, chunk_overlap = 2, max_chunk_size = 20, min_chunk_size = 5,
       use_semantic_splitting = True\<rparr> (\<lambda>_. Inl (OtherError ''timeout''))
       (''ABC'' @ [NL, NL] @ replicate 25 CHR ''x'')
     = Some (Inr [''xxxxxxxxxx'', ''xxxxxxxxxx'', ''xxxxxxxxx''])" by code_simp
  then show ?thesis by simp
qed

text \<open>The character offsets drift.  With an overlap a chunk starts before the end of
  the previous one, so the search from that end misses it and the estimate is used: the
  last chunk of this eight-character document claims to end at position 10.\<close>

theorem offsets_drift:
  "run_map (map (\<lambda>c. (dc_content c, dc_start c, dc_end c)))
     (semantic_chunk_document \<lparr>chunk_size = 4, chunk_overlap = 1, max_chunk_size = 20,
       min_chunk_size = 1, use_semantic_splitting = False\<rparr> (\<lambda>_. Inl TypeError) False
       ''abcdefgh'' ''t'' ''s'' [])
   = Some (Inr [(''abcd'', 0, 4), (''defg'', 4, 8), (''gh'', 8, 10)])"
proof -
  let ?c = "\<lparr>chunk_size = 4, chunk_overlap = 1, max_chunk_size = 20, min_chunk_size = 1,
    use_semantic_splitting = False\<rparr>"
  have split: "simple_split ?c ''abcdefgh'' = Some (Inr [''abcd'', ''defg'', ''gh''])" by code_simp
  have strip: "py_strip ''abcd'' = ''abcd''" "py_strip ''defg'' = ''defg''" "py_strip ''gh'' = ''gh''"
    "py_strip ''abcdefgh'' \<noteq> []" by code_simp+
  have find: "py_find ''abcdefgh'' ''abcd'' 0 = Some 0" "py_find ''abcdefgh'' ''defg'' (Suc (Suc (Suc (Suc 0)))) = None"
    "py_find ''abcdefgh'' ''gh'' (Suc (Suc (Suc (Suc (Suc (Suc (Suc (Suc 0)))))))) = None" by code_simp+
  have "\<not> is_tabular_data ''abcdefgh''" by code_simp
  then show ?thesis
    by (simp add: semantic_chunk_document_def Let_def strip simple_chunk_def split MAX_SEMANTIC_def
        create_chunk_objects_def find mk_document_chunk_def)
qed

end
