(* ===== verification/Ingest.thy ===== *)
theory Ingest
  imports Embedder FileParsers GraphBuilder VespaClient QueryCache ChunkerFacts AccessControl
begin

text \<open>
  \<open>ingestion/ingest_service.py\<close>: ingesting a document with upsert semantics over the
  stores it writes, and the runs over S3 buckets.  \<open>world\<close> is the state of the stores;
  \<open>ingest_env\<close> gathers the services.  A step returns its result or exception with the
  world as it leaves it, so what was written before an exception stays written.  The
  outer option is \<open>None\<close> when the chunker does not end.
\<close>

section \<open>Results\<close>

record IngestResult =
  ir_source :: string
  ir_status :: string
  ir_document :: "string option"
  ir_chunks :: nat
  ir_error :: "string option"

definition mk_result :: "string \<Rightarrow> string \<Rightarrow> string option \<Rightarrow> nat \<Rightarrow> string option \<Rightarrow> IngestResult" where
  "mk_result src status did n err =
     \<lparr>ir_source = src, ir_status = status, ir_document = did, ir_chunks = n, ir_error = err\<rparr>"

record IngestStats =
  is_inserted :: nat
  is_updated :: nat
  is_skipped :: nat
  is_failed :: nat
  is_results :: "IngestResult list"

definition empty_stats :: IngestStats where
  "empty_stats =
     \<lparr>is_inserted = 0, is_updated = 0, is_skipped = 0, is_failed = 0, is_results = []\<rparr>"

definition stats_total :: "IngestStats \<Rightarrow> nat" where
  "stats_total s = is_inserted s + is_updated s + is_skipped s + is_failed s"

section \<open>Stores and services\<close>

record world =
  w_pg :: pg
  w_vespa :: vespa_index
  w_graph :: kgraph
  w_redis :: redis_server
  w_emb :: emb_state

record ingest_env =
  ie_sha :: "string \<Rightarrow> string"
  ie_md5 :: "string \<Rightarrow> string"
  ie_ids :: "nat \<Rightarrow> string"
  ie_chunker :: chunker
  ie_llm :: "string \<Rightarrow> string res"
  ie_timed_out :: bool
  ie_gen :: gen_config
  ie_api :: api
  ie_stamp :: string
  ie_api_what :: "api_exc \<Rightarrow> string"
  ie_what :: "exc \<Rightarrow> string"
  ie_vespa_on :: bool
  ie_post :: "string \<Rightarrow> nat res"
  ie_del :: "string \<Rightarrow> unit res"
  ie_loads :: "string \<Rightarrow> json res"
  ie_dumps :: "json \<Rightarrow> string"
  ie_render :: "json \<Rightarrow> string"
  ie_graph :: graph_env
  ie_qc :: qc_config
  ie_client :: bool
  ie_now :: rat

type_synonym 'a step = "world \<Rightarrow> 'a res \<times> world"

fun step_bind :: "'a res \<times> world \<Rightarrow> ('a \<Rightarrow> 'b step) \<Rightarrow> 'b res \<times> world" where
  "step_bind (Inl e, w) f = (Inl e, w)"
| "step_bind (Inr x, w) f = f x w"

definition pg_read :: "(pg \<Rightarrow> 'a res) \<Rightarrow> 'a step" where
  "pg_read f w = (f (w_pg w), w)"

definition pg_write :: "(pg \<Rightarrow> ('a \<times> pg) res) \<Rightarrow> 'a step" where
  "pg_write f w = (case f (w_pg w) of
      Inl e \<Rightarrow> (Inl e, w) | Inr (x, db) \<Rightarrow> (Inr x, w\<lparr>w_pg := db\<rparr>))"

definition embed_step :: "ingest_env \<Rightarrow> DocumentChunk list \<Rightarrow> embedded_chunk list step" where
  "embed_step ie cs w =
     (case embed_chunks (ie_gen ie) (ie_md5 ie) (ie_api ie) (ie_stamp ie) (ie_api_what ie) cs (w_emb w) of
        (r, st) \<Rightarrow> (r, w\<lparr>w_emb := st\<rparr>))"

section \<open>The chunk-level difference\<close>

text \<open>\<open>{_sha256(c.content): c for c in chunks}\<close>\<close>

definition new_chunk_map ::
  "(string \<Rightarrow> string) \<Rightarrow> DocumentChunk list \<Rightarrow> (string \<times> DocumentChunk) list" where
  "new_chunk_map sha chunks = dict_of (map (\<lambda>c. (sha (dc_content c), c)) chunks)"

definition stale_ids :: "(string \<times> DocumentChunk) list \<Rightarrow> chunk_row list \<Rightarrow> string list" where
  "stale_ids new old =
     map ck_id (filter (\<lambda>r. case ck_hash r of None \<Rightarrow> True | Some h \<Rightarrow> map_of new h = None) old)"

definition chunks_to_embed ::
  "(string \<times> DocumentChunk) list \<Rightarrow> chunk_row list \<Rightarrow> DocumentChunk list" where
  "chunks_to_embed new old =
     map snd (filter (\<lambda>(h, c). \<not> (h \<noteq> [] \<and> Some h \<in> ck_hash ` set old)) new)"

section \<open>One document\<close>

definition delete_stale :: "ingest_env \<Rightarrow> string list \<Rightarrow> unit step" where
  "delete_stale ie ids w =
     (if ids = [] then (Inr (), w)
      else step_bind (pg_write (\<lambda>db. res_bind (delete_chunks_by_ids ids db) (\<lambda>db. Inr ((), db))) w)
        (\<lambda>_ w. (Inr (), w\<lparr>w_vespa :=
           vespa_delete_chunks (ie_vespa_on ie) (ie_del ie) ids (w_vespa w)\<rparr>)))"

definition upsert_step ::
  "ingest_env \<Rightarrow> string \<Rightarrow> string \<Rightarrow> string \<Rightarrow> meta \<Rightarrow> string \<Rightarrow> string step" where
  "upsert_step ie src title content m access =
     pg_write (upsert_document (ie_ids ie) src title content (ie_sha ie content) m access)"

definition save_step ::
  "ingest_env \<Rightarrow> string \<Rightarrow> embedded_chunk list \<Rightarrow> chunk_row list step" where
  "save_step ie did es = pg_write (save_chunks (ie_sha ie) (ie_ids ie) did es)"

fun build_graphs ::
  "ingest_env \<Rightarrow> string \<Rightarrow> meta \<Rightarrow> embedded_chunk list \<Rightarrow> unit step" where
  "build_graphs ie src m [] w = (Inr (), w)"
| "build_graphs ie src m (c # cs) w =
     (case build_knowledge_graph (ie_graph ie) (ec_content c) src m (w_graph w) of
        (Inl e, g) \<Rightarrow> (Inl e, w\<lparr>w_graph := g\<rparr>)
      | (Inr _, g) \<Rightarrow> build_graphs ie src m cs (w\<lparr>w_graph := g\<rparr>))"

text \<open>A saved row as the dictionary handed to Vespa.\<close>

definition vespa_row :: "string \<Rightarrow> string \<Rightarrow> string \<Rightarrow> chunk_row \<Rightarrow> meta" where
  "vespa_row title src access r =
     [(''id'', JStr (ck_id r)), (''document_id'', JStr (ck_doc r)), (''content'', JStr (ck_content r)),
      (''content_hash'', case ck_hash r of None \<Rightarrow> JNull | Some h \<Rightarrow> JStr h),
      (''embedding'', case ck_embedding r of None \<Rightarrow> JNull | Some e \<Rightarrow> JArr (map JNum e)),
      (''chunk_index'', JNum (of_int (ck_index r))),
      (''token_count'', case ck_tokens r of None \<Rightarrow> JNull | Some t \<Rightarrow> JNum (of_int t)),
      (''metadata'', JObj (ck_meta r)), (''document_title'', JStr title),
      (''document_source'', JStr src), (''access_level'', JStr access)]"

definition feed_step ::
  "ingest_env \<Rightarrow> string \<Rightarrow> string \<Rightarrow> string \<Rightarrow> chunk_row list \<Rightarrow> world \<Rightarrow> world" where
  "feed_step ie title src access rows w =
     (if ie_vespa_on ie \<and> rows \<noteq> []
      then w\<lparr>w_vespa := snd (feed_chunks (ie_vespa_on ie) (ie_loads ie) (ie_dumps ie) (ie_render ie)
             (ie_post ie) (map (vespa_row title src access) rows) (w_vespa w))\<rparr>
      else w)"

definition bump_step :: "ingest_env \<Rightarrow> world \<Rightarrow> world" where
  "bump_step ie w = w\<lparr>w_redis := bump_version (ie_qc ie) (ie_client ie) (w_redis w) (ie_now ie)\<rparr>"

text \<open>What follows the saving of new chunks: graph, Vespa, cache invalidation, result.\<close>

definition finish_ingest ::
  "ingest_env \<Rightarrow> string \<Rightarrow> string \<Rightarrow> meta \<Rightarrow> string \<Rightarrow> string \<Rightarrow> string \<Rightarrow> embedded_chunk list
   \<Rightarrow> chunk_row list \<Rightarrow> IngestResult step" where
  "finish_ingest ie src title m access status did es rows w =
     step_bind
       (build_graphs ie src
         (dict_put ''doc_id'' (JStr did) (dict_put ''access_level'' (JStr access) m)) es w)
       (\<lambda>_ w. (Inr (mk_result src status (Some did) (length es) None),
               bump_step ie (feed_step ie title src access rows w)))"

text \<open>\<open>await\<close> of the list a \<open>SimpleChunker\<close> returns is a type error.\<close>

definition await_chunks :: "ingest_env \<Rightarrow> string \<Rightarrow> string \<Rightarrow> string \<Rightarrow> meta \<Rightarrow> DocumentChunk list run" where
  "await_chunks ie content title src m = (case ie_chunker ie of
      SemanticChunker cfg \<Rightarrow>
        semantic_chunk_document cfg (ie_llm ie) (ie_timed_out ie) content title src m
    | SimpleChunker _ \<Rightarrow> Some (Inl TypeError))"

definition ingest_update ::
  "ingest_env \<Rightarrow> string \<Rightarrow> string \<Rightarrow> string \<Rightarrow> meta \<Rightarrow> string \<Rightarrow> doc_row \<Rightarrow> DocumentChunk list
   \<Rightarrow> IngestResult step" where
  "ingest_update ie content src title m access existing chunks w =
     (let new = new_chunk_map (ie_sha ie) chunks; did = doc_id existing in
      step_bind (pg_read (get_document_chunks did) w) (\<lambda>old w.
      step_bind (delete_stale ie (stale_ids new old) w) (\<lambda>_ w.
      step_bind (upsert_step ie src title content m access w) (\<lambda>_ w.
      if chunks_to_embed new old = []
      then (Inr (mk_result src ''updated'' (Some did) 0 None), w)
      else
        step_bind (embed_step ie (chunks_to_embed new old) w) (\<lambda>es w.
        step_bind (save_step ie did es w) (\<lambda>rows w.
          finish_ingest ie src title m access ''updated'' did es rows w))))))"

definition ingest_insert ::
  "ingest_env \<Rightarrow> string \<Rightarrow> string \<Rightarrow> string \<Rightarrow> meta \<Rightarrow> string \<Rightarrow> DocumentChunk list
   \<Rightarrow> IngestResult step" where
  "ingest_insert ie content src title m access chunks w =
     step_bind (upsert_step ie src title content m access w) (\<lambda>did w.
     step_bind (embed_step ie chunks w) (\<lambda>es w.
     step_bind (save_step ie did es w) (\<lambda>rows w.
       finish_ingest ie src title m access ''inserted'' did es rows w)))"

definition ingest_body ::
  "ingest_env \<Rightarrow> string \<Rightarrow> string \<Rightarrow> string \<Rightarrow> meta \<Rightarrow> string \<Rightarrow> world
   \<Rightarrow> (IngestResult res \<times> world) option" where
  "ingest_body ie content src title m access w =
     (case get_document_by_source src (w_pg w) of
        Inl e \<Rightarrow> Some (Inl e, w)
      | Inr existing \<Rightarrow>
          if (case existing of None \<Rightarrow> False | Some d \<Rightarrow> doc_hash d = ie_sha ie content)
          then Some (Inr (mk_result src ''skipped'' (map_option doc_id existing) 0 None), w)
          else (case await_chunks ie content title src m of
                  None \<Rightarrow> None
                | Some (Inl e) \<Rightarrow> Some (Inl e, w)
                | Some (Inr chunks) \<Rightarrow>
                    Some (case existing of
                            Some d \<Rightarrow> ingest_update ie content src title m access d chunks w
                          | None \<Rightarrow> ingest_insert ie content src title m access chunks w)))"

text \<open>The handler turns every exception into a failed result.\<close>

definition ingest_document ::
  "ingest_env \<Rightarrow> string \<Rightarrow> string \<Rightarrow> string \<Rightarrow> meta \<Rightarrow> string \<Rightarrow> world
   \<Rightarrow> (IngestResult \<times> world) option" where
  "ingest_document ie content src title m access w =
     (case ingest_body ie content src title m access w of
        None \<Rightarrow> None
      | Some (Inr r, w) \<Rightarrow> Some (r, w)
      | Some (Inl e, w) \<Rightarrow> Some (mk_result src ''failed'' None 0 (Some (ie_what ie e)), w))"

section \<open>Runs over S3\<close>

definition count_result :: "IngestResult \<Rightarrow> IngestStats \<Rightarrow> IngestStats" where
  "count_result r s =
     (let s = s\<lparr>is_results := is_results s @ [r]\<rparr> in
      if ir_status r = ''inserted'' then s\<lparr>is_inserted := is_inserted s + 1\<rparr>
      else if ir_status r = ''updated'' then s\<lparr>is_updated := is_updated s + 1\<rparr>
      else if ir_status r = ''skipped'' then s\<lparr>is_skipped := is_skipped s + 1\<rparr>
      else s\<lparr>is_failed := is_failed s + 1\<rparr>)"

definition s3_metadata :: "meta \<Rightarrow> string \<Rightarrow> string \<Rightarrow> meta" where
  "s3_metadata file_meta bucket_type key =
     dict_put ''s3_key'' (JStr key) (dict_put ''bucket_type'' (JStr bucket_type) file_meta)"

text \<open>One object of a run; a parser's exception ends the run.\<close>

definition ingest_object ::
  "ingest_env \<Rightarrow> s3_env \<Rightarrow> string \<Rightarrow> string \<Rightarrow> world \<Rightarrow> (IngestResult res \<times> world) option" where
  "ingest_object ie s3 bucket_type key w =
     (case download_document_from_s3 s3 key bucket_type of
        None \<Rightarrow> Some (Inr (mk_result key ''failed'' None 0 (Some ''Download failed'')), w)
      | Some lb \<Rightarrow>
          (case parse_document (path_name key) lb (ie_what ie) of
             Inl e \<Rightarrow> Some (Inl e, w)
           | Inr (content, file_meta) \<Rightarrow>
               if content = []
               then Some (Inr (mk_result key ''failed'' None 0 (Some ''Empty content'')), w)
               else map_option (\<lambda>(r, w). (Inr r, w))
                 (ingest_document ie content key (path_stem key)
                   (s3_metadata file_meta bucket_type key) (assign_access_level bucket_type) w)))"

fun ingest_keys ::
  "ingest_env \<Rightarrow> s3_env \<Rightarrow> string \<Rightarrow> string list \<Rightarrow> IngestStats \<Rightarrow> world
   \<Rightarrow> (IngestStats res \<times> world) option" where
  "ingest_keys ie s3 bt [] stats w = Some (Inr stats, w)"
| "ingest_keys ie s3 bt (k # ks) stats w =
     (case ingest_object ie s3 bt k w of
        None \<Rightarrow> None
      | Some (Inl e, w) \<Rightarrow> Some (Inl e, w)
      | Some (Inr r, w) \<Rightarrow> ingest_keys ie s3 bt ks (count_result r stats) w)"

definition ingest_from_s3 ::
  "ingest_env \<Rightarrow> s3_env \<Rightarrow> string \<Rightarrow> string \<Rightarrow> world \<Rightarrow> (IngestStats res \<times> world) option" where
  "ingest_from_s3 ie s3 bucket_type pfx w =
     (if \<not> verify_s3_access s3 then Some (Inr empty_stats, w)
      else ingest_keys ie s3 bucket_type (list_documents_from_s3 s3 bucket_type pfx) empty_stats w)"

definition add_stats :: "IngestStats \<Rightarrow> IngestStats \<Rightarrow> IngestStats" where
  "add_stats a b = \<lparr>is_inserted = is_inserted a + is_inserted b, is_updated = is_updated a + is_updated b,
     is_skipped = is_skipped a + is_skipped b, is_failed = is_failed a + is_failed b,
     is_results = is_results a @ is_results b\<rparr>"

definition ingest_all_s3_buckets ::
  "ingest_env \<Rightarrow> s3_env \<Rightarrow> world \<Rightarrow> (IngestStats res \<times> world) option" where
  "ingest_all_s3_buckets ie s3 w =
     (case ingest_from_s3 ie s3 ''private'' [] w of
        None \<Rightarrow> None
      | Some (Inl e, w) \<Rightarrow> Some (Inl e, w)
      | Some (Inr a, w) \<Rightarrow>
          (case ingest_from_s3 ie s3 ''public'' [] w of
             None \<Rightarrow> None
           | Some (Inl e, w) \<Rightarrow> Some (Inl e, w)
           | Some (Inr b, w) \<Rightarrow> Some (Inr (add_stats (add_stats empty_stats a) b), w)))"

definition ingest_single_s3_object ::
  "ingest_env \<Rightarrow> s3_env \<Rightarrow> string \<Rightarrow> string \<Rightarrow> world \<Rightarrow> (IngestResult res \<times> world) option" where
  "ingest_single_s3_object ie s3 key bucket w =
     ingest_object ie s3 (if bucket = s3_private s3 then ''private'' else ''public'') key w"

end
