(* ===== verification/IngestFacts.thy ===== *)
theory IngestFacts
  imports Ingest
begin

text \<open>
  What the ingest service guarantees: triples over its steps (what holds after a result,
  what after an exception), the store invariant every run keeps, the chunk-level
  difference of an update, the cache invalidation and the accounts of a bulk run.
\<close>

section \<open>Triples\<close>

text \<open>
  \<open>triple P m Q E\<close>: from a world in \<open>P\<close> the step leaves one in \<open>Q\<close> with its result, or one in
  \<open>E\<close> with an exception.
\<close>

definition triple ::
  "(world \<Rightarrow> bool) \<Rightarrow> 'a step \<Rightarrow> ('a \<Rightarrow> world \<Rightarrow> bool) \<Rightarrow> (world \<Rightarrow> bool) \<Rightarrow> bool" where
  "triple P m Q E \<longleftrightarrow>
     (\<forall>w. P w \<longrightarrow> (case m w of (Inr x, w') \<Rightarrow> Q x w' | (Inl _, w') \<Rightarrow> E w'))"

named_theorems step_rules

lemma triple_bind [step_rules]:
  "triple P m Q E \<Longrightarrow> (\<And>x. triple (Q x) (f x) R E) \<Longrightarrow> triple P (\<lambda>w. step_bind (m w) f) R E"
  unfolding triple_def by (fastforce split: prod.splits sum.splits)

lemma triple_return [step_rules]:
  "(\<And>w. P w \<Longrightarrow> Q x (g w)) \<Longrightarrow> triple P (\<lambda>w. (Inr x, g w)) Q E"
  by (simp add: triple_def)

lemma triple_if [step_rules]:
  "(c \<Longrightarrow> triple P m Q E) \<Longrightarrow> (\<not> c \<Longrightarrow> triple P n Q E) \<Longrightarrow> triple P (\<lambda>w. if c then m w else n w) Q E"
  by (simp add: triple_def)

lemma triple_read [step_rules]:
  "(\<And>w. P w \<Longrightarrow> (case f (w_pg w) of Inl e \<Rightarrow> E w | Inr x \<Rightarrow> Q x w)) \<Longrightarrow> triple P (pg_read f) Q E"
  by (fastforce simp: triple_def pg_read_def split: sum.splits)

lemma triple_write [step_rules]:
  "(\<And>w. P w \<Longrightarrow> (case f (w_pg w) of Inl e \<Rightarrow> E w | Inr (x, db) \<Rightarrow> Q x (w\<lparr>w_pg := db\<rparr>)))
     \<Longrightarrow> triple P (pg_write f) Q E"
  by (fastforce simp: triple_def pg_write_def split: sum.splits prod.splits)

lemma tripleD:
  "triple P m Q E \<Longrightarrow> P w \<Longrightarrow> m w = (Inr x, w') \<Longrightarrow> Q x w'"
  "triple P m Q E \<Longrightarrow> P w \<Longrightarrow> m w = (Inl e, w') \<Longrightarrow> E w'"
  by (force simp: triple_def)+

lemma step_bind_Inr [simp]:
  "step_bind p f = (Inr y, w') \<longleftrightarrow> (\<exists>x w1. p = (Inr x, w1) \<and> f x w1 = (Inr y, w'))"
  by (cases "(p, f)" rule: step_bind.cases) auto

text \<open>The steps after the saving leave the database alone.\<close>

lemma build_graphs_frame:
  "w_pg (snd (build_graphs ie src m cs w)) = w_pg w
   \<and> w_redis (snd (build_graphs ie src m cs w)) = w_redis w"
proof (induction cs arbitrary: w)
  case (Cons c cs)
  show ?case
    using Cons.IH by (cases "build_knowledge_graph (ie_graph ie) (ec_content c) src m (w_graph w)")
      (auto split: sum.splits)
qed simp

lemma feed_step_frame [simp]:
  "w_pg (feed_step ie t s a rows w) = w_pg w" "w_redis (feed_step ie t s a rows w) = w_redis w"
  by (simp_all add: feed_step_def)

lemma bump_step_frame [simp]: "w_pg (bump_step ie w) = w_pg w"
  by (simp add: bump_step_def)

lemma finish_ingest_pg: "w_pg (snd (finish_ingest ie src t m a st did es rows w)) = w_pg w"
proof -
  obtain r w1 where b: "build_graphs ie src
      (dict_put ''doc_id'' (JStr did) (dict_put ''access_level'' (JStr a) m)) es w = (r, w1)"
    by (metis prod.exhaust)
  then have "w_pg w1 = w_pg w"
    using build_graphs_frame [of ie src "dict_put ''doc_id'' (JStr did) (dict_put ''access_level'' (JStr a) m)"
        es w] by simp
  with b show ?thesis by (cases r) (simp_all add: finish_ingest_def)
qed

lemma triple_finish [step_rules]:
  assumes "\<And>w. P w \<Longrightarrow> I (w_pg w)"
  shows "triple P (finish_ingest ie src t m a st did es rows) (\<lambda>_ w. I (w_pg w)) (\<lambda>w. I (w_pg w))"
  unfolding triple_def
proof (intro allI impI)
  fix w assume "P w"
  with assms have "I (w_pg (snd (finish_ingest ie src t m a st did es rows w)))"
    by (simp add: finish_ingest_pg)
  then show "case finish_ingest ie src t m a st did es rows w of
      (Inl _, w') \<Rightarrow> I (w_pg w') | (Inr _, w') \<Rightarrow> I (w_pg w')"
    by (cases "finish_ingest ie src t m a st did es rows w") (simp split: sum.splits)
qed

lemma triple_embed [step_rules]:
  "(\<And>w. P w \<Longrightarrow> I (w_pg w)) \<Longrightarrow>
     triple P (embed_step ie cs) (\<lambda>_ w. I (w_pg w)) (\<lambda>w. I (w_pg w))"
  by (fastforce simp: triple_def embed_step_def split: sum.splits prod.splits)

section \<open>The store invariant\<close>

text \<open>
  Keys are unique and come from the identifiers already drawn, every chunk belongs to a
  document, and the stored hashes are the hashes of the stored contents.
\<close>

definition drawn :: "(nat \<Rightarrow> string) \<Rightarrow> nat \<Rightarrow> string \<Rightarrow> bool" where
  "drawn ids n x \<longleftrightarrow> x \<in> ids ` {..<n}"

definition store_ok :: "(string \<Rightarrow> string) \<Rightarrow> (nat \<Rightarrow> string) \<Rightarrow> pg \<Rightarrow> bool" where
  "store_ok sha ids db \<longleftrightarrow>
     distinct (map doc_id (documents db)) \<and> distinct (map doc_source (documents db))
     \<and> distinct (map ck_id (chunk_rows db))
     \<and> (\<forall>d\<in>set (documents db). drawn ids (pg_next db) (doc_id d) \<and> doc_hash d = sha (doc_content d))
     \<and> (\<forall>c\<in>set (chunk_rows db). drawn ids (pg_next db) (ck_id c)
          \<and> ck_doc c \<in> doc_id ` set (documents db) \<and> ck_hash c = Some (sha (ck_content c)))"

lemma store_ok_empty: "store_ok sha ids empty_pg"
  by (simp add: store_ok_def empty_pg_def)

lemma drawn_mono: "drawn ids n x \<Longrightarrow> n \<le> m \<Longrightarrow> drawn ids m x"
  by (auto simp: drawn_def)

lemma drawn_less: "k < n \<Longrightarrow> drawn ids n (ids k)"
  by (simp add: drawn_def)

lemma not_drawn: "inj ids \<Longrightarrow> n \<le> k \<Longrightarrow> \<not> drawn ids n (ids k)"
  by (auto simp: drawn_def dest: injD)

lemma distinct_map_filter': "distinct (map f xs) \<Longrightarrow> distinct (map f (filter P xs))"
  by (induction xs) auto

lemma delete_ids_ok:
  assumes "store_ok sha ids db" and "delete_chunks_by_ids cids db = Inr db'"
  shows "store_ok sha ids db' \<and> documents db' = documents db"
proof (cases "cids = []")
  case False
  with assms(2) have "db' = db\<lparr>chunk_rows := filter (\<lambda>c. ck_id c \<notin> set cids) (chunk_rows db)\<rparr>"
    by (auto simp: delete_chunks_by_ids_def)
  with assms(1) show ?thesis by (simp add: store_ok_def distinct_map_filter')
qed (use assms in \<open>simp add: delete_chunks_by_ids_def\<close>)

lemma update_doc_mem:
  assumes "d' \<in> set (update_doc did t c h m ds)"
  shows "\<exists>d\<in>set ds. doc_id d' = doc_id d \<and> (d' = d \<or> doc_hash d' = h \<and> doc_content d' = c)"
  using assms by (auto simp: update_doc_def)

lemma update_doc_ids [simp]: "doc_id ` set (update_doc did t c h m ds) = doc_id ` set ds"
  using update_doc_keys(1) [of did t c h m ds] by (metis list.set_map)

lemma upsert_cases:
  assumes "upsert_document ids src t c h m a db = Inr (did, db')"
  obtains (update) d where "d \<in> set (documents db)" "doc_source d = src" "did = doc_id d"
      "get_document_by_source src db = Inr (Some d)"
      "db' = db\<lparr>documents := update_doc (doc_id d) t c h m (documents db)\<rparr>"
    | (insert) "src \<notin> doc_source ` set (documents db)" "did = ids (pg_next db)"
      "get_document_by_source src db = Inr None"
      "db' = db\<lparr>pg_next := Suc (pg_next db), documents := documents db @
         [\<lparr>doc_id = did, doc_title = t, doc_source = src, doc_content = c, doc_hash = h, doc_meta = m,
           doc_access = a, doc_created = Suc (pg_next db)\<rparr>]\<rparr>"
proof -
  from assms obtain existing where e: "get_document_by_source src db = Inr existing"
    by (auto simp: upsert_document_def)
  then have f: "existing = find (\<lambda>d. doc_source d = src) (documents db)"
    by (simp add: get_document_by_source_def)
  show ?thesis
  proof (cases existing)
    case (Some d)
    from find_Some_mem [of "\<lambda>d. doc_source d = src" "documents db" d] Some f
    have "d \<in> set (documents db)" "doc_source d = src" by simp_all
    moreover from assms e Some have "did = doc_id d"
      "db' = db\<lparr>documents := update_doc (doc_id d) t c h m (documents db)\<rparr>"
      by (auto simp: upsert_document_def)
    ultimately show ?thesis using e Some update by blast
  next
    case None
    then have "src \<notin> doc_source ` set (documents db)" using f by (auto simp: find_None_iff)
    moreover from assms e None have "did = ids (pg_next db)"
      "db' = db\<lparr>pg_next := Suc (pg_next db), documents := documents db @
         [\<lparr>doc_id = did, doc_title = t, doc_source = src, doc_content = c, doc_hash = h, doc_meta = m,
           doc_access = a, doc_created = Suc (pg_next db)\<rparr>]\<rparr>"
      by (auto simp: upsert_document_def fresh_id_def Let_def)
    ultimately show ?thesis using e None insert by blast
  qed
qed

lemma upsert_ok:
  assumes "inj ids" and ok: "store_ok sha ids db"
    and "upsert_document ids src t c (sha c) m a db = Inr (did, db')"
  shows "store_ok sha ids db' \<and> did \<in> doc_id ` set (documents db')"
  using assms(3)
proof (cases rule: upsert_cases)
  case (update d)
  have "drawn ids (pg_next db) (doc_id d') \<and> doc_hash d' = sha (doc_content d')"
    if "d' \<in> set (update_doc (doc_id d) t c (sha c) m (documents db))" for d'
    using update_doc_mem [OF that] ok by (auto simp: store_ok_def)
  with ok update show ?thesis by (simp add: store_ok_def update_doc_keys)
next
  case insert
  let ?n = "pg_next db"
  have "ids ?n \<notin> doc_id ` set (documents db)"
    using ok not_drawn [OF assms(1), of ?n ?n] by (auto simp: store_ok_def)
  moreover have "drawn ids (Suc ?n) x" if "drawn ids ?n x" for x
    using drawn_mono [OF that, of "Suc ?n"] by simp
  moreover have "drawn ids (Suc ?n) (ids ?n)" by (rule drawn_less) simp
  ultimately show ?thesis using ok insert by (simp add: store_ok_def)
qed

lemma save_chunks_cases:
  assumes "save_chunks sha ids did es db = Inr (rows, db')"
  shows "rows = chunk_rows_from sha ids did (pg_next db) 0 es
     \<and> documents db' = documents db \<and> chunk_rows db' = chunk_rows db @ rows
     \<and> pg_next db' = pg_next db + length es"
  using assms by (auto simp: save_chunks_def Let_def split: if_splits)

lemma save_ok:
  assumes "inj ids" and ok: "store_ok sha ids db" and "did \<in> doc_id ` set (documents db)"
    and "save_chunks sha ids did es db = Inr (rows, db')"
  shows "store_ok sha ids db' \<and> documents db' = documents db"
proof -
  let ?n = "pg_next db" let ?rows = "chunk_rows_from sha ids did ?n 0 es"
  note db' = save_chunks_cases [OF assms(4)]
  have k: "ck_id ` set ?rows = ids ` {?n..<?n + length es}"
    using chunk_rows_from_ids [of sha ids did ?n 0 es] by (metis list.set_map set_upt)
  have "inj_on ids {?n..<?n + length es}" using assms(1) by (rule inj_on_subset) simp
  then have d: "distinct (map ck_id ?rows)" by (simp add: chunk_rows_from_ids distinct_map)
  have old: "drawn ids ?n (ck_id c)" if "c \<in> set (chunk_rows db)" for c
    using that ok by (simp add: store_ok_def)
  have new: "\<exists>j\<ge>?n. j < ?n + length es \<and> ck_id c = ids j" if "c \<in> set ?rows" for c
  proof -
    from that have "ck_id c \<in> ids ` {?n..<?n + length es}" unfolding k [symmetric] by simp
    then show ?thesis by auto
  qed
  have "ck_id ` set (chunk_rows db) \<inter> ck_id ` set ?rows = {}"
    using old new not_drawn [OF assms(1)] by fastforce
  moreover have "drawn ids (?n + length es) (ck_id c)" if "c \<in> set (chunk_rows db) \<union> set ?rows" for c
    using that old [of c] new [of c] drawn_mono [of ids ?n "ck_id c"] drawn_less by fastforce
  moreover have "drawn ids (?n + length es) (doc_id c)" if "c \<in> set (documents db)" for c
    using that ok drawn_mono [of ids ?n "doc_id c"] by (simp add: store_ok_def)
  ultimately show ?thesis
    using ok assms(3) db' d chunk_rows_from_doc [of _ sha ids did ?n 0 es]
    by (simp add: store_ok_def ball_Un)
qed

text \<open>
  The label of a document: its source, identifier and access level.  Labels are only ever
  added.
\<close>

definition labels :: "pg \<Rightarrow> (string \<times> string \<times> string) list" where
  "labels db = map (\<lambda>d. (doc_source d, doc_id d, doc_access d)) (documents db)"

lemma labels_cong: "documents db' = documents db \<Longrightarrow> labels db' = labels db"
  by (simp add: labels_def)

lemma labels_update: "labels (db\<lparr>documents := update_doc did t c h m (documents db)\<rparr>) = labels db"
  by (simp add: labels_def update_doc_def)

lemma upsert_labels:
  "upsert_document ids src t c h m a db = Inr (did, db') \<Longrightarrow> prefix (labels db) (labels db')"
  by (erule upsert_cases) (simp_all add: labels_update, simp add: labels_def prefix_def)

text \<open>What a run keeps: the invariant, and the labels \<open>L\<close> it started with.\<close>

definition sound :: "ingest_env \<Rightarrow> (string \<times> string \<times> string) list \<Rightarrow> pg \<Rightarrow> bool" where
  "sound ie L db \<longleftrightarrow> store_ok (ie_sha ie) (ie_ids ie) db \<and> prefix L (labels db)"

definition sound_doc :: "ingest_env \<Rightarrow> (string \<times> string \<times> string) list \<Rightarrow> string \<Rightarrow> pg \<Rightarrow> bool" where
  "sound_doc ie L did db \<longleftrightarrow> sound ie L db \<and> did \<in> doc_id ` set (documents db)"

lemma sound_docD: "sound_doc ie L did db \<Longrightarrow> sound ie L db"
  by (simp add: sound_doc_def)

lemma sound_doc_delete:
  "sound_doc ie L did db \<Longrightarrow> delete_chunks_by_ids cids db = Inr db' \<Longrightarrow> sound_doc ie L did db'"
  using delete_ids_ok [of "ie_sha ie" "ie_ids ie" db cids db'] labels_cong [of db' db]
  by (simp add: sound_doc_def sound_def)

lemma upsert_keeps_ids:
  "upsert_document ids src t c h m a db = Inr (did, db') \<Longrightarrow>
     doc_id ` set (documents db) \<subseteq> doc_id ` set (documents db')"
  by (erule upsert_cases) auto

lemma sound_upsert:
  assumes "inj (ie_ids ie)" and "sound ie L db"
    and "upsert_document (ie_ids ie) src t c (ie_sha ie c) m a db = Inr (did, db')"
  shows "sound_doc ie L did db'"
  using assms upsert_ok [of "ie_ids ie" "ie_sha ie" db src t c m a did db'] upsert_labels [OF assms(3)]
  by (auto simp: sound_doc_def sound_def intro: prefix_order.trans)

lemma sound_save:
  assumes "inj (ie_ids ie)" and "sound_doc ie L did db"
    and "save_chunks (ie_sha ie) (ie_ids ie) did es db = Inr (rows, db')"
  shows "sound_doc ie L did db'"
  using assms save_ok [OF assms(1) _ _ assms(3)] labels_cong [of db' db]
  by (auto simp: sound_doc_def sound_def)

lemma triple_delete_stale [step_rules]:
  assumes "\<And>w. P w \<Longrightarrow> sound_doc ie L did (w_pg w)"
  shows "triple P (delete_stale ie cids) (\<lambda>_ w. sound_doc ie L did (w_pg w)) (\<lambda>w. sound ie L (w_pg w))"
  unfolding triple_def
proof (intro allI impI)
  fix w assume "P w"
  with assms have s: "sound_doc ie L did (w_pg w)" by blast
  show "case delete_stale ie cids w of
      (Inl _, w') \<Rightarrow> sound ie L (w_pg w') | (Inr _, w') \<Rightarrow> sound_doc ie L did (w_pg w')"
    using s sound_doc_delete [OF s, of cids]
    by (cases "delete_chunks_by_ids cids (w_pg w)")
      (simp_all add: delete_stale_def pg_write_def sound_docD)
qed

lemma triple_upsert:
  assumes "inj (ie_ids ie)" and "\<And>w. P w \<Longrightarrow> sound ie L (w_pg w)"
  shows "triple P (upsert_step ie src t c m a) (\<lambda>did w. sound_doc ie L did (w_pg w))
     (\<lambda>w. sound ie L (w_pg w))"
  unfolding upsert_step_def
  by (rule triple_write) (use assms sound_upsert [OF assms(1)] in \<open>fastforce split: sum.splits\<close>)

lemma triple_upsert_known:
  assumes "inj (ie_ids ie)" and "\<And>w. P w \<Longrightarrow> sound_doc ie L did (w_pg w)"
  shows "triple P (upsert_step ie src t c m a) (\<lambda>_ w. sound_doc ie L did (w_pg w))
     (\<lambda>w. sound ie L (w_pg w))"
  unfolding upsert_step_def
proof (rule triple_write)
  fix w assume "P w"
  with assms(2) have s: "sound_doc ie L did (w_pg w)" by blast
  show "case upsert_document (ie_ids ie) src t c (ie_sha ie c) m a (w_pg w) of
      Inl e \<Rightarrow> sound ie L (w_pg w) | Inr (x, db) \<Rightarrow> sound_doc ie L did (w_pg (w\<lparr>w_pg := db\<rparr>))"
    using s sound_upsert [OF assms(1) sound_docD [OF s]] upsert_keeps_ids
    by (fastforce simp: sound_doc_def split: sum.splits)
qed

lemma triple_save [step_rules]:
  assumes "inj (ie_ids ie)" and "\<And>w. P w \<Longrightarrow> sound_doc ie L did (w_pg w)"
  shows "triple P (save_step ie did es) (\<lambda>_ w. sound ie L (w_pg w)) (\<lambda>w. sound ie L (w_pg w))"
  unfolding save_step_def
  by (rule triple_write)
    (use assms sound_save [OF assms(1)] sound_docD in \<open>fastforce split: sum.splits\<close>)

lemma triple_embed_doc:
  "triple (\<lambda>w. sound_doc ie L did (w_pg w)) (embed_step ie cs) (\<lambda>_ w. sound_doc ie L did (w_pg w))
     (\<lambda>w. sound ie L (w_pg w))"
  by (auto simp: triple_def embed_step_def sound_doc_def split: sum.splits prod.splits)

lemma insert_sound:
  assumes "inj (ie_ids ie)"
  shows "triple (\<lambda>w. sound ie L (w_pg w)) (ingest_insert ie content src t m a cs)
     (\<lambda>_ w. sound ie L (w_pg w)) (\<lambda>w. sound ie L (w_pg w))"
  unfolding ingest_insert_def
  by (rule triple_bind triple_upsert triple_embed_doc triple_save triple_finish assms | simp)+

lemma update_sound:
  assumes "inj (ie_ids ie)"
  shows "triple (\<lambda>w. sound_doc ie L (doc_id d) (w_pg w)) (ingest_update ie content src t m a d cs)
     (\<lambda>_ w. sound ie L (w_pg w)) (\<lambda>w. sound ie L (w_pg w))"
  unfolding ingest_update_def Let_def
  apply (rule triple_bind [where Q = "\<lambda>_ w. sound_doc ie L (doc_id d) (w_pg w)"])
   apply (rule triple_read, simp add: sound_docD split: sum.splits)
  by (rule triple_bind triple_delete_stale triple_upsert_known triple_if triple_return triple_embed_doc
      triple_save triple_finish assms | simp add: sound_docD)+

text \<open>The ways a run of one document ends.\<close>

lemma ingest_body_cases:
  assumes "ingest_body ie content src t m a w = Some (res, w')"
  obtains (unread) e where "get_document_by_source src (w_pg w) = Inl e" "res = Inl e" "w' = w"
    | (skipped) d where "get_document_by_source src (w_pg w) = Inr (Some d)"
      "doc_hash d = ie_sha ie content" "res = Inr (mk_result src ''skipped'' (Some (doc_id d)) 0 None)"
      "w' = w"
    | (unchunked) e where "await_chunks ie content t src m = Some (Inl e)" "res = Inl e" "w' = w"
    | (update) d cs where "get_document_by_source src (w_pg w) = Inr (Some d)"
      "doc_hash d \<noteq> ie_sha ie content" "await_chunks ie content t src m = Some (Inr cs)"
      "ingest_update ie content src t m a d cs w = (res, w')"
    | (insert) cs where "get_document_by_source src (w_pg w) = Inr None"
      "await_chunks ie content t src m = Some (Inr cs)"
      "ingest_insert ie content src t m a cs w = (res, w')"
proof (cases "get_document_by_source src (w_pg w)")
  case (Inl e)
  with assms have "res = Inl e" "w' = w" by (simp_all add: ingest_body_def)
  with Inl show ?thesis by (rule unread)
next
  case (Inr existing)
  let ?go = "\<lambda>cs. case existing of
      Some d \<Rightarrow> ingest_update ie content src t m a d cs w
    | None \<Rightarrow> ingest_insert ie content src t m a cs w"
  show ?thesis
  proof (cases "\<exists>d. existing = Some d \<and> doc_hash d = ie_sha ie content")
    case True
    then obtain d where d: "existing = Some d" "doc_hash d = ie_sha ie content" by blast
    with assms Inr have "res = Inr (mk_result src ''skipped'' (Some (doc_id d)) 0 None)" "w' = w"
      by (simp_all add: ingest_body_def)
    with Inr d show ?thesis by (intro skipped [of d]) simp_all
  next
    case False
    then have "\<not> (case existing of None \<Rightarrow> False | Some d \<Rightarrow> doc_hash d = ie_sha ie content)"
      by (simp split: option.splits)
    with assms Inr have run: "(case await_chunks ie content t src m of None \<Rightarrow> None
        | Some (Inl e) \<Rightarrow> Some (Inl e, w) | Some (Inr cs) \<Rightarrow> Some (?go cs)) = Some (res, w')"
      by (simp add: ingest_body_def)
    then obtain ch where ch: "await_chunks ie content t src m = Some ch"
      by (cases "await_chunks ie content t src m") simp_all
    show ?thesis
    proof (cases ch)
      case (Inl e)
      with run ch have "res = Inl e" "w' = w" by simp_all
      with ch Inl show ?thesis by (intro unchunked [of e]) simp_all
    next
      case chunks: (Inr cs)
      with run ch have go: "?go cs = (res, w')" by simp
      show ?thesis
      proof (cases existing)
        case None
        with go ch chunks Inr show ?thesis by (intro insert [of cs]) simp_all
      next
        case (Some d)
        with go ch chunks Inr False show ?thesis by (intro update [of d cs]) simp_all
      qed
    qed
  qed
qed

lemma ingest_document_body:
  assumes "ingest_document ie content src t m a w = Some (r, w')"
  obtains res where "ingest_body ie content src t m a w = Some (res, w')"
    and "r = (case res of Inr r \<Rightarrow> r | Inl e \<Rightarrow> mk_result src ''failed'' None 0 (Some (ie_what ie e)))"
  using assms by (auto simp: ingest_document_def split: option.splits sum.splits prod.splits)

lemma triple_final:
  assumes "triple P m (\<lambda>_. J) J" and "P w" and "m w = (res, w')"
  shows "J w'"
  using assms by (cases res) (auto simp: triple_def)

lemma ingest_sound:
  assumes "inj (ie_ids ie)" and "sound ie L (w_pg w)"
    and "ingest_document ie content src t m a w = Some (r, w')"
  shows "sound ie L (w_pg w')"
proof -
  from assms(3) obtain res where b: "ingest_body ie content src t m a w = Some (res, w')"
    by (rule ingest_document_body)
  then show ?thesis
  proof (cases rule: ingest_body_cases)
    case (update d cs)
    from find_Some_mem [of "\<lambda>d. doc_source d = src" "documents (w_pg w)" d] update(1)
    have "doc_id d \<in> doc_id ` set (documents (w_pg w))"
      by (auto simp: get_document_by_source_def)
    with assms(2) have "sound_doc ie L (doc_id d) (w_pg w)" by (simp add: sound_doc_def)
    then show ?thesis by (rule triple_final [OF update_sound [OF assms(1)] _ update(4)])
  next
    case (insert cs)
    show ?thesis by (rule triple_final [OF insert_sound [OF assms(1)] assms(2) insert(3)])
  qed (use assms(2) in simp_all)
qed

end
