(* ===== verification/IngestProps.thy ===== *)
theory IngestProps
  imports IngestFacts
begin

text \<open>
  The properties of the ingest service: the invariant and the frozen labels over whole bulk
  runs, the chunk-level difference, the poisoned hash, the cache invalidation and the
  accounts.
\<close>

section \<open>Runs keep what one document keeps\<close>

lemma ingest_object_sound:
  assumes "inj (ie_ids ie)" and "sound ie L (w_pg w)"
    and "ingest_object ie s3 bt k w = Some (res, w')"
  shows "sound ie L (w_pg w')"
proof (cases "w' = w")
  case False
  with assms(3) obtain content m r where
    "ingest_document ie content k (path_stem k) (s3_metadata m bt k) (assign_access_level bt) w
       = Some (r, w')"
    by (auto simp: ingest_object_def split: option.splits sum.splits if_splits)
  then show ?thesis by (rule ingest_sound [OF assms(1,2)])
qed (use assms(2) in simp)

lemma ingest_keys_sound:
  assumes "inj (ie_ids ie)"
  shows "sound ie L (w_pg w) \<Longrightarrow> ingest_keys ie s3 bt ks st w = Some (res, w') \<Longrightarrow> sound ie L (w_pg w')"
proof (induction ks arbitrary: st w)
  case (Cons k ks)
  from Cons.prems(2) obtain r w1 where k: "ingest_object ie s3 bt k w = Some (r, w1)"
    by (auto split: option.splits)
  from ingest_object_sound [OF assms Cons.prems(1) k] have s: "sound ie L (w_pg w1)" .
  show ?case
  proof (cases r)
    case (Inl e)
    with Cons.prems(2) k s show ?thesis by simp
  next
    case (Inr x)
    with Cons.prems(2) k s Cons.IH show ?thesis by simp
  qed
qed simp

lemma ingest_from_s3_sound:
  assumes "inj (ie_ids ie)" and "sound ie L (w_pg w)" and "ingest_from_s3 ie s3 bt pfx w = Some (res, w')"
  shows "sound ie L (w_pg w')"
  using assms ingest_keys_sound [OF assms(1,2)]
  by (auto simp: ingest_from_s3_def split: if_splits)

lemma ingest_all_sound:
  assumes "inj (ie_ids ie)" and "sound ie L (w_pg w)" and "ingest_all_s3_buckets ie s3 w = Some (res, w')"
  shows "sound ie L (w_pg w')"
proof -
  from assms(3) obtain r1 w1 where a: "ingest_from_s3 ie s3 ''private'' [] w = Some (r1, w1)"
    by (auto simp: ingest_all_s3_buckets_def split: option.splits)
  note s = ingest_from_s3_sound [OF assms(1,2) a]
  show ?thesis
  proof (cases r1)
    case (Inl e)
    with assms(3) a s show ?thesis by (simp add: ingest_all_s3_buckets_def)
  next
    case (Inr st)
    with assms(3) a obtain r2 where "ingest_from_s3 ie s3 ''public'' [] w1 = Some (r2, w')"
      by (auto simp: ingest_all_s3_buckets_def split: option.splits sum.splits)
    then show ?thesis by (rule ingest_from_s3_sound [OF assms(1) s])
  qed
qed

section \<open>The difference\<close>

lemma new_chunk_map_keys:
  "map_of (new_chunk_map sha cs) h = None \<longleftrightarrow> h \<notin> sha ` dc_content ` set cs"
  by (auto simp: new_chunk_map_def map_of_eq_None_iff image_image)

text \<open>\<open>sha\<close> is collision-free and never yields the empty string.\<close>

definition sha_ok :: "(string \<Rightarrow> string) \<Rightarrow> bool" where
  "sha_ok sha \<longleftrightarrow> inj sha \<and> (\<forall>x. sha x \<noteq> [])"

lemma new_chunk_map_list:
  assumes "inj sha"
  obtains ds where "new_chunk_map sha cs = map (\<lambda>c. (sha (dc_content c), c)) ds"
    and "dc_content ` set ds = dc_content ` set cs" and "distinct (map dc_content ds)"
proof -
  let ?kv = "\<lambda>c. (sha (dc_content c), c)" let ?ds = "map snd (new_chunk_map sha cs)"
  have "set (new_chunk_map sha cs) \<subseteq> ?kv ` set cs"
    using set_dict_of_subset [of "map ?kv cs"] by (simp add: new_chunk_map_def)
  then have id: "(sha (dc_content (snd p)), snd p) = p" if "p \<in> set (new_chunk_map sha cs)" for p
    using that by auto
  have "map ?kv ?ds = map (\<lambda>p. (sha (dc_content (snd p)), snd p)) (new_chunk_map sha cs)" by simp
  also have "\<dots> = new_chunk_map sha cs" by (rule map_idI) (rule id)
  finally have eq: "new_chunk_map sha cs = map ?kv ?ds" by (rule sym)
  have "map fst (new_chunk_map sha cs) = map (\<lambda>p. fst (sha (dc_content (snd p)), snd p)) (new_chunk_map sha cs)"
    by (rule map_cong [OF refl]) (simp only: id)
  then have keys: "map fst (new_chunk_map sha cs) = map sha (map dc_content ?ds)" by (simp add: comp_def)
  have "sha ` dc_content ` set ?ds = fst ` set (new_chunk_map sha cs)"
    using arg_cong [OF keys, of set] by (simp add: image_image)
  also have "\<dots> = sha ` dc_content ` set cs" by (simp add: new_chunk_map_def image_image)
  finally have "sha ` dc_content ` set ?ds = sha ` dc_content ` set cs" .
  with assms have "dc_content ` set ?ds = dc_content ` set cs" by (simp add: inj_image_eq_iff)
  moreover have "distinct (map dc_content ?ds)"
  proof -
    have "distinct (map sha (map dc_content ?ds))"
      unfolding keys [symmetric] by (simp add: new_chunk_map_def)
    then show ?thesis by (simp only: distinct_map)
  qed
  ultimately show ?thesis using that eq by blast
qed

lemma to_embed:
  assumes "sha_ok sha" and "\<forall>r\<in>set old. ck_hash r = Some (sha (ck_content r))"
  shows "dc_content ` set (chunks_to_embed (new_chunk_map sha cs) old)
       = dc_content ` set cs - ck_content ` set old"
    and "distinct (map dc_content (chunks_to_embed (new_chunk_map sha cs) old))"
proof -
  from assms(1) obtain ds where ds: "new_chunk_map sha cs = map (\<lambda>c. (sha (dc_content c), c)) ds"
    and set: "dc_content ` set ds = dc_content ` set cs" and dist: "distinct (map dc_content ds)"
    by (auto simp: sha_ok_def elim: new_chunk_map_list [where cs = cs])
  have "ck_hash ` set old = Some ` sha ` ck_content ` set old"
    using assms(2) by (auto simp: image_image intro!: image_cong)
  then have eq: "chunks_to_embed (new_chunk_map sha cs) old
      = filter (\<lambda>c. dc_content c \<notin> ck_content ` set old) ds"
    using assms(1) by (simp add: ds chunks_to_embed_def filter_map comp_def sha_ok_def inj_image_mem_iff)
  show "dc_content ` set (chunks_to_embed (new_chunk_map sha cs) old)
      = dc_content ` set cs - ck_content ` set old"
    unfolding eq set [symmetric] by auto
  show "distinct (map dc_content (chunks_to_embed (new_chunk_map sha cs) old))"
    unfolding eq using dist by (rule distinct_map_filter')
qed

lemma image_restrict: "f ` {x \<in> S. f x \<in> T} = T \<inter> f ` S"
  by blast

lemma find_snoc: "find P xs = None \<Longrightarrow> find P (xs @ [x]) = (if P x then Some x else None)"
  by (induction xs) (auto split: if_splits)

text \<open>What the deletion of the stale chunks leaves.\<close>

lemma delete_stale_rows:
  assumes "inj sha" and "store_ok sha ids db" and "get_document_chunks did db = Inr old"
    and "delete_chunks_by_ids (stale_ids (new_chunk_map sha cs) old) db = Inr db'"
  shows "set (chunk_rows db')
     = {r \<in> set (chunk_rows db). ck_doc r = did \<longrightarrow> ck_content r \<in> dc_content ` set cs}"
proof -
  let ?stale = "stale_ids (new_chunk_map sha cs) old"
  have old: "set old = {r \<in> set (chunk_rows db). ck_doc r = did}"
    using assms(3) by (auto simp: get_document_chunks_def)
  have hash: "ck_hash r = Some (sha (ck_content r))" if "r \<in> set (chunk_rows db)" for r
    using that assms(2) by (simp add: store_ok_def)
  have inj: "inj_on ck_id (set (chunk_rows db))"
    using assms(2) by (simp add: store_ok_def distinct_map)
  have gone: "set ?stale = ck_id ` {r \<in> set old. ck_content r \<notin> dc_content ` set cs}"
    using assms(1) hash old by (auto simp: stale_ids_def new_chunk_map_keys inj_image_mem_iff)
  have "ck_id r \<in> set ?stale \<longleftrightarrow> ck_doc r = did \<and> ck_content r \<notin> dc_content ` set cs"
    if "r \<in> set (chunk_rows db)" for r
  proof -
    from that inj have "ck_id r \<in> ck_id ` S \<longleftrightarrow> r \<in> S" if "S \<subseteq> set (chunk_rows db)" for S
      using that by (auto dest: inj_onD)
    then show ?thesis unfolding gone using old that by auto
  qed
  moreover have "chunk_rows db' = filter (\<lambda>c. ck_id c \<notin> set ?stale) (chunk_rows db)"
    using assms(4) by (auto simp: delete_chunks_by_ids_def split: if_splits)
  ultimately show ?thesis by auto
qed

lemma pg_write_Inr [simp]:
  "pg_write f w = (Inr x, w') \<longleftrightarrow> (\<exists>db. f (w_pg w) = Inr (x, db) \<and> w' = w\<lparr>w_pg := db\<rparr>)"
  by (auto simp: pg_write_def split: sum.splits prod.splits)

lemma pg_read_Inr [simp]: "pg_read f w = (Inr x, w') \<longleftrightarrow> f (w_pg w) = Inr x \<and> w' = w"
  by (auto simp: pg_read_def)

lemma delete_stale_Inr:
  assumes "delete_stale ie ids w = (Inr u, w')"
  shows "delete_chunks_by_ids ids (w_pg w) = Inr (w_pg w') \<and> w_redis w' = w_redis w"
  using assms by (auto simp: delete_stale_def delete_chunks_by_ids_def split: if_splits)

lemma embed_step_Inr:
  assumes "embed_step ie cs w = (Inr es, w')" and "api_complete (ie_api ie)" and "0 < gc_batch_size (ie_gen ie)"
  shows "map ec_content es = map dc_content cs \<and> w_pg w' = w_pg w \<and> w_redis w' = w_redis w"
proof -
  obtain es' st where "embed_chunks (ie_gen ie) (ie_md5 ie) (ie_api ie) (ie_stamp ie) (ie_api_what ie) cs
      (w_emb w) = (Inr es', st)" and "map ec_content es' = map dc_content cs"
    using embed_chunks_content [OF assms(2,3), of "ie_md5 ie" "ie_stamp ie" "ie_api_what ie" cs "w_emb w"]
    by blast
  with assms(1) show ?thesis by (auto simp: embed_step_def)
qed

lemma finish_ingest_Inr:
  assumes "finish_ingest ie src t m a st did es rows w = (Inr r, w')"
  shows "r = mk_result src st (Some did) (length es) None \<and> w_pg w' = w_pg w
     \<and> w_redis w' = bump_version (ie_qc ie) (ie_client ie) (w_redis w) (ie_now ie)"
  using assms build_graphs_frame [of ie src
      "dict_put ''doc_id'' (JStr did) (dict_put ''access_level'' (JStr a) m)" es w]
  by (auto simp: finish_ingest_def bump_step_def)

lemma upsert_rows:
  "upsert_document ids src t c h m a db = Inr (did, db') \<Longrightarrow> chunk_rows db' = chunk_rows db"
  by (erule upsert_cases) simp_all

text \<open>An update that ends, step by step.\<close>

lemma ingest_update_done:
  assumes "ingest_update ie content src t m a d cs w = (Inr r, w')"
    and "api_complete (ie_api ie)" and "0 < gc_batch_size (ie_gen ie)"
  obtains old es and db1 db2 :: pg where "get_document_chunks (doc_id d) (w_pg w) = Inr old"
    and "delete_chunks_by_ids (stale_ids (new_chunk_map (ie_sha ie) cs) old) (w_pg w) = Inr db1"
    and "chunk_rows db2 = chunk_rows db1"
    and "map ec_content es = map dc_content (chunks_to_embed (new_chunk_map (ie_sha ie) cs) old)"
    and "r = mk_result src ''updated'' (Some (doc_id d)) (length es) None"
    and "chunk_rows (w_pg w') = chunk_rows db2
       @ chunk_rows_from (ie_sha ie) (ie_ids ie) (doc_id d) (pg_next db2) 0 es"
    and "w_redis w' = (if es = [] then w_redis w
       else bump_version (ie_qc ie) (ie_client ie) (w_redis w) (ie_now ie))"
proof -
  let ?new = "new_chunk_map (ie_sha ie) cs"
  from assms(1) obtain old w1 did w2 where old: "get_document_chunks (doc_id d) (w_pg w) = Inr old"
    and del: "delete_stale ie (stale_ids ?new old) w = (Inr (), w1)"
    and ups: "upsert_step ie src t content m a w1 = (Inr did, w2)"
    and rest: "(if chunks_to_embed ?new old = []
         then (Inr (mk_result src ''updated'' (Some (doc_id d)) 0 None), w2)
         else step_bind (embed_step ie (chunks_to_embed ?new old) w2) (\<lambda>es w.
              step_bind (save_step ie (doc_id d) es w) (\<lambda>rows w.
              finish_ingest ie src t m a ''updated'' (doc_id d) es rows w))) = (Inr r, w')"
    by (auto simp: ingest_update_def Let_def)
  note d = delete_stale_Inr [OF del]
  from ups have u: "chunk_rows (w_pg w2) = chunk_rows (w_pg w1)" "w_redis w2 = w_redis w1"
    by (auto simp: upsert_step_def dest: upsert_rows)
  show ?thesis
  proof (cases "chunks_to_embed ?new old = []")
    case True
    with rest old d u that [where old = old and ?db1.0 = "w_pg w1" and ?db2.0 = "w_pg w2" and es = "[]"] show ?thesis by simp
  next
    case False
    with rest obtain es w3 rows w4 where e: "embed_step ie (chunks_to_embed ?new old) w2 = (Inr es, w3)"
      and s: "save_step ie (doc_id d) es w3 = (Inr rows, w4)"
      and f: "finish_ingest ie src t m a ''updated'' (doc_id d) es rows w4 = (Inr r, w')"
      by auto
    note e' = embed_step_Inr [OF e assms(2,3)] and f' = finish_ingest_Inr [OF f]
    from s have s': "chunk_rows (w_pg w4) = chunk_rows (w_pg w3)
        @ chunk_rows_from (ie_sha ie) (ie_ids ie) (doc_id d) (pg_next (w_pg w3)) 0 es"
      "w_redis w4 = w_redis w3"
      by (auto simp: save_step_def dest!: save_chunks_cases)
    from False e' have "es \<noteq> []" by auto
    with old d u e' f' s' that [where old = old and ?db1.0 = "w_pg w1" and ?db2.0 = "w_pg w2" and es = es] show ?thesis by simp
  qed
qed

lemma ingest_insert_done:
  assumes "ingest_insert ie content src t m a cs w = (Inr r, w')"
    and "api_complete (ie_api ie)" and "0 < gc_batch_size (ie_gen ie)"
  shows "ir_status r = ''inserted'' \<and> ir_chunks r = length cs
     \<and> w_redis w' = bump_version (ie_qc ie) (ie_client ie) (w_redis w) (ie_now ie)"
proof -
  from assms(1) obtain did w2 es w3 rows w4 where ups: "upsert_step ie src t content m a w = (Inr did, w2)"
    and e: "embed_step ie cs w2 = (Inr es, w3)" and s: "save_step ie did es w3 = (Inr rows, w4)"
    and f: "finish_ingest ie src t m a ''inserted'' did es rows w4 = (Inr r, w')"
    by (auto simp: ingest_insert_def)
  from ups s have "w_redis w2 = w_redis w" "w_redis w4 = w_redis w3"
    by (auto simp: upsert_step_def save_step_def)
  with embed_step_Inr [OF e assms(2,3)] finish_ingest_Inr [OF f] show ?thesis
    by (auto simp: mk_result_def dest!: arg_cong [of "map ec_content es" _ length])
qed

section \<open>Runs without faults\<close>

abbreviation healthy :: "world \<Rightarrow> bool" where
  "healthy w \<equiv> pg_faults (w_pg w) = []"

abbreviation never :: "world \<Rightarrow> bool" where
  "never w \<equiv> False"

lemma request_healthy [simp]: "pg_faults db = [] \<Longrightarrow> request r db = Inr ()"
  by (simp add: request_def)

lemma healthy_upsert:
  "pg_faults db = [] \<Longrightarrow> \<exists>did db'. upsert_document ids src t c h m a db = Inr (did, db') \<and> pg_faults db' = []"
  by (simp add: upsert_document_def get_document_by_source_def fresh_id_def Let_def split: option.splits)

lemma healthy_save:
  "pg_faults db = [] \<Longrightarrow> \<exists>rows db'. save_chunks sha ids did es db = Inr (rows, db') \<and> pg_faults db' = []"
  by (simp add: save_chunks_def Let_def)

lemma healthy_delete_stale: "triple healthy (delete_stale ie ids) (\<lambda>_. healthy) never"
  by (simp add: triple_def delete_stale_def pg_write_def delete_chunks_by_ids_def)

lemma healthy_upsert_step: "triple healthy (upsert_step ie src t c m a) (\<lambda>_. healthy) never"
  unfolding upsert_step_def
proof (rule triple_write)
  fix w assume "healthy w"
  then obtain did db where "upsert_document (ie_ids ie) src t c (ie_sha ie c) m a (w_pg w) = Inr (did, db)"
    and "pg_faults db = []" using healthy_upsert by blast
  then show "case upsert_document (ie_ids ie) src t c (ie_sha ie c) m a (w_pg w) of
      Inl e \<Rightarrow> never w | Inr (x, db) \<Rightarrow> healthy (w\<lparr>w_pg := db\<rparr>)" by simp
qed

lemma healthy_save_step: "triple healthy (save_step ie did es) (\<lambda>_. healthy) never"
  unfolding save_step_def
proof (rule triple_write)
  fix w assume "healthy w"
  then obtain rows db where "save_chunks (ie_sha ie) (ie_ids ie) did es (w_pg w) = Inr (rows, db)"
    and "pg_faults db = []" using healthy_save by blast
  then show "case save_chunks (ie_sha ie) (ie_ids ie) did es (w_pg w) of
      Inl e \<Rightarrow> never w | Inr (x, db) \<Rightarrow> healthy (w\<lparr>w_pg := db\<rparr>)" by simp
qed

lemma healthy_embed_step:
  assumes "api_complete (ie_api ie)" and "0 < gc_batch_size (ie_gen ie)"
  shows "triple healthy (embed_step ie cs) (\<lambda>_. healthy) never"
  unfolding triple_def
proof (intro allI impI)
  fix w assume "healthy w"
  obtain es st where "embed_chunks (ie_gen ie) (ie_md5 ie) (ie_api ie) (ie_stamp ie) (ie_api_what ie) cs
      (w_emb w) = (Inr es, st)"
    using embed_chunks_content [OF assms, of "ie_md5 ie" "ie_stamp ie" "ie_api_what ie" cs "w_emb w"] by blast
  with \<open>healthy w\<close> show "case embed_step ie cs w of (Inl _, w') \<Rightarrow> never w' | (Inr _, w') \<Rightarrow> healthy w'"
    by (simp add: embed_step_def)
qed

lemma build_graphs_ok:
  "\<not> isl (ge_driver (ie_graph ie)) \<Longrightarrow> \<exists>w'. build_graphs ie src m cs w = (Inr (), w')"
proof (induction cs arbitrary: w)
  case (Cons c cs)
  have "fst (build_knowledge_graph (ie_graph ie) (ec_content c) src m (w_graph w)) = Inr ()"
    using Cons.prems by (cases "ge_driver (ie_graph ie)")
      (simp_all add: build_knowledge_graph_def Let_def split: sum.splits bool.splits)
  then obtain g where "build_knowledge_graph (ie_graph ie) (ec_content c) src m (w_graph w) = (Inr (), g)"
    by (metis prod.collapse)
  with Cons show ?case by simp
qed simp

lemma healthy_finish:
  assumes "\<not> isl (ge_driver (ie_graph ie))"
  shows "triple healthy (finish_ingest ie src t m a st did es rows) (\<lambda>r _. ir_status r = st) never"
  unfolding triple_def
proof (intro allI impI)
  fix w
  obtain w' where "build_graphs ie src
      (dict_put ''doc_id'' (JStr did) (dict_put ''access_level'' (JStr a) m)) es w = (Inr (), w')"
    using build_graphs_ok [OF assms] by blast
  then show "case finish_ingest ie src t m a st did es rows w of
      (Inl _, w') \<Rightarrow> never w' | (Inr r, _) \<Rightarrow> ir_status r = st"
    by (simp add: finish_ingest_def mk_result_def)
qed

lemmas healthy_rules = triple_bind triple_if healthy_delete_stale healthy_upsert_step
  healthy_embed_step healthy_save_step healthy_finish

lemma healthy_insert:
  assumes "api_complete (ie_api ie)" and "0 < gc_batch_size (ie_gen ie)"
    and "\<not> isl (ge_driver (ie_graph ie))"
  shows "triple healthy (ingest_insert ie content src t m a cs) (\<lambda>r _. ir_status r = ''inserted'') never"
  unfolding ingest_insert_def by (rule healthy_rules assms)+

lemma healthy_update:
  assumes "api_complete (ie_api ie)" and "0 < gc_batch_size (ie_gen ie)"
    and "\<not> isl (ge_driver (ie_graph ie))"
  shows "triple healthy (ingest_update ie content src t m a d cs) (\<lambda>r _. ir_status r = ''updated'') never"
  unfolding ingest_update_def Let_def
proof (rule triple_bind [where Q = "\<lambda>_. healthy"])
  show "triple healthy (pg_read (get_document_chunks (doc_id d))) (\<lambda>_. healthy) never"
    by (rule triple_read) (simp add: get_document_chunks_def)
qed (rule healthy_rules triple_return assms | simp add: mk_result_def)+

section \<open>Accounts\<close>

definition status_ok :: "IngestStats \<Rightarrow> bool" where
  "status_ok s \<longleftrightarrow> stats_total s = length (is_results s)
     \<and> is_inserted s = length (filter (\<lambda>r. ir_status r = ''inserted'') (is_results s))
     \<and> is_updated s = length (filter (\<lambda>r. ir_status r = ''updated'') (is_results s))
     \<and> is_skipped s = length (filter (\<lambda>r. ir_status r = ''skipped'') (is_results s))"

lemma status_ok_empty: "status_ok empty_stats" "is_results empty_stats = []"
  by (simp_all add: status_ok_def empty_stats_def stats_total_def)

lemma status_ok_count:
  "status_ok s \<Longrightarrow> status_ok (count_result r s) \<and> is_results (count_result r s) = is_results s @ [r]"
  by (simp add: status_ok_def count_result_def stats_total_def Let_def)

lemma status_ok_add:
  "status_ok a \<Longrightarrow> status_ok b \<Longrightarrow> status_ok (add_stats a b) \<and> is_results (add_stats a b) = is_results a @ is_results b"
  by (simp add: status_ok_def add_stats_def stats_total_def)

lemma ingest_body_source:
  assumes "ingest_body ie content src t m a w = Some (Inr r, w')"
  shows "ir_source r = src"
  using assms
proof (cases rule: ingest_body_cases)
  case (update d cs)
  then show ?thesis
    by (auto simp: ingest_update_def Let_def finish_ingest_def mk_result_def split: if_splits)
qed (auto simp: ingest_insert_def finish_ingest_def mk_result_def)

lemma ingest_object_source:
  assumes "ingest_object ie s3 bt k w = Some (Inr r, w')"
  shows "ir_source r = k"
proof (cases "\<exists>content t m a. ingest_document ie content k t m a w = Some (r, w')")
  case True
  then obtain content t m a where d: "ingest_document ie content k t m a w = Some (r, w')" by blast
  then obtain res where b: "ingest_body ie content k t m a w = Some (res, w')"
    and r: "r = (case res of Inr r \<Rightarrow> r | Inl e \<Rightarrow> mk_result k ''failed'' None 0 (Some (ie_what ie e)))"
    by (rule ingest_document_body)
  show ?thesis
  proof (cases res)
    case (Inl e)
    with r show ?thesis by (simp add: mk_result_def)
  next
    case (Inr x)
    with r b ingest_body_source show ?thesis by simp
  qed
next
  case False
  with assms show ?thesis
    by (auto simp: ingest_object_def mk_result_def split: option.splits sum.splits if_splits)
qed

lemma ingest_keys_accounts:
  "status_ok st \<Longrightarrow> ingest_keys ie s3 bt ks st w = Some (Inr st', w') \<Longrightarrow>
     status_ok st' \<and> map ir_source (is_results st') = map ir_source (is_results st) @ ks"
proof (induction ks arbitrary: st w)
  case (Cons k ks)
  from Cons.prems(2) obtain r w1 where k: "ingest_object ie s3 bt k w = Some (Inr r, w1)"
    and rest: "ingest_keys ie s3 bt ks (count_result r st) w1 = Some (Inr st', w')"
    by (auto split: option.splits sum.splits)
  from status_ok_count [OF Cons.prems(1), of r] Cons.IH [OF _ rest] ingest_object_source [OF k]
  show ?case by simp
qed simp

lemma ingest_from_s3_accounts:
  assumes "ingest_from_s3 ie s3 bt pfx w = Some (Inr s, w')"
  shows "status_ok s \<and> map ir_source (is_results s)
     = (if verify_s3_access s3 then list_documents_from_s3 s3 bt pfx else [])"
  using assms ingest_keys_accounts [OF status_ok_empty(1)] status_ok_empty
  by (auto simp: ingest_from_s3_def split: if_splits)

section \<open>Failing runs do not touch the caches\<close>

abbreviation with_redis :: "redis_server \<Rightarrow> world \<Rightarrow> bool" where
  "with_redis R w \<equiv> w_redis w = R"

abbreviation whatever :: "'a \<Rightarrow> world \<Rightarrow> bool" where
  "whatever x w \<equiv> True"

lemma redis_delete_stale: "triple (with_redis R) (delete_stale ie ids) (\<lambda>_. with_redis R) (with_redis R)"
  by (auto simp: triple_def delete_stale_def pg_write_def split: sum.splits)

lemma redis_write: "triple (with_redis R) (pg_write f) (\<lambda>_. with_redis R) (with_redis R)"
  by (rule triple_write) (simp split: sum.splits prod.splits)

lemma redis_upsert: "triple (with_redis R) (upsert_step ie src t c m a) (\<lambda>_. with_redis R) (with_redis R)"
  unfolding upsert_step_def by (rule redis_write)

lemma redis_save: "triple (with_redis R) (save_step ie did es) (\<lambda>_. with_redis R) (with_redis R)"
  unfolding save_step_def by (rule redis_write)

lemma redis_embed: "triple (with_redis R) (embed_step ie cs) (\<lambda>_. with_redis R) (with_redis R)"
  by (auto simp: triple_def embed_step_def split: sum.splits prod.splits)

lemma redis_read: "triple (with_redis R) (pg_read f) (\<lambda>_. with_redis R) (with_redis R)"
  by (rule triple_read) (simp split: sum.splits)

lemma redis_finish:
  "triple (with_redis R) (finish_ingest ie src t m a st did es rows) whatever (with_redis R)"
  unfolding triple_def
proof (intro allI impI)
  fix w assume "with_redis R w"
  let ?m = "dict_put ''doc_id'' (JStr did) (dict_put ''access_level'' (JStr a) m)"
  obtain r w1 where b: "build_graphs ie src ?m es w = (r, w1)"
    by (cases "build_graphs ie src ?m es w")
  with build_graphs_frame [of ie src ?m es w] \<open>with_redis R w\<close> have "w_redis w1 = R" by simp
  with b show "case finish_ingest ie src t m a st did es rows w of
      (Inl _, w') \<Rightarrow> with_redis R w' | (Inr r, w') \<Rightarrow> whatever r w'"
    by (cases r) (simp_all add: finish_ingest_def)
qed

lemmas redis_rules = triple_bind triple_if redis_delete_stale redis_upsert redis_save redis_embed
  redis_read redis_finish triple_return

lemma redis_insert: "triple (with_redis R) (ingest_insert ie content src t m a cs) whatever (with_redis R)"
  unfolding ingest_insert_def by (rule redis_rules)+

lemma redis_update: "triple (with_redis R) (ingest_update ie content src t m a d cs) whatever (with_redis R)"
  unfolding ingest_update_def Let_def by (rule redis_rules | simp)+

lemma ingest_failed_redis:
  assumes "ingest_body ie content src t m a w = Some (Inl e, w')"
  shows "w_redis w' = w_redis w"
  using assms
proof (cases rule: ingest_body_cases)
  case (update d cs)
  then show ?thesis using tripleD(2) [OF redis_update [of "w_redis w"]] by blast
next
  case (insert cs)
  then show ?thesis using tripleD(2) [OF redis_insert [of "w_redis w"]] by blast
qed simp_all

section \<open>A concrete world\<close>

definition demo_ingest :: ingest_env where
  "demo_ingest = \<lparr>ie_sha = (\<lambda>s. CHR ''h'' # s), ie_md5 = id, ie_ids = (\<lambda>n. replicate n CHR ''i''),
     ie_chunker = SemanticChunker default_chunking, ie_llm = (\<lambda>_. Inl TypeError), ie_timed_out = False,
     ie_gen = default_gen_config ''m'', ie_api = (\<lambda>_ ts. Inr (map (\<lambda>_. [1]) ts)), ie_stamp = ''now'',
     ie_api_what = (\<lambda>_. ''api''), ie_what = (\<lambda>_. ''error''), ie_vespa_on = False,
     ie_post = (\<lambda>_. Inl TypeError), ie_del = (\<lambda>_. Inl TypeError), ie_loads = (\<lambda>_. Inl TypeError),
     ie_dumps = (\<lambda>_. []), ie_render = (\<lambda>_. []),
     ie_graph = \<lparr>ge_driver = Inr False, ge_extract = False, ge_max_facts = 6, ge_client = False,
       ge_llm = (\<lambda>_. Inl TypeError), ge_write1 = Inr (), ge_write2 = Inr (), ge_hash = id\<rparr>,
     ie_qc = default_qc_config, ie_client = True, ie_now = 0\<rparr>"

definition demo_world :: "pg \<Rightarrow> world" where
  "demo_world db = \<lparr>w_pg = db, w_vespa = [], w_graph = empty_graph, w_redis = empty_server,
     w_emb = \<lparr>es_calls = 0, es_cache = new_cache\<rparr>\<rparr>"

definition demo_doc :: doc_row where
  "demo_doc = \<lparr>doc_id = ''i'', doc_title = ''T'', doc_source = ''a.txt'', doc_content = ''old'',
     doc_hash = ''hold'', doc_meta = [], doc_access = ''private'', doc_created = 2\<rparr>"

definition demo_pg :: pg where
  "demo_pg = empty_pg\<lparr>documents := [demo_doc], pg_next := 3, chunk_rows :=
     [\<lparr>ck_id = ''ii'', ck_doc = ''i'', ck_content = ''old'', ck_hash = Some ''hold'', ck_embedding = None,
       ck_index = 0, ck_tokens = None, ck_meta = []\<rparr>]\<rparr>"

lemma demo_ids: "inj (ie_ids demo_ingest)"
  by (auto simp: demo_ingest_def inj_def dest: arg_cong [of _ _ length])

lemma demo_sha: "sha_ok (ie_sha demo_ingest)"
  by (simp add: demo_ingest_def sha_ok_def inj_def)

lemma demo_api: "api_complete (ie_api demo_ingest)" "0 < gc_batch_size (ie_gen demo_ingest)"
  "\<not> isl (ge_driver (ie_graph demo_ingest))"
  by (simp_all add: demo_ingest_def api_complete_def default_gen_config_def)

lemma demo_store: "store_ok (ie_sha demo_ingest) (ie_ids demo_ingest) demo_pg"
proof -
  have "ie_ids demo_ingest 1 = ''i''" "ie_ids demo_ingest 2 = ''ii''"
    by (simp_all add: demo_ingest_def numeral_2_eq_2)
  moreover have "drawn (ie_ids demo_ingest) 3 (ie_ids demo_ingest k)" if "k < 3" for k
    using that by (rule drawn_less)
  ultimately have "drawn (ie_ids demo_ingest) 3 ''i''" "drawn (ie_ids demo_ingest) 3 ''ii''"
    by (metis one_less_numeral_iff semiring_norm(77), metis lessI numeral_2_eq_2 numeral_3_eq_3)
  then show ?thesis
    by (simp add: store_ok_def demo_pg_def demo_doc_def empty_pg_def demo_ingest_def)
qed

lemma demo_chunks:
  "\<exists>c. await_chunks demo_ingest ''new'' t src m = Some (Inr [c]) \<and> dc_content c = ''new''"
proof -
  have s: "simple_split default_chunking ''new'' = Some (Inr [''new''])" by code_simp
  have p: "py_strip ''new'' = ''new''" "\<not> is_tabular_data ''new''" by code_simp+
  have l: "\<not> 3 > chunk_size default_chunking" by (simp add: default_chunking_def)
  show ?thesis
    using l by (simp add: await_chunks_def demo_ingest_def semantic_chunk_document_def Let_def p
      simple_chunk_def s create_chunk_objects_def mk_document_chunk_def MAX_SEMANTIC_def)
qed

definition demo_s3 :: s3_env where
  "demo_s3 = \<lparr>s3_private = ''b'', s3_public = [], s3_head = (\<lambda>_. Inr ()), s3_list = (\<lambda>_ _. Inr [''b.txt'']),
     s3_get = (\<lambda>_ _. Inr \<lparr>lb_text = Inr ''new'', lb_pdf = NotInstalled, lb_docx = NotInstalled,
       lb_excel = NotInstalled, lb_pptx = NotInstalled, lb_rows = (\<lambda>_. Inl TypeError),
       lb_json = Inl TypeError, lb_lines = Inl TypeError, lb_relines = (\<lambda>_. None),
       lb_html = NotInstalled\<rparr>)\<rparr>"

section \<open>Completion\<close>

lemma ingest_completes_aux:
  assumes "healthy w" and "await_chunks ie content t src m = Some (Inr cs)"
    and "api_complete (ie_api ie)" and "0 < gc_batch_size (ie_gen ie)"
    and "\<not> isl (ge_driver (ie_graph ie))"
  shows "\<exists>r w'. ingest_document ie content src t m a w = Some (r, w')
     \<and> ir_status r = (case find (\<lambda>d. doc_source d = src) (documents (w_pg w)) of
          None \<Rightarrow> ''inserted''
        | Some d \<Rightarrow> if doc_hash d = ie_sha ie content then ''skipped'' else ''updated'')"
proof -
  let ?found = "find (\<lambda>d. doc_source d = src) (documents (w_pg w))"
  have g: "get_document_by_source src (w_pg w) = Inr ?found"
    using assms(1) by (simp add: get_document_by_source_def)
  show ?thesis
  proof (cases ?found)
    case None
    obtain r w' where i: "ingest_insert ie content src t m a cs w = (r, w')"
      by (cases "ingest_insert ie content src t m a cs w")
    from i tripleD [OF healthy_insert [OF assms(3-5)], of w content src t m a cs] assms(1)
    obtain x where "r = Inr x" "ir_status x = ''inserted''" by (cases r) auto
    with None g i assms(2) show ?thesis by (simp add: ingest_document_def ingest_body_def)
  next
    case (Some d)
    obtain r w' where u: "ingest_update ie content src t m a d cs w = (r, w')"
      by (cases "ingest_update ie content src t m a d cs w")
    from u tripleD [OF healthy_update [OF assms(3-5)], of w content src t m a d cs] assms(1)
    obtain x where "r = Inr x" "ir_status x = ''updated''" by (cases r) auto
    with Some g u assms(2) show ?thesis
      by (simp add: ingest_document_def ingest_body_def mk_result_def)
  qed
qed

lemma demo_run:
  obtains s w' where "ingest_all_s3_buckets demo_ingest demo_s3 (demo_world demo_pg) = Some (Inr s, w')"
    and "map ir_source (is_results s) = [''b.txt'']"
proof -
  have k: "py_lower (path_suffix ''b.txt'') = ''.txt''" "path_name ''b.txt'' = ''b.txt''"
    "path_stem ''b.txt'' = ''b''" by code_simp+
  have ls: "list_documents_from_s3 demo_s3 ''private'' [] = [''b.txt'']"
    "list_documents_from_s3 demo_s3 ''public'' [] = []"
    by (simp_all add: list_documents_from_s3_def demo_s3_def bucket_name_def k S3_EXTENSIONS_def)
  have v: "verify_s3_access demo_s3" by (simp add: verify_s3_access_def demo_s3_def)
  have h: "healthy (demo_world demo_pg)" by (simp add: demo_world_def demo_pg_def empty_pg_def)
  obtain m where d: "ingest_object demo_ingest demo_s3 ''private'' ''b.txt'' (demo_world demo_pg)
      = map_option (\<lambda>(r, w). (Inr r, w)) (ingest_document demo_ingest ''new'' ''b.txt'' ''b'' m
          (assign_access_level ''private'') (demo_world demo_pg))"
    by (simp add: ingest_object_def download_document_from_s3_def demo_s3_def bucket_name_def
        parse_document_def k parser_for_def parse_text_def Let_def fmt_def)
  obtain c where "await_chunks demo_ingest ''new'' ''b'' ''b.txt'' m = Some (Inr [c])"
    using demo_chunks by blast
  from ingest_completes_aux [OF h this demo_api] obtain r w' where
    "ingest_object demo_ingest demo_s3 ''private'' ''b.txt'' (demo_world demo_pg) = Some (Inr r, w')"
    unfolding d by force
  moreover from this have "ingest_all_s3_buckets demo_ingest demo_s3 (demo_world demo_pg)
      = Some (Inr (add_stats (add_stats empty_stats (count_result r empty_stats)) empty_stats), w')"
    by (simp add: ingest_all_s3_buckets_def ingest_from_s3_def v ls)
  ultimately show ?thesis
    using that ingest_object_source status_ok_count [OF status_ok_empty(1), of r]
    by (simp add: add_stats_def status_ok_empty)
qed

lemma ingest_updated_done:
  assumes "get_document_by_source src (w_pg w) = Inr (Some d)"
    and "await_chunks ie content t src m = Some (Inr cs)"
    and "ingest_document ie content src t m a w = Some (r, w')" and "ir_status r = ''updated''"
  shows "ingest_update ie content src t m a d cs w = (Inr r, w')"
proof -
  obtain res where b: "ingest_body ie content src t m a w = Some (res, w')"
    and r: "r = (case res of Inr r \<Rightarrow> r | Inl e \<Rightarrow> mk_result src ''failed'' None 0 (Some (ie_what ie e)))"
    using assms(3) by (rule ingest_document_body)
  from r assms(4) have res: "res = Inr r" by (cases res) (simp_all add: mk_result_def)
  from b [unfolded res] show ?thesis
  proof (cases rule: ingest_body_cases)
    case skipped
    with assms(4) show ?thesis by (simp add: mk_result_def)
  qed (use assms(1,2) in simp_all)
qed

section \<open>Properties\<close>

text \<open>A world whose database works again.\<close>

definition healed :: "world \<Rightarrow> world" where
  "healed w = w\<lparr>w_pg := (w_pg w)\<lparr>pg_faults := []\<rparr>\<rparr>"

text \<open>The rows of a document.\<close>

definition rows_of :: "string \<Rightarrow> world \<Rightarrow> chunk_row set" where
  "rows_of did w = {c \<in> set (chunk_rows (w_pg w)). ck_doc c = did}"

text \<open>C10: the chunk-level difference of an update is exact.  When a changed document was
  updated, its stored chunks have exactly the contents of the new version; every row whose
  content stayed, and every row of another document, is kept as it is with its identifier
  and embedding; every other row of the result is new and its content was not stored
  before; the number of chunks reported is the number of contents not stored before.\<close>

theorem update_diff:
  assumes "sha_ok (ie_sha ie)" and "store_ok (ie_sha ie) (ie_ids ie) (w_pg w)"
    and "api_complete (ie_api ie)" and "0 < gc_batch_size (ie_gen ie)"
    and "get_document_by_source src (w_pg w) = Inr (Some d)"
    and "await_chunks ie content t src m = Some (Inr cs)"
    and "ingest_document ie content src t m a w = Some (r, w')" and "ir_status r = ''updated''"
  shows "ck_content ` rows_of (doc_id d) w' = dc_content ` set cs
     \<and> ir_chunks r = card (dc_content ` set cs - ck_content ` rows_of (doc_id d) w)
     \<and> (\<forall>c\<in>set (chunk_rows (w_pg w)). ck_doc c \<noteq> doc_id d \<or> ck_content c \<in> dc_content ` set cs
          \<longrightarrow> c \<in> set (chunk_rows (w_pg w')))
     \<and> (\<forall>c\<in>set (chunk_rows (w_pg w')). c \<in> set (chunk_rows (w_pg w))
          \<or> ck_doc c = doc_id d \<and> ck_content c \<notin> ck_content ` rows_of (doc_id d) w)"
proof -
  let ?new = "new_chunk_map (ie_sha ie) cs"
  note upd = ingest_updated_done [OF assms(5-8)]
  obtain old es and db1 db2 :: pg where old: "get_document_chunks (doc_id d) (w_pg w) = Inr old"
    and del: "delete_chunks_by_ids (stale_ids ?new old) (w_pg w) = Inr db1"
    and ups: "chunk_rows db2 = chunk_rows db1"
    and es: "map ec_content es = map dc_content (chunks_to_embed ?new old)"
    and r: "r = mk_result src ''updated'' (Some (doc_id d)) (length es) None"
    and rows: "chunk_rows (w_pg w') = chunk_rows db2
       @ chunk_rows_from (ie_sha ie) (ie_ids ie) (doc_id d) (pg_next db2) 0 es"
    by (rule ingest_update_done [OF upd assms(3,4)])
  let ?saved = "chunk_rows_from (ie_sha ie) (ie_ids ie) (doc_id d) (pg_next db2) 0 es"
  have oldset: "set old = rows_of (doc_id d) w"
    using old by (auto simp: get_document_chunks_def rows_of_def)
  have inj: "inj (ie_sha ie)" using assms(1) by (simp add: sha_ok_def)
  have hash: "\<forall>r\<in>set old. ck_hash r = Some (ie_sha ie (ck_content r))"
    using assms(2) by (auto simp: oldset rows_of_def store_ok_def)
  note emb = to_embed [OF assms(1) hash, of cs]
  have kept: "set (chunk_rows db1)
      = {r \<in> set (chunk_rows (w_pg w)). ck_doc r = doc_id d \<longrightarrow> ck_content r \<in> dc_content ` set cs}"
    by (rule delete_stale_rows [OF inj assms(2) old del])
  have "ck_content ` set ?saved = ec_content ` set es"
    using chunk_rows_from_content [of "ie_sha ie" "ie_ids ie" "doc_id d" "pg_next db2" 0 es]
    by (metis list.set_map)
  also have "\<dots> = dc_content ` set (chunks_to_embed ?new old)" using es by (metis list.set_map)
  finally have saved: "ck_content ` set ?saved = dc_content ` set cs - ck_content ` rows_of (doc_id d) w"
    using emb(1) oldset by simp
  have new: "ck_doc c = doc_id d \<and> ck_content c \<notin> ck_content ` rows_of (doc_id d) w"
    if "c \<in> set ?saved" for c
    using that chunk_rows_from_doc [OF that] saved by blast
  have all: "set (chunk_rows (w_pg w')) = set (chunk_rows db1) \<union> set ?saved"
    using rows ups by simp
  have mine: "rows_of (doc_id d) w' = {c \<in> set (chunk_rows db1). ck_doc c = doc_id d} \<union> set ?saved"
    using new by (auto simp: rows_of_def all)
  have "ck_content ` {c \<in> set (chunk_rows db1). ck_doc c = doc_id d}
      = ck_content ` {c \<in> rows_of (doc_id d) w. ck_content c \<in> dc_content ` set cs}"
    unfolding kept rows_of_def by (rule arg_cong) auto
  also have "\<dots> = dc_content ` set cs \<inter> ck_content ` rows_of (doc_id d) w" by (rule image_restrict)
  finally have "ck_content ` {c \<in> set (chunk_rows db1). ck_doc c = doc_id d}
      = dc_content ` set cs \<inter> ck_content ` rows_of (doc_id d) w" .
  with mine saved have "ck_content ` rows_of (doc_id d) w' = dc_content ` set cs"
    by (simp add: image_Un Int_Diff_Un)
  moreover have "length es = card (dc_content ` set (chunks_to_embed ?new old))"
    using distinct_card [OF emb(2)] arg_cong [OF es, of length] by simp
  then have "ir_chunks r = card (dc_content ` set cs - ck_content ` rows_of (doc_id d) w)"
    using r emb(1) oldset by (simp add: mk_result_def)
  ultimately show ?thesis using kept new all by blast
qed

theorem update_diff_witness:
  "\<exists>r w'. ingest_document demo_ingest ''new'' ''a.txt'' ''T'' [] ''public'' (demo_world demo_pg)
       = Some (r, w') \<and> ck_content ` rows_of ''i'' w' = {''new''} \<and> ir_chunks r = 1"
proof -
  have h: "healthy (demo_world demo_pg)" by (simp add: demo_world_def demo_pg_def empty_pg_def)
  obtain c where c: "await_chunks demo_ingest ''new'' ''T'' ''a.txt'' [] = Some (Inr [c])"
    "dc_content c = ''new''" using demo_chunks by blast
  from ingest_completes_aux [OF h c(1) demo_api, of "''public''"] obtain r w' where
    d: "ingest_document demo_ingest ''new'' ''a.txt'' ''T'' [] ''public'' (demo_world demo_pg) = Some (r, w')"
    and u: "ir_status r = ''updated''"
    by (auto simp: demo_world_def demo_pg_def demo_doc_def demo_ingest_def)
  have g: "get_document_by_source ''a.txt'' (w_pg (demo_world demo_pg)) = Inr (Some demo_doc)"
    by (simp add: get_document_by_source_def demo_world_def demo_pg_def demo_doc_def request_def empty_pg_def)
  have s: "store_ok (ie_sha demo_ingest) (ie_ids demo_ingest) (w_pg (demo_world demo_pg))"
    using demo_store by (simp add: demo_world_def)
  have o: "ck_content ` rows_of ''i'' (demo_world demo_pg) = {''old''}"
    by (simp add: rows_of_def demo_world_def demo_pg_def image_def)
  from update_diff [OF demo_sha s demo_api(1,2) g c(1) d u] c(2) o
  have "ck_content ` rows_of ''i'' w' = {''new''}" "ir_chunks r = 1"
    by (simp_all add: demo_doc_def)
  with d show ?thesis by (intro exI conjI)
qed

text \<open>C11: every bulk run keeps the store consistent and no run relabels a document.  With
  unique fresh identifiers, after a run over both buckets that ended or was aborted: keys
  are unique, every chunk row belongs to a document, stored hashes match stored contents,
  and the sources, identifiers and access levels of the documents that were there are
  unchanged, in place; only new documents are added.\<close>

theorem bulk_run_invariant:
  assumes "inj (ie_ids ie)" and "store_ok (ie_sha ie) (ie_ids ie) (w_pg w)"
    and "ingest_all_s3_buckets ie s3 w = Some (res, w')"
  shows "store_ok (ie_sha ie) (ie_ids ie) (w_pg w') \<and> prefix (labels (w_pg w)) (labels (w_pg w'))"
  using ingest_all_sound [OF assms(1) _ assms(3), of "labels (w_pg w)"] assms(2)
  by (simp add: sound_def)

theorem bulk_run_invariant_witness:
  "\<exists>s w'. ingest_all_s3_buckets demo_ingest demo_s3 (demo_world demo_pg) = Some (Inr s, w')
     \<and> map ir_source (is_results s) = [''b.txt'']
     \<and> prefix [(''a.txt'', ''i'', ''private'')] (labels (w_pg w'))"
proof -
  obtain s w' where r: "ingest_all_s3_buckets demo_ingest demo_s3 (demo_world demo_pg) = Some (Inr s, w')"
    and "map ir_source (is_results s) = [''b.txt'']" by (rule demo_run)
  moreover from bulk_run_invariant [OF demo_ids _ r] demo_store
  have "prefix [(''a.txt'', ''i'', ''private'')] (labels (w_pg w'))"
    by (simp add: demo_world_def labels_def demo_pg_def demo_doc_def)
  ultimately show ?thesis by (intro exI conjI)
qed

text \<open>The accounts of a bulk run.  When a run over both buckets ends, its results are the
  listed keys, those of the private bucket first, each once and in order (none when the
  access check fails), and the four counters are the numbers of results of each status and
  add up to the number of results.\<close>

theorem bulk_run_accounts:
  assumes "ingest_all_s3_buckets ie s3 w = Some (Inr s, w')"
  shows "map ir_source (is_results s) = (if verify_s3_access s3
       then list_documents_from_s3 s3 ''private'' [] @ list_documents_from_s3 s3 ''public'' [] else [])
     \<and> stats_total s = length (is_results s)
     \<and> is_inserted s = length (filter (\<lambda>r. ir_status r = ''inserted'') (is_results s))
     \<and> is_updated s = length (filter (\<lambda>r. ir_status r = ''updated'') (is_results s))
     \<and> is_skipped s = length (filter (\<lambda>r. ir_status r = ''skipped'') (is_results s))"
proof -
  from assms obtain a w1 b where a: "ingest_from_s3 ie s3 ''private'' [] w = Some (Inr a, w1)"
    and b: "ingest_from_s3 ie s3 ''public'' [] w1 = Some (Inr b, w')"
    and s: "s = add_stats (add_stats empty_stats a) b"
    by (auto simp: ingest_all_s3_buckets_def split: option.splits sum.splits)
  note a' = ingest_from_s3_accounts [OF a] and b' = ingest_from_s3_accounts [OF b]
  from status_ok_add [OF status_ok_empty(1) conjunct1 [OF a']]
    status_ok_add [OF conjunct1 [OF status_ok_add [OF status_ok_empty(1) conjunct1 [OF a']]] conjunct1 [OF b']]
  have "status_ok s" "is_results s = is_results a @ is_results b"
    by (simp_all add: s status_ok_empty)
  with a' b' show ?thesis by (simp add: status_ok_def)
qed

theorem bulk_run_accounts_witness:
  "\<exists>s w'. ingest_all_s3_buckets demo_ingest demo_s3 (demo_world demo_pg) = Some (Inr s, w')
     \<and> stats_total s = 1"
proof -
  obtain s w' where r: "ingest_all_s3_buckets demo_ingest demo_s3 (demo_world demo_pg) = Some (Inr s, w')"
    and "map ir_source (is_results s) = [''b.txt'']" by (rule demo_run)
  moreover from this have "length (is_results s) = 1" by (metis length_map list.size(3,4) One_nat_def add_0)
  ultimately show ?thesis using bulk_run_accounts [OF r] by auto
qed

text \<open>C29: a run without faults completes.  When the database answers, the chunker ends, the
  provider answers one embedding per text and the graph driver can be made, ingesting a
  document succeeds whatever the model and the provider do, and its status is determined
  by the stored hash: inserted, skipped or updated.\<close>

theorem ingest_completes:
  assumes "pg_faults (w_pg w) = []" and "await_chunks ie content t src m = Some (Inr cs)"
    and "api_complete (ie_api ie)" and "0 < gc_batch_size (ie_gen ie)"
    and "\<not> isl (ge_driver (ie_graph ie))"
  shows "\<exists>r w'. ingest_document ie content src t m a w = Some (r, w')
     \<and> ir_status r = (case find (\<lambda>d. doc_source d = src) (documents (w_pg w)) of
          None \<Rightarrow> ''inserted''
        | Some d \<Rightarrow> if doc_hash d = ie_sha ie content then ''skipped'' else ''updated'')"
  by (rule ingest_completes_aux) (rule assms)+

theorem ingest_completes_witness:
  "\<exists>r w'. ingest_document demo_ingest ''new'' ''a.txt'' ''T'' [] ''public'' (demo_world demo_pg)
       = Some (r, w') \<and> ir_status r = ''updated''"
proof -
  have h: "pg_faults (w_pg (demo_world demo_pg)) = []" by (simp add: demo_world_def demo_pg_def empty_pg_def)
  obtain c where "await_chunks demo_ingest ''new'' ''T'' ''a.txt'' [] = Some (Inr [c])"
    using demo_chunks by blast
  from ingest_completes [OF h this demo_api, of "''public''"] show ?thesis
    by (simp add: demo_world_def demo_pg_def demo_doc_def demo_ingest_def)
qed

text \<open>C27: a failed save is never repaired by ingesting again.  For a new document whose
  chunks cannot be inserted, the run reports a failure but the document row with the hash
  of the content stays; when the database works again, ingesting the same content is
  skipped, with no chunk of the document stored.\<close>

theorem failed_save_skipped:
  assumes "inj (ie_ids ie)" and "store_ok (ie_sha ie) (ie_ids ie) (w_pg w)"
    and "pg_faults (w_pg w) = [''chunks.insert'']"
    and "find (\<lambda>d. doc_source d = src) (documents (w_pg w)) = None"
    and "await_chunks ie content t src m = Some (Inr cs)" and "cs \<noteq> []"
    and "api_complete (ie_api ie)" and "0 < gc_batch_size (ie_gen ie)"
  shows "\<exists>r w1 did. ingest_document ie content src t m a w = Some (r, w1) \<and> ir_status r = ''failed''
     \<and> ingest_document ie content src t m a (healed w1)
         = Some (mk_result src ''skipped'' (Some did) 0 None, healed w1)
     \<and> rows_of did (healed w1) = {}"
proof -
  let ?db = "w_pg w" let ?did = "ie_ids ie (pg_next ?db)"
  let ?doc = "\<lparr>doc_id = ?did, doc_title = t, doc_source = src, doc_content = content,
    doc_hash = ie_sha ie content, doc_meta = m, doc_access = a, doc_created = Suc (pg_next ?db)\<rparr>"
  let ?db1 = "?db\<lparr>pg_next := Suc (pg_next ?db), documents := documents ?db @ [?doc]\<rparr>"
  let ?w1 = "w\<lparr>w_pg := ?db1\<rparr>"
  have g: "get_document_by_source src ?db = Inr None"
    using assms(3,4) by (simp add: get_document_by_source_def request_def)
  have u: "upsert_step ie src t content m a w = (Inr ?did, ?w1)"
    using g assms(3) by (simp add: upsert_step_def pg_write_def upsert_document_def fresh_id_def request_def)
  obtain es st where e: "embed_step ie cs ?w1 = (Inr es, ?w1\<lparr>w_emb := st\<rparr>)" and es: "es \<noteq> []"
    using embed_chunks_content [OF assms(7,8), of "ie_md5 ie" "ie_stamp ie" "ie_api_what ie" cs "w_emb w"]
      assms(6) by (fastforce simp: embed_step_def)
  let ?w2 = "?w1\<lparr>w_emb := st\<rparr>"
  have s: "save_step ie ?did es ?w2 = (Inl (OtherError ''chunks.insert''), ?w2)"
    using es assms(3) by (simp add: save_step_def pg_write_def save_chunks_def request_def Let_def)
  have one: "ingest_document ie content src t m a w
      = Some (mk_result src ''failed'' None 0 (Some (ie_what ie (OtherError ''chunks.insert''))), ?w2)"
    using g assms(5) u e s by (simp add: ingest_document_def ingest_body_def ingest_insert_def)
  have f: "find (\<lambda>d. doc_source d = src) (documents ?db @ [?doc]) = Some ?doc"
    using assms(4) by (simp add: find_snoc)
  have two: "ingest_document ie content src t m a (healed ?w2)
      = Some (mk_result src ''skipped'' (Some ?did) 0 None, healed ?w2)"
    using f by (simp add: ingest_document_def ingest_body_def get_document_by_source_def healed_def request_def)
  have "?did \<notin> doc_id ` set (documents ?db)"
    using assms(2) not_drawn [OF assms(1), of "pg_next ?db" "pg_next ?db"] by (auto simp: store_ok_def)
  moreover have "ck_doc c \<in> doc_id ` set (documents ?db)" if "c \<in> set (chunk_rows ?db)" for c
    using that assms(2) by (simp add: store_ok_def)
  ultimately have "ck_doc c \<noteq> ?did" if "c \<in> set (chunk_rows ?db)" for c
    using that by metis
  then have "rows_of ?did (healed ?w2) = {}" by (auto simp: rows_of_def healed_def)
  moreover have "ir_status (mk_result src ''failed'' None 0 (Some (ie_what ie (OtherError ''chunks.insert''))))
      = ''failed''" by (simp add: mk_result_def)
  ultimately show ?thesis using one two by (intro exI conjI)
qed

theorem failed_save_skipped_witness:
  "\<exists>r w1 did. ingest_document demo_ingest ''new'' ''b.txt'' ''T'' [] ''public''
       (demo_world (demo_pg\<lparr>pg_faults := [''chunks.insert'']\<rparr>)) = Some (r, w1) \<and> ir_status r = ''failed''
     \<and> ingest_document demo_ingest ''new'' ''b.txt'' ''T'' [] ''public'' (healed w1)
         = Some (mk_result ''b.txt'' ''skipped'' (Some did) 0 None, healed w1)"
proof -
  let ?w = "demo_world (demo_pg\<lparr>pg_faults := [''chunks.insert'']\<rparr>)"
  obtain c where c: "await_chunks demo_ingest ''new'' ''T'' ''b.txt'' [] = Some (Inr [c])"
    using demo_chunks by blast
  have s: "store_ok (ie_sha demo_ingest) (ie_ids demo_ingest) (w_pg ?w)"
    using demo_store by (simp add: demo_world_def store_ok_def)
  have f: "pg_faults (w_pg ?w) = [''chunks.insert'']"
    "find (\<lambda>d. doc_source d = ''b.txt'') (documents (w_pg ?w)) = None"
    by (simp_all add: demo_world_def demo_pg_def demo_doc_def)
  from failed_save_skipped [OF demo_ids s f c _ demo_api(1,2), of "''public''"] show ?thesis by fastforce
qed



end
