(* ===== verification/Http.thy ===== *)
theory Http
  imports Prelude
begin

text \<open>
  Programs with a state and exceptions: a program runs on the state of the stores it talks
  to and replies or raises; either way the state is what it has written so far.  A request
  handler is one that raises \<open>HTTPException\<close>s.  Triples state what holds after a reply and
  after an exception.
\<close>

section \<open>Programs and handlers\<close>

type_synonym ('s, 'e, 'a) prog = "'s \<Rightarrow> ('e + 'a) \<times> 's"

datatype http_error = Http (http_status: nat) (http_detail: string)

type_synonym ('s, 'a) handler = "('s, http_error, 'a) prog"

definition reply :: "'a \<Rightarrow> ('s, 'e, 'a) prog" where
  "reply x s = (Inr x, s)"

definition http_fail :: "nat \<Rightarrow> string \<Rightarrow> ('s, 'a) handler" where
  "http_fail code detail s = (Inl (Http code detail), s)"

definition hbind :: "('s, 'e, 'a) prog \<Rightarrow> ('a \<Rightarrow> ('s, 'e, 'b) prog) \<Rightarrow> ('s, 'e, 'b) prog" where
  "hbind m f s = (case m s of (Inl e, s') \<Rightarrow> (Inl e, s') | (Inr x, s') \<Rightarrow> f x s')"

definition raise :: "'e \<Rightarrow> ('s, 'e, 'a) prog" where
  "raise e s = (Inl e, s)"

text \<open>\<open>try: m except Exception as e: h\<close>\<close>

definition attempt :: "('s, 'e, 'a) prog \<Rightarrow> ('e \<Rightarrow> ('s, 'f, 'a) prog) \<Rightarrow> ('s, 'f, 'a) prog" where
  "attempt m h s = (case m s of (Inl e, s') \<Rightarrow> h e s' | (Inr x, s') \<Rightarrow> (Inr x, s'))"

text \<open>\<open>if not c: raise HTTPException(code, detail)\<close>\<close>

definition demand :: "bool \<Rightarrow> nat \<Rightarrow> string \<Rightarrow> ('s, unit) handler" where
  "demand c code detail = (if c then reply () else http_fail code detail)"

fun each :: "('a \<Rightarrow> ('s, 'e, unit) prog) \<Rightarrow> 'a list \<Rightarrow> ('s, 'e, unit) prog" where
  "each f [] = reply ()"
| "each f (x # xs) = hbind (f x) (\<lambda>_. each f xs)"

lemmas handler_defs = reply_def http_fail_def demand_def

lemma hbind_simps [simp]:
  "m s = (Inl e, s') \<Longrightarrow> hbind m f s = (Inl e, s')"
  "m s = (Inr x, s') \<Longrightarrow> hbind m f s = f x s'"
  by (simp_all add: hbind_def)

lemma reply_simp [simp]: "reply x s = (Inr x, s)"
  by (simp add: reply_def)

lemma http_fail_simp [simp]: "http_fail n d s = (Inl (Http n d), s)"
  by (simp add: http_fail_def)

lemma raise_simp [simp]: "raise e s = (Inl e, s)"
  by (simp add: raise_def)

lemma attempt_simps [simp]:
  "m s = (Inl e, s') \<Longrightarrow> attempt m h s = h e s'"
  "m s = (Inr x, s') \<Longrightarrow> attempt m h s = (Inr x, s')"
  by (simp_all add: attempt_def)

lemma demand_simps [simp]: "demand True n d = reply ()" "demand False n d = http_fail n d"
  by (simp_all add: demand_def)

lemma hbind_Inr: "hbind m f s = (Inr y, s'') \<longleftrightarrow> (\<exists>x s'. m s = (Inr x, s') \<and> f x s' = (Inr y, s''))"
  by (auto simp: hbind_def split: prod.splits sum.splits)

lemma hbind_reply [simp]: "hbind (reply x) f = f x"
  by (rule ext) (simp add: hbind_def)

section \<open>Triples\<close>

definition serves ::
  "('s \<Rightarrow> bool) \<Rightarrow> ('s, 'e, 'a) prog \<Rightarrow> ('a \<Rightarrow> 's \<Rightarrow> bool) \<Rightarrow> ('s \<Rightarrow> bool) \<Rightarrow> bool" where
  "serves P m Q E \<longleftrightarrow>
     (\<forall>s. P s \<longrightarrow> (case m s of (Inr x, s') \<Rightarrow> Q x s' | (Inl _, s') \<Rightarrow> E s'))"

text \<open>\<open>keeps P m\<close>: the handler keeps \<open>P\<close>, however it ends.\<close>

abbreviation keeps :: "('s \<Rightarrow> bool) \<Rightarrow> ('s, 'e, 'a) prog \<Rightarrow> bool" where
  "keeps P m \<equiv> serves P m (\<lambda>_. P) P"

named_theorems serve_rules

lemma serves_weaken:
  "serves P m Q E \<Longrightarrow> (\<And>s. P' s \<Longrightarrow> P s) \<Longrightarrow> (\<And>x s. Q x s \<Longrightarrow> Q' x s) \<Longrightarrow> (\<And>s. E s \<Longrightarrow> E' s)
     \<Longrightarrow> serves P' m Q' E'"
  unfolding serves_def by (fastforce split: prod.splits sum.splits)

lemma serves_bind:
  "serves P m Q E \<Longrightarrow> (\<And>x. serves (Q x) (f x) R E) \<Longrightarrow> serves P (hbind m f) R E"
  unfolding serves_def hbind_def by (fastforce split: prod.splits sum.splits)

lemma keeps_bind [serve_rules]: "keeps P m \<Longrightarrow> (\<And>x. keeps P (f x)) \<Longrightarrow> keeps P (hbind m f)"
  by (rule serves_bind)

lemma keeps_reply [serve_rules]: "keeps P (reply x)"
  by (simp add: serves_def)

lemma keeps_fail [serve_rules]: "keeps P (http_fail n d)"
  by (simp add: serves_def)

lemma keeps_raise [serve_rules]: "keeps P (raise e)"
  by (simp add: serves_def)

lemma serves_attempt:
  "serves P m Q E \<Longrightarrow> (\<And>e. serves E (h e) Q F) \<Longrightarrow> serves P (attempt m h) Q F"
  unfolding serves_def attempt_def by (fastforce split: prod.splits sum.splits)

lemma keeps_attempt [serve_rules]:
  "keeps P m \<Longrightarrow> (\<And>e. keeps P (h e)) \<Longrightarrow> keeps P (attempt m h)"
  by (rule serves_attempt)

lemma keeps_demand [serve_rules]: "keeps P (demand c n d)"
  by (simp add: demand_def keeps_reply keeps_fail)

lemma keeps_if [serve_rules]: "keeps P m \<Longrightarrow> keeps P n \<Longrightarrow> keeps P (if c then m else n)"
  by simp

lemma keeps_case_option [serve_rules]:
  "keeps P m \<Longrightarrow> (\<And>x. keeps P (f x)) \<Longrightarrow> keeps P (case opt of None \<Rightarrow> m | Some x \<Rightarrow> f x)"
  by (simp split: option.splits)

lemma keeps_case_prod [serve_rules]:
  "(\<And>x y. keeps P (f x y)) \<Longrightarrow> keeps P (case p of (x, y) \<Rightarrow> f x y)"
  by (simp split: prod.splits)

lemma keeps_case_sum [serve_rules]:
  "(\<And>x. keeps P (f x)) \<Longrightarrow> (\<And>y. keeps P (g y)) \<Longrightarrow> keeps P (case r of Inl x \<Rightarrow> f x | Inr y \<Rightarrow> g y)"
  by (simp split: sum.splits)

lemma keeps_each [serve_rules]: "(\<And>x. keeps P (f x)) \<Longrightarrow> keeps P (each f xs)"
  by (induction xs) (simp_all add: keeps_bind keeps_reply)

lemma keepsD: "keeps P m \<Longrightarrow> P s \<Longrightarrow> P (snd (m s))"
  by (cases "m s"; cases "fst (m s)") (auto simp: serves_def)

lemma servesD: "serves P m Q E \<Longrightarrow> P s \<Longrightarrow> m s = (Inr x, s') \<Longrightarrow> Q x s'"
  by (fastforce simp: serves_def)

end
