(* ===== verification/Auth.thy ===== *)
theory Auth
  imports Http PyString
begin

text \<open>
  \<open>agent/auth_utils.py\<close>, \<open>agent/auth_deps.py\<close> and \<open>agent/auth_router.py\<close>: accounts, tokens
  and the endpoints on them.  The tables are lists of rows, \<open>a_next\<close> counts the values drawn
  from the random sources, \<open>a_faults\<close> names the requests the database refuses, which end the
  request with status 500.  \<open>auth_env\<close> holds what is not the program's: the random sources,
  bcrypt, SHA-256 and the JWT library.  Times are seconds.
\<close>

section \<open>Tables\<close>

record user_row =
  u_id :: string
  u_email :: string
  u_username :: "string option"
  u_full_name :: "string option"
  u_hash :: string
  u_active :: bool
  u_verified :: bool
  u_created :: nat
  u_last_login :: "int option"
  u_avatar :: "string option"

record role_row =
  r_id :: string
  r_name :: string
  r_desc :: "string option"

record perm_row =
  p_id :: string
  p_name :: string
  p_desc :: "string option"
  p_resource :: "string option"
  p_action :: "string option"

record refresh_row =
  rt_id :: string
  rt_user :: string
  rt_hash :: string
  rt_expires :: int
  rt_revoked :: bool

text \<open>A row of \<open>email_verifications\<close> or of \<open>password_resets\<close>.\<close>

record otp_row =
  ot_id :: string
  ot_user :: string
  ot_token :: string
  ot_expires :: int
  ot_used :: bool

record auth_db =
  users :: "user_row list"
  roles :: "role_row list"
  user_roles :: "(string \<times> string) list"
  permissions :: "perm_row list"
  role_perms :: "(string \<times> string) list"
  refresh_tokens :: "refresh_row list"
  verifications :: "otp_row list"
  resets :: "otp_row list"
  a_next :: nat
  a_faults :: "string list"

definition empty_auth :: auth_db where
  "empty_auth = \<lparr>users = [], roles = [], user_roles = [], permissions = [], role_perms = [],
     refresh_tokens = [], verifications = [], resets = [], a_next = 0, a_faults = []\<rparr>"

section \<open>The libraries\<close>

record claims =
  c_sub :: "string option"
  c_email :: string
  c_roles :: "string list"
  c_type :: string
  c_exp :: int

datatype jwt_error = ExpiredSignature | OtherJwtError

record auth_env =
  ae_ids :: "nat \<Rightarrow> string"
  ae_secret :: "nat \<Rightarrow> string"
  ae_sha :: "string \<Rightarrow> string"
  ae_bcrypt :: "nat \<Rightarrow> string \<Rightarrow> string res"
  ae_check :: "string \<Rightarrow> string \<Rightarrow> bool res"
  ae_encode :: "claims \<Rightarrow> string"
  ae_decode :: "int \<Rightarrow> string \<Rightarrow> jwt_error + claims"
  ae_access_minutes :: int
  ae_refresh_days :: int

section \<open>Requests\<close>

definition SERVER_ERROR :: http_error where
  "SERVER_ERROR = Http 500 ''Internal Server Error''"

definition query :: "string \<Rightarrow> (auth_db \<Rightarrow> 'a) \<Rightarrow> (auth_db, 'a) handler" where
  "query r f s = (if r \<in> set (a_faults s) then (Inl SERVER_ERROR, s) else (Inr (f s), s))"

definition exec :: "string \<Rightarrow> (auth_db \<Rightarrow> auth_db) \<Rightarrow> (auth_db, unit) handler" where
  "exec r f s = (if r \<in> set (a_faults s) then (Inl SERVER_ERROR, s) else (Inr (), f s))"

definition draw :: "(nat \<Rightarrow> 'a res) \<Rightarrow> (auth_db, 'a) handler" where
  "draw f s = (case f (a_next s) of
      Inl _ \<Rightarrow> (Inl SERVER_ERROR, s) | Inr x \<Rightarrow> (Inr x, s\<lparr>a_next := Suc (a_next s)\<rparr>))"

section \<open>Utilities\<close>

definition DEFAULT_JWT_SECRET :: string where
  "DEFAULT_JWT_SECRET = ''change-me-in-production''"

text \<open>The check at import: the server does not start with the default secret in production.\<close>

definition check_secret :: "string \<Rightarrow> string \<Rightarrow> unit res" where
  "check_secret secret app_env =
     (if (secret = DEFAULT_JWT_SECRET \<or> secret = []) \<and> py_lower app_env \<noteq> ''development''
      then Inl (OtherError ''RuntimeError'') else Inr ())"

definition hash_password :: "auth_env \<Rightarrow> string \<Rightarrow> (auth_db, string) handler" where
  "hash_password ae plain = draw (\<lambda>n. ae_bcrypt ae n plain)"

definition verify_password :: "auth_env \<Rightarrow> string \<Rightarrow> string \<Rightarrow> bool" where
  "verify_password ae plain hashed = py_try (ae_check ae plain hashed) False"

definition create_access_token ::
  "auth_env \<Rightarrow> int \<Rightarrow> string \<Rightarrow> string \<Rightarrow> string list \<Rightarrow> string" where
  "create_access_token ae now uid email rs =
     ae_encode ae \<lparr>c_sub = Some uid, c_email = email, c_roles = rs, c_type = ''access'',
       c_exp = now + ae_access_minutes ae * 60\<rparr>"

definition hash_token :: "auth_env \<Rightarrow> string \<Rightarrow> string" where
  "hash_token ae raw = ae_sha ae raw"

definition create_refresh_token :: "auth_env \<Rightarrow> (auth_db, string \<times> string) handler" where
  "create_refresh_token ae = draw (\<lambda>n. Inr (ae_secret ae n, ae_sha ae (ae_secret ae n)))"

definition make_otp :: "auth_env \<Rightarrow> (auth_db, string) handler" where
  "make_otp ae = draw (\<lambda>n. Inr (ae_secret ae n))"

definition refresh_token_expiry :: "auth_env \<Rightarrow> int \<Rightarrow> int" where
  "refresh_token_expiry ae now = now + ae_refresh_days ae * 86400"

definition verification_token_expiry :: "int \<Rightarrow> int" where
  "verification_token_expiry now = now + 24 * 3600"

definition reset_token_expiry :: "int \<Rightarrow> int" where
  "reset_token_expiry now = now + 3600"

section \<open>Dependencies\<close>

definition bearer_token :: "string \<Rightarrow> ('s, string) handler" where
  "bearer_token header =
     (if prefix ''Bearer '' header then reply (drop 7 header)
      else http_fail 401 ''Missing or invalid Authorization header'')"

definition find_user :: "string \<Rightarrow> auth_db \<Rightarrow> user_row option" where
  "find_user uid s = find (\<lambda>u. u_id u = uid) (users s)"

definition find_email :: "string \<Rightarrow> auth_db \<Rightarrow> user_row option" where
  "find_email email s = find (\<lambda>u. u_email u = email) (users s)"

text \<open>The user's row with the roles of the token, not those of the database.\<close>

definition get_current_user ::
  "auth_env \<Rightarrow> int \<Rightarrow> string \<Rightarrow> (auth_db, user_row \<times> string list) handler" where
  "get_current_user ae now header =
     hbind (bearer_token header) (\<lambda>token.
       case ae_decode ae now token of
         Inl ExpiredSignature \<Rightarrow> http_fail 401 ''Token expired''
       | Inl OtherJwtError \<Rightarrow> http_fail 401 ''Invalid token''
       | Inr c \<Rightarrow>
           if \<not> truthy (c_sub c) then http_fail 401 ''Invalid token payload''
           else hbind (query ''users.select'' (find_user (str_or (c_sub c) []))) (\<lambda>row.
             case row of
               None \<Rightarrow> http_fail 401 ''User not found''
             | Some u \<Rightarrow> reply (u, c_roles c)))"

definition get_current_active_user ::
  "auth_env \<Rightarrow> int \<Rightarrow> string \<Rightarrow> (auth_db, user_row \<times> string list) handler" where
  "get_current_active_user ae now header =
     hbind (get_current_user ae now header) (\<lambda>(u, rs).
     hbind (demand (u_active u) 403 ''Account is deactivated'') (\<lambda>_. reply (u, rs)))"

definition require_roles ::
  "auth_env \<Rightarrow> string list \<Rightarrow> int \<Rightarrow> string \<Rightarrow> (auth_db, user_row \<times> string list) handler" where
  "require_roles ae needed now header =
     hbind (get_current_active_user ae now header) (\<lambda>(u, rs).
     hbind (demand (\<exists>r\<in>set needed. r \<in> set rs) 403
        (''Required role(s): '' @ py_join '', '' needed)) (\<lambda>_. reply (u, rs)))"

end
