(* ===== verification/AuthRouter.thy ===== *)
theory AuthRouter
  imports Auth
begin

text \<open>
  \<open>agent/auth_router.py\<close>: the endpoints under \<open>/api/v1/auth\<close>, with their guards, requests
  and effects in the order of the code.  \<open>hdr\<close> is the \<open>Authorization\<close> header.  The refresh
  endpoint is given in two stages, what it reads and what it writes, so that interleaved
  requests can be stated.
\<close>

section \<open>Requests and responses\<close>

record RegisterRequest =
  rq_email :: string
  rq_password :: string
  rq_username :: "string option"
  rq_full_name :: "string option"

record TokenResponse =
  tr_access :: string
  tr_refresh :: string
  tr_type :: string
  tr_expires_in :: int

text \<open>\<open>Field(..., min_length=8)\<close>\<close>

definition valid_password :: "string \<Rightarrow> ('s, unit) handler" where
  "valid_password p = demand (8 \<le> length p) 422 ''password''"

section \<open>Rows\<close>

definition role_names :: "string \<Rightarrow> auth_db \<Rightarrow> string list" where
  "role_names uid s = concat (map (\<lambda>(u, rid).
     if u = uid then (case find (\<lambda>r. r_id r = rid) (roles s) of None \<Rightarrow> [] | Some r \<Rightarrow> [r_name r])
     else []) (user_roles s))"

definition get_user_roles :: "string \<Rightarrow> (auth_db, string list) handler" where
  "get_user_roles uid = query ''user_roles.select'' (role_names uid)"

definition update_user_row :: "string \<Rightarrow> (user_row \<Rightarrow> user_row) \<Rightarrow> auth_db \<Rightarrow> auth_db" where
  "update_user_row uid f s = s\<lparr>users := map (\<lambda>u. if u_id u = uid then f u else u) (users s)\<rparr>"

definition insert_user ::
  "string \<Rightarrow> string \<Rightarrow> string option \<Rightarrow> string option \<Rightarrow> string \<Rightarrow> bool \<Rightarrow> bool \<Rightarrow> auth_db \<Rightarrow> auth_db" where
  "insert_user uid email username full_name hashed active verified s =
     s\<lparr>users := users s @ [\<lparr>u_id = uid, u_email = email, u_username = username, u_full_name = full_name,
         u_hash = hashed, u_active = active, u_verified = verified, u_created = a_next s,
         u_last_login = None, u_avatar = None\<rparr>]\<rparr>"

text \<open>Assigning a role by name; an unknown name is passed over.\<close>

definition assign_role :: "string \<Rightarrow> string \<Rightarrow> (auth_db, unit) handler" where
  "assign_role uid name =
     hbind (query ''roles.select'' (\<lambda>s. find (\<lambda>r. r_name r = name) (roles s))) (\<lambda>r. case r of
       None \<Rightarrow> reply ()
     | Some r \<Rightarrow> exec ''user_roles.insert'' (\<lambda>s. s\<lparr>user_roles := user_roles s @ [(uid, r_id r)]\<rparr>))"

definition insert_refresh :: "auth_env \<Rightarrow> string \<Rightarrow> string \<Rightarrow> int \<Rightarrow> auth_db \<Rightarrow> auth_db" where
  "insert_refresh ae uid hashed expires s =
     s\<lparr>refresh_tokens := refresh_tokens s @ [\<lparr>rt_id = ae_ids ae (a_next s), rt_user = uid,
         rt_hash = hashed, rt_expires = expires, rt_revoked = False\<rparr>],
       a_next := Suc (a_next s)\<rparr>"

definition revoke_where :: "(refresh_row \<Rightarrow> bool) \<Rightarrow> auth_db \<Rightarrow> auth_db" where
  "revoke_where p s = s\<lparr>refresh_tokens :=
     map (\<lambda>r. if p r then r\<lparr>rt_revoked := True\<rparr> else r) (refresh_tokens s)\<rparr>"

definition new_otp :: "auth_env \<Rightarrow> string \<Rightarrow> string \<Rightarrow> int \<Rightarrow> auth_db \<Rightarrow> otp_row" where
  "new_otp ae uid token expires s = \<lparr>ot_id = ae_ids ae (a_next s), ot_user = uid, ot_token = token,
     ot_expires = expires, ot_used = False\<rparr>"

definition insert_verification :: "auth_env \<Rightarrow> string \<Rightarrow> string \<Rightarrow> int \<Rightarrow> auth_db \<Rightarrow> auth_db" where
  "insert_verification ae uid token expires s =
     s\<lparr>verifications := verifications s @ [new_otp ae uid token expires s], a_next := Suc (a_next s)\<rparr>"

definition insert_reset :: "auth_env \<Rightarrow> string \<Rightarrow> string \<Rightarrow> int \<Rightarrow> auth_db \<Rightarrow> auth_db" where
  "insert_reset ae uid token expires s =
     s\<lparr>resets := resets s @ [new_otp ae uid token expires s], a_next := Suc (a_next s)\<rparr>"

definition mark_used :: "string \<Rightarrow> otp_row list \<Rightarrow> otp_row list" where
  "mark_used oid os = map (\<lambda>t. if ot_id t = oid then t\<lparr>ot_used := True\<rparr> else t) os"

definition find_otp :: "string \<Rightarrow> otp_row list \<Rightarrow> otp_row option" where
  "find_otp token os = find (\<lambda>t. ot_token t = token) os"

section \<open>Tokens\<close>

definition build_token_response :: "auth_env \<Rightarrow> int \<Rightarrow> user_row \<Rightarrow> (auth_db, TokenResponse) handler" where
  "build_token_response ae now u =
     hbind (get_user_roles (u_id u)) (\<lambda>rs.
     hbind (create_refresh_token ae) (\<lambda>(raw, hashed).
     hbind (exec ''refresh_tokens.insert''
        (insert_refresh ae (u_id u) hashed (refresh_token_expiry ae now))) (\<lambda>_.
       reply \<lparr>tr_access = create_access_token ae now (u_id u) (u_email u) rs, tr_refresh = raw,
              tr_type = ''bearer'', tr_expires_in = ae_access_minutes ae * 60\<rparr>)))"

section \<open>Endpoints\<close>

text \<open>The identifier and the verification token are part of the response.\<close>

definition register :: "auth_env \<Rightarrow> int \<Rightarrow> RegisterRequest \<Rightarrow> (auth_db, string \<times> string) handler" where
  "register ae now req =
     hbind (valid_password (rq_password req)) (\<lambda>_.
     hbind (query ''users.select'' (find_email (rq_email req))) (\<lambda>existing.
     hbind (demand (existing = None) 409 ''Email already registered'') (\<lambda>_.
     hbind (draw (\<lambda>n. Inr (ae_ids ae n))) (\<lambda>uid.
     hbind (hash_password ae (rq_password req)) (\<lambda>hashed.
     hbind (exec ''users.insert'' (insert_user uid (rq_email req) (rq_username req) (rq_full_name req)
              hashed True False)) (\<lambda>_.
     hbind (assign_role uid ''user'') (\<lambda>_.
     hbind (make_otp ae) (\<lambda>token.
     hbind (exec ''email_verifications.insert''
              (insert_verification ae uid token (verification_token_expiry now))) (\<lambda>_.
       reply (uid, token))))))))))"

definition login :: "auth_env \<Rightarrow> int \<Rightarrow> string \<Rightarrow> string \<Rightarrow> (auth_db, TokenResponse) handler" where
  "login ae now email password =
     hbind (query ''users.select'' (find_email email)) (\<lambda>row. case row of
       None \<Rightarrow> http_fail 401 ''Invalid email or password''
     | Some u \<Rightarrow>
         hbind (demand (verify_password ae password (u_hash u)) 401 ''Invalid email or password'') (\<lambda>_.
         hbind (demand (u_active u) 403 ''Account deactivated'') (\<lambda>_.
         hbind (demand (u_verified u) 403 ''Email not verified. Check your inbox.'') (\<lambda>_.
         hbind (exec ''users.update'' (update_user_row (u_id u) (\<lambda>u. u\<lparr>u_last_login := Some now\<rparr>))) (\<lambda>_.
           build_token_response ae now u)))))"

text \<open>Whose token it is, is not checked.\<close>

definition logout :: "auth_env \<Rightarrow> int \<Rightarrow> string \<Rightarrow> string \<Rightarrow> (auth_db, string) handler" where
  "logout ae now hdr token =
     hbind (get_current_active_user ae now hdr) (\<lambda>_.
     hbind (exec ''refresh_tokens.update'' (revoke_where (\<lambda>r. rt_hash r = hash_token ae token))) (\<lambda>_.
       reply ''Logged out successfully''))"

text \<open>The reads and checks of a refresh, then its writes.\<close>

definition refresh_check :: "auth_env \<Rightarrow> int \<Rightarrow> string \<Rightarrow> (auth_db, refresh_row) handler" where
  "refresh_check ae now token =
     hbind (query ''refresh_tokens.select''
       (\<lambda>s. find (\<lambda>r. rt_hash r = hash_token ae token) (refresh_tokens s))) (\<lambda>row. case row of
       None \<Rightarrow> http_fail 401 ''Invalid refresh token''
     | Some r \<Rightarrow>
         hbind (demand (\<not> rt_revoked r) 401 ''Refresh token revoked'') (\<lambda>_.
         hbind (demand (now \<le> rt_expires r) 401 ''Refresh token expired'') (\<lambda>_.
           reply r)))"

definition refresh_rotate :: "auth_env \<Rightarrow> int \<Rightarrow> refresh_row \<Rightarrow> (auth_db, TokenResponse) handler" where
  "refresh_rotate ae now stored =
     hbind (exec ''refresh_tokens.update'' (revoke_where (\<lambda>r. rt_id r = rt_id stored))) (\<lambda>_.
     hbind (query ''users.select'' (find_user (rt_user stored))) (\<lambda>row. case row of
       None \<Rightarrow> http_fail 401 ''User not found or deactivated''
     | Some u \<Rightarrow>
         hbind (demand (u_active u) 401 ''User not found or deactivated'') (\<lambda>_.
           build_token_response ae now u)))"

definition refresh_token :: "auth_env \<Rightarrow> int \<Rightarrow> string \<Rightarrow> (auth_db, TokenResponse) handler" where
  "refresh_token ae now token = hbind (refresh_check ae now token) (refresh_rotate ae now)"

text \<open>The token, when there is one, is part of the response.\<close>

definition forgot_password :: "auth_env \<Rightarrow> int \<Rightarrow> string \<Rightarrow> (auth_db, string option) handler" where
  "forgot_password ae now email =
     hbind (query ''users.select'' (find_email email)) (\<lambda>row. case row of
       None \<Rightarrow> reply None
     | Some u \<Rightarrow>
         hbind (make_otp ae) (\<lambda>token.
         hbind (exec ''password_resets.insert''
                  (insert_reset ae (u_id u) token (reset_token_expiry now))) (\<lambda>_.
           reply (Some token))))"

definition reset_password :: "auth_env \<Rightarrow> int \<Rightarrow> string \<Rightarrow> string \<Rightarrow> (auth_db, string) handler" where
  "reset_password ae now token new_password =
     hbind (valid_password new_password) (\<lambda>_.
     hbind (query ''password_resets.select'' (\<lambda>s. find_otp token (resets s))) (\<lambda>row. case row of
       None \<Rightarrow> http_fail 400 ''Invalid or expired reset token''
     | Some t \<Rightarrow>
         hbind (demand (\<not> ot_used t) 400 ''Reset token already used'') (\<lambda>_.
         hbind (demand (now \<le> ot_expires t) 400 ''Reset token expired'') (\<lambda>_.
         hbind (hash_password ae new_password) (\<lambda>hashed.
         hbind (exec ''users.update'' (update_user_row (ot_user t) (\<lambda>u. u\<lparr>u_hash := hashed\<rparr>))) (\<lambda>_.
         hbind (exec ''password_resets.update'' (\<lambda>s. s\<lparr>resets := mark_used (ot_id t) (resets s)\<rparr>)) (\<lambda>_.
         hbind (exec ''refresh_tokens.update'' (revoke_where (\<lambda>r. rt_user r = ot_user t))) (\<lambda>_.
           reply ''Password reset successfully. Please log in again.''))))))))"

definition change_password ::
  "auth_env \<Rightarrow> int \<Rightarrow> string \<Rightarrow> string \<Rightarrow> string \<Rightarrow> (auth_db, string) handler" where
  "change_password ae now hdr current new_password =
     hbind (get_current_active_user ae now hdr) (\<lambda>(u, _).
     hbind (valid_password new_password) (\<lambda>_.
     hbind (demand (verify_password ae current (u_hash u)) 400 ''Current password is incorrect'') (\<lambda>_.
     hbind (hash_password ae new_password) (\<lambda>hashed.
     hbind (exec ''users.update'' (update_user_row (u_id u) (\<lambda>u. u\<lparr>u_hash := hashed\<rparr>))) (\<lambda>_.
     hbind (exec ''refresh_tokens.update'' (revoke_where (\<lambda>r. rt_user r = u_id u))) (\<lambda>_.
       reply ''Password changed successfully. Please log in again.''))))))"

definition verify_email :: "auth_env \<Rightarrow> int \<Rightarrow> string \<Rightarrow> (auth_db, string) handler" where
  "verify_email ae now token =
     hbind (query ''email_verifications.select'' (\<lambda>s. find_otp token (verifications s))) (\<lambda>row. case row of
       None \<Rightarrow> http_fail 400 ''Invalid verification token''
     | Some t \<Rightarrow>
         hbind (demand (\<not> ot_used t) 400 ''Token already used'') (\<lambda>_.
         hbind (demand (now \<le> ot_expires t) 400 ''Verification token expired'') (\<lambda>_.
         hbind (exec ''users.update'' (update_user_row (ot_user t) (\<lambda>u. u\<lparr>u_verified := True\<rparr>))) (\<lambda>_.
         hbind (exec ''email_verifications.update''
                  (\<lambda>s. s\<lparr>verifications := mark_used (ot_id t) (verifications s)\<rparr>)) (\<lambda>_.
           reply ''Email verified successfully. You can now log in.'')))))"

definition resend_verification :: "auth_env \<Rightarrow> int \<Rightarrow> string \<Rightarrow> (auth_db, string \<times> string option) handler" where
  "resend_verification ae now email =
     hbind (query ''users.select'' (find_email email)) (\<lambda>row. case row of
       None \<Rightarrow> reply (''If that email exists and is unverified, a new token has been sent.'', None)
     | Some u \<Rightarrow>
         if u_verified u then reply (''Email is already verified.'', None)
         else hbind (make_otp ae) (\<lambda>token.
              hbind (exec ''email_verifications.insert''
                       (insert_verification ae (u_id u) token (verification_token_expiry now))) (\<lambda>_.
                reply (''If that email exists and is unverified, a new token has been sent.'', Some token))))"

definition me :: "auth_env \<Rightarrow> int \<Rightarrow> string \<Rightarrow> (auth_db, user_row \<times> string list) handler" where
  "me ae now hdr = get_current_active_user ae now hdr"

end
