(* ===== verification/UsersRouter.thy ===== *)
theory UsersRouter
  imports AuthRouter
begin

text \<open>
  \<open>agent/users_router.py\<close> without the avatars: accounts, roles and permissions.  What the
  database schema removes along with a user, a role or a permission is not in the
  repository: it is the parameter \<open>schema\<close>.
\<close>

section \<open>Requests, responses and the schema\<close>

record UserCreateRequest =
  uc_email :: string
  uc_password :: string
  uc_username :: "string option"
  uc_full_name :: "string option"
  uc_active :: bool
  uc_verified :: bool
  uc_roles :: "string list"

record UserUpdateRequest =
  uu_full_name :: "string option"
  uu_username :: "string option"
  uu_active :: "bool option"
  uu_roles :: "string list option"

record UserView =
  uv_id :: string
  uv_email :: string
  uv_username :: "string option"
  uv_full_name :: "string option"
  uv_active :: bool
  uv_verified :: bool
  uv_created :: nat
  uv_last_login :: "int option"
  uv_roles :: "string list"

record schema =
  sc_user :: "string \<Rightarrow> auth_db \<Rightarrow> auth_db"
  sc_role :: "string \<Rightarrow> auth_db \<Rightarrow> auth_db"
  sc_permission :: "string \<Rightarrow> auth_db \<Rightarrow> auth_db"

definition view_user :: "user_row \<Rightarrow> string list \<Rightarrow> UserView" where
  "view_user u rs = \<lparr>uv_id = u_id u, uv_email = u_email u, uv_username = u_username u,
     uv_full_name = u_full_name u, uv_active = u_active u, uv_verified = u_verified u,
     uv_created = u_created u, uv_last_login = u_last_login u, uv_roles = rs\<rparr>"

definition admin_only :: "auth_env \<Rightarrow> int \<Rightarrow> string \<Rightarrow> (auth_db, user_row \<times> string list) handler" where
  "admin_only ae now hdr = require_roles ae [''admin''] now hdr"

section \<open>Users\<close>

fun view_users :: "user_row list \<Rightarrow> (auth_db, UserView list) handler" where
  "view_users [] = reply []"
| "view_users (u # us) =
     hbind (get_user_roles (u_id u)) (\<lambda>rs.
     hbind (view_users us) (\<lambda>vs. reply (view_user u rs # vs)))"

definition list_users :: "auth_env \<Rightarrow> int \<Rightarrow> string \<Rightarrow> int \<Rightarrow> int \<Rightarrow> (auth_db, UserView list) handler" where
  "list_users ae now hdr limit offset =
     hbind (admin_only ae now hdr) (\<lambda>_.
     hbind (query ''users.select'' (\<lambda>s.
       take (nat limit) (drop (nat offset) (rev (sort_key u_created (users s)))))) view_users)"

definition create_user :: "auth_env \<Rightarrow> int \<Rightarrow> string \<Rightarrow> UserCreateRequest \<Rightarrow> (auth_db, string) handler" where
  "create_user ae now hdr req =
     hbind (admin_only ae now hdr) (\<lambda>_.
     hbind (valid_password (uc_password req)) (\<lambda>_.
     hbind (query ''users.select'' (find_email (uc_email req))) (\<lambda>existing.
     hbind (demand (existing = None) 409 ''Email already registered'') (\<lambda>_.
     hbind (draw (\<lambda>n. Inr (ae_ids ae n))) (\<lambda>uid.
     hbind (hash_password ae (uc_password req)) (\<lambda>hashed.
     hbind (exec ''users.insert'' (insert_user uid (uc_email req) (uc_username req) (uc_full_name req)
              hashed (uc_active req) (uc_verified req))) (\<lambda>_.
     hbind (each (assign_role uid) (uc_roles req)) (\<lambda>_.
       reply uid))))))))"

definition get_user :: "auth_env \<Rightarrow> int \<Rightarrow> string \<Rightarrow> string \<Rightarrow> (auth_db, UserView) handler" where
  "get_user ae now hdr uid =
     hbind (get_current_active_user ae now hdr) (\<lambda>(u, rs).
     hbind (demand (u_id u = uid \<or> ''admin'' \<in> set rs) 403 ''Access denied'') (\<lambda>_.
     hbind (query ''users.select'' (find_user uid)) (\<lambda>row. case row of
       None \<Rightarrow> http_fail 404 ''User not found''
     | Some v \<Rightarrow> hbind (get_user_roles uid) (\<lambda>names. reply (view_user v names)))))"

definition apply_update :: "UserUpdateRequest \<Rightarrow> user_row \<Rightarrow> user_row" where
  "apply_update req u = u\<lparr>
     u_full_name := (case uu_full_name req of None \<Rightarrow> u_full_name u | n \<Rightarrow> n),
     u_username := (case uu_username req of None \<Rightarrow> u_username u | n \<Rightarrow> n),
     u_active := (case uu_active req of None \<Rightarrow> u_active u | Some b \<Rightarrow> b)\<rparr>"

definition update_user :: "auth_env \<Rightarrow> int \<Rightarrow> string \<Rightarrow> string \<Rightarrow> UserUpdateRequest \<Rightarrow> (auth_db, string) handler" where
  "update_user ae now hdr uid req =
     hbind (admin_only ae now hdr) (\<lambda>_.
     hbind (if uu_full_name req = None \<and> uu_username req = None \<and> uu_active req = None then reply ()
            else exec ''users.update'' (update_user_row uid (apply_update req))) (\<lambda>_.
     hbind (case uu_roles req of
              None \<Rightarrow> reply ()
            | Some names \<Rightarrow>
                hbind (exec ''user_roles.delete''
                  (\<lambda>s. s\<lparr>user_roles := filter (\<lambda>p. fst p \<noteq> uid) (user_roles s)\<rparr>)) (\<lambda>_.
                  each (assign_role uid) names)) (\<lambda>_.
       reply ''User updated successfully'')))"

definition delete_user :: "auth_env \<Rightarrow> schema \<Rightarrow> int \<Rightarrow> string \<Rightarrow> string \<Rightarrow> (auth_db, unit) handler" where
  "delete_user ae sc now hdr uid =
     hbind (admin_only ae now hdr) (\<lambda>_.
       exec ''users.delete'' (\<lambda>s. sc_user sc uid (s\<lparr>users := filter (\<lambda>u. u_id u \<noteq> uid) (users s)\<rparr>)))"

section \<open>Roles\<close>

definition perms_of :: "string \<Rightarrow> auth_db \<Rightarrow> perm_row list" where
  "perms_of rid s = concat (map (\<lambda>(r, pid).
     if r = rid then (case find (\<lambda>p. p_id p = pid) (permissions s) of None \<Rightarrow> [] | Some p \<Rightarrow> [p])
     else []) (role_perms s))"

fun view_roles :: "role_row list \<Rightarrow> (auth_db, (role_row \<times> perm_row list) list) handler" where
  "view_roles [] = reply []"
| "view_roles (r # rs) =
     hbind (query ''role_permissions.select'' (perms_of (r_id r))) (\<lambda>ps.
     hbind (view_roles rs) (\<lambda>vs. reply ((r, ps) # vs)))"

text \<open>\<open>collate\<close> ranks names as the collation of the database does.\<close>

definition list_roles ::
  "auth_env \<Rightarrow> (string \<Rightarrow> nat) \<Rightarrow> int \<Rightarrow> string \<Rightarrow> (auth_db, (role_row \<times> perm_row list) list) handler" where
  "list_roles ae collate now hdr =
     hbind (get_current_active_user ae now hdr) (\<lambda>_.
     hbind (query ''roles.select'' (\<lambda>s. sort_key (\<lambda>r. collate (r_name r)) (roles s))) view_roles)"

text \<open>\<open>min_length=2\<close> on the names.\<close>

definition create_role ::
  "auth_env \<Rightarrow> int \<Rightarrow> string \<Rightarrow> string \<Rightarrow> string option \<Rightarrow> (auth_db, string) handler" where
  "create_role ae now hdr name desc =
     hbind (admin_only ae now hdr) (\<lambda>_.
     hbind (demand (2 \<le> length name) 422 ''name'') (\<lambda>_.
     hbind (query ''roles.select'' (\<lambda>s. find (\<lambda>r. r_name r = name) (roles s))) (\<lambda>existing.
     hbind (demand (existing = None) 409 (''Role '' @ [CHR 0x27] @ name @ [CHR 0x27] @ '' already exists'')) (\<lambda>_.
     hbind (draw (\<lambda>n. Inr (ae_ids ae n))) (\<lambda>rid.
     hbind (exec ''roles.insert''
       (\<lambda>s. s\<lparr>roles := roles s @ [\<lparr>r_id = rid, r_name = name, r_desc = desc\<rparr>]\<rparr>)) (\<lambda>_.
       reply rid))))))"

definition update_role ::
  "auth_env \<Rightarrow> int \<Rightarrow> string \<Rightarrow> string \<Rightarrow> string option \<Rightarrow> string list option \<Rightarrow> (auth_db, string) handler" where
  "update_role ae now hdr rid desc perm_ids =
     hbind (admin_only ae now hdr) (\<lambda>_.
     hbind (case desc of
              None \<Rightarrow> reply ()
            | Some d \<Rightarrow> exec ''roles.update'' (\<lambda>s. s\<lparr>roles :=
                map (\<lambda>r. if r_id r = rid then r\<lparr>r_desc := Some d\<rparr> else r) (roles s)\<rparr>)) (\<lambda>_.
     hbind (case perm_ids of
              None \<Rightarrow> reply ()
            | Some pids \<Rightarrow>
                hbind (exec ''role_permissions.delete''
                  (\<lambda>s. s\<lparr>role_perms := filter (\<lambda>p. fst p \<noteq> rid) (role_perms s)\<rparr>)) (\<lambda>_.
                each (\<lambda>pid. exec ''role_permissions.insert''
                  (\<lambda>s. s\<lparr>role_perms := role_perms s @ [(rid, pid)]\<rparr>)) pids)) (\<lambda>_.
       reply ''Role updated'')))"

definition BUILT_IN :: "string list" where
  "BUILT_IN = [''admin'', ''user'']"

definition delete_role :: "auth_env \<Rightarrow> schema \<Rightarrow> int \<Rightarrow> string \<Rightarrow> string \<Rightarrow> (auth_db, unit) handler" where
  "delete_role ae sc now hdr rid =
     hbind (admin_only ae now hdr) (\<lambda>_.
     hbind (query ''roles.select'' (\<lambda>s. find (\<lambda>r. r_id r = rid) (roles s))) (\<lambda>row.
     hbind (demand (case row of None \<Rightarrow> True | Some r \<Rightarrow> r_name r \<notin> set BUILT_IN)
              400 ''Cannot delete a built-in role'') (\<lambda>_.
       exec ''roles.delete'' (\<lambda>s. sc_role sc rid (s\<lparr>roles := filter (\<lambda>r. r_id r \<noteq> rid) (roles s)\<rparr>)))))"

section \<open>Permissions\<close>

definition list_permissions ::
  "auth_env \<Rightarrow> (string \<Rightarrow> nat) \<Rightarrow> int \<Rightarrow> string \<Rightarrow> (auth_db, perm_row list) handler" where
  "list_permissions ae collate now hdr =
     hbind (get_current_active_user ae now hdr) (\<lambda>_.
       query ''permissions.select'' (\<lambda>s. sort_key (\<lambda>p. collate (p_name p)) (permissions s)))"

definition create_permission ::
  "auth_env \<Rightarrow> int \<Rightarrow> string \<Rightarrow> string \<Rightarrow> string option \<Rightarrow> string option \<Rightarrow> string option
   \<Rightarrow> (auth_db, string) handler" where
  "create_permission ae now hdr name desc resource action =
     hbind (admin_only ae now hdr) (\<lambda>_.
     hbind (demand (2 \<le> length name) 422 ''name'') (\<lambda>_.
     hbind (query ''permissions.select'' (\<lambda>s. find (\<lambda>p. p_name p = name) (permissions s))) (\<lambda>existing.
     hbind (demand (existing = None) 409 (''Permission '' @ [CHR 0x27] @ name @ [CHR 0x27] @ '' already exists'')) (\<lambda>_.
     hbind (draw (\<lambda>n. Inr (ae_ids ae n))) (\<lambda>pid.
     hbind (exec ''permissions.insert''
       (\<lambda>s. s\<lparr>permissions := permissions s @ [\<lparr>p_id = pid, p_name = name, p_desc = desc,
          p_resource = resource, p_action = action\<rparr>]\<rparr>)) (\<lambda>_.
       reply pid))))))"

definition delete_permission :: "auth_env \<Rightarrow> schema \<Rightarrow> int \<Rightarrow> string \<Rightarrow> string \<Rightarrow> (auth_db, unit) handler" where
  "delete_permission ae sc now hdr pid =
     hbind (admin_only ae now hdr) (\<lambda>_.
       exec ''permissions.delete''
         (\<lambda>s. sc_permission sc pid (s\<lparr>permissions := filter (\<lambda>p. p_id p \<noteq> pid) (permissions s)\<rparr>)))"

end
