(* ===== verification/AuthSteps.thy ===== *)
theory AuthSteps
  imports UsersRouter
begin

text \<open>
  Everything the authentication and user endpoints can do to the database, as a step
  relation, and the locale \<open>auth_invariant\<close>: a predicate that the single writes keep is kept
  by every endpoint, whatever faults cut it short, and holds in every reachable state.
\<close>

section \<open>Steps\<close>

text \<open>The database may start and stop refusing requests.\<close>

inductive auth_step :: "auth_env \<Rightarrow> schema \<Rightarrow> auth_db \<Rightarrow> auth_db \<Rightarrow> bool" for ae sc where
  register_step: "auth_step ae sc s (snd (register ae now req s))"
| login_step: "auth_step ae sc s (snd (login ae now email pw s))"
| logout_step: "auth_step ae sc s (snd (logout ae now hdr token s))"
| refresh_step: "auth_step ae sc s (snd (refresh_token ae now token s))"
| forgot_step: "auth_step ae sc s (snd (forgot_password ae now email s))"
| reset_step: "auth_step ae sc s (snd (reset_password ae now token pw s))"
| change_step: "auth_step ae sc s (snd (change_password ae now hdr pw pw' s))"
| verify_step: "auth_step ae sc s (snd (verify_email ae now token s))"
| resend_step: "auth_step ae sc s (snd (resend_verification ae now email s))"
| create_user_step: "auth_step ae sc s (snd (create_user ae now hdr creq s))"
| update_user_step: "auth_step ae sc s (snd (update_user ae now hdr uid ureq s))"
| delete_user_step: "auth_step ae sc s (snd (delete_user ae sc now hdr uid s))"
| create_role_step: "auth_step ae sc s (snd (create_role ae now hdr name desc s))"
| update_role_step: "auth_step ae sc s (snd (update_role ae now hdr rid desc pids s))"
| delete_role_step: "auth_step ae sc s (snd (delete_role ae sc now hdr rid s))"
| create_permission_step: "auth_step ae sc s (snd (create_permission ae now hdr name desc rsc act s))"
| delete_permission_step: "auth_step ae sc s (snd (delete_permission ae sc now hdr pid s))"
| faults_step: "auth_step ae sc s (s\<lparr>a_faults := fs\<rparr>)"

inductive auth_reach :: "auth_env \<Rightarrow> schema \<Rightarrow> auth_db \<Rightarrow> auth_db \<Rightarrow> bool" for ae sc where
  here: "auth_reach ae sc s s"
| more: "auth_reach ae sc s s' \<Longrightarrow> auth_step ae sc s' s'' \<Longrightarrow> auth_reach ae sc s s''"

inductive_simps auth_step_iff: "auth_step ae sc s s'"

lemma auth_reach_invariant:
  assumes "auth_reach ae sc s s'" and "\<And>s s'. auth_step ae sc s s' \<Longrightarrow> P s \<Longrightarrow> P s'" and "P s"
  shows "P s'"
  using assms by (induction rule: auth_reach.induct) blast+

lemma auth_reach_trans: "auth_reach ae sc s' s'' \<Longrightarrow> auth_reach ae sc s s' \<Longrightarrow> auth_reach ae sc s s''"
  by (induction rule: auth_reach.induct) (auto intro: auth_reach.intros)

section \<open>Single requests\<close>

lemma keeps_query [serve_rules]: "keeps P (query r f)"
  by (simp add: serves_def query_def)

lemma keeps_exec: "(\<And>s. P s \<Longrightarrow> P (f s)) \<Longrightarrow> keeps P (exec r f)"
  by (simp add: serves_def exec_def)

lemma keeps_draw: "(\<And>s. P s \<Longrightarrow> P (s\<lparr>a_next := Suc (a_next s)\<rparr>)) \<Longrightarrow> keeps P (draw f)"
  by (simp add: serves_def draw_def split: sum.splits)

lemma serves_query:
  "(\<And>s. P s \<Longrightarrow> Q (f s) s) \<Longrightarrow> (\<And>s. P s \<Longrightarrow> E s) \<Longrightarrow> serves P (query r f) Q E"
  by (simp add: serves_def query_def)

lemma serves_exec:
  "(\<And>s. P s \<Longrightarrow> Q () (f s)) \<Longrightarrow> (\<And>s. P s \<Longrightarrow> E s) \<Longrightarrow> serves P (exec r f) Q E"
  by (simp add: serves_def exec_def)

lemma serves_draw:
  assumes "\<And>s x. P s \<Longrightarrow> f (a_next s) = Inr x \<Longrightarrow> Q x (s\<lparr>a_next := Suc (a_next s)\<rparr>)"
    and "\<And>s. P s \<Longrightarrow> E s"
  shows "serves P (draw f) Q E"
  using assms by (simp add: serves_def draw_def split: sum.splits)

lemma serves_demand:
  "(\<And>s. P s \<Longrightarrow> c \<Longrightarrow> Q () s) \<Longrightarrow> (\<And>s. P s \<Longrightarrow> E s) \<Longrightarrow> serves P (demand c n d) Q E"
  by (cases c) (simp_all add: serves_def)

lemma serves_reply: "(\<And>s. P s \<Longrightarrow> Q x s) \<Longrightarrow> serves P (reply x) Q E"
  by (simp add: serves_def)

lemma keeps_case_jwt [serve_rules]:
  "keeps P m \<Longrightarrow> keeps P n \<Longrightarrow> keeps P (case e of ExpiredSignature \<Rightarrow> m | OtherJwtError \<Rightarrow> n)"
  by (simp split: jwt_error.splits)

text \<open>Reading the caller does not change anything.\<close>

lemma keeps_current [serve_rules]: "keeps P (get_current_user ae now hdr)"
  unfolding get_current_user_def bearer_token_def
  by (rule serve_rules)+

lemma keeps_active [serve_rules]: "keeps P (get_current_active_user ae now hdr)"
  unfolding get_current_active_user_def by (rule serve_rules)+

lemma keeps_roles [serve_rules]: "keeps P (require_roles ae needed now hdr)"
  unfolding require_roles_def by (rule serve_rules)+

lemma keeps_admin [serve_rules]: "keeps P (admin_only ae now hdr)"
  unfolding admin_only_def by (rule keeps_roles)

lemma keeps_valid_password [serve_rules]: "keeps P (valid_password p)"
  unfolding valid_password_def by (rule keeps_demand)

lemma keeps_get_user_roles [serve_rules]: "keeps P (get_user_roles uid)"
  unfolding get_user_roles_def by (rule keeps_query)

lemma keeps_refresh_check [serve_rules]: "keeps P (refresh_check ae now token)"
  unfolding refresh_check_def by (rule serve_rules)+

section \<open>Invariants\<close>

text \<open>
  What an invariant has to survive: the single writes, with the guards that protect them.
\<close>

locale auth_invariant =
  fixes ae :: auth_env and sc :: schema and P :: "auth_db \<Rightarrow> bool"
  assumes P_next: "P s \<Longrightarrow> P (s\<lparr>a_next := Suc (a_next s)\<rparr>)"
    and P_faults: "P s \<Longrightarrow> P (s\<lparr>a_faults := fs\<rparr>)"
    and P_token: "P s \<Longrightarrow> P (insert_refresh ae uid (ae_sha ae (ae_secret ae (a_next s))) e
      (s\<lparr>a_next := Suc (a_next s)\<rparr>))"
    and P_revoke: "P s \<Longrightarrow> P (revoke_where p s)"
    and P_user: "P s \<Longrightarrow> find_email email s = None \<Longrightarrow>
      P (insert_user (ae_ids ae (a_next s)) email un fn h act ver (s\<lparr>a_next := Suc (Suc (a_next s))\<rparr>))"
    and P_update: "P s \<Longrightarrow> (\<And>u. u_id (f u) = u_id u \<and> u_email (f u) = u_email u) \<Longrightarrow>
      P (update_user_row uid f s)"
    and P_user_roles: "P s \<Longrightarrow> P (s\<lparr>user_roles := urs\<rparr>)"
    and P_role_perms: "P s \<Longrightarrow> P (s\<lparr>role_perms := rps\<rparr>)"
    and P_permissions: "P s \<Longrightarrow> P (s\<lparr>permissions := ps\<rparr>)"
    and P_verifications: "P s \<Longrightarrow> P (s\<lparr>verifications := vs\<rparr>)"
    and P_reset: "P s \<Longrightarrow> P (insert_reset ae uid (ae_secret ae (a_next s)) e
      (s\<lparr>a_next := Suc (a_next s)\<rparr>))"
    and P_used: "P s \<Longrightarrow> P (s\<lparr>resets := mark_used i (resets s)\<rparr>)"
    and P_role: "P s \<Longrightarrow> find (\<lambda>r. r_name r = name) (roles s) = None \<Longrightarrow>
      P (s\<lparr>a_next := Suc (a_next s),
           roles := roles s @ [\<lparr>r_id = ae_ids ae (a_next s), r_name = name, r_desc = desc\<rparr>]\<rparr>)"
    and P_role_desc: "P s \<Longrightarrow>
      P (s\<lparr>roles := map (\<lambda>r. if r_id r = rid then r\<lparr>r_desc := desc\<rparr> else r) (roles s)\<rparr>)"
    and P_delete_role: "P s \<Longrightarrow> (\<And>r. find (\<lambda>r. r_id r = rid) (roles s) = Some r \<Longrightarrow> r_name r \<notin> set BUILT_IN)
      \<Longrightarrow> P (sc_role sc rid (s\<lparr>roles := filter (\<lambda>r. r_id r \<noteq> rid) (roles s)\<rparr>))"
    and P_delete_user: "P s \<Longrightarrow> P (sc_user sc uid (s\<lparr>users := filter (\<lambda>u. u_id u \<noteq> uid) (users s)\<rparr>))"
    and P_delete_permission: "P s \<Longrightarrow> P (sc_permission sc pid s)"
begin

lemma keeps_draw' [serve_rules]: "keeps P (draw f)"
  by (rule keeps_draw) (rule P_next)

lemma keeps_hash [serve_rules]: "keeps P (hash_password ae pw)"
  unfolding hash_password_def by (rule keeps_draw')

lemma keeps_revoke [serve_rules]: "keeps P (exec r (revoke_where p))"
  by (rule keeps_exec) (rule P_revoke)

lemma keeps_update [serve_rules]:
  "(\<And>u. u_id (f u) = u_id u \<and> u_email (f u) = u_email u) \<Longrightarrow> keeps P (exec r (update_user_row uid f))"
  by (rule keeps_exec) (rule P_update)

lemma keeps_assign [serve_rules]: "keeps P (assign_role uid name)"
  unfolding assign_role_def by (rule serve_rules keeps_exec P_user_roles | assumption)+

lemma keeps_mark_used [serve_rules]: "keeps P (exec r (\<lambda>s. s\<lparr>resets := mark_used i (resets s)\<rparr>))"
  by (rule keeps_exec) (rule P_used)

lemma keeps_verifications [serve_rules]: "keeps P (exec r (\<lambda>s. s\<lparr>verifications := f s\<rparr>))"
  by (rule keeps_exec) (rule P_verifications)

lemma keeps_insert_verification [serve_rules]: "keeps P (exec r (insert_verification ae uid token e))"
proof (rule keeps_exec)
  fix s assume "P s"
  then have "P ((s\<lparr>verifications := verifications s @ [new_otp ae uid token e s]\<rparr>)
      \<lparr>a_next := Suc (a_next (s\<lparr>verifications := verifications s @ [new_otp ae uid token e s]\<rparr>))\<rparr>)"
    by (intro P_next P_verifications)
  then show "P (insert_verification ae uid token e s)" by (simp add: insert_verification_def)
qed

lemma keeps_build_token [serve_rules]: "keeps P (build_token_response ae now u)"
  unfolding build_token_response_def
proof (rule keeps_bind [OF keeps_get_user_roles], rule serves_bind)
  let ?Q = "\<lambda>x s. P s \<and> P (insert_refresh ae (u_id u) (snd x) (refresh_token_expiry ae now) s)"
  show "serves P (create_refresh_token ae) ?Q P"
    unfolding create_refresh_token_def by (rule serves_draw) (auto intro: P_next P_token)
  fix rs x
  show "serves (?Q x) (case x of (raw, hashed) \<Rightarrow>
      hbind (exec ''refresh_tokens.insert''
        (insert_refresh ae (u_id u) hashed (refresh_token_expiry ae now))) (\<lambda>_.
      reply \<lparr>tr_access = create_access_token ae now (u_id u) (u_email u) rs, tr_refresh = raw,
              tr_type = ''bearer'', tr_expires_in = ae_access_minutes ae * 60\<rparr>)) (\<lambda>_. P) P"
    unfolding case_prod_unfold by (rule serves_bind [OF serves_exec keeps_reply]) auto
qed

lemma keeps_new_user:
  "serves (\<lambda>s. P s \<and> find_email email s = None)
     (hbind (draw (\<lambda>n. Inr (ae_ids ae n))) (\<lambda>uid.
      hbind (hash_password ae pw) (\<lambda>h.
      hbind (exec r (insert_user uid email un fn h act ver)) (\<lambda>_. f uid))))
     (\<lambda>_. P) P" if f: "\<And>uid. keeps P (f uid)"
proof (rule serves_bind)
  let ?Q = "\<lambda>j uid s. \<exists>s0. P s0 \<and> find_email email s0 = None \<and> uid = ae_ids ae (a_next s0)
    \<and> s = s0\<lparr>a_next := j + a_next s0\<rparr>"
  show "serves (\<lambda>s. P s \<and> find_email email s = None) (draw (\<lambda>n. Inr (ae_ids ae n))) (?Q 1) P"
    by (rule serves_draw) auto
  fix uid
  have fwd: "P (s0\<lparr>a_next := j + a_next s0\<rparr>)" if "P s0" for s0 j
  proof (induction j)
    case (Suc j)
    with P_next [OF Suc] show ?case by simp
  qed (use that in simp)
  show "serves (?Q 1 uid) (hbind (hash_password ae pw) (\<lambda>h.
      hbind (exec r (insert_user uid email un fn h act ver)) (\<lambda>_. f uid))) (\<lambda>_. P) P"
  proof (rule serves_bind [where Q = "\<lambda>_. ?Q 2 uid"])
    show "serves (?Q 1 uid) (hash_password ae pw) (\<lambda>_. ?Q 2 uid) P"
      unfolding hash_password_def by (rule serves_draw) (auto intro: fwd dest: fwd [of _ 1])
    fix h
    show "serves (?Q 2 uid) (hbind (exec r (insert_user uid email un fn h act ver)) (\<lambda>_. f uid)) (\<lambda>_. P) P"
      by (rule serves_bind [OF serves_exec f]) (auto dest: P_user fwd [of _ 2] simp: numeral_2_eq_2)
  qed
qed

lemma keeps_new_reset [serve_rules]:
  "keeps P (hbind (make_otp ae) (\<lambda>token.
     hbind (exec r (insert_reset ae uid token e)) (\<lambda>_. reply (g token))))"
proof (rule serves_bind)
  let ?Q = "\<lambda>token s. P s \<and> P (insert_reset ae uid token e s)"
  show "serves P (make_otp ae) ?Q P"
    unfolding make_otp_def by (rule serves_draw) (auto intro: P_next P_reset)
  fix token
  show "serves (?Q token) (hbind (exec r (insert_reset ae uid token e)) (\<lambda>_. reply (g token))) (\<lambda>_. P) P"
    by (rule serves_bind [OF serves_exec keeps_reply]) auto
qed

lemma keeps_otp [serve_rules]: "keeps P (make_otp ae)"
  unfolding make_otp_def by (rule keeps_draw')

lemma keeps_unless_known:
  assumes "\<And>uid. keeps P (f uid)"
  shows "keeps P (hbind (query q (find_email email)) (\<lambda>existing.
     hbind (demand (existing = None) n d) (\<lambda>_.
     hbind (draw (\<lambda>n. Inr (ae_ids ae n))) (\<lambda>uid.
     hbind (hash_password ae pw) (\<lambda>h.
     hbind (exec r (insert_user uid email un fn h act ver)) (\<lambda>_. f uid))))))"
proof (rule serves_bind [OF serves_query [where Q = "\<lambda>x s. P s \<and> x = find_email email s"]])
  fix x
  show "serves (\<lambda>s. P s \<and> x = find_email email s) (hbind (demand (x = None) n d) (\<lambda>_.
     hbind (draw (\<lambda>n. Inr (ae_ids ae n))) (\<lambda>uid.
     hbind (hash_password ae pw) (\<lambda>h.
     hbind (exec r (insert_user uid email un fn h act ver)) (\<lambda>_. f uid))))) (\<lambda>_. P) P"
    by (rule serves_bind [OF serves_demand keeps_new_user [OF assms]]) auto
qed auto

lemma keeps_register: "keeps P (register ae now req)"
  unfolding register_def by (rule keeps_unless_known serve_rules)+

lemma keeps_create_user: "keeps P (create_user ae now hdr creq)"
  unfolding create_user_def by (rule keeps_unless_known serve_rules)+

lemma keeps_login: "keeps P (login ae now email pw)"
  unfolding login_def by (rule serve_rules | simp)+

lemma keeps_logout: "keeps P (logout ae now hdr token)"
  unfolding logout_def by (rule serve_rules)+

lemma keeps_refresh: "keeps P (refresh_token ae now token)"
  unfolding refresh_token_def refresh_rotate_def by (rule serve_rules)+

lemma keeps_forgot: "keeps P (forgot_password ae now email)"
  unfolding forgot_password_def by (rule keeps_new_reset serve_rules)+

lemma keeps_reset_password: "keeps P (reset_password ae now token pw)"
  unfolding reset_password_def by (rule serve_rules | simp)+

lemma keeps_change: "keeps P (change_password ae now hdr pw pw')"
  unfolding change_password_def by (rule serve_rules | simp)+

lemma keeps_verify: "keeps P (verify_email ae now token)"
  unfolding verify_email_def by (rule serve_rules | simp)+

lemma keeps_resend: "keeps P (resend_verification ae now email)"
  unfolding resend_verification_def by (rule serve_rules)+

lemma keeps_user_roles [serve_rules]: "keeps P (exec r (\<lambda>s. s\<lparr>user_roles := f s\<rparr>))"
  by (rule keeps_exec) (rule P_user_roles)

lemma keeps_role_perms [serve_rules]: "keeps P (exec r (\<lambda>s. s\<lparr>role_perms := f s\<rparr>))"
  by (rule keeps_exec) (rule P_role_perms)

lemma keeps_update_user: "keeps P (update_user ae now hdr uid ureq)"
  unfolding update_user_def by (rule serve_rules | simp add: apply_update_def)+

lemma keeps_delete_user: "keeps P (delete_user ae sc now hdr uid)"
  unfolding delete_user_def by (rule serve_rules keeps_exec P_delete_user | assumption)+

lemma keeps_update_role: "keeps P (update_role ae now hdr rid desc pids)"
  unfolding update_role_def by (rule serve_rules keeps_exec P_role_desc | assumption)+

lemma keeps_delete_permission: "keeps P (delete_permission ae sc now hdr pid)"
  unfolding delete_permission_def
  by (rule serve_rules keeps_exec P_delete_permission P_permissions | assumption)+

lemma keeps_new_permission: "keeps P (exec r (\<lambda>s. s\<lparr>permissions := f s\<rparr>))"
  by (rule keeps_exec) (rule P_permissions)

lemma keeps_create_permission: "keeps P (create_permission ae now hdr name desc rsc act)"
  unfolding create_permission_def by (rule serve_rules keeps_new_permission)+

lemma keeps_delete_role: "keeps P (delete_role ae sc now hdr rid)"
  unfolding delete_role_def
proof (rule keeps_bind [OF keeps_admin], rule serves_bind)
  let ?Q = "\<lambda>x s. P s \<and> x = find (\<lambda>r. r_id r = rid) (roles s)"
  show "serves P (query ''roles.select'' (\<lambda>s. find (\<lambda>r. r_id r = rid) (roles s))) ?Q P"
    by (rule serves_query) auto
  fix x :: "role_row option"
  let ?c = "case x of None \<Rightarrow> True | Some r \<Rightarrow> r_name r \<notin> set BUILT_IN"
  have "serves (?Q x) (demand ?c n d) (\<lambda>_ s. ?Q x s \<and> ?c) P" for n d
    by (rule serves_demand) auto
  then show "serves (?Q x) (hbind (demand ?c 400 ''Cannot delete a built-in role'') (\<lambda>_.
      exec ''roles.delete'' (\<lambda>s. sc_role sc rid (s\<lparr>roles := filter (\<lambda>r. r_id r \<noteq> rid) (roles s)\<rparr>))))
      (\<lambda>_. P) P"
    by (rule serves_bind) (rule serves_exec, auto intro!: P_delete_role split: option.splits)
qed

lemma keeps_create_role: "keeps P (create_role ae now hdr name desc)"
  unfolding create_role_def
proof (rule keeps_bind [OF keeps_admin], rule keeps_bind [OF keeps_demand], rule serves_bind)
  let ?free = "\<lambda>s. find (\<lambda>r. r_name r = name) (roles s) = None"
  let ?Q = "\<lambda>x s. P s \<and> (x = None \<longrightarrow> ?free s)"
  show "serves P (query ''roles.select'' (\<lambda>s. find (\<lambda>r. r_name r = name) (roles s))) ?Q P"
    by (rule serves_query) auto
  fix x :: "role_row option"
  let ?add = "\<lambda>rid s. s\<lparr>roles := roles s @ [\<lparr>r_id = rid, r_name = name, r_desc = desc\<rparr>]\<rparr>"
  let ?R = "\<lambda>rid s. P s \<and> P (?add rid s)"
  have d: "serves (?Q x) (demand (x = None) n m) (\<lambda>_ s. P s \<and> ?free s) P" for n m
    by (rule serves_demand) auto
  have "P (?add (ae_ids ae (a_next s)) (s\<lparr>a_next := Suc (a_next s)\<rparr>))" if "P s" "?free s" for s
    using P_role [OF that, of desc] by simp
  then have i: "serves (\<lambda>s. P s \<and> ?free s) (draw (\<lambda>n. Inr (ae_ids ae n))) ?R P"
    by (intro serves_draw) (auto intro: P_next)
  have e: "serves (?R rid) (hbind (exec ''roles.insert'' (?add rid)) (\<lambda>_. reply rid)) (\<lambda>_. P) P" for rid
    by (rule serves_bind [OF serves_exec keeps_reply]) auto
  show "serves (?Q x) (hbind (demand (x = None) 409
        (''Role '' @ [CHR 0x27] @ name @ [CHR 0x27] @ '' already exists'')) (\<lambda>_.
      hbind (draw (\<lambda>n. Inr (ae_ids ae n))) (\<lambda>rid.
      hbind (exec ''roles.insert'' (?add rid)) (\<lambda>_. reply rid)))) (\<lambda>_. P) P"
    by (rule serves_bind [OF d]) (rule serves_bind [OF i e])
qed

lemmas keeps_endpoints = keeps_register keeps_login keeps_logout keeps_refresh keeps_forgot
  keeps_reset_password keeps_change keeps_verify keeps_resend keeps_create_user keeps_update_user
  keeps_delete_user keeps_create_role keeps_update_role keeps_delete_role keeps_create_permission
  keeps_delete_permission

lemma step_invariant: "auth_step ae sc s s' \<Longrightarrow> P s \<Longrightarrow> P s'"
  by (induction rule: auth_step.induct) (auto intro: keepsD [OF keeps_register] keepsD [OF keeps_login]
    keepsD [OF keeps_logout] keepsD [OF keeps_refresh] keepsD [OF keeps_forgot]
    keepsD [OF keeps_reset_password] keepsD [OF keeps_change] keepsD [OF keeps_verify]
    keepsD [OF keeps_resend] keepsD [OF keeps_create_user] keepsD [OF keeps_update_user]
    keepsD [OF keeps_delete_user] keepsD [OF keeps_create_role] keepsD [OF keeps_update_role]
    keepsD [OF keeps_delete_role] keepsD [OF keeps_create_permission] keepsD [OF keeps_delete_permission]
    P_faults)

lemma reach_invariant: "auth_reach ae sc s s' \<Longrightarrow> P s \<Longrightarrow> P s'"
  by (erule auth_reach_invariant) (auto intro: step_invariant)

end

end
