(* ===== verification/AuthInvariants.thy ===== *)
theory AuthInvariants
  imports AuthSteps
begin

text \<open>
  The invariants of the accounts, each an interpretation of \<open>auth_invariant\<close> on the model of
  the endpoints: keys and tokens are unique, a spent refresh token or reset token stays
  spent, the built-in roles stay.  They rest on collision-free random sources and on a schema
  whose cascades remove rows only.
\<close>

section \<open>Hypotheses on what is not the program's\<close>

definition fresh_sources :: "auth_env \<Rightarrow> bool" where
  "fresh_sources ae \<longleftrightarrow> inj (ae_ids ae) \<and> inj (\<lambda>n. ae_sha ae (ae_secret ae n))"

definition only_removes :: "auth_db \<Rightarrow> auth_db \<Rightarrow> bool" where
  "only_removes s s' \<longleftrightarrow> users s' = users s \<and> roles s' = roles s \<and> a_next s' = a_next s
     \<and> (\<exists>p. refresh_tokens s' = filter p (refresh_tokens s)) \<and> (\<exists>p. resets s' = filter p (resets s))"

definition schema_ok :: "schema \<Rightarrow> bool" where
  "schema_ok sc \<longleftrightarrow> (\<forall>i s. only_removes s (sc_user sc i s) \<and> only_removes s (sc_role sc i s)
     \<and> only_removes s (sc_permission sc i s))"

definition given :: "auth_env \<Rightarrow> schema \<Rightarrow> (auth_db \<Rightarrow> bool) \<Rightarrow> auth_db \<Rightarrow> bool" where
  "given ae sc P s \<longleftrightarrow> (fresh_sources ae \<longrightarrow> schema_ok sc \<longrightarrow> P s)"

text \<open>A value the source will not draw any more.\<close>

definition unseen :: "(nat \<Rightarrow> 'a) \<Rightarrow> nat \<Rightarrow> 'a \<Rightarrow> bool" where
  "unseen f n x \<longleftrightarrow> (\<forall>k\<ge>n. x \<noteq> f k)"

lemma unseen_Suc: "unseen f n x \<Longrightarrow> unseen f (Suc n) x"
  by (simp add: unseen_def)

lemma unseen_drawn: "inj f \<Longrightarrow> unseen f (Suc n) (f n)"
  by (auto simp: unseen_def dest: injD)

lemma unseenD: "unseen f n x \<Longrightarrow> x \<noteq> f n"
  by (simp add: unseen_def)

abbreviation hashes :: "auth_env \<Rightarrow> nat \<Rightarrow> string" where
  "hashes ae \<equiv> \<lambda>n. ae_sha ae (ae_secret ae n)"

lemma fresh_ids: "fresh_sources ae \<Longrightarrow> inj (ae_ids ae)"
  by (simp add: fresh_sources_def)

lemma fresh_secret: "fresh_sources ae \<Longrightarrow> inj (ae_secret ae)"
  by (auto simp: fresh_sources_def inj_def)

section \<open>Unique keys\<close>

definition column_ok :: "(nat \<Rightarrow> 'a) \<Rightarrow> nat \<Rightarrow> 'a list \<Rightarrow> bool" where
  "column_ok f n xs \<longleftrightarrow> distinct xs \<and> (\<forall>x\<in>set xs. unseen f n x)"

lemma column_Suc: "column_ok f n xs \<Longrightarrow> column_ok f (Suc n) xs"
  by (simp add: column_ok_def unseen_Suc)

lemma column_new: "inj f \<Longrightarrow> column_ok f n xs \<Longrightarrow> column_ok f (Suc n) (xs @ [f n])"
  by (auto simp: column_ok_def unseen_Suc unseen_drawn dest: unseenD)

lemma column_hash:
  assumes "fresh_sources ae" and "column_ok (hashes ae) n xs"
  shows "column_ok (hashes ae) (Suc n) (xs @ [ae_sha ae (ae_secret ae n)])"
  using column_new [of "hashes ae" n xs] assms by (simp add: fresh_sources_def)

lemma column_filter: "column_ok f n (map g xs) \<Longrightarrow> column_ok f n (map g (filter p xs))"
  by (induction xs) (auto simp: column_ok_def)

text \<open>
  Accounts and roles have unique identifiers, e-mail addresses and names; refresh tokens
  have unique identifiers and hashes and reset tokens are unique; none will be drawn again.
\<close>

definition auth_ok :: "auth_env \<Rightarrow> auth_db \<Rightarrow> bool" where
  "auth_ok ae s \<longleftrightarrow>
     column_ok (ae_ids ae) (a_next s) (map u_id (users s)) \<and> distinct (map u_email (users s))
     \<and> column_ok (ae_ids ae) (a_next s) (map r_id (roles s)) \<and> distinct (map r_name (roles s))
     \<and> column_ok (hashes ae) (a_next s) (map rt_hash (refresh_tokens s))
     \<and> column_ok (ae_ids ae) (a_next s) (map rt_id (refresh_tokens s))
     \<and> column_ok (ae_secret ae) (a_next s) (map ot_token (resets s))"

lemma auth_ok_empty: "auth_ok ae empty_auth"
  by (simp add: auth_ok_def empty_auth_def column_ok_def)

lemma revoke_hashes:
  "map rt_hash (refresh_tokens (revoke_where p s)) = map rt_hash (refresh_tokens s)"
  "map rt_id (refresh_tokens (revoke_where p s)) = map rt_id (refresh_tokens s)"
  by (simp_all add: revoke_where_def)

lemma update_keys:
  assumes "\<And>u. u_id (f u) = u_id u \<and> u_email (f u) = u_email u"
  shows "map u_id (users (update_user_row uid f s)) = map u_id (users s)"
    and "map u_email (users (update_user_row uid f s)) = map u_email (users s)"
  using assms by (simp_all add: update_user_row_def)

lemma desc_keys:
  "r_id \<circ> (\<lambda>r. if r_id r = rid then r\<lparr>r_desc := d\<rparr> else r) = r_id"
  "r_name \<circ> (\<lambda>r. if r_id r = rid then r\<lparr>r_desc := d\<rparr> else r) = r_name"
  by auto

lemma desc_names:
  "r_name ` set (map (\<lambda>r. if r_id r = rid then r\<lparr>r_desc := d\<rparr> else r) rs) = r_name ` set rs"
  unfolding set_map [symmetric] list.map_comp desc_keys ..

lemma used_tokens: "map ot_token (mark_used i os) = map ot_token os"
  by (simp add: mark_used_def)

lemma find_map_None: "find (\<lambda>x. g x = v) xs = None \<longleftrightarrow> v \<notin> set (map g xs)"
  by (induction xs) auto

lemma auth_ok_removed:
  assumes "only_removes s s'" and "auth_ok ae s"
  shows "auth_ok ae s'"
  using assms by (auto simp: only_removes_def auth_ok_def column_filter)

lemma auth_ok_filter_users: "auth_ok ae s \<Longrightarrow> auth_ok ae (s\<lparr>users := filter p (users s)\<rparr>)"
  by (simp add: auth_ok_def column_filter distinct_map inj_on_def)

lemma auth_ok_filter_roles: "auth_ok ae s \<Longrightarrow> auth_ok ae (s\<lparr>roles := filter p (roles s)\<rparr>)"
  by (simp add: auth_ok_def column_filter distinct_map inj_on_def)

interpretation unique: auth_invariant ae sc "given ae sc (auth_ok ae)" for ae sc
proof unfold_locales
  fix s uid e
  assume "given ae sc (auth_ok ae) s"
  then show "given ae sc (auth_ok ae) (insert_refresh ae uid (hashes ae (a_next s)) e
      (s\<lparr>a_next := Suc (a_next s)\<rparr>))"
    unfolding given_def auth_ok_def insert_refresh_def
    by (simp add: column_Suc column_hash column_new fresh_ids)
next
  fix s email un fn h act ver
  assume "given ae sc (auth_ok ae) s" and "find_email email s = None"
  then show "given ae sc (auth_ok ae) (insert_user (ae_ids ae (a_next s)) email un fn h act ver
      (s\<lparr>a_next := Suc (Suc (a_next s))\<rparr>))"
    unfolding given_def auth_ok_def insert_user_def fresh_sources_def find_email_def
    by (simp add: column_Suc column_new find_map_None)
next
  fix s uid e
  assume "given ae sc (auth_ok ae) s"
  then show "given ae sc (auth_ok ae) (insert_reset ae uid (ae_secret ae (a_next s)) e
      (s\<lparr>a_next := Suc (a_next s)\<rparr>))"
    unfolding given_def auth_ok_def insert_reset_def new_otp_def
    by (simp add: column_Suc column_new fresh_secret)
next
  fix s name desc
  assume "given ae sc (auth_ok ae) s" and "find (\<lambda>r. r_name r = name) (roles s) = None"
  then show "given ae sc (auth_ok ae) (s\<lparr>a_next := Suc (a_next s),
      roles := roles s @ [\<lparr>r_id = ae_ids ae (a_next s), r_name = name, r_desc = desc\<rparr>]\<rparr>)"
    unfolding given_def auth_ok_def fresh_sources_def
    by (simp add: column_Suc column_new find_map_None)
next
  fix s rid
  assume "given ae sc (auth_ok ae) s"
  then show "given ae sc (auth_ok ae) (sc_role sc rid (s\<lparr>roles := filter (\<lambda>r. r_id r \<noteq> rid) (roles s)\<rparr>))"
    unfolding given_def schema_ok_def by (blast intro: auth_ok_removed auth_ok_filter_roles)
next
  fix s uid
  assume "given ae sc (auth_ok ae) s"
  then show "given ae sc (auth_ok ae) (sc_user sc uid (s\<lparr>users := filter (\<lambda>u. u_id u \<noteq> uid) (users s)\<rparr>))"
    unfolding given_def schema_ok_def by (blast intro: auth_ok_removed auth_ok_filter_users)
next
  fix s pid
  assume "given ae sc (auth_ok ae) s"
  then show "given ae sc (auth_ok ae) (sc_permission sc pid s)"
    unfolding given_def schema_ok_def by (blast intro: auth_ok_removed)
next
  fix s uid and f :: "user_row \<Rightarrow> user_row"
  assume "given ae sc (auth_ok ae) s" and f: "\<And>u. u_id (f u) = u_id u \<and> u_email (f u) = u_email u"
  then show "given ae sc (auth_ok ae) (update_user_row uid f s)"
    using update_keys [of f uid s] f
    by (simp add: given_def auth_ok_def) (simp add: update_user_row_def)
qed (simp_all add: given_def auth_ok_def column_Suc revoke_hashes used_tokens desc_keys,
     simp add: revoke_where_def)

section \<open>Spent tokens stay spent\<close>

definition spent :: "auth_env \<Rightarrow> string \<Rightarrow> auth_db \<Rightarrow> bool" where
  "spent ae h s \<longleftrightarrow> unseen (hashes ae) (a_next s) h
     \<and> (\<forall>r\<in>set (refresh_tokens s). rt_hash r = h \<longrightarrow> rt_revoked r)"

lemma spent_removed: "only_removes s s' \<Longrightarrow> spent ae h s \<Longrightarrow> spent ae h s'"
  by (auto simp: only_removes_def spent_def)

interpretation spent_token: auth_invariant ae sc "given ae sc (spent ae h)" for ae sc h
proof unfold_locales
  fix s uid e
  assume "given ae sc (spent ae h) s"
  then show "given ae sc (spent ae h) (insert_refresh ae uid (hashes ae (a_next s)) e
      (s\<lparr>a_next := Suc (a_next s)\<rparr>))"
    by (auto simp: given_def spent_def insert_refresh_def unseen_Suc dest: unseenD)
next
  fix s rid
  assume "given ae sc (spent ae h) s"
  then have "given ae sc (spent ae h) (s\<lparr>roles := filter (\<lambda>r. r_id r \<noteq> rid) (roles s)\<rparr>)"
    by (simp add: given_def spent_def)
  then show "given ae sc (spent ae h) (sc_role sc rid (s\<lparr>roles := filter (\<lambda>r. r_id r \<noteq> rid) (roles s)\<rparr>))"
    unfolding given_def schema_ok_def by (blast intro: spent_removed)
next
  fix s uid
  assume "given ae sc (spent ae h) s"
  then have "given ae sc (spent ae h) (s\<lparr>users := filter (\<lambda>u. u_id u \<noteq> uid) (users s)\<rparr>)"
    by (simp add: given_def spent_def)
  then show "given ae sc (spent ae h) (sc_user sc uid (s\<lparr>users := filter (\<lambda>u. u_id u \<noteq> uid) (users s)\<rparr>))"
    unfolding given_def schema_ok_def by (blast intro: spent_removed)
next
  fix s pid
  assume "given ae sc (spent ae h) s"
  then show "given ae sc (spent ae h) (sc_permission sc pid s)"
    unfolding given_def schema_ok_def by (blast intro: spent_removed)
qed (auto simp: given_def spent_def unseen_Suc revoke_where_def insert_user_def update_user_row_def
       insert_reset_def)

definition spent_reset :: "auth_env \<Rightarrow> string \<Rightarrow> auth_db \<Rightarrow> bool" where
  "spent_reset ae t s \<longleftrightarrow> unseen (ae_secret ae) (a_next s) t
     \<and> (\<forall>r\<in>set (resets s). ot_token r = t \<longrightarrow> ot_used r)"

lemma spent_reset_removed: "only_removes s s' \<Longrightarrow> spent_reset ae t s \<Longrightarrow> spent_reset ae t s'"
  by (auto simp: only_removes_def spent_reset_def)

interpretation spent_reset: auth_invariant ae sc "given ae sc (spent_reset ae t)" for ae sc t
proof unfold_locales
  fix s uid e
  assume "given ae sc (spent_reset ae t) s"
  then show "given ae sc (spent_reset ae t) (insert_reset ae uid (ae_secret ae (a_next s)) e
      (s\<lparr>a_next := Suc (a_next s)\<rparr>))"
    by (auto simp: given_def spent_reset_def insert_reset_def new_otp_def unseen_Suc dest: unseenD)
next
  fix s rid
  assume "given ae sc (spent_reset ae t) s"
  then have "given ae sc (spent_reset ae t) (s\<lparr>roles := filter (\<lambda>r. r_id r \<noteq> rid) (roles s)\<rparr>)"
    by (simp add: given_def spent_reset_def)
  then show "given ae sc (spent_reset ae t) (sc_role sc rid (s\<lparr>roles := filter (\<lambda>r. r_id r \<noteq> rid) (roles s)\<rparr>))"
    unfolding given_def schema_ok_def by (blast intro: spent_reset_removed)
next
  fix s uid
  assume "given ae sc (spent_reset ae t) s"
  then have "given ae sc (spent_reset ae t) (s\<lparr>users := filter (\<lambda>u. u_id u \<noteq> uid) (users s)\<rparr>)"
    by (simp add: given_def spent_reset_def)
  then show "given ae sc (spent_reset ae t) (sc_user sc uid (s\<lparr>users := filter (\<lambda>u. u_id u \<noteq> uid) (users s)\<rparr>))"
    unfolding given_def schema_ok_def by (blast intro: spent_reset_removed)
next
  fix s pid
  assume "given ae sc (spent_reset ae t) s"
  then show "given ae sc (spent_reset ae t) (sc_permission sc pid s)"
    unfolding given_def schema_ok_def by (blast intro: spent_reset_removed)
qed (auto simp: given_def spent_reset_def unseen_Suc revoke_where_def insert_user_def update_user_row_def
       insert_refresh_def mark_used_def)

section \<open>Built-in roles\<close>

definition has_role :: "string \<Rightarrow> auth_db \<Rightarrow> bool" where
  "has_role name s \<longleftrightarrow> name \<in> set BUILT_IN \<longrightarrow> name \<in> r_name ` set (roles s)"

lemma given_conj: "given ae sc (\<lambda>s. A s \<and> B s) s \<longleftrightarrow> given ae sc A s \<and> given ae sc B s"
  by (auto simp: given_def)

lemma delete_role_keeps:
  assumes "auth_ok ae s" and "has_role name s"
    and "\<And>r. find (\<lambda>r. r_id r = rid) (roles s) = Some r \<Longrightarrow> r_name r \<notin> set BUILT_IN"
  shows "has_role name (s\<lparr>roles := filter (\<lambda>r. r_id r \<noteq> rid) (roles s)\<rparr>)"
  unfolding has_role_def
proof
  assume n: "name \<in> set BUILT_IN"
  with assms(2) obtain r where r: "r \<in> set (roles s)" "r_name r = name" by (auto simp: has_role_def)
  have "r_id r \<noteq> rid"
  proof
    assume rid: "r_id r = rid"
    with r obtain r' where f: "find (\<lambda>r. r_id r = rid) (roles s) = Some r'"
      by (cases "find (\<lambda>r. r_id r = rid) (roles s)") (auto simp: find_None_iff)
    then have "r' \<in> set (roles s)" "r_id r' = rid" by (auto simp: find_Some_iff)
    with r rid assms(1) have "r' = r"
      by (auto simp: auth_ok_def column_ok_def distinct_map dest: inj_onD)
    with assms(3) [OF f] n r show False by simp
  qed
  with r show "name \<in> r_name ` set (roles (s\<lparr>roles := filter (\<lambda>r. r_id r \<noteq> rid) (roles s)\<rparr>))" by auto
qed

lemma has_role_removed: "only_removes s s' \<Longrightarrow> has_role name s \<Longrightarrow> has_role name s'"
  by (simp add: only_removes_def has_role_def)

interpretation builtin: auth_invariant ae sc "given ae sc (\<lambda>s. auth_ok ae s \<and> has_role name s)"
  for ae sc name
proof unfold_locales
  fix s rid
  assume a: "given ae sc (\<lambda>s. auth_ok ae s \<and> has_role name s) s"
    and b: "\<And>r. find (\<lambda>r. r_id r = rid) (roles s) = Some r \<Longrightarrow> r_name r \<notin> set BUILT_IN"
  have "given ae sc (has_role name) (sc_role sc rid (s\<lparr>roles := filter (\<lambda>r. r_id r \<noteq> rid) (roles s)\<rparr>))"
    using a delete_role_keeps [OF _ _ b]
    unfolding given_def schema_ok_def by (blast intro: has_role_removed)
  moreover have "given ae sc (auth_ok ae) (sc_role sc rid (s\<lparr>roles := filter (\<lambda>r. r_id r \<noteq> rid) (roles s)\<rparr>))"
    using a b unfolding given_conj by (blast intro: unique.P_delete_role)
  ultimately show "given ae sc (\<lambda>s. auth_ok ae s \<and> has_role name s)
      (sc_role sc rid (s\<lparr>roles := filter (\<lambda>r. r_id r \<noteq> rid) (roles s)\<rparr>))" by (simp add: given_conj)
next
  fix s uid
  assume a: "given ae sc (\<lambda>s. auth_ok ae s \<and> has_role name s) s"
  then have "given ae sc (has_role name) (s\<lparr>users := filter (\<lambda>u. u_id u \<noteq> uid) (users s)\<rparr>)"
    by (simp add: given_def has_role_def)
  then have "given ae sc (has_role name) (sc_user sc uid (s\<lparr>users := filter (\<lambda>u. u_id u \<noteq> uid) (users s)\<rparr>))"
    unfolding given_def schema_ok_def by (blast intro: has_role_removed)
  with a unique.P_delete_user show "given ae sc (\<lambda>s. auth_ok ae s \<and> has_role name s)
      (sc_user sc uid (s\<lparr>users := filter (\<lambda>u. u_id u \<noteq> uid) (users s)\<rparr>))" by (simp add: given_conj)
next
  fix s pid
  assume a: "given ae sc (\<lambda>s. auth_ok ae s \<and> has_role name s) s"
  then have "given ae sc (has_role name) (sc_permission sc pid s)"
    unfolding given_def schema_ok_def by (blast intro: has_role_removed)
  with a unique.P_delete_permission show "given ae sc (\<lambda>s. auth_ok ae s \<and> has_role name s)
      (sc_permission sc pid s)" by (simp add: given_conj)
next
  fix s uid and f :: "user_row \<Rightarrow> user_row"
  assume a: "given ae sc (\<lambda>s. auth_ok ae s \<and> has_role name s) s"
    and f: "\<And>u. u_id (f u) = u_id u \<and> u_email (f u) = u_email u"
  with unique.P_update [OF _ f] show "given ae sc (\<lambda>s. auth_ok ae s \<and> has_role name s) (update_user_row uid f s)"
    by (simp add: given_conj) (simp add: given_def has_role_def update_user_row_def)
next
  fix s rid desc
  assume a: "given ae sc (\<lambda>s. auth_ok ae s \<and> has_role name s) s"
  let ?s = "s\<lparr>roles := map (\<lambda>r. if r_id r = rid then r\<lparr>r_desc := desc\<rparr> else r) (roles s)\<rparr>"
  have "roles ?s = map (\<lambda>r. if r_id r = rid then r\<lparr>r_desc := desc\<rparr> else r) (roles s)" by simp
  then have "has_role name ?s \<longleftrightarrow> has_role name s" by (simp only: has_role_def desc_names)
  with a unique.P_role_desc [of ae sc s rid desc] show "given ae sc (\<lambda>s. auth_ok ae s \<and> has_role name s) ?s"
    by (simp add: given_conj) (simp add: given_def)
qed (auto simp: given_conj unique.P_next unique.P_faults unique.P_token unique.P_revoke unique.P_user
       unique.P_user_roles unique.P_role_perms unique.P_permissions unique.P_verifications unique.P_reset
       unique.P_used unique.P_role,
     auto simp: given_def has_role_def insert_refresh_def revoke_where_def insert_user_def insert_reset_def
       image_iff intro: exI)

end
