(* ===== verification/AuthProps.thy ===== *)
theory AuthProps
  imports AuthInvariants
begin

text \<open>
  The properties of the authentication: unique keys and built-in roles in every reachable
  state, the life of refresh and reset tokens, what a login opens, and what ends an access.
\<close>

section \<open>Requests of a database without faults\<close>

lemma query_ok [simp]: "a_faults s = [] \<Longrightarrow> query r f s = (Inr (f s), s)"
  by (simp add: query_def)

lemma exec_ok [simp]: "a_faults s = [] \<Longrightarrow> exec r f s = (Inr (), f s)"
  by (simp add: exec_def)

lemma faults_writes [simp]:
  "a_faults (revoke_where p s) = a_faults s"
  "a_faults (update_user_row uid f s) = a_faults s"
  "a_faults (insert_refresh ae uid h e s) = a_faults s"
  "a_faults (insert_reset ae uid t e s) = a_faults s"
  by (simp_all add: revoke_where_def update_user_row_def insert_refresh_def insert_reset_def)

lemma query_Inr [simp]: "query r f s = (Inr x, s') \<longleftrightarrow> r \<notin> set (a_faults s) \<and> x = f s \<and> s' = s"
  by (auto simp: query_def)

lemma exec_Inr [simp]: "exec r f s = (Inr u, s') \<longleftrightarrow> r \<notin> set (a_faults s) \<and> s' = f s"
  by (auto simp: exec_def)

lemma demand_Inr [simp]: "demand c n d s = (Inr u, s') \<longleftrightarrow> c \<and> s' = s"
  by (cases c) auto

lemma http_fail_Inr [simp]: "http_fail n d s \<noteq> (Inr x, s')"
  by simp

lemma reply_Inr: "reply x s = (Inr y, s') \<longleftrightarrow> y = x \<and> s' = s"
  by auto

lemma draw_Inr: "draw f s = (Inr x, s') \<longleftrightarrow> f (a_next s) = Inr x \<and> s' = s\<lparr>a_next := Suc (a_next s)\<rparr>"
  by (auto simp: draw_def split: sum.splits)

lemmas success = hbind_Inr draw_Inr reply_Inr

text \<open>What a token response is, when it comes.\<close>

lemma build_token_done:
  assumes "a_faults s = []"
  shows "build_token_response ae now u s =
    (Inr \<lparr>tr_access = create_access_token ae now (u_id u) (u_email u) (role_names (u_id u) s),
          tr_refresh = ae_secret ae (a_next s), tr_type = ''bearer'',
          tr_expires_in = ae_access_minutes ae * 60\<rparr>,
     insert_refresh ae (u_id u) (hashes ae (a_next s)) (refresh_token_expiry ae now)
       (s\<lparr>a_next := Suc (a_next s)\<rparr>))"
  using assms by (simp add: build_token_response_def hbind_def get_user_roles_def create_refresh_token_def
    draw_def)

section \<open>The caller\<close>

lemma current_user_Inr:
  "get_current_user ae now hdr s = (Inr (u, rs), s') \<longleftrightarrow>
     s' = s \<and> ''users.select'' \<notin> set (a_faults s) \<and> prefix ''Bearer '' hdr
     \<and> (\<exists>c. ae_decode ae now (drop 7 hdr) = Inr c \<and> truthy (c_sub c) \<and> rs = c_roles c
          \<and> find_user (str_or (c_sub c) []) s = Some u)"
  by (auto simp: get_current_user_def bearer_token_def success split: if_splits sum.splits
      jwt_error.splits option.splits)

lemma active_user_Inr:
  "get_current_active_user ae now hdr s = (Inr (u, rs), s') \<longleftrightarrow>
     get_current_user ae now hdr s = (Inr (u, rs), s') \<and> u_active u"
  by (auto simp: get_current_active_user_def success)

lemma admin_Inr:
  "admin_only ae now hdr s = (Inr (u, rs), s') \<longleftrightarrow>
     get_current_active_user ae now hdr s = (Inr (u, rs), s') \<and> ''admin'' \<in> set rs"
  by (auto simp: admin_only_def require_roles_def success)

lemma find_user_update:
  assumes "\<And>u. u_id (f u) = u_id u"
  shows "find_user uid (update_user_row uid' f s)
     = map_option (\<lambda>u. if u_id u = uid' then f u else u) (find_user uid s)"
proof -
  have "find (\<lambda>u. u_id u = uid) (map (\<lambda>u. if u_id u = uid' then f u else u) us)
      = map_option (\<lambda>u. if u_id u = uid' then f u else u) (find (\<lambda>u. u_id u = uid) us)" for us
    using assms by (induction us) auto
  then show ?thesis by (simp add: find_user_def update_user_row_def)
qed

lemma find_user_id: "find_user uid s = Some u \<Longrightarrow> u_id u = uid \<and> u \<in> set (users s)"
  by (auto simp: find_user_def find_Some_iff)

lemma find_email_id: "find_email e s = Some u \<Longrightarrow> u_email u = e \<and> u \<in> set (users s)"
  by (auto simp: find_email_def find_Some_iff)

lemma find_user_mem:
  assumes "auth_ok ae s" and "u \<in> set (users s)"
  shows "find_user (u_id u) s = Some u"
proof -
  have "distinct (map u_id us) \<Longrightarrow> u \<in> set us \<Longrightarrow> find (\<lambda>v. u_id v = u_id u) us = Some u" for us
    by (induction us) (auto simp: rev_image_eqI)
  with assms show ?thesis by (simp add: find_user_def auth_ok_def column_ok_def)
qed

section \<open>Refresh tokens\<close>

lemma refresh_check_Inr:
  "refresh_check ae now token s = (Inr r, s') \<longleftrightarrow>
     s' = s \<and> ''refresh_tokens.select'' \<notin> set (a_faults s)
     \<and> find (\<lambda>r. rt_hash r = hash_token ae token) (refresh_tokens s) = Some r
     \<and> \<not> rt_revoked r \<and> now \<le> rt_expires r"
  by (auto simp: refresh_check_def success split: option.splits)

lemma spent_check:
  assumes "spent ae (hash_token ae token) s"
  shows "\<exists>e. refresh_check ae now token s = (Inl e, s)"
proof (cases "refresh_check ae now token s")
  case (Pair r s')
  show ?thesis
  proof (cases r)
    case (Inl e)
    from keepsD [OF keeps_refresh_check, of "\<lambda>x. x = s"] Pair have "s' = s" by (metis snd_conv)
    with Pair Inl show ?thesis by simp
  next
    case (Inr row)
    with Pair assms show ?thesis by (auto simp: refresh_check_Inr spent_def find_Some_iff)
  qed
qed

lemma spent_refused: "spent ae (hash_token ae token) s \<Longrightarrow> \<exists>e. refresh_token ae now token s = (Inl e, s)"
  using spent_check [of ae token s now] by (auto simp: refresh_token_def)

lemma revoked_spent:
  assumes "auth_ok ae s" and "find (\<lambda>r. rt_hash r = h) (refresh_tokens s) = Some r"
  shows "spent ae h (revoke_where (\<lambda>q. rt_id q = rt_id r) s)"
proof -
  from assms(2) have r: "r \<in> set (refresh_tokens s)" "rt_hash r = h" by (auto simp: find_Some_iff)
  with assms(1) have "unseen (hashes ae) (a_next s) h"
    by (auto simp: auth_ok_def column_ok_def)
  moreover have "q = r" if "q \<in> set (refresh_tokens s)" "rt_hash q = h" for q
    using that r assms(1) by (auto simp: auth_ok_def column_ok_def distinct_map dest: inj_onD)
  ultimately show ?thesis by (auto simp: spent_def revoke_where_def split: if_splits)
qed

lemma refresh_spends:
  assumes "fresh_sources ae" and "schema_ok sc" and "auth_ok ae s"
    and "refresh_token ae now token s = (Inr resp, s')"
  shows "spent ae (hash_token ae token) s'"
proof -
  from assms(4) obtain r where c: "refresh_check ae now token s = (Inr r, s)"
    and rot: "refresh_rotate ae now r s = (Inr resp, s')"
    by (auto simp: refresh_token_def success refresh_check_Inr)
  from c have f: "find (\<lambda>r. rt_hash r = hash_token ae token) (refresh_tokens s) = Some r"
    by (simp add: refresh_check_Inr)
  from rot obtain u where b: "build_token_response ae now u (revoke_where (\<lambda>q. rt_id q = rt_id r) s)
      = (Inr resp, s')"
    by (auto simp: refresh_rotate_def success split: option.splits)
  have "given ae sc (spent ae (hash_token ae token)) (revoke_where (\<lambda>q. rt_id q = rt_id r) s)"
    using revoked_spent [OF assms(3) f] by (simp add: given_def)
  from servesD [OF spent_token.keeps_build_token this b] assms(1,2) show ?thesis
    by (simp add: given_def)
qed

section \<open>Logins\<close>

text \<open>The claims of the token a login issues; the JWT library accepts them until they expire.\<close>

definition login_claims :: "auth_env \<Rightarrow> int \<Rightarrow> user_row \<Rightarrow> auth_db \<Rightarrow> claims" where
  "login_claims ae now u s = \<lparr>c_sub = Some (u_id u), c_email = u_email u, c_roles = role_names (u_id u) s,
     c_type = ''access'', c_exp = now + ae_access_minutes ae * 60\<rparr>"

definition jwt_accepts :: "auth_env \<Rightarrow> claims \<Rightarrow> bool" where
  "jwt_accepts ae c \<longleftrightarrow> (\<forall>t < c_exp c. ae_decode ae t (ae_encode ae c) = Inr c)"

text \<open>bcrypt verifies the password a hash was made from.\<close>

definition bcrypt_ok :: "auth_env \<Rightarrow> bool" where
  "bcrypt_ok ae \<longleftrightarrow> (\<forall>n p h. ae_bcrypt ae n p = Inr h \<longrightarrow> ae_check ae p h = Inr True)"

lemma find_email_update:
  assumes "\<And>u. u_email (f u) = u_email u"
  shows "find_email e (update_user_row uid f s)
     = map_option (\<lambda>u. if u_id u = uid then f u else u) (find_email e s)"
proof -
  have "find (\<lambda>u. u_email u = e) (map (\<lambda>u. if u_id u = uid then f u else u) us)
      = map_option (\<lambda>u. if u_id u = uid then f u else u) (find (\<lambda>u. u_email u = e) us)" for us
    using assms by (induction us) auto
  then show ?thesis by (simp add: find_email_def update_user_row_def)
qed

lemma find_email_frame [simp]:
  "find_email e (insert_reset ae v t x s) = find_email e s"
  "find_email e (s\<lparr>a_next := n\<rparr>) = find_email e s"
  "find_email e (s\<lparr>resets := os\<rparr>) = find_email e s"
  "find_email e (revoke_where q s) = find_email e s"
  by (simp_all add: find_email_def insert_reset_def revoke_where_def)

definition touched :: "int \<Rightarrow> user_row \<Rightarrow> auth_db \<Rightarrow> auth_db" where
  "touched now u s = update_user_row (u_id u) (\<lambda>u. u\<lparr>u_last_login := Some now\<rparr>) s"

lemma touched_simps [simp]:
  "a_faults (touched now u s) = a_faults s" "a_next (touched now u s) = a_next s"
  "refresh_tokens (touched now u s) = refresh_tokens s" "role_names uid (touched now u s) = role_names uid s"
  by (simp_all add: touched_def update_user_row_def role_names_def cong: if_cong)

lemma login_done:
  assumes "a_faults s = []" and "find_email e s = Some u"
  shows "login ae now e p s =
    (if \<not> verify_password ae p (u_hash u) then (Inl (Http 401 ''Invalid email or password''), s)
     else if \<not> u_active u then (Inl (Http 403 ''Account deactivated''), s)
     else if \<not> u_verified u then (Inl (Http 403 ''Email not verified. Check your inbox.''), s)
     else build_token_response ae now u (touched now u s))"
  using assms by (simp add: login_def hbind_def demand_def touched_def)

lemma login_token:
  assumes "a_faults s = []" and "find_email e s = Some u" and "login ae now e p s = (Inr resp, s')"
  shows "verify_password ae p (u_hash u) \<and> u_active u \<and> u_verified u
    \<and> tr_access resp = ae_encode ae (login_claims ae now u s)
    \<and> tr_refresh resp = ae_secret ae (a_next s)
    \<and> s' = insert_refresh ae (u_id u) (hashes ae (a_next s)) (refresh_token_expiry ae now)
         ((touched now u s)\<lparr>a_next := Suc (a_next s)\<rparr>)"
  using assms by (auto simp: login_done build_token_done create_access_token_def login_claims_def
    split: if_splits)

lemma find_snoc_new:
  "P x \<Longrightarrow> (\<And>y. y \<in> set xs \<Longrightarrow> \<not> P y) \<Longrightarrow> find P (xs @ [x]) = Some x"
  by (induction xs) auto

lemma find_append_none:
  "(\<And>y. y \<in> set xs \<Longrightarrow> \<not> P y) \<Longrightarrow> find P (xs @ ys) = find P ys"
  by (induction xs) auto

lemma new_refresh_found:
  assumes "auth_ok ae s" and same: "refresh_tokens s' = refresh_tokens s"
  shows "find (\<lambda>r. rt_hash r = hash_token ae (ae_secret ae (a_next s)))
      (refresh_tokens (insert_refresh ae uid (hashes ae (a_next s)) e s'))
    = Some \<lparr>rt_id = ae_ids ae (a_next s'), rt_user = uid, rt_hash = hashes ae (a_next s),
        rt_expires = e, rt_revoked = False\<rparr>"
proof -
  have "rt_hash r \<noteq> hashes ae (a_next s)" if "r \<in> set (refresh_tokens s)" for r
    using that assms by (auto simp: auth_ok_def column_ok_def dest: unseenD [of "hashes ae"])
  then show ?thesis
    using same by (auto simp: insert_refresh_def hash_token_def intro!: find_snoc_new)
qed

lemma find_user_touched:
  "find_user uid (touched now u s) = map_option (\<lambda>v. if u_id v = u_id u then v\<lparr>u_last_login := Some now\<rparr> else v)
     (find_user uid s)"
  unfolding touched_def by (rule find_user_update) simp

lemma find_user_frame [simp]:
  "find_user uid (insert_refresh ae v h e s) = find_user uid s"
  "find_user uid (s\<lparr>a_next := n\<rparr>) = find_user uid s"
  "find_user uid (revoke_where q s) = find_user uid s"
  by (simp_all add: find_user_def insert_refresh_def revoke_where_def)

lemma reset_done:
  assumes "a_faults s = []" and "8 \<le> length pw" and "find_otp token (resets s) = Some row"
    and "\<not> ot_used row" and "now \<le> ot_expires row" and "ae_bcrypt ae (a_next s) pw = Inr h"
  shows "reset_password ae now token pw s =
    (Inr ''Password reset successfully. Please log in again.'', revoke_where (\<lambda>r. rt_user r = ot_user row)
      ((update_user_row (ot_user row) (\<lambda>u. u\<lparr>u_hash := h\<rparr>) (s\<lparr>a_next := Suc (a_next s)\<rparr>))
        \<lparr>resets := mark_used (ot_id row) (resets s)\<rparr>))"
  using assms by (simp add: reset_password_def valid_password_def hbind_def hash_password_def draw_def
      update_user_row_def)

section \<open>A concrete database\<close>

definition demo_user :: user_row where
  "demo_user = \<lparr>u_id = ''u'', u_email = ''a@b'', u_username = None, u_full_name = None,
     u_hash = ''bsecret12'', u_active = True, u_verified = True, u_created = 0, u_last_login = None,
     u_avatar = None\<rparr>"

definition demo_auth :: auth_env where
  "demo_auth = \<lparr>ae_ids = (\<lambda>n. replicate n CHR ''i''), ae_secret = (\<lambda>n. replicate n CHR ''k''),
     ae_sha = (\<lambda>x. CHR ''h'' # x), ae_bcrypt = (\<lambda>_ p. Inr (CHR ''b'' # p)),
     ae_check = (\<lambda>p h. Inr (h = CHR ''b'' # p)), ae_encode = (\<lambda>_. ''jwt''),
     ae_decode = (\<lambda>now t. if t = ''jwt'' \<and> now < 3600 then Inr \<lparr>c_sub = Some ''u'', c_email = ''a@b'',
        c_roles = [''admin''], c_type = ''access'', c_exp = 3600\<rparr> else Inl ExpiredSignature),
     ae_access_minutes = 60, ae_refresh_days = 7\<rparr>"

definition demo_db :: auth_db where
  "demo_db = empty_auth\<lparr>users := [demo_user], roles := [\<lparr>r_id = ''r'', r_name = ''admin'', r_desc = None\<rparr>],
     user_roles := [(''u'', ''r'')]\<rparr>"

definition demo_schema :: schema where
  "demo_schema = \<lparr>sc_user = (\<lambda>i s. s\<lparr>user_roles := filter (\<lambda>p. fst p \<noteq> i) (user_roles s),
       refresh_tokens := filter (\<lambda>r. rt_user r \<noteq> i) (refresh_tokens s),
       resets := filter (\<lambda>r. ot_user r \<noteq> i) (resets s)\<rparr>),
     sc_role = (\<lambda>i s. s\<lparr>user_roles := filter (\<lambda>p. snd p \<noteq> i) (user_roles s)\<rparr>),
     sc_permission = (\<lambda>i s. s\<lparr>role_perms := filter (\<lambda>p. snd p \<noteq> i) (role_perms s)\<rparr>)\<rparr>"

lemma demo_fresh: "fresh_sources demo_auth"
  by (auto simp: fresh_sources_def demo_auth_def inj_def dest: arg_cong [of _ _ length])

lemma demo_schema_ok: "schema_ok demo_schema"
proof -
  have "\<exists>p. refresh_tokens s = filter p (refresh_tokens s)" "\<exists>p. resets s = filter p (resets s)" for s
    by (rule exI [of _ "\<lambda>_. True"], simp)+
  then show ?thesis by (auto simp: schema_ok_def only_removes_def demo_schema_def)
qed

lemma demo_unseen: "unseen (\<lambda>n. replicate n CHR ''i'') 0 ''u''" "unseen (\<lambda>n. replicate n CHR ''i'') 0 ''r''"
  by (auto simp: unseen_def Cons_replicate_eq dest: sym)

lemma demo_ok: "auth_ok demo_auth demo_db"
  using demo_unseen
  by (simp add: auth_ok_def column_ok_def demo_db_def empty_auth_def demo_user_def demo_auth_def)

lemma demo_find: "find_email ''a@b'' demo_db = Some demo_user" "a_faults demo_db = []" "u_id demo_user \<noteq> []"
  by (simp_all add: find_email_def demo_db_def demo_user_def empty_auth_def)

lemma demo_claims: "jwt_accepts demo_auth (login_claims demo_auth 0 demo_user demo_db)"
proof -
  have "role_names ''u'' demo_db = [''admin'']" by (simp add: role_names_def demo_db_def)
  then show ?thesis by (simp add: jwt_accepts_def login_claims_def demo_auth_def demo_user_def)
qed

lemma demo_login: "\<exists>resp s'. login demo_auth 0 ''a@b'' ''secret12'' demo_db = (Inr resp, s')"
  by (simp add: login_done demo_find build_token_done)
    (simp add: verify_password_def demo_user_def demo_auth_def)

definition demo_refreshed :: auth_db where
  "demo_refreshed = insert_refresh demo_auth ''u'' ''h'' 100 (demo_db\<lparr>a_next := 1\<rparr>)"

lemma demo_refreshed_ok: "auth_ok demo_auth demo_refreshed"
proof -
  have "given demo_auth demo_schema (auth_ok demo_auth) (insert_refresh demo_auth ''u''
      (hashes demo_auth (a_next demo_db)) 100 (demo_db\<lparr>a_next := Suc (a_next demo_db)\<rparr>))"
    by (intro unique.P_token) (simp add: given_def demo_ok)
  then show ?thesis
    using demo_fresh demo_schema_ok
    by (simp add: given_def demo_refreshed_def) (simp add: demo_auth_def demo_db_def empty_auth_def)
qed

section \<open>Properties\<close>

text \<open>C15: what every reachable state has in common.  From a database with unique keys, whatever
  requests the endpoints serve in whatever order and however often the database fails in
  between, identifiers, e-mail addresses, role names and token hashes stay unique, no random
  value of the past is drawn again, and a built-in role that is there is never deleted.\<close>

theorem reachable_accounts:
  assumes "fresh_sources ae" and "schema_ok sc" and "auth_ok ae s" and "auth_reach ae sc s s'"
  shows "auth_ok ae s' \<and> set BUILT_IN \<inter> r_name ` set (roles s) \<subseteq> r_name ` set (roles s')"
proof -
  have "given ae sc (auth_ok ae) s" using assms(3) by (simp add: given_def)
  from unique.reach_invariant [OF assms(4) this] assms(1,2) have ok: "auth_ok ae s'"
    by (simp add: given_def)
  have "name \<in> r_name ` set (roles s')" if "name \<in> set BUILT_IN" "name \<in> r_name ` set (roles s)" for name
  proof -
    have "given ae sc (\<lambda>s. auth_ok ae s \<and> has_role name s) s"
      using that assms(3) by (simp add: given_def has_role_def)
    from builtin.reach_invariant [OF assms(4) this] assms(1,2) that(1) show ?thesis
      by (simp add: given_def has_role_def)
  qed
  with ok show ?thesis by blast
qed

theorem reachable_accounts_witness:
  "''admin'' \<in> r_name ` set (roles (snd (delete_role demo_auth demo_schema 0 ''Bearer jwt'' ''r'' demo_db)))"
proof -
  have "auth_reach demo_auth demo_schema demo_db (snd (delete_role demo_auth demo_schema 0 ''Bearer jwt'' ''r'' demo_db))"
    by (rule auth_reach.more [OF auth_reach.here auth_step.delete_role_step])
  from reachable_accounts [OF demo_fresh demo_schema_ok demo_ok this] show ?thesis
    by (auto simp: BUILT_IN_def demo_db_def)
qed

text \<open>C16: a refresh token works once.  When a refresh succeeded, the same token is refused,
  without any effect, in every state the endpoints can reach from there.\<close>

theorem refresh_single_use:
  assumes "fresh_sources ae" and "schema_ok sc" and "auth_ok ae s"
    and "refresh_token ae now token s = (Inr resp, s')" and "auth_reach ae sc s' s''"
  shows "\<exists>e. refresh_token ae now' token s'' = (Inl e, s'')"
proof -
  have "given ae sc (spent ae (hash_token ae token)) s'"
    using refresh_spends [OF assms(1-4)] by (simp add: given_def)
  from spent_token.reach_invariant [OF assms(5) this] assms(1,2)
  have "spent ae (hash_token ae token) s''" by (simp add: given_def)
  then show ?thesis by (rule spent_refused)
qed

theorem refresh_single_use_witness:
  "\<exists>s r s' e. refresh_token demo_auth 1 [] s = (Inr r, s') \<and> refresh_token demo_auth 2 [] s' = (Inl e, s')"
proof -
  obtain r s' where r: "refresh_token demo_auth 1 [] demo_refreshed = (Inr r, s')"
    by (simp add: refresh_token_def hbind_def refresh_check_def hash_token_def insert_refresh_def demo_auth_def
        demo_db_def empty_auth_def revoke_where_def refresh_rotate_def find_user_def demo_user_def
        build_token_done demo_refreshed_def)
  from refresh_single_use [OF demo_fresh demo_schema_ok demo_refreshed_ok r auth_reach.here, of 2] r show ?thesis by blast
qed

text \<open>C36: two refreshes at the same time both succeed.  The check and the rotation are separate
  requests: when two callers present the same live token and both checks run before either
  rotation, both get a token pair, and both new refresh tokens are live.\<close>

theorem refresh_race:
  assumes "fresh_sources ae" and "auth_ok ae s" and "a_faults s = []"
    and "refresh_check ae now token s = (Inr r, s)"
    and "find_user (rt_user r) s = Some u" and "u_active u" and "0 \<le> ae_refresh_days ae"
  shows "\<exists>a b s1 s2. refresh_rotate ae now r s = (Inr a, s1) \<and> refresh_rotate ae now r s1 = (Inr b, s2)
     \<and> tr_refresh a \<noteq> tr_refresh b
     \<and> (\<exists>p. refresh_check ae now (tr_refresh a) s2 = (Inr p, s2))
     \<and> (\<exists>p. refresh_check ae now (tr_refresh b) s2 = (Inr p, s2))"
proof -
  let ?e = "refresh_token_expiry ae now" let ?n = "a_next s"
  let ?rev = "revoke_where (\<lambda>q. rt_id q = rt_id r)"
  let ?step = "\<lambda>s. insert_refresh ae (u_id u) (hashes ae (a_next s)) ?e (s\<lparr>a_next := Suc (a_next s)\<rparr>)"
  let ?row = "\<lambda>k i. \<lparr>rt_id = ae_ids ae i, rt_user = u_id u, rt_hash = hashes ae k, rt_expires = ?e,
    rt_revoked = False\<rparr>"
  let ?s1 = "?step (?rev s)" let ?s2 = "?step (?rev ?s1)"
  have e: "now \<le> ?e" using assms(7) by (simp add: refresh_token_expiry_def)
  have rot: "\<exists>a. refresh_rotate ae now r q = (Inr a, ?step (?rev q)) \<and> tr_refresh a = ae_secret ae (a_next q)"
    if "a_faults q = []" "find_user (rt_user r) q = Some u" for q
    using that assms(6)
    by (simp add: refresh_rotate_def hbind_def build_token_done) (simp add: revoke_where_def)
  obtain a where a: "refresh_rotate ae now r s = (Inr a, ?s1)" "tr_refresh a = ae_secret ae ?n"
    using rot [OF assms(3,5)] by blast
  have "a_faults ?s1 = []" "find_user (rt_user r) ?s1 = Some u" using assms(3,5) by simp_all
  from rot [OF this] obtain b where b: "refresh_rotate ae now r ?s1 = (Inr b, ?s2)"
    "tr_refresh b = ae_secret ae (a_next ?s1)" by blast
  have n1: "a_next ?s1 = Suc (Suc ?n)" by (simp add: insert_refresh_def revoke_where_def)
  from assms(1) have inj: "inj (hashes ae)" by (simp add: fresh_sources_def)
  have old: "unseen (hashes ae) ?n (rt_hash q)" if "q \<in> set (refresh_tokens s)" for q
    using that assms(2) by (auto simp: auth_ok_def column_ok_def)
  have r: "r \<in> set (refresh_tokens s)" using assms(4) by (auto simp: refresh_check_Inr find_Some_iff)
  then have "unseen (ae_ids ae) ?n (rt_id r)" using assms(2) by (simp add: auth_ok_def column_ok_def)
  then have "rt_id r \<noteq> ae_ids ae (Suc ?n)" by (simp add: unseen_def)
  then have rows: "refresh_tokens ?s2 = map (\<lambda>q. if rt_id q = rt_id r then q\<lparr>rt_revoked := True\<rparr> else q)
        (map (\<lambda>q. if rt_id q = rt_id r then q\<lparr>rt_revoked := True\<rparr> else q) (refresh_tokens s))
      @ ?row ?n (Suc ?n) # [?row (Suc (Suc ?n)) (Suc (Suc (Suc ?n)))]"
    by (simp add: insert_refresh_def revoke_where_def)
  have hash: "ae_sha ae (ae_secret ae k) \<noteq> ae_sha ae (ae_secret ae j)" if "k \<noteq> j" for k j
    using that inj by (auto dest: injD)
  have live: "\<exists>p. refresh_check ae now (ae_secret ae k) ?s2 = (Inr p, ?s2)" if "k = ?n \<or> k = Suc (Suc ?n)" for k
  proof -
    have "\<forall>q\<in>set (refresh_tokens s). rt_hash q \<noteq> ae_sha ae (ae_secret ae k)"
      using old that by (auto simp: unseen_def)
    then have "find (\<lambda>q. rt_hash q = hash_token ae (ae_secret ae k)) (refresh_tokens ?s2)
        = find (\<lambda>q. rt_hash q = hash_token ae (ae_secret ae k))
            [?row ?n (Suc ?n), ?row (Suc (Suc ?n)) (Suc (Suc (Suc ?n)))]"
      unfolding rows by (intro find_append_none) (auto simp: hash_token_def split: if_splits)
    moreover have "\<exists>i. find (\<lambda>q. rt_hash q = hash_token ae (ae_secret ae k))
        [?row ?n (Suc ?n), ?row (Suc (Suc ?n)) (Suc (Suc (Suc ?n)))] = Some (?row k i)"
      using that hash [of ?n "Suc (Suc ?n)"] by (elim disjE) (simp_all add: hash_token_def, blast+)
    ultimately obtain i where
      "find (\<lambda>q. rt_hash q = hash_token ae (ae_secret ae k)) (refresh_tokens ?s2) = Some (?row k i)" by metis
    moreover have "a_faults ?s2 = []" using assms(3) by simp
    ultimately show ?thesis using e unfolding refresh_check_Inr by simp
  qed
  have "ae_secret ae ?n \<noteq> ae_secret ae (Suc (Suc ?n))"
    using injD [OF fresh_secret [OF assms(1)], of ?n "Suc (Suc ?n)"] by auto
  then have "tr_refresh a \<noteq> tr_refresh b" unfolding a(2) b(2) n1 .
  moreover have "\<exists>p. refresh_check ae now (tr_refresh a) ?s2 = (Inr p, ?s2)"
    unfolding a(2) by (rule live) simp
  moreover have "\<exists>p. refresh_check ae now (tr_refresh b) ?s2 = (Inr p, ?s2)"
    unfolding b(2) n1 by (rule live) simp
  ultimately show ?thesis using a(1) b(1) by - ((rule exI)+, intro conjI)
qed

theorem refresh_race_witness:
  "\<exists>s r a b s1 s2. refresh_check demo_auth 1 [] s = (Inr r, s) \<and> refresh_rotate demo_auth 1 r s = (Inr a, s1)
     \<and> refresh_rotate demo_auth 1 r s1 = (Inr b, s2) \<and> tr_refresh a \<noteq> tr_refresh b"
proof -
  have c: "refresh_check demo_auth 1 [] demo_refreshed = (Inr \<lparr>rt_id = ''i'', rt_user = ''u'', rt_hash = ''h'',
      rt_expires = 100, rt_revoked = False\<rparr>, demo_refreshed)"
    by (simp add: refresh_check_Inr hash_token_def demo_refreshed_def insert_refresh_def demo_auth_def demo_db_def
        empty_auth_def)
  have "find_user ''u'' demo_refreshed = Some demo_user" "a_faults demo_refreshed = []"
    by (simp_all add: demo_refreshed_def find_user_def demo_db_def demo_user_def empty_auth_def insert_refresh_def)
  with refresh_race [OF demo_fresh demo_refreshed_ok _ c, of demo_user] c show ?thesis
    by (simp add: demo_user_def demo_auth_def) metis
qed

text \<open>C18: what a login opens.  With a database that answers, a known e-mail address gets tokens
  exactly when the password verifies and the account is active and verified.  The access
  token then authenticates the account, with the roles it had at the login, until it
  expires, and the refresh token is accepted until its own expiry.\<close>

theorem login_session:
  assumes "auth_ok ae s" and "a_faults s = []" and "find_email e s = Some u" and "u_id u \<noteq> []"
    and "jwt_accepts ae (login_claims ae now u s)"
  shows "((\<exists>resp s'. login ae now e p s = (Inr resp, s')) \<longleftrightarrow>
      verify_password ae p (u_hash u) \<and> u_active u \<and> u_verified u)
    \<and> (\<forall>resp s'. login ae now e p s = (Inr resp, s') \<longrightarrow>
      (\<forall>t < now + ae_access_minutes ae * 60.
         get_current_active_user ae t (''Bearer '' @ tr_access resp) s'
           = (Inr (u\<lparr>u_last_login := Some now\<rparr>, role_names (u_id u) s), s'))
      \<and> (\<forall>t \<le> now + ae_refresh_days ae * 86400. \<exists>r.
           refresh_check ae t (tr_refresh resp) s' = (Inr r, s') \<and> rt_user r = u_id u))"
proof -
  have iff: "(\<exists>resp s'. login ae now e p s = (Inr resp, s')) \<longleftrightarrow>
      verify_password ae p (u_hash u) \<and> u_active u \<and> u_verified u"
    using assms(2,3) by (auto simp: login_done build_token_done)
  have "(\<forall>t < now + ae_access_minutes ae * 60.
         get_current_active_user ae t (''Bearer '' @ tr_access resp) s'
           = (Inr (u\<lparr>u_last_login := Some now\<rparr>, role_names (u_id u) s), s'))
      \<and> (\<forall>t \<le> now + ae_refresh_days ae * 86400. \<exists>r.
           refresh_check ae t (tr_refresh resp) s' = (Inr r, s') \<and> rt_user r = u_id u)"
    if "login ae now e p s = (Inr resp, s')" for resp s'
  proof -
    note tok = login_token [OF assms(2,3) that]
    have u: "find_user (u_id u) s = Some u"
      using find_email_id [OF assms(3)] find_user_mem [OF assms(1)] by blast
    then have f: "find_user (u_id u) s' = Some (u\<lparr>u_last_login := Some now\<rparr>)"
      using tok by (simp add: find_user_touched)
    have "get_current_active_user ae t (''Bearer '' @ tr_access resp) s'
        = (Inr (u\<lparr>u_last_login := Some now\<rparr>, role_names (u_id u) s), s')"
      if "t < now + ae_access_minutes ae * 60" for t
      using that f assms(2,4,5) tok
      by (simp add: active_user_Inr current_user_Inr jwt_accepts_def)
        (simp add: login_claims_def truthy_def str_or_def)
    moreover have "\<exists>r. refresh_check ae t (tr_refresh resp) s' = (Inr r, s') \<and> rt_user r = u_id u"
      if "t \<le> now + ae_refresh_days ae * 86400" for t
      using that tok assms(2)
        new_refresh_found [OF assms(1), of "(touched now u s)\<lparr>a_next := Suc (a_next s)\<rparr>" "u_id u"]
      by (simp add: refresh_check_Inr refresh_token_expiry_def)
    ultimately show ?thesis by blast
  qed
  with iff show ?thesis by blast
qed

theorem login_session_witness:
  "\<exists>resp s'. login demo_auth 0 ''a@b'' ''secret12'' demo_db = (Inr resp, s')
     \<and> get_current_active_user demo_auth 3599 (''Bearer '' @ tr_access resp) s'
         = (Inr (demo_user\<lparr>u_last_login := Some 0\<rparr>, [''admin'']), s')"
proof -
  obtain resp s' where l: "login demo_auth 0 ''a@b'' ''secret12'' demo_db = (Inr resp, s')"
    using demo_login by blast
  have "role_names (u_id demo_user) demo_db = [''admin'']"
    by (simp add: role_names_def demo_db_def demo_user_def)
  moreover from login_session [OF demo_ok demo_find(2,1,3) demo_claims, of "''secret12''"] l
  have "\<forall>t < 0 + ae_access_minutes demo_auth * 60.
      get_current_active_user demo_auth t (''Bearer '' @ tr_access resp) s'
        = (Inr (demo_user\<lparr>u_last_login := Some 0\<rparr>, role_names (u_id demo_user) demo_db), s')" by blast
  ultimately show ?thesis using l by (simp add: demo_auth_def)
qed

text \<open>C17: what a password reset ends.  A successful reset makes the new password the one that
  verifies, revokes every refresh token of the account, and the reset token is refused in
  every state the endpoints can reach from there.\<close>

theorem reset_password_effect:
  assumes "fresh_sources ae" and "schema_ok sc" and "auth_ok ae s"
    and "reset_password ae now token pw s = (Inr msg, s')"
    and "bcrypt_ok ae"
  shows "\<exists>uid. (\<forall>u. find_user uid s' = Some u \<longrightarrow> verify_password ae pw (u_hash u))
     \<and> (\<forall>r\<in>set (refresh_tokens s'). rt_user r = uid \<longrightarrow> rt_revoked r)
     \<and> (\<forall>t\<in>set (resets s). ot_token t = token \<longrightarrow> ot_user t = uid)
     \<and> (\<forall>s'' now' pw'. auth_reach ae sc s' s'' \<longrightarrow> (\<exists>e. fst (reset_password ae now' token pw' s'') = Inl e))"
proof -
  from assms(4) obtain t n h where f: "find_otp token (resets s) = Some t" and h: "ae_bcrypt ae n pw = Inr h"
    and s': "s' = revoke_where (\<lambda>r. rt_user r = ot_user t)
      ((update_user_row (ot_user t) (\<lambda>u. u\<lparr>u_hash := h\<rparr>) (s\<lparr>a_next := Suc (a_next s)\<rparr>))
        \<lparr>resets := mark_used (ot_id t) (resets s)\<rparr>)"
    by (auto simp: reset_password_def valid_password_def hash_password_def success update_user_row_def
        split: option.splits)
  from f have t: "t \<in> set (resets s)" "ot_token t = token" by (auto simp: find_otp_def find_Some_iff)
  have only: "q = t" if "q \<in> set (resets s)" "ot_token q = token" for q
    using that t assms(3) by (auto simp: auth_ok_def column_ok_def distinct_map dest: inj_onD)
  have "verify_password ae pw (u_hash u)" if fu: "find_user (ot_user t) s' = Some u" for u
  proof -
    have "find_user (ot_user t) s' = find_user (ot_user t)
        (update_user_row (ot_user t) (\<lambda>u. u\<lparr>u_hash := h\<rparr>) (s\<lparr>a_next := Suc (a_next s)\<rparr>))"
      unfolding s' by (simp add: find_user_def revoke_where_def)
    also have "\<dots> = map_option (\<lambda>u. if u_id u = ot_user t then u\<lparr>u_hash := h\<rparr> else u) (find_user (ot_user t) s)"
      by (simp add: find_user_update)
    finally have "find_user (ot_user t) s' = \<dots>" .
    with fu obtain v where "find_user (ot_user t) s = Some v"
      "u = (if u_id v = ot_user t then v\<lparr>u_hash := h\<rparr> else v)"
      by (cases "find_user (ot_user t) s") simp_all
    with find_user_id have "u_hash u = h" by fastforce
    with assms(5) h show ?thesis by (simp add: verify_password_def bcrypt_ok_def)
  qed
  moreover have "\<forall>r\<in>set (refresh_tokens s'). rt_user r = ot_user t \<longrightarrow> rt_revoked r"
    by (auto simp: s' revoke_where_def split: if_splits)
  moreover have "\<exists>e. fst (reset_password ae now' token pw' s'') = Inl e" if "auth_reach ae sc s' s''" for s'' now' pw'
  proof -
    have "unseen (ae_secret ae) (a_next s') token"
      using t assms(3) by (auto simp: s' auth_ok_def column_ok_def revoke_where_def update_user_row_def unseen_Suc)
    moreover have "\<forall>q\<in>set (resets s'). ot_token q = token \<longrightarrow> ot_used q"
      using only by (auto simp: s' revoke_where_def mark_used_def update_user_row_def split: if_splits)
    ultimately have "given ae sc (spent_reset ae token) s'" by (simp add: given_def spent_reset_def)
    from spent_reset.reach_invariant [OF that this] assms(1,2) have sp: "spent_reset ae token s''"
      by (simp add: given_def)
    show ?thesis
    proof (cases "reset_password ae now' token pw' s''")
      case (Pair r q)
      show ?thesis
      proof (cases r)
        case (Inr x)
        with Pair sp have False
          by (auto simp: reset_password_def success find_otp_def spent_reset_def valid_password_def find_Some_iff
              split: option.splits)
        then show ?thesis ..
      qed (use Pair in simp)
    qed
  qed
  ultimately show ?thesis using only by blast
qed

theorem reset_password_effect_witness:
  "\<exists>s msg s'. reset_password demo_auth 0 [] ''newsecret'' s = (Inr msg, s')
     \<and> (\<exists>e. fst (reset_password demo_auth 1 [] ''othersecret'' s') = Inl e)"
proof -
  let ?s = "insert_reset demo_auth ''u'' [] 100 (demo_db\<lparr>a_next := 1\<rparr>)"
  have "given demo_auth demo_schema (auth_ok demo_auth) (insert_reset demo_auth ''u''
      (ae_secret demo_auth (a_next demo_db)) 100 (demo_db\<lparr>a_next := Suc (a_next demo_db)\<rparr>))"
    by (intro unique.P_reset) (simp add: given_def demo_ok)
  then have ok: "auth_ok demo_auth ?s"
    using demo_fresh demo_schema_ok by (simp add: given_def) (simp add: demo_auth_def demo_db_def empty_auth_def)
  have b: "bcrypt_ok demo_auth" by (simp add: bcrypt_ok_def demo_auth_def)
  obtain msg s' where r: "reset_password demo_auth 0 [] ''newsecret'' ?s = (Inr msg, s')"
    by (simp add: reset_password_def valid_password_def hbind_def find_otp_def insert_reset_def new_otp_def
        demo_db_def empty_auth_def hash_password_def draw_def demo_auth_def update_user_row_def)
  from reset_password_effect [OF demo_fresh demo_schema_ok ok r b] auth_reach.here [of demo_auth demo_schema s']
  have "\<exists>e. fst (reset_password demo_auth 1 [] ''othersecret'' s') = Inl e" by blast
  with r show ?thesis by blast
qed

text \<open>C14: anyone who knows an e-mail address can take the account over.  The answer to a
  forgotten password tells whether the address is registered and, when it is, contains the
  reset token: with it any password of eight characters can be set, and the login with it
  succeeds for an active, verified account.  No credential of the account is used.\<close>

theorem account_takeover:
  assumes "auth_ok ae s" and "a_faults s = []" and "fresh_sources ae" and "bcrypt_ok ae"
    and "find_email e s = Some u" and "u_active u" and "u_verified u"
    and "8 \<le> length pw" and "\<forall>n. \<exists>h. ae_bcrypt ae n pw = Inr h"
  shows "\<exists>token s1 msg s2 resp s3. forgot_password ae now e s = (Inr (Some token), s1)
     \<and> reset_password ae now token pw s1 = (Inr msg, s2) \<and> login ae now e pw s2 = (Inr resp, s3)"
proof -
  let ?t = "ae_secret ae (a_next s)" let ?s0 = "s\<lparr>a_next := Suc (a_next s)\<rparr>"
  let ?s1 = "insert_reset ae (u_id u) ?t (reset_token_expiry now) ?s0"
  let ?row = "new_otp ae (u_id u) ?t (reset_token_expiry now) ?s0"
  have f: "forgot_password ae now e s = (Inr (Some ?t), ?s1)"
    using assms(2,5) by (simp add: forgot_password_def hbind_def make_otp_def draw_def)
  have "ot_token r \<noteq> ?t" if "r \<in> set (resets s)" for r
    using that assms(1) by (auto simp: auth_ok_def column_ok_def dest: unseenD)
  then have row: "find_otp ?t (resets ?s1) = Some ?row"
    by (auto simp: find_otp_def insert_reset_def new_otp_def intro!: find_snoc_new)
  obtain h where h: "ae_bcrypt ae (a_next ?s1) pw = Inr h" using assms(9) by blast
  let ?s2 = "revoke_where (\<lambda>r. rt_user r = u_id u)
    ((update_user_row (u_id u) (\<lambda>u. u\<lparr>u_hash := h\<rparr>) (?s1\<lparr>a_next := Suc (a_next ?s1)\<rparr>))
      \<lparr>resets := mark_used (ot_id ?row) (resets ?s1)\<rparr>)"
  have r: "\<exists>msg. reset_password ae now ?t pw ?s1 = (Inr msg, ?s2)"
  proof -
    have o: "ot_user ?row = u_id u" "\<not> ot_used ?row" "now \<le> ot_expires ?row"
      by (simp_all add: new_otp_def reset_token_expiry_def)
    have "a_faults ?s1 = []" using assms(2) by simp
    from reset_done [OF this assms(8) row o(2,3) h] show ?thesis unfolding o(1) by blast
  qed
  have "find_email e ?s2 = Some (u\<lparr>u_hash := h\<rparr>)"
    using assms(5) by (simp add: find_email_update)
  moreover have "a_faults ?s2 = []" using assms(2) by simp
  moreover have "verify_password ae pw h" using assms(4) h by (simp add: bcrypt_ok_def verify_password_def)
  ultimately have "\<exists>resp s3. login ae now e pw ?s2 = (Inr resp, s3)"
    using assms(6,7) by (simp add: login_done build_token_done)
  with f r show ?thesis by blast
qed

theorem account_takeover_witness:
  "\<exists>token s1 msg s2 resp s3. forgot_password demo_auth 0 ''a@b'' demo_db = (Inr (Some token), s1)
     \<and> reset_password demo_auth 0 token ''attacker1'' s1 = (Inr msg, s2)
     \<and> login demo_auth 0 ''a@b'' ''attacker1'' s2 = (Inr resp, s3)"
proof -
  have "bcrypt_ok demo_auth" "\<forall>n. \<exists>h. ae_bcrypt demo_auth n ''attacker1'' = Inr h"
    by (simp_all add: bcrypt_ok_def demo_auth_def)
  then show ?thesis
    using demo_find account_takeover [OF demo_ok demo_find(2) demo_fresh, of "''a@b''" demo_user "''attacker1''" 0]
    by (simp add: demo_user_def)
qed



end
