(* ===== verification/AgentRun.thy ===== *)
theory AgentRun
  imports AgentTools AnswerCache SessionMemory Guardrails Groundedness QueryRewriter SettingsStore Http
begin

text \<open>
  What a conversation turn runs on: the stores a turn reads and writes (\<open>chat_state\<close>), the
  services it calls (\<open>chat_env\<close>), and the run of the agent.  The language model and the
  agent library are not the program's: \<open>ce_model\<close> is what the model answers to the system
  prompt, the prompt and the tool outputs so far, and the library calls the tools it asks
  for, in order, until it answers or the request limit is reached.  An environment
  is that of one turn: the services may answer otherwise in the next.  \<open>now\<close> is the time of
  the turn, which does not pass during it.
\<close>

section \<open>State and services\<close>

text \<open>What the API puts on the Celery queue.\<close>

datatype task =
    NotifyAdmin string string
  | IngestAll
  | IngestBucket string string
  | IngestSingle string string
  | IngestDocument string string string meta string

datatype event =
    SessionEvent string
  | TextEvent string
  | ReplaceEvent string
  | ToolsEvent "ToolCall list" "meta option"
  | EndEvent
  | ErrorEvent string

record chat_state =
  cs_redis :: redis_server
  cs_mem :: memory_manager
  cs_pg :: pg
  cs_settings :: settings_state
  cs_sdb :: settings_db
  cs_tasks :: "task list"
  cs_broker :: bool
  cs_events :: "event list"
  cs_next :: nat

datatype agent_call =
    SearchDocuments string int
  | GraphFacts string
  | ListDocuments int

text \<open>The part of a model message that requests a tool, as the library hands it out.\<close>

datatype part_args = ArgsJson string | ArgsDict meta | ArgsOther

record call_part =
  cp_name :: string
  cp_args :: part_args
  cp_id :: "string option"

datatype msg_part = ToolCallPart call_part | OtherPart

text \<open>A model response: its text, piece by piece, and the tools it calls, or none.\<close>

datatype model_step =
    CallTools "string list" "(call_part \<times> agent_call) list"
  | Answer "string list"
  | ModelError "string list" exc

record chat_env =
  ce_sv :: services
  ce_ac :: ac_config
  ce_guard :: guard_config
  ce_rewrite :: rewrite_config
  ce_ground :: ground_config
  ce_condense :: rewrite_llm
  ce_urdu :: "string \<Rightarrow> string option res"
  ce_scope :: "string \<Rightarrow> string \<Rightarrow> string option res"
  ce_judge :: judge_fun
  ce_model :: "string \<Rightarrow> string \<Rightarrow> string list \<Rightarrow> model_step"
  ce_limit :: nat
  ce_ids :: "nat \<Rightarrow> string"
  ce_uuid :: "nat \<Rightarrow> string"
  ce_what :: "exc \<Rightarrow> string"
  ce_stamp :: string

type_synonym 'a turn_step = "(chat_state, exc, 'a) prog"

section \<open>Single steps\<close>

definition mem_open :: "chat_env \<Rightarrow> string option \<Rightarrow> string turn_step" where
  "mem_open ce sid s =
     (let (sid', m) = get_or_create (ce_uuid ce (cs_next s)) sid (cs_redis s) (cs_mem s)
      in (Inr sid', s\<lparr>cs_mem := m, cs_next := Suc (cs_next s)\<rparr>))"

definition mem_context :: "rat \<Rightarrow> string \<Rightarrow> string turn_step" where
  "mem_context now sid s =
     (case get_context_string (cs_redis s) now sid (cs_mem s) of
        Inl e \<Rightarrow> (Inl e, s) | Inr (c, m) \<Rightarrow> (Inr c, s\<lparr>cs_mem := m\<rparr>))"

definition mem_add :: "rat \<Rightarrow> string \<Rightarrow> string \<Rightarrow> string \<Rightarrow> unit turn_step" where
  "mem_add now sid q a s =
     (case add_turn (cs_redis s) now sid q a (cs_mem s) of
        Inl e \<Rightarrow> (Inl e, s) | Inr (srv, m) \<Rightarrow> (Inr (), s\<lparr>cs_redis := srv, cs_mem := m\<rparr>))"

definition cached_answer :: "chat_env \<Rightarrow> rat \<Rightarrow> string \<Rightarrow> string option \<Rightarrow> json option turn_step" where
  "cached_answer ce now q uid s =
     (Inr (ac_get (ce_ac ce) (sv_qc (ce_sv ce)) (sv_sha (ce_sv ce)) (sv_client (ce_sv ce))
             (cs_redis s) now q uid), s)"

definition store_answer ::
  "chat_env \<Rightarrow> rat \<Rightarrow> string \<Rightarrow> string option \<Rightarrow> string \<Rightarrow> meta list \<Rightarrow> unit turn_step" where
  "store_answer ce now q uid answer tools s =
     (Inr (), s\<lparr>cs_redis := ac_set (ce_ac ce) (sv_qc (ce_sv ce)) (sv_sha (ce_sv ce))
        (sv_client (ce_sv ce)) (cs_redis s) now q uid answer (Some tools)\<rparr>)"

definition read_settings :: "rat \<Rightarrow> AgentConfig turn_step" where
  "read_settings now s =
     (let (c, st) = get_config (cs_sdb s) now False (cs_settings s) in (Inr c, s\<lparr>cs_settings := st\<rparr>))"

section \<open>The agent\<close>

definition run_call ::
  "chat_env \<Rightarrow> rat \<Rightarrow> agent_call \<Rightarrow> AgentDependencies \<Rightarrow> chat_state
   \<Rightarrow> string \<times> AgentDependencies \<times> chat_state" where
  "run_call ce now c deps s = (case c of
      SearchDocuments q n \<Rightarrow>
        (let (out, deps', srv) = search_documents (ce_sv ce) (cs_redis s) now q n deps
         in (out, deps', s\<lparr>cs_redis := srv\<rparr>))
    | GraphFacts q \<Rightarrow>
        (let (out, deps') = search_knowledge_graph_facts (ce_sv ce) q deps in (out, deps', s))
    | ListDocuments n \<Rightarrow> (list_available_documents n (cs_pg s) deps, deps, s))"

fun run_calls ::
  "chat_env \<Rightarrow> rat \<Rightarrow> agent_call list \<Rightarrow> AgentDependencies \<Rightarrow> chat_state
   \<Rightarrow> string list \<times> AgentDependencies \<times> chat_state" where
  "run_calls ce now [] deps s = ([], deps, s)"
| "run_calls ce now (c # cs) deps s =
     (let (out, deps', s') = run_call ce now c deps s;
          (outs, deps'', s'') = run_calls ce now cs deps' s'
      in (out # outs, deps'', s''))"

text \<open>
  A run gives the output and the messages, or an exception, with the text it produced on the
  way, the dependencies and the state.  The first argument is the number of model requests
  left.
\<close>

record agent_run =
  ar_result :: "(string \<times> msg_part list list) res"
  ar_deltas :: "string list"
  ar_deps :: AgentDependencies
  ar_state :: chat_state

fun agent_loop ::
  "chat_env \<Rightarrow> rat \<Rightarrow> string \<Rightarrow> string \<Rightarrow> nat \<Rightarrow> msg_part list list \<Rightarrow> string list \<Rightarrow> string list
   \<Rightarrow> AgentDependencies \<Rightarrow> chat_state \<Rightarrow> agent_run" where
  "agent_loop ce now sys prompt 0 msgs ds outs deps s =
     \<lparr>ar_result = Inl (OtherError ''UsageLimitExceeded''), ar_deltas = ds, ar_deps = deps, ar_state = s\<rparr>"
| "agent_loop ce now sys prompt (Suc n) msgs ds outs deps s =
     (case ce_model ce sys prompt outs of
        ModelError d e \<Rightarrow>
          \<lparr>ar_result = Inl e, ar_deltas = ds @ d, ar_deps = deps, ar_state = s\<rparr>
      | Answer d \<Rightarrow>
          \<lparr>ar_result = Inr (concat d, msgs @ [[OtherPart]]), ar_deltas = ds @ d, ar_deps = deps,
           ar_state = s\<rparr>
      | CallTools d calls \<Rightarrow>
          (let (outs', deps', s') = run_calls ce now (map snd calls) deps s
           in agent_loop ce now sys prompt n (msgs @ [map (ToolCallPart \<circ> fst) calls]) (ds @ d)
                (outs @ outs') deps' s'))"

definition agent_run ::
  "chat_env \<Rightarrow> rat \<Rightarrow> string \<Rightarrow> AgentDependencies \<Rightarrow> chat_state \<Rightarrow> agent_run" where
  "agent_run ce now prompt deps s =
     (let (sys, st) = get_system_prompt (cs_sdb s) now (cs_settings s)
      in agent_loop ce now sys prompt (ce_limit ce) [] [] [] deps (s\<lparr>cs_settings := st\<rparr>))"

text \<open>The dependencies a turn starts with.\<close>

definition start_deps :: "string \<Rightarrow> string option \<Rightarrow> AgentDependencies" where
  "start_deps sid uid = (new_deps sid uid)\<lparr>retrieved_chunks := Some [], graph_facts := Some [],
     selected_retrieval_tool := None\<rparr>"

definition full_prompt :: "string \<Rightarrow> string \<Rightarrow> string" where
  "full_prompt history q =
     (if history = [] then q
      else ''Previous conversation:'' @ [NL] @ history @ [NL, NL] @ ''Current question: '' @ q)"

section \<open>The tools of an answer\<close>

text \<open>Arguments that are no JSON become empty; a JSON value that is no object drops the call.\<close>

definition part_tool :: "(string \<Rightarrow> json res) \<Rightarrow> call_part \<Rightarrow> ToolCall option" where
  "part_tool loads p =
     (let mk = (\<lambda>m. \<lparr>tool_name = cp_name p, tool_args = m,
                     tool_call_id = (if truthy (cp_id p) then cp_id p else None)\<rparr>)
      in case cp_args p of
           ArgsDict m \<Rightarrow> Some (mk m)
         | ArgsOther \<Rightarrow> Some (mk [])
         | ArgsJson t \<Rightarrow> (case loads t of Inl _ \<Rightarrow> Some (mk []) | Inr (JObj m) \<Rightarrow> Some (mk m) | _ \<Rightarrow> None))"

definition extract_tool_calls :: "(string \<Rightarrow> json res) \<Rightarrow> msg_part list list \<Rightarrow> ToolCall list" where
  "extract_tool_calls loads msgs =
     List.map_filter (\<lambda>p. case p of ToolCallPart c \<Rightarrow> part_tool loads c | OtherPart \<Rightarrow> None) (concat msgs)"

section \<open>Lemmas\<close>

text \<open>
  What a run of the agent does not touch: every store but Redis, where it writes under the
  key prefix of the retrieval cache only.
\<close>

definition redis_frame :: "(string \<Rightarrow> bool) \<Rightarrow> redis_server \<Rightarrow> redis_server \<Rightarrow> bool" where
  "redis_frame written srv srv' \<longleftrightarrow>
     srv_up srv' = srv_up srv \<and> (\<forall>k. \<not> written k \<longrightarrow> srv_data srv' k = srv_data srv k)"

lemma redis_frame_refl [intro, simp]: "redis_frame w srv srv"
  by (simp add: redis_frame_def)

lemma redis_frame_trans: "redis_frame w a b \<Longrightarrow> redis_frame w b c \<Longrightarrow> redis_frame w a c"
  by (simp add: redis_frame_def)

lemma redis_frame_mono: "redis_frame w a b \<Longrightarrow> (\<And>k. w k \<Longrightarrow> w' k) \<Longrightarrow> redis_frame w' a b"
  by (auto simp: redis_frame_def)

lemma redis_frame_store:
  "(\<And>x. w (pfx @ x)) \<Longrightarrow> redis_frame w srv (cache_store sha pfx ttl srv now raw j)"
  by (auto simp: redis_frame_def cache_store_def rsetex_def)

lemma redis_frame_search:
  assumes "\<And>x. w (qc_prefix (sv_qc sv) @ x)"
  shows "redis_frame w srv (snd (hybrid_search_tool sv srv now q n tw u))"
  using assms by (auto simp: hybrid_search_tool_def qc_set_def Let_def redis_frame_store
      split: option.splits sum.splits)

text \<open>The stores but Redis, the memory and the settings cache are the same.\<close>

definition others_same :: "chat_state \<Rightarrow> chat_state \<Rightarrow> bool" where
  "others_same s s' \<longleftrightarrow> cs_pg s' = cs_pg s \<and> cs_sdb s' = cs_sdb s \<and> cs_tasks s' = cs_tasks s
     \<and> cs_broker s' = cs_broker s \<and> cs_events s' = cs_events s"

definition run_frame :: "chat_env \<Rightarrow> chat_state \<Rightarrow> chat_state \<Rightarrow> bool" where
  "run_frame ce s s' \<longleftrightarrow>
     redis_frame (\<lambda>k. prefix (qc_prefix (sv_qc (ce_sv ce))) k) (cs_redis s) (cs_redis s')
     \<and> cs_mem s' = cs_mem s \<and> others_same s s' \<and> cs_next s' = cs_next s"

lemma run_frame_refl [intro, simp]: "run_frame ce s s"
  by (simp add: run_frame_def others_same_def)

lemma run_frame_trans: "run_frame ce a b \<Longrightarrow> run_frame ce b c \<Longrightarrow> run_frame ce a c"
  by (auto simp: run_frame_def others_same_def intro: redis_frame_trans)

text \<open>
  The dependencies during a turn: their user and session stay, chunks and facts only grow,
  and chunks come from the document search alone, which is then the selected tool.
\<close>

definition deps_ok :: "AgentDependencies \<Rightarrow> AgentDependencies \<Rightarrow> bool" where
  "deps_ok d d' \<longleftrightarrow> dep_session_id d' = dep_session_id d \<and> dep_user_id d' = dep_user_id d
     \<and> prefix (chunks_of d) (chunks_of d') \<and> prefix (facts_of d) (facts_of d')
     \<and> ((chunks_of d \<noteq> [] \<longrightarrow> selected_retrieval_tool d = Some ''hybrid_search'') \<longrightarrow>
        (chunks_of d' \<noteq> [] \<longrightarrow> selected_retrieval_tool d' = Some ''hybrid_search''))"

lemma deps_ok_refl [intro, simp]: "deps_ok d d"
  by (simp add: deps_ok_def)

lemma deps_ok_trans: "deps_ok a b \<Longrightarrow> deps_ok b c \<Longrightarrow> deps_ok a c"
  by (auto simp: deps_ok_def intro: prefix_order.trans)

lemma run_call_frame:
  assumes "run_call ce now c deps s = (out, deps', s')"
  shows "run_frame ce s s' \<and> deps_ok deps deps'"
proof (cases c)
  case (SearchDocuments q n)
  with assms show ?thesis
    using redis_frame_search [of "\<lambda>k. prefix (qc_prefix (sv_qc (ce_sv ce))) k" "ce_sv ce" "cs_redis s" now q n
        "3 / 10" "dep_user_id deps"]
    by (auto simp: run_call_def search_documents_def Let_def run_frame_def others_same_def deps_ok_def
        chunks_of_def facts_of_def split: prod.splits)
next
  case (GraphFacts q)
  with assms show ?thesis
    by (auto simp: run_call_def search_knowledge_graph_facts_def Let_def deps_ok_def chunks_of_def
        facts_of_def truthy_def split: prod.splits option.splits)
next
  case (ListDocuments n)
  with assms show ?thesis by (auto simp: run_call_def)
qed

lemma run_calls_frame:
  "run_calls ce now cs deps s = (outs, deps', s') \<Longrightarrow> run_frame ce s s' \<and> deps_ok deps deps'"
proof (induction cs arbitrary: outs deps s)
  case (Cons c cs)
  then show ?case
    by (auto simp: Let_def split: prod.splits dest!: run_call_frame
        intro: run_frame_trans deps_ok_trans)
qed simp

lemma agent_loop_frame:
  "run_frame ce s (ar_state (agent_loop ce now sys prompt n msgs ds outs deps s))
   \<and> deps_ok deps (ar_deps (agent_loop ce now sys prompt n msgs ds outs deps s))"
proof (induction n arbitrary: msgs ds outs deps s)
  case (Suc n)
  show ?case
  proof (cases "ce_model ce sys prompt outs")
    case (CallTools d calls)
    obtain outs' deps' s' where r: "run_calls ce now (map snd calls) deps s = (outs', deps', s')"
      by (metis prod_cases3)
    from run_calls_frame [OF r] Suc.IH [of s' _ _ _ deps'] CallTools r show ?thesis
      by (auto intro: run_frame_trans deps_ok_trans)
  qed auto
qed simp

lemma agent_run_frame:
  "run_frame ce s (ar_state (agent_run ce now prompt deps s))
   \<and> deps_ok deps (ar_deps (agent_run ce now prompt deps s))"
proof -
  obtain sys st where g: "get_system_prompt (cs_sdb s) now (cs_settings s) = (sys, st)"
    by (metis prod.exhaust)
  have "run_frame ce s (s\<lparr>cs_settings := st\<rparr>)" by (simp add: run_frame_def others_same_def)
  with agent_loop_frame [of ce "s\<lparr>cs_settings := st\<rparr>"] show ?thesis
    by (auto simp: agent_run_def g intro: run_frame_trans)
qed

text \<open>The text of a run's answer ends the text it produced.\<close>

lemma agent_loop_output:
  "ar_result (agent_loop ce now sys prompt n msgs ds outs deps s) = Inr (t, ms) \<Longrightarrow>
     \<exists>pre d. ar_deltas (agent_loop ce now sys prompt n msgs ds outs deps s) = pre @ d \<and> t = concat d"
proof (induction n arbitrary: msgs ds outs deps s)
  case (Suc n)
  then show ?case
    by (cases "ce_model ce sys prompt outs") (auto simp: Let_def split: prod.splits)
qed simp

end
