(* ===== verification/Conversation.thy ===== *)
theory Conversation
  imports AgentRun
begin

text \<open>
  \<open>agent/conversation.py\<close>: one guarded turn.  The input screen, the condensed question, the
  answer cache, the agent, the gates and the output guardrails, the recording of the turn,
  and the one exception handler around all but the screen.
\<close>

section \<open>The gates behind an answer\<close>

text \<open>Citations, then groundedness: the text, the two verdicts and whether it may be cached.\<close>

definition answer_gate ::
  "chat_env \<Rightarrow> string \<Rightarrow> ChunkResult list \<Rightarrow> string \<times> cite_reason \<times> string option \<times> bool" where
  "answer_gate ce text chunks =
     (let (t, reason) = enforce_citations text chunks in
      if reason = Ok
      then let (t', status) = enforce_groundedness (ce_ground ce) (sv_render (ce_sv ce)) (ce_judge ce) t chunks
           in (t', reason, Some status, status \<in> set CACHEABLE_STATUSES)
      else (t, reason, None, False))"

definition turn_gate :: "chat_env \<Rightarrow> string \<Rightarrow> AgentDependencies \<Rightarrow> string \<times> bool" where
  "turn_gate ce response deps =
     (if selected_retrieval_tool deps = Some ''hybrid_search''
      then if is_low_confidence (chunks_of deps) then (ABSTAIN_MESSAGE, False)
           else let (t, _, _, cacheable) = answer_gate ce response (chunks_of deps) in (t, cacheable)
      else (response, False))"

definition guard_output :: "chat_env \<Rightarrow> string \<Rightarrow> string" where
  "guard_output ce t = apply_output_guardrails (ce_guard ce) (ce_urdu ce) t"

section \<open>The turn\<close>

definition BLOCKED_DEFAULT :: string where
  "BLOCKED_DEFAULT = ''Sorry, I can't answer that question.''"

definition TURN_ERROR :: string where
  "TURN_ERROR = ''Sorry - there was a problem processing your message. Please try again.''"

text \<open>The answer of a cached payload; only objects with a text answer are ever stored.\<close>

definition payload_answer :: "json \<Rightarrow> string res" where
  "payload_answer j = (case j of
      JObj d \<Rightarrow> (case json_get d ''answer'' of
          None \<Rightarrow> Inr [] | Some (JStr a) \<Rightarrow> Inr a | Some _ \<Rightarrow> Inl TypeError)
    | _ \<Rightarrow> Inl (OtherError ''AttributeError''))"

definition pure :: "'a res \<Rightarrow> 'a turn_step" where
  "pure r = (case r of Inl e \<Rightarrow> raise e | Inr x \<Rightarrow> reply x)"

definition agent_step ::
  "chat_env \<Rightarrow> rat \<Rightarrow> string \<Rightarrow> AgentDependencies \<Rightarrow> agent_run turn_step" where
  "agent_step ce now prompt deps s =
     (let r = agent_run ce now prompt deps s in (Inr r, ar_state r))"

definition turn_answer ::
  "chat_env \<Rightarrow> rat \<Rightarrow> string \<Rightarrow> string \<Rightarrow> string \<Rightarrow> string option \<Rightarrow> string
   \<Rightarrow> (string \<times> AgentDependencies) turn_step" where
  "turn_answer ce now message history sid uid q =
     hbind (agent_step ce now (full_prompt history q) (start_deps sid uid)) (\<lambda>run.
     hbind (pure (ar_result run)) (\<lambda>(response, _).
       let deps = ar_deps run;
           (gated, cacheable) = turn_gate ce response deps;
           final = guard_output ce gated
       in hbind (if cacheable then store_answer ce now q uid final [] else reply ()) (\<lambda>_.
          hbind (mem_add now sid message final) (\<lambda>_. reply (final, deps)))))"

definition turn_body ::
  "chat_env \<Rightarrow> rat \<Rightarrow> string \<Rightarrow> string \<Rightarrow> string \<Rightarrow> string option
   \<Rightarrow> (string \<times> AgentDependencies) turn_step" where
  "turn_body ce now message safe sid uid =
     hbind (mem_context now sid) (\<lambda>history.
       let q = condense (ce_rewrite ce) (ce_condense ce) history safe in
       hbind (cached_answer ce now q uid) (\<lambda>cached.
         if (case cached of None \<Rightarrow> False | Some j \<Rightarrow> json_truthy j)
         then hbind (pure (payload_answer (the cached))) (\<lambda>a.
              hbind (mem_add now sid message a) (\<lambda>_. reply (a, start_deps sid uid)))
         else turn_answer ce now message history sid uid q))"

definition run_agent_turn ::
  "chat_env \<Rightarrow> rat \<Rightarrow> string \<Rightarrow> string \<Rightarrow> string option \<Rightarrow> (string \<times> AgentDependencies) turn_step" where
  "run_agent_turn ce now message session_id uid =
     hbind (mem_open ce (Some session_id)) (\<lambda>sid.
       let verdict = check_input (ce_guard ce) message in
       if \<not> allowed verdict
       then let b = str_or (user_message verdict) BLOCKED_DEFAULT
            in hbind (mem_add now sid message b) (\<lambda>_. reply (b, new_deps sid uid))
       else attempt (turn_body ce now message (str_or (sanitized_input verdict) message) sid uid)
              (\<lambda>_. hbind (mem_add now sid message TURN_ERROR) (\<lambda>_.
                     reply (TURN_ERROR, new_deps sid uid))))"

section \<open>The gates\<close>

lemma cites_in_range_ABSTAIN [simp]: "cites_in_range ABSTAIN_MESSAGE n"
  by (simp add: cites_in_range_def)

text \<open>
  What passes the two gates cites retrieved chunks only; what may be cached was accepted by
  the validator and has a cacheable verdict, and cites when there was anything to cite.
\<close>

lemma answer_gate_cases:
  assumes "answer_gate ce text chunks = (t, rsn, g, cacheable)"
  shows "cites_in_range t (length chunks)"
    and "cacheable \<Longrightarrow> rsn = Ok \<and> (\<exists>st. g = Some st \<and> st \<in> set CACHEABLE_STATUSES)"
    and "cacheable \<Longrightarrow> chunks \<noteq> [] \<Longrightarrow> extract_citations t \<noteq> []"
    and "rsn \<noteq> Ok \<Longrightarrow> g = None \<and> \<not> cacheable"
    and "chunks \<noteq> [] \<Longrightarrow> is_substantive t \<Longrightarrow> extract_citations t \<noteq> [] \<or> looks_like_abstention t"
proof -
  obtain t0 where e: "enforce_citations text chunks = (t0, snd (validate_citations text (length chunks)))"
    and t0: "t0 = (if fst (validate_citations text (length chunks)) then text else ABSTAIN_MESSAGE)"
    by (cases rule: enforce_citations_cases [of "text" chunks]) auto
  let ?r = "snd (validate_citations text (length chunks))"
  have r0: "cites_in_range t0 (length chunks)" and ok: "?r = Ok \<Longrightarrow> t0 = text"
    "?r = Ok \<Longrightarrow> chunks \<noteq> [] \<Longrightarrow> extract_citations text \<noteq> []"
    "chunks \<noteq> [] \<Longrightarrow> is_substantive t0 \<Longrightarrow> extract_citations t0 \<noteq> [] \<or> looks_like_abstention t0"
    unfolding t0
    by (cases rule: validate_citations_cases [of "text" "length chunks"];
        simp add: cites_in_range_def)+
  show "cites_in_range t (length chunks)"
    and "cacheable \<Longrightarrow> rsn = Ok \<and> (\<exists>st. g = Some st \<and> st \<in> set CACHEABLE_STATUSES)"
    and "cacheable \<Longrightarrow> chunks \<noteq> [] \<Longrightarrow> extract_citations t \<noteq> []"
    and "rsn \<noteq> Ok \<Longrightarrow> g = None \<and> \<not> cacheable"
    and "chunks \<noteq> [] \<Longrightarrow> is_substantive t \<Longrightarrow> extract_citations t \<noteq> [] \<or> looks_like_abstention t"
    using assms r0 ok e
    by (cases rule: enforce_groundedness_cases [of "ce_ground ce" "sv_render (ce_sv ce)" "ce_judge ce" t0 chunks];
        auto simp: answer_gate_def Let_def CACHEABLE_STATUSES_def status_defs split: if_splits)+
qed

text \<open>What a reply of the agent path is, and when it may be cached.\<close>

definition gated :: "AgentDependencies \<Rightarrow> string \<Rightarrow> bool" where
  "gated d t \<longleftrightarrow> (chunks_of d \<noteq> [] \<longrightarrow> selected_retrieval_tool d = Some ''hybrid_search'')
     \<and> (selected_retrieval_tool d = Some ''hybrid_search'' \<longrightarrow>
          cites_in_range t (length (chunks_of d))
          \<and> (is_low_confidence (chunks_of d) \<longrightarrow> t = ABSTAIN_MESSAGE))"

definition verified :: "AgentDependencies \<Rightarrow> string \<Rightarrow> bool" where
  "verified d t \<longleftrightarrow> \<not> is_low_confidence (chunks_of d) \<and> extract_citations t \<noteq> []
     \<and> cites_in_range t (length (chunks_of d))"

lemma not_low_confidence: "\<not> is_low_confidence chunks \<Longrightarrow> chunks \<noteq> []"
  by (auto simp: is_low_confidence_def max_cosine_similarity_def CONFIDENCE_MIN_SIMILARITY_def)

lemma turn_gate_gated:
  assumes "turn_gate ce response d = (t, cacheable)"
    and "chunks_of d \<noteq> [] \<longrightarrow> selected_retrieval_tool d = Some ''hybrid_search''"
  shows "gated d t" and "cacheable \<Longrightarrow> verified d t"
proof -
  obtain t' r g c where a: "answer_gate ce response (chunks_of d) = (t', r, g, c)"
    by (metis prod_cases4)
  show "gated d t" and "cacheable \<Longrightarrow> verified d t"
    using assms answer_gate_cases [OF a] not_low_confidence
    by (auto simp: turn_gate_def a gated_def verified_def split: if_splits)
qed

lemma start_deps_ok:
  "deps_ok (start_deps sid uid) d \<Longrightarrow>
     chunks_of d \<noteq> [] \<longrightarrow> selected_retrieval_tool d = Some ''hybrid_search''"
  by (simp add: deps_ok_def start_deps_def chunks_of_def)

lemma run_chunks:
  "chunks_of (ar_deps (agent_run ce now prompt (start_deps sid uid) s)) \<noteq> [] \<longrightarrow>
     selected_retrieval_tool (ar_deps (agent_run ce now prompt (start_deps sid uid) s))
       = Some ''hybrid_search''"
  using agent_run_frame start_deps_ok by blast

end
