(* ===== verification/ChatMemory.thy ===== *)
theory ChatMemory
  imports Conversation
begin

text \<open>
  The session memory as a turn sees it: \<open>history_of\<close> is the history of a session whichever
  backend keeps it, \<open>mem_ready\<close> says the backend answers.  Writes of the caches do not reach
  the histories when no cache key is a session key (\<open>keys_ok\<close>); under that condition the
  steps of a turn other than the recording leave every history as it is.
\<close>

section \<open>The abstraction\<close>

definition mem_ready :: "rat \<Rightarrow> chat_state \<Rightarrow> bool" where
  "mem_ready now s \<longleftrightarrow> (let m = cs_mem s in
     mm_backend m = ''memory''
     \<or> (mm_checked m \<longrightarrow> mm_redis m) \<and> redis_ok (mm_ttl m) (mm_prefix m) now (cs_redis s))"

definition history_of :: "rat \<Rightarrow> chat_state \<Rightarrow> string \<Rightarrow> message list" where
  "history_of now s sid = (let m = cs_mem s in
     if mm_backend m = ''memory'' then mem_history (histories m) sid
     else redis_history (mm_prefix m) now (cs_redis s) sid)"

abbreviation window_of :: "chat_state \<Rightarrow> int" where
  "window_of s \<equiv> window_size (cs_mem s)"

text \<open>Cache keys and session keys are told apart by their prefixes.\<close>

definition apart :: "string \<Rightarrow> string \<Rightarrow> bool" where
  "apart p q \<longleftrightarrow> \<not> prefix p q \<and> \<not> prefix q p"

definition cache_key :: "chat_env \<Rightarrow> string \<Rightarrow> bool" where
  "cache_key ce k \<longleftrightarrow> prefix (qc_prefix (sv_qc (ce_sv ce))) k \<or> prefix (ac_prefix (ce_ac ce)) k"

definition keys_ok :: "chat_env \<Rightarrow> memory_manager \<Rightarrow> bool" where
  "keys_ok ce m \<longleftrightarrow> apart (qc_prefix (sv_qc (ce_sv ce))) (mm_prefix m)
     \<and> apart (ac_prefix (ce_ac ce)) (mm_prefix m)
     \<and> apart (qc_prefix (sv_qc (ce_sv ce))) (ac_prefix (ce_ac ce))"

lemma apart_prefix: "apart p q \<Longrightarrow> \<not> prefix p (q @ x)"
  unfolding apart_def by (metis prefixI prefix_same_cases)

lemma keys_ok_session: "keys_ok ce m \<Longrightarrow> \<not> cache_key ce (mm_prefix m @ x)"
  by (simp add: keys_ok_def cache_key_def apart_prefix)

section \<open>Frames\<close>

lemma redis_ok_frame:
  assumes "redis_ok ttl pfx now srv" and "redis_frame w srv srv'" and "\<And>x. \<not> w (pfx @ x)"
  shows "redis_ok ttl pfx now srv'" and "redis_history pfx now srv' sid = redis_history pfx now srv sid"
proof -
  have l: "live (srv_data srv') now (pfx @ x) = live (srv_data srv) now (pfx @ x)" for x
    using assms(2,3) by (simp add: redis_frame_def live_def)
  with assms show "redis_ok ttl pfx now srv'" by (simp add: redis_ok_def redis_frame_def)
  from assms have up: "srv_up srv" "srv_up srv'" by (simp_all add: redis_ok_def redis_frame_def)
  show "redis_history pfx now srv' sid = redis_history pfx now srv sid"
    by (simp add: redis_history_live [OF up(1)] redis_history_live [OF up(2)] l)
qed

text \<open>\<open>mem_same\<close>: the memory answers as before, with the same histories.\<close>

definition mem_same :: "chat_env \<Rightarrow> rat \<Rightarrow> chat_state \<Rightarrow> chat_state \<Rightarrow> bool" where
  "mem_same ce now s s' \<longleftrightarrow> mem_ready now s' \<and> (\<forall>sid. history_of now s' sid = history_of now s sid)
     \<and> window_of s' = window_of s \<and> keys_ok ce (cs_mem s')"

lemma mem_same_trans:
  "mem_same ce now a b \<Longrightarrow> mem_same ce now b c \<Longrightarrow> mem_same ce now a c"
  by (simp add: mem_same_def)

lemma mem_same_refl: "mem_ready now s \<Longrightarrow> keys_ok ce (cs_mem s) \<Longrightarrow> mem_same ce now s s"
  by (simp add: mem_same_def)

lemma mem_same_frame:
  assumes "mem_ready now s" and "keys_ok ce (cs_mem s)"
    and "redis_frame (cache_key ce) (cs_redis s) (cs_redis s')" and "cs_mem s' = cs_mem s"
  shows "mem_same ce now s s'"
  using assms redis_ok_frame [OF _ assms(3) keys_ok_session [OF assms(2)]]
  by (auto simp: mem_same_def mem_ready_def history_of_def Let_def)

lemma mem_same_run:
  assumes "run_frame ce s s'" and "mem_ready now s" and "keys_ok ce (cs_mem s)"
  shows "mem_same ce now s s'"
proof (rule mem_same_frame [OF assms(2,3)])
  show "redis_frame (cache_key ce) (cs_redis s) (cs_redis s')"
    using assms(1) by (auto simp: run_frame_def cache_key_def elim: redis_frame_mono)
qed (use assms(1) in \<open>simp add: run_frame_def\<close>)

lemma mem_history_get: "mem_history (snd (get_history sid hs)) x = mem_history hs x"
  by (simp add: mem_history_alt get_history_def split: option.splits)

lemma redis_ok_up: "redis_ok ttl pfx now srv \<Longrightarrow> srv_up srv"
  by (simp add: redis_ok_def)

text \<open>Asking for the client changes nothing that matters.\<close>

lemma mem_client_ready:
  assumes "mem_ready now s" and "mm_client (cs_redis s) (cs_mem s) = (c, m)"
  shows "c = (mm_backend (cs_mem s) \<noteq> ''memory'')" and "mem_ready now (s\<lparr>cs_mem := m\<rparr>)"
    and "window_size m = window_of s" and "mm_ttl m = mm_ttl (cs_mem s)"
    and "mm_prefix m = mm_prefix (cs_mem s)" and "mm_backend m = mm_backend (cs_mem s)"
    and "histories m = histories (cs_mem s)" and "c \<Longrightarrow> mm_checked m \<and> mm_redis m"
  using assms redis_ok_up by (auto simp: mem_ready_def mm_client_def Let_def split: if_splits)

lemma mem_open_same:
  assumes "mem_ready now s" and "keys_ok ce (cs_mem s)"
  shows "\<exists>sid' s'. mem_open ce sid s = (Inr sid', s') \<and> sid' = str_or sid (ce_uuid ce (cs_next s))
     \<and> mem_same ce now s s' \<and> cs_redis s' = cs_redis s \<and> others_same s s' \<and> cs_settings s' = cs_settings s"
proof -
  obtain c m where c: "mm_client (cs_redis s) (cs_mem s) = (c, m)" by (metis prod.exhaust)
  note mc = mem_client_ready [OF assms(1) c]
  show ?thesis
    using mc assms(2)
    by (auto simp: mem_open_def get_or_create_def create_session_def c Let_def mem_same_def mem_ready_def
        history_of_def keys_ok_def others_same_def mem_history_get)
qed

lemma mem_context_same:
  assumes "mem_ready now s" and "keys_ok ce (cs_mem s)"
  shows "\<exists>s'. mem_context now sid s = (Inr (context_string (history_of now s sid)), s')
     \<and> mem_same ce now s s' \<and> cs_redis s' = cs_redis s \<and> others_same s s'
     \<and> cs_settings s' = cs_settings s \<and> cs_next s' = cs_next s"
proof -
  obtain c m where c: "mm_client (cs_redis s) (cs_mem s) = (c, m)" by (metis prod.exhaust)
  note mc = mem_client_ready [OF assms(1) c]
  obtain h hs where h: "get_history sid (histories m) = (h, hs)" by (metis prod.exhaust)
  then have hh: "h = mem_history (histories m) sid" and hs: "\<And>x. mem_history hs x = mem_history (histories m) x"
    using mem_history_get [of sid "histories m"] by (simp_all add: mem_history_def)
  show ?thesis
  proof (cases "mm_backend (cs_mem s) = ''memory''")
    case True
    with mc c h show ?thesis
      using assms(2)
      by (simp add: mem_context_def get_context_string_def get_messages_def mem_same_def mem_ready_def
          history_of_def others_same_def keys_ok_def Let_def hh hs)
  next
    case False
    with assms(1) mc have ok: "redis_ok (mm_ttl m) (mm_prefix m) now (cs_redis s)"
      by (simp add: mem_ready_def Let_def)
    from False mc have "mm_backend m \<noteq> ''memory''" "mm_checked m" "mm_redis m" by auto
    from get_messages_redis [OF this ok, of sid]
    have "get_messages (cs_redis s) now sid (cs_mem s) = Inr (redis_history (mm_prefix m) now (cs_redis s) sid, m)"
      using c False mc by (simp add: get_messages_def mm_client_def)
    with False mc assms(2) ok show ?thesis
      by (simp add: mem_context_def get_context_string_def mem_same_def mem_ready_def
          history_of_def others_same_def keys_ok_def Let_def)
  qed
qed

text \<open>Recording a turn succeeds and appends it to the history of its session, trimmed.\<close>

lemma mem_add_done:
  assumes "mem_ready now s"
  shows "\<exists>s'. mem_add now sid q a s = (Inr (), s')
     \<and> history_of now s' = (history_of now s)(sid :=
         trim_messages (window_of s) (history_of now s sid @ [HumanMessage q, AIMessage a]))
     \<and> mem_ready now s' \<and> window_of s' = window_of s \<and> others_same s s'
     \<and> (keys_ok ce (cs_mem s) \<longrightarrow> keys_ok ce (cs_mem s'))"
proof -
  obtain c m where c: "mm_client (cs_redis s) (cs_mem s) = (c, m)" by (metis prod.exhaust)
  note mc = mem_client_ready [OF assms(1) c]
  show ?thesis
  proof (cases "mm_backend (cs_mem s) = ''memory''")
    case True
    with mc c show ?thesis
      by (simp add: mem_add_def add_turn_def history_of_def mem_ready_def others_same_def keys_ok_def
          Let_def fun_eq_iff mem_history_alt mem_turn_map)
  next
    case False
    with assms(1) mc have ok: "redis_ok (mm_ttl m) (mm_prefix m) now (cs_redis s)"
      by (simp add: mem_ready_def Let_def)
    let ?srv = "redis_turn (window_size m) (mm_ttl m) (mm_prefix m) now (cs_redis s) sid q a"
    have "add_turn (cs_redis s) now sid q a (cs_mem s) = Inr (?srv, m)"
      using False mc c add_turn_redis_eq [OF ok, of "window_size m" sid q a]
      by (simp add: add_turn_def mm_key_def redis_turn_def)
    with False mc ok show ?thesis
      by (auto simp: mem_add_def history_of_def mem_ready_def others_same_def keys_ok_def
          Let_def fun_eq_iff redis_turn_history redis_turn_ok)
  qed
qed

end
