(* ===== verification/ConversationProps.thy ===== *)
theory ConversationProps
  imports ChatMemory
begin

text \<open>
  What a turn of \<open>run_agent_turn\<close> guarantees: it always replies, it records exactly one turn,
  its reply is of one of four kinds, and only verified answers are memoised.  All rest on
  \<open>turn_shape\<close>, which follows the turn once.
\<close>

section \<open>The shape of a turn\<close>

definition kept_retrieval :: "chat_env \<Rightarrow> redis_server \<Rightarrow> redis_server \<Rightarrow> bool" where
  "kept_retrieval ce = redis_frame (prefix (qc_prefix (sv_qc (ce_sv ce))))"

definition answer_set ::
  "chat_env \<Rightarrow> rat \<Rightarrow> string \<Rightarrow> string option \<Rightarrow> string \<Rightarrow> meta list \<Rightarrow> redis_server \<Rightarrow> redis_server" where
  "answer_set ce now q uid a tools srv = ac_set (ce_ac ce) (sv_qc (ce_sv ce)) (sv_sha (ce_sv ce))
     (sv_client (ce_sv ce)) srv now q uid a (Some tools)"

text \<open>The four kinds of reply, with what the Redis server \<open>srv\<close> has become before the recording.\<close>

datatype kind = Blocked | Cached | Failed | Answered

fun of_kind ::
  "chat_env \<Rightarrow> rat \<Rightarrow> string \<Rightarrow> string \<Rightarrow> string option \<Rightarrow> redis_server \<Rightarrow> redis_server
   \<Rightarrow> string \<Rightarrow> AgentDependencies \<Rightarrow> kind \<Rightarrow> bool" where
  "of_kind ce now msg sid uid srv srv' r d Blocked \<longleftrightarrow> \<not> allowed (check_input (ce_guard ce) msg)
     \<and> r = str_or (user_message (check_input (ce_guard ce) msg)) BLOCKED_DEFAULT
     \<and> d = new_deps sid uid \<and> srv' = srv"
| "of_kind ce now msg sid uid srv srv' r d Cached \<longleftrightarrow> allowed (check_input (ce_guard ce) msg)
     \<and> d = start_deps sid uid \<and> srv' = srv
     \<and> (\<exists>q j. ac_get (ce_ac ce) (sv_qc (ce_sv ce)) (sv_sha (ce_sv ce)) (sv_client (ce_sv ce)) srv now q uid
              = Some j \<and> payload_answer j = Inr r)"
| "of_kind ce now msg sid uid srv srv' r d Failed \<longleftrightarrow> allowed (check_input (ce_guard ce) msg)
     \<and> r = TURN_ERROR \<and> d = new_deps sid uid \<and> kept_retrieval ce srv srv'"
| "of_kind ce now msg sid uid srv srv' r d Answered \<longleftrightarrow> allowed (check_input (ce_guard ce) msg)
     \<and> (\<exists>t q srv0. gated d t \<and> r = guard_output ce t \<and> kept_retrieval ce srv srv0
          \<and> (srv' = srv0 \<or> verified d t \<and> srv' = answer_set ce now q uid r [] srv0))
     \<and> dep_session_id d = sid \<and> dep_user_id d = uid"

lemma redis_frame_answer: "redis_frame (cache_key ce) srv (answer_set ce now q uid a ts srv)"
  by (auto simp: answer_set_def ac_set_def cache_key_def intro: redis_frame_store)

lemma kept_retrieval_refl [simp]: "kept_retrieval ce srv srv"
  by (simp add: kept_retrieval_def)

lemma pure_simps [simp]: "pure (Inl e) s = (Inl e, s)" "pure (Inr x) s = (Inr x, s)"
  by (simp_all add: pure_def)

lemma mem_same_answer:
  assumes "mem_same ce now s s1" and "cs_redis s2 = answer_set ce now q uid a ts (cs_redis s1)"
    and "cs_mem s2 = cs_mem s1"
  shows "mem_same ce now s s2"
proof -
  have "mem_same ce now s1 s2"
    by (rule mem_same_frame) (use assms redis_frame_answer in \<open>simp_all add: mem_same_def\<close>)
  with assms(1) show ?thesis by (rule mem_same_trans)
qed

text \<open>From where the memory and the stores are as before the turn, an agent answer is recorded
  once; a failure leaves the recording to the handler.\<close>

lemma turn_answer_shape:
  assumes "mem_ready now s" and "keys_ok ce (cs_mem s)"
  shows "(\<exists>r d s3 s'. turn_answer ce now msg history sid uid q s = (Inr (r, d), s')
        \<and> mem_add now sid msg r s3 = (Inr (), s') \<and> mem_same ce now s s3 \<and> others_same s s3
        \<and> (\<exists>t srv0. gated d t \<and> r = guard_output ce t \<and> kept_retrieval ce (cs_redis s) srv0
             \<and> (cs_redis s3 = srv0 \<or> verified d t \<and> cs_redis s3 = answer_set ce now q uid r [] srv0))
        \<and> dep_session_id d = sid \<and> dep_user_id d = uid)
    \<or> (\<exists>e s3. turn_answer ce now msg history sid uid q s = (Inl e, s3)
        \<and> mem_same ce now s s3 \<and> others_same s s3 \<and> kept_retrieval ce (cs_redis s) (cs_redis s3))"
proof -
  let ?p = "full_prompt history q" let ?run = "agent_run ce now ?p (start_deps sid uid) s"
  let ?s = "ar_state ?run" let ?d = "ar_deps ?run"
  have step: "agent_step ce now ?p (start_deps sid uid) s = (Inr ?run, ?s)"
    by (simp add: agent_step_def Let_def)
  have f: "run_frame ce s ?s" and d: "deps_ok (start_deps sid uid) ?d" using agent_run_frame by blast+
  have same: "mem_same ce now s ?s" by (rule mem_same_run [OF f assms])
  have kr: "kept_retrieval ce (cs_redis s) (cs_redis ?s)" and os: "others_same s ?s"
    using f by (simp_all add: run_frame_def kept_retrieval_def)
  show ?thesis
  proof (cases "ar_result ?run")
    case (Inl e)
    with step have "turn_answer ce now msg history sid uid q s = (Inl e, ?s)"
      by (simp add: turn_answer_def)
    with same os kr show ?thesis by blast
  next
    case (Inr p)
    then obtain response ms where res: "ar_result ?run = Inr (response, ms)" by (cases p) auto
    obtain t c where g: "turn_gate ce response ?d = (t, c)" by (metis prod.exhaust)
    note gate = turn_gate_gated [OF g run_chunks]
    let ?r = "guard_output ce t"
    let ?s3 = "if c then ?s\<lparr>cs_redis := answer_set ce now q uid ?r [] (cs_redis ?s)\<rparr> else ?s"
    have s3: "(if c then store_answer ce now q uid ?r [] else reply ()) ?s = (Inr (), ?s3)"
      by (simp add: store_answer_def answer_set_def)
    have same3: "mem_same ce now s ?s3"
      using same mem_same_answer [OF same, of ?s3] by (cases c) simp_all
    then obtain s' where add: "mem_add now sid msg ?r ?s3 = (Inr (), s')"
      using mem_add_done unfolding mem_same_def by blast
    have "turn_answer ce now msg history sid uid q s = (Inr (?r, ?d), s')"
      using step res g s3 add by (simp add: turn_answer_def Let_def split: if_splits)
    moreover have "others_same s ?s3" using os by (simp add: others_same_def)
    moreover have "cs_redis ?s3 = cs_redis ?s
        \<or> verified ?d t \<and> cs_redis ?s3 = answer_set ce now q uid ?r [] (cs_redis ?s)"
      using gate(2) by simp
    moreover have "dep_session_id ?d = sid \<and> dep_user_id ?d = uid"
      using d by (simp add: deps_ok_def start_deps_def new_deps_def)
    ultimately show ?thesis using add same3 gate(1) kr by blast
  qed
qed

lemma turn_shape:
  fixes ce msg uid sid0
  assumes "mem_ready now s" and "keys_ok ce (cs_mem s)"
  defines "sid \<equiv> str_or (Some sid0) (ce_uuid ce (cs_next s))"
  shows "\<exists>r d k s3 s'. run_agent_turn ce now msg sid0 uid s = (Inr (r, d), s')
     \<and> mem_add now sid msg r s3 = (Inr (), s') \<and> mem_same ce now s s3 \<and> others_same s s3
     \<and> of_kind ce now msg sid uid (cs_redis s) (cs_redis s3) r d k"
proof -
  let ?v = "check_input (ce_guard ce) msg"
  let ?safe = "str_or (sanitized_input ?v) msg"
  obtain s1 where s1: "mem_open ce (Some sid0) s = (Inr sid, s1)" "mem_same ce now s s1"
    "cs_redis s1 = cs_redis s" "others_same s s1"
    using mem_open_same [OF assms(1,2), of "Some sid0"] unfolding sid_def by blast
  have add: "\<exists>s'. mem_add now sid msg r z = (Inr (), s')" if "mem_same ce now s z" for r z
    using that mem_add_done unfolding mem_same_def by blast
  show ?thesis
  proof (cases "allowed ?v")
    case False
    let ?r = "str_or (user_message ?v) BLOCKED_DEFAULT"
    obtain s' where "mem_add now sid msg ?r s1 = (Inr (), s')" using add s1(2) by blast
    moreover from this have "run_agent_turn ce now msg sid0 uid s = (Inr (?r, new_deps sid uid), s')"
      using s1(1) False by (simp add: run_agent_turn_def Let_def)
    ultimately show ?thesis using s1 False by (metis of_kind.simps(1))
  next
    case True
    have run: "run_agent_turn ce now msg sid0 uid s = attempt (turn_body ce now msg ?safe sid uid)
        (\<lambda>_. hbind (mem_add now sid msg TURN_ERROR) (\<lambda>_. reply (TURN_ERROR, new_deps sid uid))) s1"
      using s1(1) True by (simp add: run_agent_turn_def Let_def)
    obtain h s2 where h: "mem_context now sid s1 = (Inr h, s2)" and s2: "mem_same ce now s1 s2"
      "cs_redis s2 = cs_redis s1" "others_same s1 s2"
      using mem_context_same s1(2) unfolding mem_same_def [of _ _ s s1] by blast
    have same: "mem_same ce now s s2" using s1(2) s2(1) by (rule mem_same_trans)
    have os: "others_same s s2" using s1(4) s2(3) by (simp add: others_same_def)
    have red: "cs_redis s2 = cs_redis s" using s1(3) s2(2) by simp
    let ?q = "condense (ce_rewrite ce) (ce_condense ce) h ?safe"
    let ?c = "ac_get (ce_ac ce) (sv_qc (ce_sv ce)) (sv_sha (ce_sv ce)) (sv_client (ce_sv ce)) (cs_redis s) now ?q uid"
    have look: "cached_answer ce now ?q uid s2 = (Inr ?c, s2)"
      by (simp add: cached_answer_def red)
    have failed: ?thesis if f: "turn_body ce now msg ?safe sid uid s1 = (Inl e, s3)"
      "mem_same ce now s s3" "others_same s s3" "kept_retrieval ce (cs_redis s) (cs_redis s3)" for e s3
    proof -
      obtain s' where "mem_add now sid msg TURN_ERROR s3 = (Inr (), s')" using add f(2) by blast
      moreover from this have "run_agent_turn ce now msg sid0 uid s = (Inr (TURN_ERROR, new_deps sid uid), s')"
        using run f(1) by simp
      ultimately show ?thesis using f True by (metis of_kind.simps(3))
    qed
    show ?thesis
    proof (cases "case ?c of None \<Rightarrow> False | Some j \<Rightarrow> json_truthy j")
      case hit: True
      then obtain j where j: "?c = Some j" by (cases ?c) simp_all
      have body: "turn_body ce now msg ?safe sid uid s1 = hbind (pure (payload_answer j)) (\<lambda>a.
          hbind (mem_add now sid msg a) (\<lambda>_. reply (a, start_deps sid uid))) s2"
        using h look hit j by (simp add: turn_body_def Let_def)
      show ?thesis
      proof (cases "payload_answer j")
        case (Inl e)
        with body have "turn_body ce now msg ?safe sid uid s1 = (Inl e, s2)" by simp
        then show ?thesis using failed same os red by simp
      next
        case (Inr a)
        obtain s' where a: "mem_add now sid msg a s2 = (Inr (), s')" using add same by blast
        with body Inr run have "run_agent_turn ce now msg sid0 uid s = (Inr (a, start_deps sid uid), s')"
          by simp
        moreover have "of_kind ce now msg sid uid (cs_redis s) (cs_redis s2) a (start_deps sid uid) Cached"
          using True red j Inr by auto
        ultimately show ?thesis using a same os by blast
      qed
    next
      case miss: False
      have body: "turn_body ce now msg ?safe sid uid s1 = turn_answer ce now msg h sid uid ?q s2"
        using h look miss by (simp add: turn_body_def Let_def)
      from same have "mem_ready now s2" "keys_ok ce (cs_mem s2)" by (simp_all add: mem_same_def)
      from turn_answer_shape [OF this, of msg h sid uid ?q] consider
        (answered) r d s3 s' t srv0 where "turn_answer ce now msg h sid uid ?q s2 = (Inr (r, d), s')"
          "mem_add now sid msg r s3 = (Inr (), s')" "mem_same ce now s2 s3" "others_same s2 s3"
          "gated d t" "r = guard_output ce t" "kept_retrieval ce (cs_redis s2) srv0"
          "cs_redis s3 = srv0 \<or> verified d t \<and> cs_redis s3 = answer_set ce now ?q uid r [] srv0"
          "dep_session_id d = sid" "dep_user_id d = uid"
      | (stopped) e s3 where "turn_answer ce now msg h sid uid ?q s2 = (Inl e, s3)" "mem_same ce now s2 s3"
          "others_same s2 s3" "kept_retrieval ce (cs_redis s2) (cs_redis s3)"
        by metis
      then show ?thesis
      proof cases
        case a: (answered r d s3 s' t srv0)
        then have "of_kind ce now msg sid uid (cs_redis s) (cs_redis s3) r d Answered"
          using True unfolding red of_kind.simps by blast
        moreover have "run_agent_turn ce now msg sid0 uid s = (Inr (r, d), s')" using run body a(1) by simp
        moreover have "mem_same ce now s s3" using same a(3) by (rule mem_same_trans)
        moreover have "others_same s s3" using os a(4) by (simp add: others_same_def)
        ultimately show ?thesis using a(2) by blast
      next
        case a: (stopped e s3)
        moreover have "mem_same ce now s s3" using same a(2) by (rule mem_same_trans)
        moreover have "others_same s s3" using os a(3) by (simp add: others_same_def)
        moreover have "turn_body ce now msg ?safe sid uid s1 = (Inl e, s3)" using body a(1) by simp
        ultimately show ?thesis using failed red by simp
      qed
    qed
  qed
qed

lemma turn_shape_result:
  assumes "mem_ready now s" and "keys_ok ce (cs_mem s)"
    and "run_agent_turn ce now msg sid0 uid s = (Inr (r, d), s')"
  obtains k s3 where "mem_add now (str_or (Some sid0) (ce_uuid ce (cs_next s))) msg r s3 = (Inr (), s')"
    "mem_same ce now s s3" "others_same s s3"
    "of_kind ce now msg (str_or (Some sid0) (ce_uuid ce (cs_next s))) uid (cs_redis s) (cs_redis s3) r d k"
proof -
  from turn_shape [OF assms(1,2), of msg sid0 uid] obtain r' d' k s3 s'' where
    t: "run_agent_turn ce now msg sid0 uid s = (Inr (r', d'), s'')"
    "mem_add now (str_or (Some sid0) (ce_uuid ce (cs_next s))) msg r' s3 = (Inr (), s'')"
    "mem_same ce now s s3" "others_same s s3"
    "of_kind ce now msg (str_or (Some sid0) (ce_uuid ce (cs_next s))) uid (cs_redis s) (cs_redis s3) r' d' k"
    by blast
  from t(1) assms(3) have "r' = r" "d' = d" "s'' = s'" by simp_all
  with t(2-5) show thesis by (intro that) simp_all
qed

section \<open>The answer cache after a turn\<close>

lemma mem_add_keys:
  assumes "mem_add now sid q a s = (Inr (), s')" and "\<not> prefix (mm_prefix (cs_mem s)) k"
  shows "srv_data (cs_redis s') k = srv_data (cs_redis s) k"
proof -
  have "k \<noteq> mm_prefix (cs_mem s) @ sid" using assms(2) by auto
  with assms(1) show ?thesis
    by (auto simp: mem_add_def add_turn_def add_turn_redis_def mm_client_def mm_key_def Let_def
        split: if_splits sum.splits option.splits rval.splits)
qed

lemma answer_set_key:
  "srv_data (answer_set ce now q uid a ts srv) k \<noteq> srv_data srv k \<Longrightarrow>
     \<exists>e. srv_data (answer_set ce now q uid a ts srv) k = Some (RJson (ac_payload a (Some ts)), e)"
  by (auto simp: answer_set_def ac_set_def cache_store_def rsetex_def split: if_splits)

lemma apart_both: "apart p q \<Longrightarrow> prefix p k \<Longrightarrow> \<not> prefix q k"
  unfolding apart_def by (metis prefix_same_cases)

lemma mem_same_prefix:
  "mem_same ce now s s' \<Longrightarrow> prefix (ac_prefix (ce_ac ce)) k \<Longrightarrow> \<not> prefix (mm_prefix (cs_mem s')) k"
  by (auto simp: mem_same_def keys_ok_def dest: apart_both)

section \<open>A concrete turn\<close>

definition demo_env :: chat_env where
  "demo_env = \<lparr>ce_sv = demo_services (Inr (Some [demo_row])), ce_ac = default_ac_config,
     ce_guard = default_guard_config\<lparr>GUARDRAILS_ENABLED := False\<rparr>, ce_rewrite = default_rewrite_config,
     ce_ground = default_ground_config, ce_condense = (\<lambda>_ _. Inl TypeError), ce_urdu = (\<lambda>_. Inl TypeError),
     ce_scope = (\<lambda>_ _. Inl TypeError), ce_judge = (\<lambda>_ _ _. Inl TypeError),
     ce_model = (\<lambda>_ _ outs. if outs = [] then CallTools [] [(\<lparr>cp_name = ''search_documents'',
         cp_args = ArgsOther, cp_id = None\<rparr>, SearchDocuments ''fees'' 5)]
       else Answer [''The fee is '', ''100 [1].'']),
     ce_limit = 50, ce_ids = (\<lambda>n. replicate n CHR ''m''), ce_uuid = (\<lambda>_. ''s''), ce_what = (\<lambda>_. ''error''),
     ce_stamp = ''2025''\<rparr>"

definition demo_chat :: chat_state where
  "demo_chat = \<lparr>cs_redis = empty_server, cs_mem = new_manager 10 60 ''uchenab:session:'' ''memory'',
     cs_pg = empty_pg, cs_settings = \<lparr>cfg_cache = None, cfg_cache_at = 0\<rparr>,
     cs_sdb = \<lparr>db_client = False, db_fails = False, db_row = None\<rparr>, cs_tasks = [], cs_broker = True,
     cs_events = [], cs_next = 0\<rparr>"

lemma demo_memory: "mm_backend (cs_mem demo_chat) = ''memory''" "histories (cs_mem demo_chat) = []"
  "window_of demo_chat = 10"
proof -
  have "py_lower ''memory'' = ''memory''" by code_simp
  then show "mm_backend (cs_mem demo_chat) = ''memory''" "histories (cs_mem demo_chat) = []"
    "window_of demo_chat = 10" by (simp_all add: demo_chat_def new_manager_def)
qed

lemma demo_ready: "mem_ready 0 demo_chat" "keys_ok demo_env (cs_mem demo_chat)"
  "history_of 0 demo_chat sid = []"
proof -
  show "mem_ready 0 demo_chat" "history_of 0 demo_chat sid = []"
    using demo_memory by (simp_all add: mem_ready_def history_of_def Let_def mem_history_alt)
  show "keys_ok demo_env (cs_mem demo_chat)"
    by (simp add: keys_ok_def apart_def demo_env_def demo_services_def default_qc_config_def
        default_ac_config_def demo_chat_def new_manager_def)
qed

lemma demo_confident: "\<not> is_low_confidence [demo_chunk]"
  by (simp add: is_low_confidence_iff demo_chunk_def CONFIDENCE_MIN_SIMILARITY_def)

lemma demo_cites: "extract_citations ''The fee is 100 [1].'' = [1]" "word_count ''The fee is 100 [1].'' = 5"
  by code_simp+

lemma demo_agent:
  assumes "cs_redis s = empty_server"
  shows "\<exists>d ms. ar_result (agent_run demo_env 0 p (start_deps ''s'' None) s) = Inr (''The fee is 100 [1].'', ms)
     \<and> ar_deps (agent_run demo_env 0 p (start_deps ''s'' None) s) = d \<and> chunks_of d = [demo_chunk]
     \<and> selected_retrieval_tool d = Some ''hybrid_search''"
proof -
  obtain sys st where g: "get_system_prompt (cs_sdb s) 0 (cs_settings s) = (sys, st)" by (metis prod.exhaust)
  have "ce_limit demo_env = Suc (Suc 48)" by (simp add: demo_env_def)
  then obtain n where lim: "ce_limit demo_env = Suc (Suc n)" by blast
  have u: "dep_user_id (start_deps ''s'' None) = None" by (simp add: start_deps_def new_deps_def)
  have m: "ce_model demo_env x y [] = CallTools [] [(\<lparr>cp_name = ''search_documents'',
         cp_args = ArgsOther, cp_id = None\<rparr>, SearchDocuments ''fees'' 5)]"
    "ce_model demo_env x y (z # zs) = Answer [''The fee is '', ''100 [1].'']"
    "ce_sv demo_env = demo_services (Inr (Some [demo_row]))" for x y z zs
    by (simp_all add: demo_env_def)
  show ?thesis
    using assms demo_search(1)
    by (simp add: agent_run_def g lim m run_call_def search_documents_def u Let_def)
      (simp add: start_deps_def new_deps_def chunks_of_def)
qed

lemma demo_gate:
  "chunks_of d = [demo_chunk] \<Longrightarrow> selected_retrieval_tool d = Some ''hybrid_search'' \<Longrightarrow>
     turn_gate demo_env ''The fee is 100 [1].'' d = (''The fee is 100 [1].'', True)"
  by (simp add: turn_gate_def demo_confident answer_gate_def enforce_citations_def validate_citations_def
      demo_cites Let_def demo_env_def enforce_groundedness_def assess_skipped ground_substantive_def
      default_ground_config_def verdict0_def CACHEABLE_STATUSES_def status_defs)

text \<open>The turn of the demonstration: answered, with the answer of the model.\<close>

lemma demo_turn:
  "\<exists>d s'. run_agent_turn demo_env 0 ''fees'' ''s'' None demo_chat = (Inr (''The fee is 100 [1].'', d), s')
     \<and> chunks_of d = [demo_chunk]
     \<and> (\<exists>k. prefix (ac_prefix (ce_ac demo_env)) k \<and> srv_data (cs_redis s') k \<noteq> srv_data (cs_redis demo_chat) k)"
proof -
  obtain s1 where s1: "mem_open demo_env (Some ''s'') demo_chat = (Inr ''s'', s1)"
    "mem_same demo_env 0 demo_chat s1" "cs_redis s1 = empty_server"
    using mem_open_same [OF demo_ready(1,2), of "Some ''s''"] by (auto simp: str_or_def demo_chat_def)
  then obtain s2 where s2: "mem_context 0 ''s'' s1 = (Inr [], s2)" "mem_same demo_env 0 s1 s2"
    "cs_redis s2 = empty_server"
    using mem_context_same [of 0 s1 demo_env "''s''"] demo_ready(3) [of "''s''"]
    by (auto simp: mem_same_def context_string_def)
  have q: "condense c l [] ''fees'' = ''fees''" for c l
    unfolding condense_no_history by code_simp
  have look: "cached_answer demo_env 0 ''fees'' None s2 = (Inr None, s2)"
    by (simp add: cached_answer_def ac_get_def cache_fetch_def rget_def live_def s2(3) empty_server_def)
  have ok: "allowed (check_input (ce_guard demo_env) ''fees'')"
    "sanitized_input (check_input (ce_guard demo_env) ''fees'') = Some ''fees''"
    "guard_output demo_env t = t" for t
    by (simp_all add: demo_env_def check_input_def accepted_def guard_output_def apply_output_guardrails_def)
  obtain d ms where run: "ar_result (agent_run demo_env 0 ''fees'' (start_deps ''s'' None) s2)
      = Inr (''The fee is 100 [1].'', ms)"
    "ar_deps (agent_run demo_env 0 ''fees'' (start_deps ''s'' None) s2) = d" "chunks_of d = [demo_chunk]"
    "selected_retrieval_tool d = Some ''hybrid_search''"
    using demo_agent [OF s2(3)] by blast
  let ?s = "ar_state (agent_run demo_env 0 ''fees'' (start_deps ''s'' None) s2)"
  let ?a = "''The fee is 100 [1].''"
  let ?s3 = "?s\<lparr>cs_redis := answer_set demo_env 0 ''fees'' None ?a [] (cs_redis ?s)\<rparr>"
  have "run_frame demo_env s2 ?s" using agent_run_frame by blast
  moreover have "mem_ready 0 s2" "keys_ok demo_env (cs_mem s2)" using s2(2) by (simp_all add: mem_same_def)
  ultimately have "mem_same demo_env 0 s2 ?s" by (rule mem_same_run)
  then have same: "mem_same demo_env 0 s2 ?s3" by (rule mem_same_answer) simp_all
  from \<open>run_frame demo_env s2 ?s\<close> have up: "srv_up (cs_redis ?s)"
    by (simp add: run_frame_def redis_frame_def s2(3) empty_server_def)
  have strip: "py_strip ''fees'' = ''fees''" by code_simp
  obtain k where k: "prefix (ac_prefix (ce_ac demo_env)) k" "srv_data (cs_redis ?s3) k \<noteq> None"
  proof
    let ?k = "ac_prefix (ce_ac demo_env) @ ac_raw (qc_version (sv_qc (ce_sv demo_env)) True (cs_redis ?s) 0)
      (None, ''fees'')"
    show "prefix (ac_prefix (ce_ac demo_env)) ?k" by simp
    show "srv_data (cs_redis ?s3) ?k \<noteq> None"
      using up by (simp add: answer_set_def ac_set_def strip demo_env_def demo_services_def default_ac_config_def
          cache_store_def rsetex_def)
  qed
  from same obtain s' where add: "mem_add 0 ''s'' ''fees'' ?a ?s3 = (Inr (), s')"
    using mem_add_done unfolding mem_same_def by blast
  have st: "store_answer demo_env 0 ''fees'' None ?a [] ?s = (Inr (), ?s3)"
    by (simp add: store_answer_def answer_set_def)
  have "turn_answer demo_env 0 ''fees'' [] ''s'' None ''fees'' s2 = (Inr (?a, d), s')"
    using run add st by (simp add: turn_answer_def agent_step_def full_prompt_def demo_gate ok Let_def)
  then have "turn_body demo_env 0 ''fees'' ''fees'' ''s'' None s1 = (Inr (?a, d), s')"
    using s2(1) look by (simp add: turn_body_def q Let_def)
  then have "run_agent_turn demo_env 0 ''fees'' ''s'' None demo_chat = (Inr (?a, d), s')"
    using s1(1) ok by (simp add: run_agent_turn_def Let_def str_or_def)
  moreover have "srv_data (cs_redis s') k \<noteq> srv_data (cs_redis demo_chat) k"
    using k mem_add_keys [OF add mem_same_prefix [OF same k(1)]] by (simp add: demo_chat_def empty_server_def)
  ultimately show ?thesis using run(3) k(1) by blast
qed

section \<open>Properties\<close>

text \<open>Every turn replies and is recorded once.  With a working session memory a turn ends
  with a reply, whatever the model, the search services, the caches and the database do; the
  question and that reply are appended to the history of the turn's session, cut to the
  window, and no other session's history changes.\<close>

theorem turn_recorded:
  assumes "mem_ready now s" and "keys_ok ce (cs_mem s)"
  shows "\<exists>r d s'. run_agent_turn ce now msg sid0 uid s = (Inr (r, d), s')
     \<and> history_of now s' = (history_of now s)(dep_session_id d :=
         trim_messages (window_of s) (history_of now s (dep_session_id d) @ [HumanMessage msg, AIMessage r]))
     \<and> dep_session_id d = str_or (Some sid0) (ce_uuid ce (cs_next s)) \<and> mem_ready now s'"
proof -
  let ?sid = "str_or (Some sid0) (ce_uuid ce (cs_next s))"
  obtain r d k s3 s' where t: "run_agent_turn ce now msg sid0 uid s = (Inr (r, d), s')"
    "mem_add now ?sid msg r s3 = (Inr (), s')" "mem_same ce now s s3"
    "of_kind ce now msg ?sid uid (cs_redis s) (cs_redis s3) r d k"
    using turn_shape [OF assms, of msg sid0 uid] by blast
  from t(4) have "dep_session_id d = ?sid" by (cases k) (auto simp: start_deps_def new_deps_def)
  moreover from t(3) have "history_of now s3 = history_of now s" "window_of s3 = window_of s" "mem_ready now s3"
    by (auto simp: mem_same_def)
  ultimately show ?thesis using t(1,2) mem_add_done [of now s3 ?sid msg r] by auto
qed

theorem turn_recorded_witness:
  "\<exists>r d s'. run_agent_turn demo_env 0 ''fees'' ''s'' None demo_chat = (Inr (r, d), s')
     \<and> history_of 0 s' ''s'' = [HumanMessage ''fees'', AIMessage r] \<and> history_of 0 s' ''t'' = []"
proof -
  have tr: "trim_messages 10 [HumanMessage ''fees'', AIMessage r] = [HumanMessage ''fees'', AIMessage r]" for r
    by (simp add: trim_window)
  show ?thesis
    using turn_recorded [OF demo_ready(1,2), of "''fees''" "''s''" None] demo_ready(3) demo_memory(3)
    by (force simp: str_or_def tr)
qed



text \<open>Only verified answers are memoised.  An entry of the answer cache that a turn changes
  holds the reply of that turn, which the gates verified: the context was strong enough and
  the text cites at least one chunk and retrieved chunks only.\<close>

theorem turn_memoises_verified:
  assumes "mem_ready now s" and "keys_ok ce (cs_mem s)"
    and "run_agent_turn ce now msg sid0 uid s = (Inr (r, d), s')"
    and "prefix (ac_prefix (ce_ac ce)) k" and "srv_data (cs_redis s') k \<noteq> srv_data (cs_redis s) k"
  shows "\<exists>t e. srv_data (cs_redis s') k = Some (RJson (ac_payload r (Some [])), e)
     \<and> r = apply_output_guardrails (ce_guard ce) (ce_urdu ce) t \<and> \<not> is_low_confidence (chunks_of d)
     \<and> extract_citations t \<noteq> [] \<and> cites_in_range t (length (chunks_of d))"
proof -
  let ?sid = "str_or (Some sid0) (ce_uuid ce (cs_next s))"
  obtain kd s3 where t: "mem_add now ?sid msg r s3 = (Inr (), s')" "mem_same ce now s s3" "others_same s s3"
    "of_kind ce now msg ?sid uid (cs_redis s) (cs_redis s3) r d kd"
    by (rule turn_shape_result [OF assms(1-3)])
  have same: "srv_data (cs_redis s') k = srv_data (cs_redis s3) k"
    by (rule mem_add_keys [OF t(1) mem_same_prefix [OF t(2) assms(4)]])
  with assms(5) have n: "srv_data (cs_redis s3) k \<noteq> srv_data (cs_redis s) k" by simp
  have "apart (qc_prefix (sv_qc (ce_sv ce))) (ac_prefix (ce_ac ce))"
    using assms(2) by (simp add: keys_ok_def)
  with assms(4) have "\<not> prefix (qc_prefix (sv_qc (ce_sv ce))) k" using apart_both by blast
  then have kr: "kept_retrieval ce (cs_redis s) srv \<Longrightarrow> srv_data srv k = srv_data (cs_redis s) k" for srv
    by (simp add: kept_retrieval_def redis_frame_def)
  have "kd = Answered" using t(4) n kr [of "cs_redis s3"] by (cases kd) auto
  with t(4) obtain tx q srv0 where v: "gated d tx" "r = guard_output ce tx" "kept_retrieval ce (cs_redis s) srv0"
    "cs_redis s3 = srv0 \<or> verified d tx \<and> cs_redis s3 = answer_set ce now q uid r [] srv0" by auto
  with n kr [OF v(3)] have w: "verified d tx" "cs_redis s3 = answer_set ce now q uid r [] srv0" by auto
  from n kr [OF v(3)] answer_set_key [of ce now q uid r "[]" srv0 k]
  obtain e where "srv_data (cs_redis s3) k = Some (RJson (ac_payload r (Some [])), e)"
    unfolding w(2) by auto
  with same v(2) w(1) show ?thesis by (auto simp: verified_def guard_output_def)
qed

theorem turn_memoises_verified_witness:
  "\<exists>d s' k t e. run_agent_turn demo_env 0 ''fees'' ''s'' None demo_chat = (Inr (''The fee is 100 [1].'', d), s')
     \<and> srv_data (cs_redis s') k = Some (RJson (ac_payload ''The fee is 100 [1].'' (Some [])), e)
     \<and> cites_in_range t (length (chunks_of d))"
proof -
  obtain d s' k where t: "run_agent_turn demo_env 0 ''fees'' ''s'' None demo_chat
      = (Inr (''The fee is 100 [1].'', d), s')" and k: "prefix (ac_prefix (ce_ac demo_env)) k"
    "srv_data (cs_redis s') k \<noteq> srv_data (cs_redis demo_chat) k" using demo_turn by blast
  from turn_memoises_verified [OF demo_ready(1,2) t k] t show ?thesis by blast
qed

end
