(* ===== verification/ChatApi.thy ===== *)
theory ChatApi
  imports ConversationProps Auth
begin

text \<open>
  The chat endpoints of \<open>agent/api.py\<close>: \<open>execute_agent\<close>, \<open>/chat\<close> and \<open>/chat/stream\<close>.
  The server-sent events of a stream are the list \<open>cs_events\<close>, in the order they are
  yielded; a client that disconnects is not modelled.  The Celery broker is \<open>cs_broker\<close>
  (whether it takes a task) and \<open>cs_tasks\<close>.
\<close>

section \<open>Requests, responses, helpers\<close>

record ChatResponse =
  cr_message :: string
  cr_session :: string
  cr_tools :: "ToolCall list"
  cr_metadata :: meta

text \<open>A token that decodes is believed: the database is not asked.\<close>

definition get_optional_current_user ::
  "auth_env \<Rightarrow> rat \<Rightarrow> string \<Rightarrow> (string \<times> string list) option" where
  "get_optional_current_user ae now hdr =
     (if \<not> prefix ''Bearer '' hdr then None
      else case ae_decode ae \<lfloor>now\<rfloor> (drop 7 hdr) of
             Inl _ \<Rightarrow> None
           | Inr c \<Rightarrow> if truthy (c_sub c) then Some (str_or (c_sub c) [], c_roles c) else None)"

definition is_admin :: "auth_env \<Rightarrow> rat \<Rightarrow> string \<Rightarrow> bool" where
  "is_admin ae now hdr = (case get_optional_current_user ae now hdr of
      None \<Rightarrow> False | Some (_, rs) \<Rightarrow> ''admin'' \<in> set rs)"

definition enqueue :: "task \<Rightarrow> unit turn_step" where
  "enqueue t s = (if cs_broker s then (Inr (), s\<lparr>cs_tasks := cs_tasks s @ [t]\<rparr>)
     else (Inl (OtherError ''OperationalError''), s))"

definition emit :: "event \<Rightarrow> unit turn_step" where
  "emit e s = (Inr (), s\<lparr>cs_events := cs_events s @ [e]\<rparr>)"

section \<open>The database log of a turn\<close>

definition db_session :: "string \<Rightarrow> string option \<Rightarrow> unit turn_step" where
  "db_session sid uid s = (case ensure_session sid uid (cs_pg s) of
      Inl e \<Rightarrow> (Inl e, s) | Inr db \<Rightarrow> (Inr (), s\<lparr>cs_pg := db\<rparr>))"

definition db_message :: "chat_env \<Rightarrow> string \<Rightarrow> string \<Rightarrow> string \<Rightarrow> meta \<Rightarrow> string turn_step" where
  "db_message ce sid role content m s =
     (let (r, db) = add_message (ce_ids ce) sid role content m (cs_pg s) in (r, s\<lparr>cs_pg := db\<rparr>))"

definition swallow :: "unit turn_step \<Rightarrow> unit turn_step" where
  "swallow m = attempt m (\<lambda>_. reply ())"

definition log_messages :: "chat_env \<Rightarrow> string \<Rightarrow> string \<Rightarrow> string \<Rightarrow> meta \<Rightarrow> unit turn_step" where
  "log_messages ce sid msg answer m =
     hbind (db_message ce sid ''user'' msg []) (\<lambda>_.
     hbind (db_message ce sid ''assistant'' answer m) (\<lambda>_. reply ()))"

definition log_turn ::
  "chat_env \<Rightarrow> string \<Rightarrow> string option \<Rightarrow> string \<Rightarrow> string \<Rightarrow> meta \<Rightarrow> unit turn_step" where
  "log_turn ce sid uid msg answer m =
     swallow (hbind (db_session sid uid) (\<lambda>_. log_messages ce sid msg answer m))"

section \<open>Running the agent\<close>

definition EXEC_ERROR :: string where
  "EXEC_ERROR = ''Sorry - there was a problem processing your request. Please try again.''"

text \<open>The exception handler returns the dependencies as the failed run left them.\<close>

definition tag :: "AgentDependencies \<Rightarrow> 'a turn_step \<Rightarrow> (chat_state, AgentDependencies \<times> exc, 'a) prog" where
  "tag d m = attempt m (\<lambda>e. raise (d, e))"

definition execute_body ::
  "chat_env \<Rightarrow> rat \<Rightarrow> string \<Rightarrow> string \<Rightarrow> string \<Rightarrow> string option \<Rightarrow> string option
   \<Rightarrow> (chat_state, AgentDependencies \<times> exc, string \<times> ToolCall list \<times> AgentDependencies) prog" where
  "execute_body ce now message safe sid uid search_query =
     hbind (tag (start_deps sid uid) (mem_context now sid)) (\<lambda>history.
       let q = (case search_query of
                  Some q \<Rightarrow> q | None \<Rightarrow> condense (ce_rewrite ce) (ce_condense ce) history safe) in
       hbind (tag (start_deps sid uid) (agent_step ce now (full_prompt history q) (start_deps sid uid))) (\<lambda>run.
         tag (ar_deps run) (hbind (pure (ar_result run)) (\<lambda>(response, msgs).
           let final = guard_output ce response in
           hbind (mem_add now sid message final) (\<lambda>_.
             reply (final, extract_tool_calls (sv_loads (ce_sv ce)) msgs, ar_deps run))))))"

definition execute_agent ::
  "chat_env \<Rightarrow> rat \<Rightarrow> string \<Rightarrow> string \<Rightarrow> string option \<Rightarrow> string option
   \<Rightarrow> (string \<times> ToolCall list \<times> AgentDependencies) turn_step" where
  "execute_agent ce now message sid uid search_query =
     (let verdict = check_input (ce_guard ce) message in
      if \<not> allowed verdict
      then let b = str_or (user_message verdict) BLOCKED_DEFAULT
           in hbind (mem_add now sid message b) (\<lambda>_. reply (b, [], start_deps sid uid))
      else attempt (execute_body ce now message (str_or (sanitized_input verdict) message) sid uid search_query)
             (\<lambda>(d, _). hbind (mem_add now sid message EXEC_ERROR) (\<lambda>_. reply (EXEC_ERROR, [], d))))"

section \<open>Provenance and debug metadata\<close>

definition opt_json :: "string option \<Rightarrow> json" where
  "opt_json x = (case x of None \<Rightarrow> JNull | Some s \<Rightarrow> JStr s)"

definition page_section :: "(json \<Rightarrow> string) \<Rightarrow> meta \<Rightarrow> json" where
  "page_section render m =
     (let v = json_or (json_or (get_or m ''page'' JNull) (get_or m ''section'' JNull))
                (get_or m ''page_number'' JNull)
      in if json_truthy v then JStr (''Page/Section '' @ py_str render v) else JNull)"

definition source_entry :: "(json \<Rightarrow> string) \<Rightarrow> string \<Rightarrow> ChunkResult \<Rightarrow> json" where
  "source_entry render tool c = JObj
     [(''source_document_name'', JStr (document_title c)), (''chunk_id'', JStr (chunk_id c)),
      (''page_section'', page_section render (chunk_metadata c)),
      (''retrieval_method_used'', JStr tool), (''confidence_score'', JNum (score c))]"

definition chunk_entry :: "ChunkResult \<Rightarrow> json" where
  "chunk_entry c = JObj
     [(''chunk_id'', JStr (chunk_id c)), (''content'', JStr (chunk_content c)), (''score'', JNum (score c)),
      (''document_title'', JStr (document_title c)), (''document_source'', JStr (document_source c))]"

definition fact_entry :: "GraphSearchResult \<Rightarrow> json" where
  "fact_entry f = JObj [(''fact'', JStr (fact f)), (''valid_at'', opt_json (valid_at f))]"

definition provenance :: "chat_env \<Rightarrow> string \<Rightarrow> ChunkResult list \<Rightarrow> string \<Rightarrow> string \<Rightarrow> meta" where
  "provenance ce tool chunks msg answer =
     [(''sources'', JArr (map (source_entry (sv_render (ce_sv ce)) tool) chunks)),
      (''timestamp'', JStr (ce_stamp ce @ ''Z'')), (''user_query'', JStr msg), (''final_answer'', JStr answer)]"

definition GUARDRAIL_RESULT :: json where
  "GUARDRAIL_RESULT = JObj [(''input_allowed'', JBool True), (''input_reason'', JNull),
     (''output_applied'', JBool True)]"

definition debug_fields ::
  "string \<Rightarrow> AgentDependencies \<Rightarrow> string \<Rightarrow> string \<Rightarrow> string \<Rightarrow> meta \<Rightarrow> meta" where
  "debug_fields tool deps context msg answer verdicts =
     [(''selected_retrieval_tool'', JStr tool),
      (''retrieved_chunks'', JArr (map chunk_entry (chunks_of deps))),
      (''neo4j_results'', JArr (map fact_entry (facts_of deps))),
      (''redis_session_context'', JStr context),
      (''final_generated_prompt_summary'',
        JStr (''Previous conversation context + current question: '' @ msg)),
      (''final_answer'', JStr answer)] @ verdicts @ [(''guardrail_result'', GUARDRAIL_RESULT)]"

definition debug_metadata :: "meta \<Rightarrow> meta \<Rightarrow> meta" where
  "debug_metadata prov debug = [(''provenance'', JObj prov), (''debug'', JObj debug)]"

definition cite_reason_str :: "cite_reason \<Rightarrow> string" where
  "cite_reason_str r = (case r of
      FabricatedCitation ns \<Rightarrow> ''fabricated_citation:['' @ py_join '', '' (map dec ns) @ '']''
    | Ok \<Rightarrow> ''ok''
    | ExemptNonAnswer \<Rightarrow> ''exempt_non_answer''
    | UncitedSubstantiveAnswer \<Rightarrow> ''uncited_substantive_answer'')"

text \<open>
  \<open>str(request.search_type)\<close>: a given type is stored as its value (\<open>use_enum_values\<close>), while the
  default is not validated and stays the member of the enumeration.
\<close>

definition search_type_repr :: "SearchType option \<Rightarrow> string" where
  "search_type_repr t = (case t of None \<Rightarrow> ''SearchType.HYBRID'' | Some st \<Rightarrow> search_type_value st)"

section \<open>/chat\<close>

definition ESCALATION :: string where
  "ESCALATION = ''Sorry, I couldn't find a reliable answer to your question in the ''
     @ ''knowledge base. I've alerted an admin, who will help you shortly.''"

definition payload_tool :: "json \<Rightarrow> ToolCall res" where
  "payload_tool j = (case j of
      JObj d \<Rightarrow> res_bind (load_str d ''tool_name'') (\<lambda>n. res_bind (load_meta d ''args'') (\<lambda>a.
                  Inr \<lparr>tool_name = n, tool_args = a, tool_call_id = None\<rparr>))
    | _ \<Rightarrow> Inl TypeError)"

definition payload_tools :: "json \<Rightarrow> ToolCall list res" where
  "payload_tools j = res_bind (as_obj j) (\<lambda>d.
     res_bind (as_arr (get_or d ''tools'' (JArr []))) (map_res payload_tool))"

definition dump_tools :: "ToolCall list \<Rightarrow> meta list" where
  "dump_tools ts = map (\<lambda>t. [(''tool_name'', JStr (tool_name t)), (''args'', JObj (tool_args t))]) ts"

definition hit :: "json option \<Rightarrow> bool" where
  "hit c = (case c of None \<Rightarrow> False | Some j \<Rightarrow> json_truthy j)"

definition scope_check :: "chat_env \<Rightarrow> rat \<Rightarrow> string \<Rightarrow> string \<Rightarrow> scope_verdict turn_step" where
  "scope_check ce now q history =
     hbind (read_settings now) (\<lambda>c. reply (classify_query_scope c (ce_scope ce) q (Some history)))"

text \<open>The gates of \<open>/chat\<close>: the response, what they add to the debug data, and cacheability.\<close>

definition chat_gate :: "chat_env \<Rightarrow> string \<Rightarrow> AgentDependencies \<Rightarrow> string \<times> meta \<times> bool" where
  "chat_gate ce response deps =
     (if selected_retrieval_tool deps = Some ''hybrid_search''
      then let (t, r, g, cacheable) = answer_gate ce response (chunks_of deps)
           in (t, [(''citation_check'', JStr (cite_reason_str r))]
                  @ (case g of None \<Rightarrow> [] | Some st \<Rightarrow> [(''groundedness'', JStr st)]), cacheable)
      else (response, [], False))"

text \<open>From the agent's answer to the response; the debug data of an escalated turn keeps the
  agent's answer as the final one.\<close>

definition chat_finish ::
  "chat_env \<Rightarrow> rat \<Rightarrow> bool \<Rightarrow> ChatRequest \<Rightarrow> string \<Rightarrow> string \<Rightarrow> string \<Rightarrow> ToolCall list
   \<Rightarrow> AgentDependencies \<Rightarrow> ChatResponse turn_step" where
  "chat_finish ce now admin req sid q response tools deps =
     hbind (mem_context now sid) (\<lambda>context.
       let chunks = chunks_of deps;
           tool = str_or (selected_retrieval_tool deps) ''none'';
           msg = req_message req;
           debug = (\<lambda>answer. debug_fields tool deps context msg answer []);
           prov = provenance ce tool chunks msg
       in hbind (if is_low_confidence chunks
                 then hbind (enqueue (NotifyAdmin sid msg)) (\<lambda>_.
                        reply (ESCALATION, debug_metadata (prov response)
                          (dict_put ''low_confidence_triggered'' (JBool True) (debug response)), False))
                 else let (t, verdicts, cacheable) = chat_gate ce response deps
                      in reply (t, debug_metadata (prov t) (debug t @ verdicts), cacheable))
       (\<lambda>(final, dbg, cacheable).
       hbind (if cacheable \<and> \<not> admin
              then store_answer ce now q (req_user_id req) final (dump_tools tools) else reply ()) (\<lambda>_.
       hbind (log_turn ce sid (req_user_id req) msg final dbg) (\<lambda>_.
         reply \<lparr>cr_message = final, cr_session = sid, cr_tools = tools,
           cr_metadata = (''search_type'', JStr (search_type_repr (req_search_type req)))
             # (if admin then dbg else [])\<rparr>))))"

definition chat_body ::
  "chat_env \<Rightarrow> auth_env \<Rightarrow> rat \<Rightarrow> string \<Rightarrow> ChatRequest \<Rightarrow> ChatResponse turn_step" where
  "chat_body ce ae now hdr req =
     hbind (mem_open ce (req_session_id req)) (\<lambda>sid.
       let admin = is_admin ae now hdr; msg = req_message req; uid = req_user_id req in
       hbind (mem_context now sid) (\<lambda>history.
         let q = condense (ce_rewrite ce) (ce_condense ce) history msg in
         hbind (if admin then reply None else cached_answer ce now q uid) (\<lambda>cached.
           if hit cached
           then hbind (pure (payload_answer (the cached))) (\<lambda>a.
                hbind (pure (payload_tools (the cached))) (\<lambda>tools.
                hbind (mem_add now sid msg a) (\<lambda>_.
                hbind (log_turn ce sid uid msg a [(''cache_hit'', JBool True)]) (\<lambda>_.
                  reply \<lparr>cr_message = a, cr_session = sid, cr_tools = tools,
                    cr_metadata = [(''search_type'', JStr (search_type_repr (req_search_type req))),
                                   (''cache_hit'', JBool True)]\<rparr>))))
           else hbind (scope_check ce now q history) (\<lambda>verdict.
             if verdict = OutOfScope
             then hbind (read_settings now) (\<lambda>c.
                  hbind (log_turn ce sid uid msg (out_of_scope_message c) [(''out_of_scope'', JBool True)]) (\<lambda>_.
                    reply \<lparr>cr_message = out_of_scope_message c, cr_session = sid, cr_tools = [],
                      cr_metadata = [(''out_of_scope'', JBool True)]\<rparr>))
             else hbind (execute_agent ce now msg sid uid (Some q)) (\<lambda>(response, tools, deps).
                    chat_finish ce now admin req sid q response tools deps)))))"

definition chat ::
  "chat_env \<Rightarrow> auth_env \<Rightarrow> rat \<Rightarrow> string \<Rightarrow> ChatRequest \<Rightarrow> (chat_state, ChatResponse) handler" where
  "chat ce ae now hdr req =
     attempt (chat_body ce ae now hdr req) (\<lambda>e. http_fail 500 (ce_what ce e))"

end
