(* ===== verification/ChatProps.thy ===== *)
theory ChatProps
  imports ChatApi
begin

text \<open>
  What \<open>/chat\<close> guarantees.  As for a single turn, one lemma per stage follows the state;
  \<open>after_turn\<close> is what the recording of a turn does to the histories.
\<close>

section \<open>Stages\<close>

definition answers_same :: "chat_env \<Rightarrow> chat_state \<Rightarrow> chat_state \<Rightarrow> bool" where
  "answers_same ce s s' \<longleftrightarrow>
     (\<forall>k. prefix (ac_prefix (ce_ac ce)) k \<longrightarrow> srv_data (cs_redis s') k = srv_data (cs_redis s) k)"

definition ready :: "chat_env \<Rightarrow> rat \<Rightarrow> chat_state \<Rightarrow> bool" where
  "ready ce now s \<longleftrightarrow> mem_ready now s \<and> keys_ok ce (cs_mem s)"

definition recorded :: "rat \<Rightarrow> string \<Rightarrow> string \<Rightarrow> string \<Rightarrow> chat_state \<Rightarrow> chat_state \<Rightarrow> bool" where
  "recorded now sid msg a s s' \<longleftrightarrow> history_of now s' = (history_of now s)(sid :=
     trim_messages (window_of s) (history_of now s sid @ [HumanMessage msg, AIMessage a]))"

lemma answers_same_refl [simp]: "answers_same ce s s"
  by (simp add: answers_same_def)

lemma answers_same_trans: "answers_same ce a b \<Longrightarrow> answers_same ce b c \<Longrightarrow> answers_same ce a c"
  by (simp add: answers_same_def)

lemma answers_same_redis: "cs_redis s' = cs_redis s \<Longrightarrow> answers_same ce s s'"
  by (simp add: answers_same_def)

lemma others_same_refl [simp]: "others_same s s"
  by (simp add: others_same_def)

lemma others_same_trans: "others_same a b \<Longrightarrow> others_same b c \<Longrightarrow> others_same a c"
  by (simp add: others_same_def)

lemma mem_same_ready: "mem_same ce now s s' \<Longrightarrow> ready ce now s'"
  by (simp add: mem_same_def ready_def)

lemma ready_apart:
  assumes "ready ce now s" and "prefix (ac_prefix (ce_ac ce)) k"
  shows "\<not> prefix (qc_prefix (sv_qc (ce_sv ce))) k" and "\<not> prefix (mm_prefix (cs_mem s)) k"
  using assms by (auto simp: ready_def keys_ok_def dest: apart_both)

lemma kept_retrieval_answers:
  "ready ce now s \<Longrightarrow> kept_retrieval ce (cs_redis s) (cs_redis s') \<Longrightarrow> answers_same ce s s'"
  using ready_apart by (auto simp: answers_same_def kept_retrieval_def redis_frame_def)

lemma mem_add_up: "mem_add now sid q a s = (Inr (), s') \<Longrightarrow> srv_up (cs_redis s') = srv_up (cs_redis s)"
  by (auto simp: mem_add_def add_turn_def add_turn_redis_def Let_def
      split: if_splits sum.splits option.splits rval.splits prod.splits)

lemma record_done:
  assumes "ready ce now s"
  shows "\<exists>s'. mem_add now sid msg a s = (Inr (), s') \<and> recorded now sid msg a s s' \<and> ready ce now s'
     \<and> others_same s s' \<and> answers_same ce s s'"
proof -
  from assms obtain s' where s': "mem_add now sid msg a s = (Inr (), s')" "recorded now sid msg a s s'"
    "ready ce now s'" "others_same s s'"
    using mem_add_done [of now s sid msg a ce] by (auto simp: ready_def recorded_def)
  moreover have "answers_same ce s s'"
    using mem_add_keys [OF s'(1)] ready_apart(2) [OF assms] by (simp add: answers_same_def)
  ultimately show ?thesis by blast
qed

lemma recorded_mem_same:
  "mem_same ce now s s1 \<Longrightarrow> recorded now sid msg a s1 s' \<Longrightarrow> recorded now sid msg a s s'"
  by (simp add: recorded_def mem_same_def fun_eq_iff)

lemma agent_step_done:
  assumes "ready ce now s"
  shows "\<exists>run s'. agent_step ce now p (start_deps sid uid) s = (Inr run, s') \<and> mem_same ce now s s'
     \<and> others_same s s' \<and> answers_same ce s s'
     \<and> (chunks_of (ar_deps run) \<noteq> [] \<longrightarrow> selected_retrieval_tool (ar_deps run) = Some ''hybrid_search'')"
proof -
  let ?r = "agent_run ce now p (start_deps sid uid) s"
  have f: "run_frame ce s (ar_state ?r)" using agent_run_frame by blast
  have "mem_same ce now s (ar_state ?r)" by (rule mem_same_run [OF f]) (use assms in \<open>simp_all add: ready_def\<close>)
  moreover have "answers_same ce s (ar_state ?r)"
    by (rule kept_retrieval_answers [OF assms]) (use f in \<open>simp add: run_frame_def kept_retrieval_def\<close>)
  ultimately show ?thesis using f run_chunks [of ce now p sid uid s]
    by (auto simp: agent_step_def Let_def run_frame_def)
qed

text \<open>\<open>execute_agent\<close> always returns a text, which it records.\<close>

lemma execute_shape:
  assumes "ready ce now s"
  shows "\<exists>t tools d s'. execute_agent ce now msg sid uid (Some q) s = (Inr (t, tools, d), s')
     \<and> recorded now sid msg t s s' \<and> ready ce now s' \<and> window_of s' = window_of s
     \<and> others_same s s' \<and> answers_same ce s s'
     \<and> (chunks_of d \<noteq> [] \<longrightarrow> selected_retrieval_tool d = Some ''hybrid_search'')"
proof -
  let ?v = "check_input (ce_guard ce) msg" let ?d0 = "start_deps sid uid"
  have d0: "chunks_of ?d0 = []" by (simp add: start_deps_def chunks_of_def)
  have ended: ?thesis
    if r: "execute_agent ce now msg sid uid (Some q) s = hbind (mem_add now sid msg t) (\<lambda>_. reply (t, tools, d)) z"
      and z: "mem_same ce now s z" "others_same s z" "answers_same ce s z"
      and d: "chunks_of d \<noteq> [] \<longrightarrow> selected_retrieval_tool d = Some ''hybrid_search''" for t tools d z
  proof -
    obtain s' where s': "mem_add now sid msg t z = (Inr (), s')" "recorded now sid msg t z s'" "ready ce now s'"
      "others_same z s'" "answers_same ce z s'" using record_done [OF mem_same_ready [OF z(1)]] by blast
    have "window_of s' = window_of s"
    proof -
      have "window_of z = window_of s" using z(1) by (simp add: mem_same_def)
      moreover have "window_of s' = window_of z"
        using mem_add_done [of now z sid msg t ce] s'(1) mem_same_ready [OF z(1)] by (auto simp: ready_def)
      ultimately show ?thesis by simp
    qed
    then show ?thesis
      using r s' recorded_mem_same [OF z(1) s'(2)] others_same_trans [OF z(2) s'(4)]
        answers_same_trans [OF z(3) s'(5)] d by auto
  qed
  show ?thesis
  proof (cases "allowed ?v")
    case False
    have "mem_same ce now s s" using assms by (simp add: ready_def mem_same_refl)
    then show ?thesis
      by (rule ended [of "str_or (user_message ?v) BLOCKED_DEFAULT" "[]" ?d0 s, rotated])
        (use False d0 in \<open>simp_all add: execute_agent_def Let_def\<close>)
  next
    case True
    obtain h s2 where h: "mem_context now sid s = (Inr h, s2)" "mem_same ce now s s2" "cs_redis s2 = cs_redis s"
      "others_same s s2" using mem_context_same assms unfolding ready_def by blast
    obtain run s3 where r: "agent_step ce now (full_prompt h q) ?d0 s2 = (Inr run, s3)" "mem_same ce now s2 s3"
      "others_same s2 s3" "answers_same ce s2 s3"
      "chunks_of (ar_deps run) \<noteq> [] \<longrightarrow> selected_retrieval_tool (ar_deps run) = Some ''hybrid_search''"
      using agent_step_done [OF mem_same_ready [OF h(2)]] by blast
    have z: "mem_same ce now s s3" "others_same s s3" "answers_same ce s s3"
      using mem_same_trans [OF h(2) r(2)] others_same_trans [OF h(4) r(3)]
        answers_same_trans [OF answers_same_redis [OF h(3)] r(4)] by blast+
    have body: "execute_body ce now msg safe sid uid (Some q) s = tag (ar_deps run)
        (hbind (pure (ar_result run)) (\<lambda>(response, msgs). hbind (mem_add now sid msg (guard_output ce response))
           (\<lambda>_. reply (guard_output ce response, extract_tool_calls (sv_loads (ce_sv ce)) msgs, ar_deps run)))) s3"
      for safe using h(1) r(1) by (simp add: execute_body_def tag_def Let_def)
    show ?thesis
    proof (cases "ar_result run")
      case (Inl e)
      show ?thesis
        by (rule ended [of EXEC_ERROR "[]" "ar_deps run" s3])
          (use Inl True body z r(5) in \<open>simp_all add: execute_agent_def tag_def Let_def\<close>)
    next
      case (Inr p)
      then obtain response msgs where p: "ar_result run = Inr (response, msgs)" by (cases p) auto
      obtain s' where a: "mem_add now sid msg (guard_output ce response) s3 = (Inr (), s')"
        using record_done [OF mem_same_ready [OF z(1)]] by blast
      show ?thesis
        by (rule ended [of "guard_output ce response" "extract_tool_calls (sv_loads (ce_sv ce)) msgs" "ar_deps run" s3])
          (use True body z r(5) p a in \<open>simp_all add: execute_agent_def tag_def Let_def\<close>)
    qed
  qed
qed

text \<open>The database log changes the database only and never fails.\<close>

lemma log_messages_pg: "\<exists>r db. log_messages ce sid msg a m s = (r, s\<lparr>cs_pg := db\<rparr>)"
  by (auto simp: log_messages_def hbind_def db_message_def Let_def split: prod.splits sum.splits)

lemma log_turn_pg: "\<exists>db. log_turn ce sid uid msg a m s = (Inr (), s\<lparr>cs_pg := db\<rparr>)"
proof (cases "ensure_session sid uid (cs_pg s)")
  case (Inl e)
  then have "log_turn ce sid uid msg a m s = (Inr (), s\<lparr>cs_pg := cs_pg s\<rparr>)"
    by (simp add: log_turn_def swallow_def attempt_def hbind_def db_session_def)
  then show ?thesis by blast
next
  case (Inr db)
  obtain r db' where "log_messages ce sid msg a m (s\<lparr>cs_pg := db\<rparr>) = (r, s\<lparr>cs_pg := db'\<rparr>)"
    using log_messages_pg [of ce sid msg a m "s\<lparr>cs_pg := db\<rparr>"] by auto
  with Inr have "log_turn ce sid uid msg a m s = (Inr (), s\<lparr>cs_pg := db'\<rparr>)"
    by (cases r) (simp_all add: log_turn_def swallow_def attempt_def hbind_def db_session_def)
  then show ?thesis by blast
qed

lemma history_frame [simp]:
  "history_of now (s\<lparr>cs_pg := db\<rparr>) = history_of now s"
  "history_of now (s\<lparr>cs_tasks := ts\<rparr>) = history_of now s"
  "history_of now (s\<lparr>cs_settings := st\<rparr>) = history_of now s"
  "history_of now (s\<lparr>cs_events := es\<rparr>) = history_of now s"
  by (simp_all add: history_of_def fun_eq_iff Let_def)

lemma ready_frame [simp]:
  "ready ce now (s\<lparr>cs_pg := db\<rparr>) = ready ce now s"
  "ready ce now (s\<lparr>cs_tasks := ts\<rparr>) = ready ce now s"
  "ready ce now (s\<lparr>cs_settings := st\<rparr>) = ready ce now s"
  "ready ce now (s\<lparr>cs_events := es\<rparr>) = ready ce now s"
  by (simp_all add: ready_def mem_ready_def Let_def)

lemma mem_same_history: "mem_same ce now s s' \<Longrightarrow> history_of now s' = history_of now s"
  by (simp add: mem_same_def fun_eq_iff)

text \<open>What the answer cache may have gained: nothing, or entries with this payload.\<close>

definition answers_gain :: "chat_env \<Rightarrow> json \<Rightarrow> chat_state \<Rightarrow> chat_state \<Rightarrow> bool" where
  "answers_gain ce j s s' \<longleftrightarrow> (\<forall>k. prefix (ac_prefix (ce_ac ce)) k
     \<and> srv_data (cs_redis s') k \<noteq> srv_data (cs_redis s) k \<longrightarrow> (\<exists>e. srv_data (cs_redis s') k = Some (RJson j, e)))"

lemma answers_gain_set:
  "cs_redis s' = answer_set ce now q uid a ts (cs_redis s) \<Longrightarrow> answers_gain ce (ac_payload a (Some ts)) s s'"
  unfolding answers_gain_def using answer_set_key by simp

lemma answers_gain_same: "answers_same ce s s' \<Longrightarrow> answers_gain ce j s s'"
  by (auto simp: answers_gain_def answers_same_def)

lemma answers_gain_trans:
  "answers_same ce s s1 \<Longrightarrow> answers_gain ce j s1 s2 \<Longrightarrow> answers_gain ce j s s2"
  by (simp add: answers_gain_def answers_same_def)

text \<open>What \<open>chat_finish\<close> does with the agent's text.\<close>

lemma finish_shape:
  assumes "ready ce now s" and "cs_broker s" and "chat_gate ce t d = (t', verdicts, c)"
  shows "\<exists>resp s'. chat_finish ce now admin req sid q t tools d s = (Inr resp, s')
     \<and> history_of now s' = history_of now s \<and> cr_session resp = sid
     \<and> (\<not> admin \<longrightarrow> map fst (cr_metadata resp) = [''search_type''])
     \<and> (if is_low_confidence (chunks_of d)
        then cr_message resp = ESCALATION \<and> cs_tasks s' = cs_tasks s @ [NotifyAdmin sid (req_message req)]
          \<and> answers_same ce s s'
        else cr_message resp = t' \<and> cs_tasks s' = cs_tasks s
          \<and> (if c \<and> \<not> admin then cs_redis s' = answer_set ce now q (req_user_id req) t' (dump_tools tools) (cs_redis s)
             else answers_same ce s s'))"
proof -
  obtain ctx s1 where s1: "mem_context now sid s = (Inr ctx, s1)" "mem_same ce now s s1"
    "cs_redis s1 = cs_redis s" "others_same s s1"
    using mem_context_same assms(1) unfolding ready_def by blast
  from s1(4) assms(2) have b: "cs_broker s1" "cs_tasks s1 = cs_tasks s" by (simp_all add: others_same_def)
  note h = mem_same_history [OF s1(2)]
  show ?thesis
  proof (cases "is_low_confidence (chunks_of d)")
    case True
    let ?s = "s1\<lparr>cs_tasks := cs_tasks s1 @ [NotifyAdmin sid (req_message req)]\<rparr>"
    let ?dbg = "debug_metadata (provenance ce (str_or (selected_retrieval_tool d) ''none'') (chunks_of d)
        (req_message req) t) (dict_put ''low_confidence_triggered'' (JBool True)
        (debug_fields (str_or (selected_retrieval_tool d) ''none'') d ctx (req_message req) t []))"
    obtain db where "log_turn ce sid (req_user_id req) (req_message req) ESCALATION ?dbg ?s
        = (Inr (), ?s\<lparr>cs_pg := db\<rparr>)" using log_turn_pg by blast
    then show ?thesis
      using True s1(1,3) b h by (simp add: chat_finish_def enqueue_def Let_def answers_same_def)
  next
    case False
    let ?dbg = "debug_metadata (provenance ce (str_or (selected_retrieval_tool d) ''none'') (chunks_of d)
        (req_message req) t') (debug_fields (str_or (selected_retrieval_tool d) ''none'') d ctx
        (req_message req) t' [] @ verdicts)"
    let ?s = "if c \<and> \<not> admin then s1\<lparr>cs_redis := answer_set ce now q (req_user_id req) t' (dump_tools tools)
        (cs_redis s1)\<rparr> else s1"
    obtain db where l: "log_turn ce sid (req_user_id req) (req_message req) t' ?dbg ?s
        = (Inr (), ?s\<lparr>cs_pg := db\<rparr>)" using log_turn_pg by blast
    have st: "(if c \<and> \<not> admin then store_answer ce now q (req_user_id req) t' (dump_tools tools) else reply ()) s1
        = (Inr (), ?s)" by (simp add: store_answer_def answer_set_def)
    have "mem_same ce now s ?s" using s1(2) mem_same_answer [OF s1(2), of ?s] by (cases "c \<and> \<not> admin") auto
    then have "history_of now ?s = history_of now s" by (rule mem_same_history)
    moreover have "if c \<and> \<not> admin then cs_redis (?s\<lparr>cs_pg := db\<rparr>)
          = answer_set ce now q (req_user_id req) t' (dump_tools tools) (cs_redis s)
        else answers_same ce s (?s\<lparr>cs_pg := db\<rparr>)"
      using s1(3) by (auto simp: answers_same_def)
    moreover have "chat_finish ce now admin req sid q t tools d s = (Inr \<lparr>cr_message = t', cr_session = sid,
        cr_tools = tools, cr_metadata = (''search_type'', JStr (search_type_repr (req_search_type req)))
          # (if admin then ?dbg else [])\<rparr>, ?s\<lparr>cs_pg := db\<rparr>)"
      using False s1(1) assms(3) st l by (simp add: chat_finish_def Let_def split: if_splits)
    moreover have "cs_tasks (?s\<lparr>cs_pg := db\<rparr>) = cs_tasks s" using b(2) by simp
    ultimately show ?thesis using False by (auto split: if_splits)
  qed
qed

section \<open>The endpoint\<close>

text \<open>The cache holds what \<open>chat\<close> and \<open>run_agent_turn\<close> store.\<close>

definition cache_good :: "chat_env \<Rightarrow> rat \<Rightarrow> redis_server \<Rightarrow> bool" where
  "cache_good ce now srv \<longleftrightarrow> (\<forall>q uid j. ac_get (ce_ac ce) (sv_qc (ce_sv ce)) (sv_sha (ce_sv ce))
       (sv_client (ce_sv ce)) srv now q uid = Some j \<longrightarrow> (\<exists>a ts. j = ac_payload a (Some (dump_tools ts))))"

lemma payload_answer_ac [simp]: "payload_answer (ac_payload a ts) = Inr a"
  by (simp add: payload_answer_def ac_payload_def json_get_def)

lemma payload_tools_ac: "\<exists>ts'. payload_tools (ac_payload a (Some (dump_tools ts))) = Inr ts'"
proof -
  have "payload_tool (JObj [(''tool_name'', JStr (tool_name t)), (''args'', JObj (tool_args t))])
      = Inr \<lparr>tool_name = tool_name t, tool_args = tool_args t, tool_call_id = None\<rparr>" for t
    by (simp add: payload_tool_def load_str_def load_meta_def json_get_def)
  then have "\<exists>ts'. map_res payload_tool (map JObj (dump_tools ts)) = Inr ts'"
    by (induction ts) (auto simp: dump_tools_def)
  then show ?thesis by (simp add: payload_tools_def ac_payload_def get_or_def json_get_def)
qed

lemma read_settings_pg: "\<exists>c st. read_settings now s = (Inr c, s\<lparr>cs_settings := st\<rparr>)"
  by (cases "get_config (cs_sdb s) now False (cs_settings s)") (auto simp: read_settings_def)

text \<open>The three ways of a request, with what it leaves in the stores.\<close>

definition outcome_cached ::
  "chat_env \<Rightarrow> rat \<Rightarrow> string option \<Rightarrow> string \<Rightarrow> string \<Rightarrow> chat_state \<Rightarrow> ChatResponse \<Rightarrow> chat_state \<Rightarrow> bool" where
  "outcome_cached ce now uid sid msg s resp s' \<longleftrightarrow>
     (\<exists>q ts. ac_get (ce_ac ce) (sv_qc (ce_sv ce)) (sv_sha (ce_sv ce)) (sv_client (ce_sv ce))
        (cs_redis s) now q uid = Some (ac_payload (cr_message resp) (Some (dump_tools ts))))
     \<and> recorded now sid msg (cr_message resp) s s' \<and> cs_tasks s' = cs_tasks s \<and> answers_same ce s s'
     \<and> map fst (cr_metadata resp) = [''search_type'', ''cache_hit'']"

definition outcome_declined :: "chat_env \<Rightarrow> rat \<Rightarrow> chat_state \<Rightarrow> ChatResponse \<Rightarrow> chat_state \<Rightarrow> bool" where
  "outcome_declined ce now s resp s' \<longleftrightarrow>
     (\<exists>c :: AgentConfig. cr_message resp = out_of_scope_message c) \<and> cr_tools resp = []
     \<and> history_of now s' = history_of now s \<and> cs_tasks s' = cs_tasks s \<and> answers_same ce s s'
     \<and> map fst (cr_metadata resp) = [''out_of_scope'']"

definition outcome_agent ::
  "chat_env \<Rightarrow> rat \<Rightarrow> bool \<Rightarrow> string \<Rightarrow> string \<Rightarrow> chat_state \<Rightarrow> ChatResponse \<Rightarrow> chat_state
   \<Rightarrow> string \<Rightarrow> AgentDependencies \<Rightarrow> bool" where
  "outcome_agent ce now admin sid msg s resp s' t d \<longleftrightarrow>
     recorded now sid msg t s s' \<and> (\<not> admin \<longrightarrow> map fst (cr_metadata resp) = [''search_type''])
     \<and> (chunks_of d \<noteq> [] \<longrightarrow> selected_retrieval_tool d = Some ''hybrid_search'')
     \<and> (if is_low_confidence (chunks_of d)
        then cr_message resp = ESCALATION \<and> cs_tasks s' = cs_tasks s @ [NotifyAdmin sid msg]
          \<and> answers_same ce s s'
        else (\<exists>v c tools. chat_gate ce t d = (cr_message resp, v, c) \<and> cs_tasks s' = cs_tasks s
          \<and> (if c \<and> \<not> admin then answers_gain ce (ac_payload (cr_message resp) (Some (dump_tools tools))) s s'
             else answers_same ce s s')))"

lemma chat_shape:
  fixes ce req ae hdr
  assumes "ready ce now s" and "cs_broker s" and "cache_good ce now (cs_redis s)"
  defines "sid \<equiv> str_or (req_session_id req) (ce_uuid ce (cs_next s))"
    and "msg \<equiv> req_message req" and "admin \<equiv> is_admin ae now hdr"
  shows "\<exists>resp s'. chat ce ae now hdr req s = (Inr resp, s') \<and> cr_session resp = sid
     \<and> (\<not> admin \<and> outcome_cached ce now (req_user_id req) sid msg s resp s'
        \<or> outcome_declined ce now s resp s'
        \<or> (\<exists>t d. outcome_agent ce now admin sid msg s resp s' t d))"
proof -
  let ?uid = "req_user_id req"
  obtain s1 where s1: "mem_open ce (req_session_id req) s = (Inr sid, s1)" "mem_same ce now s s1"
    "cs_redis s1 = cs_redis s" "others_same s s1"
    using mem_open_same assms(1) unfolding sid_def ready_def by blast
  obtain h s2 where s2: "mem_context now sid s1 = (Inr h, s2)" "mem_same ce now s1 s2" "cs_redis s2 = cs_redis s1"
    "others_same s1 s2"
    using mem_context_same mem_same_ready [OF s1(2)] unfolding ready_def by blast
  have same: "mem_same ce now s s2" using s1(2) s2(2) by (rule mem_same_trans)
  have os: "others_same s s2" using s1(4) s2(4) by (rule others_same_trans)
  have red: "cs_redis s2 = cs_redis s" using s1(3) s2(3) by simp
  have as: "answers_same ce s s2" by (rule answers_same_redis [OF red])
  let ?q = "condense (ce_rewrite ce) (ce_condense ce) h msg"
  let ?c = "if admin then None else ac_get (ce_ac ce) (sv_qc (ce_sv ce)) (sv_sha (ce_sv ce))
      (sv_client (ce_sv ce)) (cs_redis s) now ?q ?uid"
  have look: "(if admin then reply None else cached_answer ce now ?q ?uid) s2 = (Inr ?c, s2)"
    by (simp add: cached_answer_def red)
  have handler: ?thesis if "chat_body ce ae now hdr req s = (Inr resp, s')" and "cr_session resp = sid"
    and "\<not> admin \<and> outcome_cached ce now ?uid sid msg s resp s' \<or> outcome_declined ce now s resp s'
        \<or> (\<exists>t d. outcome_agent ce now admin sid msg s resp s' t d)" for resp s'
    using that by (simp add: chat_def)
  show ?thesis
  proof (cases "hit ?c")
    case True
    then obtain j where j: "?c = Some j" "\<not> admin" by (auto simp: hit_def split: option.splits if_splits)
    with assms(3) obtain a ts where a: "j = ac_payload a (Some (dump_tools ts))"
      unfolding cache_good_def by (auto split: if_splits) blast
    obtain ts' where ts': "payload_tools j = Inr ts'" using payload_tools_ac a by blast
    obtain s3 where s3: "mem_add now sid msg a s2 = (Inr (), s3)" "recorded now sid msg a s2 s3"
      "others_same s2 s3" "answers_same ce s2 s3" using record_done [OF mem_same_ready [OF same]] by blast
    obtain db where l: "log_turn ce sid ?uid msg a [(''cache_hit'', JBool True)] s3 = (Inr (), s3\<lparr>cs_pg := db\<rparr>)"
      using log_turn_pg by blast
    let ?resp = "\<lparr>cr_message = a, cr_session = sid, cr_tools = ts',
        cr_metadata = [(''search_type'', JStr (search_type_repr (req_search_type req))), (''cache_hit'', JBool True)]\<rparr>"
    have "chat_body ce ae now hdr req s = (Inr ?resp, s3\<lparr>cs_pg := db\<rparr>)"
      using s1(1) s2(1) look True j a ts' s3(1) l
      by (simp add: chat_body_def Let_def msg_def [symmetric] admin_def [symmetric])
    moreover have "outcome_cached ce now ?uid sid msg s ?resp (s3\<lparr>cs_pg := db\<rparr>)"
      using j a recorded_mem_same [OF same s3(2)] others_same_trans [OF os s3(3)] answers_same_trans [OF as s3(4)]
      by (auto simp: outcome_cached_def recorded_def others_same_def answers_same_def)
    ultimately show ?thesis using j(2) by (intro handler [of ?resp]) auto
  next
    case False
    obtain c st where c: "read_settings now s2 = (Inr c, s2\<lparr>cs_settings := st\<rparr>)" using read_settings_pg by blast
    let ?s = "s2\<lparr>cs_settings := st\<rparr>" let ?v = "classify_query_scope c (ce_scope ce) ?q (Some h)"
    have sc: "scope_check ce now ?q h s2 = (Inr ?v, ?s)" using c by (simp add: scope_check_def)
    show ?thesis
    proof (cases "?v = OutOfScope")
      case True
      obtain c' st' where c': "read_settings now ?s = (Inr c', ?s\<lparr>cs_settings := st'\<rparr>)" using read_settings_pg by blast
      obtain db where l: "log_turn ce sid ?uid msg (out_of_scope_message c') [(''out_of_scope'', JBool True)]
          (?s\<lparr>cs_settings := st'\<rparr>) = (Inr (), (?s\<lparr>cs_settings := st'\<rparr>)\<lparr>cs_pg := db\<rparr>)" using log_turn_pg by blast
      let ?resp = "\<lparr>cr_message = out_of_scope_message c', cr_session = sid, cr_tools = [],
          cr_metadata = [(''out_of_scope'', JBool True)]\<rparr>"
      have "chat_body ce ae now hdr req s = (Inr ?resp, (?s\<lparr>cs_settings := st'\<rparr>)\<lparr>cs_pg := db\<rparr>)"
        using s1(1) s2(1) look False sc True c' l
        by (simp add: chat_body_def Let_def msg_def [symmetric] admin_def [symmetric])
      moreover have "outcome_declined ce now s ?resp ((?s\<lparr>cs_settings := st'\<rparr>)\<lparr>cs_pg := db\<rparr>)"
        using mem_same_history [OF same] os as
        by (auto simp: outcome_declined_def others_same_def answers_same_def)
      ultimately show ?thesis by (intro handler [of ?resp]) auto
    next
      case inscope: False
      have r: "ready ce now ?s" using mem_same_ready [OF same] by simp
      obtain t tools d s3 where e: "execute_agent ce now msg sid ?uid (Some ?q) ?s = (Inr (t, tools, d), s3)"
        "recorded now sid msg t ?s s3" "ready ce now s3" "others_same ?s s3" "answers_same ce ?s s3"
        "chunks_of d \<noteq> [] \<longrightarrow> selected_retrieval_tool d = Some ''hybrid_search''"
        using execute_shape [OF r] by blast
      from e(4) os assms(2) have b: "cs_broker s3" "cs_tasks s3 = cs_tasks s" by (simp_all add: others_same_def)
      have as3: "answers_same ce s s3" using as e(5) by (simp add: answers_same_def)
      have rec: "recorded now sid msg t s s3"
        using e(2) same by (simp add: recorded_def mem_same_def fun_eq_iff)
      obtain t' verdicts cb where g: "chat_gate ce t d = (t', verdicts, cb)" by (metis prod_cases3)
      obtain resp s4 where f: "chat_finish ce now admin req sid ?q t tools d s3 = (Inr resp, s4)"
        "history_of now s4 = history_of now s3" "cr_session resp = sid"
        "\<not> admin \<longrightarrow> map fst (cr_metadata resp) = [''search_type'']"
        "if is_low_confidence (chunks_of d)
         then cr_message resp = ESCALATION \<and> cs_tasks s4 = cs_tasks s3 @ [NotifyAdmin sid (req_message req)]
           \<and> answers_same ce s3 s4
         else cr_message resp = t' \<and> cs_tasks s4 = cs_tasks s3
           \<and> (if cb \<and> \<not> admin
              then cs_redis s4 = answer_set ce now ?q (req_user_id req) t' (dump_tools tools) (cs_redis s3)
              else answers_same ce s3 s4)"
        using finish_shape [OF e(3) b(1) g, of admin req sid ?q tools]
        by (elim exE conjE) (rule that; assumption)
      have "chat_body ce ae now hdr req s = (Inr resp, s4)"
        using s1(1) s2(1) look False sc inscope e(1) f(1)
        by (simp add: chat_body_def Let_def msg_def [symmetric] admin_def [symmetric])
      moreover have "outcome_agent ce now admin sid msg s resp s4 t d"
      proof -
        have "recorded now sid msg t s s4" using rec f(2) by (simp add: recorded_def)
        moreover have "if is_low_confidence (chunks_of d)
            then cr_message resp = ESCALATION \<and> cs_tasks s4 = cs_tasks s @ [NotifyAdmin sid msg]
              \<and> answers_same ce s s4
            else cr_message resp = t' \<and> cs_tasks s4 = cs_tasks s
              \<and> (if cb \<and> \<not> admin then answers_gain ce (ac_payload t' (Some (dump_tools tools))) s s4
                 else answers_same ce s s4)"
          using f(5) b(2) answers_same_trans [OF as3, of s4] answers_gain_trans [OF as3, of _ s4] answers_gain_set
          by (simp add: msg_def split: if_splits)
        ultimately show ?thesis unfolding outcome_agent_def using f(4) e(6) g by (auto split: if_splits)
      qed
      ultimately show ?thesis using f(3) by (intro handler [of resp]) auto
    qed
  qed
qed

lemma chat_gate_facts:
  assumes "chat_gate ce t d = (r, v, c)"
    and "chunks_of d \<noteq> [] \<longrightarrow> selected_retrieval_tool d = Some ''hybrid_search''"
    and "\<not> is_low_confidence (chunks_of d)"
  shows "cites_in_range r (length (chunks_of d))"
    and "is_substantive r \<Longrightarrow> extract_citations r \<noteq> [] \<or> looks_like_abstention r"
    and "c \<Longrightarrow> extract_citations r \<noteq> []"
proof -
  from assms(3) have ne: "chunks_of d \<noteq> []" by (rule not_low_confidence)
  obtain r' rs g c' where a: "answer_gate ce t (chunks_of d) = (r', rs, g, c')" by (metis prod_cases4)
  with assms ne have e: "r' = r" "c' = c" by (simp_all add: chat_gate_def)
  show "cites_in_range r (length (chunks_of d))"
    and "is_substantive r \<Longrightarrow> extract_citations r \<noteq> [] \<or> looks_like_abstention r"
    and "c \<Longrightarrow> extract_citations r \<noteq> []"
    using answer_gate_cases [OF a] ne e by blast+
qed

section \<open>A concrete request\<close>

definition demo_req :: ChatRequest where
  "demo_req = \<lparr>req_message = ''fees'', req_session_id = Some ''s'', req_user_id = None, req_search_type = None\<rparr>"

definition demo_tokens :: auth_env where
  "demo_tokens = \<lparr>ae_ids = (\<lambda>n. replicate n CHR ''i''), ae_secret = (\<lambda>n. replicate n CHR ''s''), ae_sha = id,
     ae_bcrypt = (\<lambda>_. Inr), ae_check = (\<lambda>p h. Inr (p = h)), ae_encode = (\<lambda>_. []),
     ae_decode = (\<lambda>_ _. Inl OtherJwtError), ae_access_minutes = 60, ae_refresh_days = 7\<rparr>"

lemma demo_anonymous: "is_admin demo_tokens now hdr = False"
  by (simp add: is_admin_def get_optional_current_user_def demo_tokens_def)

lemma demo_chat_ready: "ready demo_env 0 demo_chat" "cs_broker demo_chat"
  "cache_good demo_env 0 (cs_redis demo_chat)"
proof -
  show "ready demo_env 0 demo_chat" using demo_ready by (simp add: ready_def)
  show "cs_broker demo_chat" by (simp add: demo_chat_def)
  show "cache_good demo_env 0 (cs_redis demo_chat)"
    by (simp add: cache_good_def ac_get_def cache_fetch_def rget_def live_def demo_chat_def empty_server_def)
qed

lemma demo_guard: "allowed (check_input (ce_guard demo_env) m)"
  "sanitized_input (check_input (ce_guard demo_env) m) = Some m" "guard_output demo_env t = t"
  by (simp_all add: demo_env_def check_input_def accepted_def guard_output_def apply_output_guardrails_def)

lemma demo_rewrite: "condense (ce_rewrite demo_env) (ce_condense demo_env) [] ''fees'' = ''fees''"
  unfolding condense_no_history by code_simp

lemma demo_context:
  assumes "mem_same demo_env 0 demo_chat s"
  shows "\<exists>s'. mem_context 0 ''s'' s = (Inr [], s') \<and> mem_same demo_env 0 demo_chat s' \<and> cs_redis s' = cs_redis s
     \<and> others_same s s'"
proof -
  obtain s' where "mem_context 0 ''s'' s = (Inr (context_string (history_of 0 s ''s'')), s')"
    "mem_same demo_env 0 s s'" "cs_redis s' = cs_redis s" "others_same s s'"
    using mem_context_same mem_same_ready [OF assms] unfolding ready_def by blast
  moreover have "history_of 0 s ''s'' = []" using assms demo_ready(3) by (simp add: mem_same_def)
  moreover have "mem_same demo_env 0 demo_chat s'" using assms calculation(2) by (rule mem_same_trans)
  ultimately show ?thesis by (auto simp: context_string_def)
qed

lemma demo_execute:
  assumes "mem_same demo_env 0 demo_chat s" and "cs_redis s = empty_server"
  shows "\<exists>tools d s'. execute_agent demo_env 0 ''fees'' ''s'' None (Some ''fees'') s
       = (Inr (''The fee is 100 [1].'', tools, d), s') \<and> ready demo_env 0 s' \<and> srv_up (cs_redis s')
     \<and> others_same s s' \<and> answers_same demo_env s s' \<and> chunks_of d = [demo_chunk]
     \<and> selected_retrieval_tool d = Some ''hybrid_search''"
proof -
  obtain s1 where s1: "mem_context 0 ''s'' s = (Inr [], s1)" "mem_same demo_env 0 demo_chat s1"
    "cs_redis s1 = empty_server" "others_same s s1" using demo_context [OF assms(1)] assms(2) by auto
  let ?run = "agent_run demo_env 0 ''fees'' (start_deps ''s'' None) s1" let ?a = "''The fee is 100 [1].''"
  obtain d ms where run: "ar_result ?run = Inr (?a, ms)" "ar_deps ?run = d" "chunks_of d = [demo_chunk]"
    "selected_retrieval_tool d = Some ''hybrid_search''" using demo_agent [OF s1(3)] by blast
  have f: "run_frame demo_env s1 (ar_state ?run)" using agent_run_frame by blast
  have rd: "mem_ready 0 s1" "keys_ok demo_env (cs_mem s1)" using s1(2) by (simp_all add: mem_same_def)
  obtain s' where add: "mem_add 0 ''s'' ''fees'' ?a (ar_state ?run) = (Inr (), s')" "ready demo_env 0 s'"
    "others_same (ar_state ?run) s'" "answers_same demo_env (ar_state ?run) s'"
    using record_done [OF mem_same_ready [OF mem_same_run [OF f rd]]] by blast
  have up: "srv_up (cs_redis (ar_state ?run))"
    using f s1(3) by (simp add: run_frame_def redis_frame_def empty_server_def)
  have up': "srv_up (cs_redis s')" using mem_add_up [OF add(1)] up by simp
  have kr: "answers_same demo_env s (ar_state ?run)"
    using kept_retrieval_answers [of demo_env 0 s1 "ar_state ?run"] rd f s1(3) assms(2)
    by (simp add: ready_def run_frame_def kept_retrieval_def answers_same_def)
  have step: "agent_step demo_env 0 ''fees'' (start_deps ''s'' None) s1 = (Inr ?run, ar_state ?run)"
    by (simp add: agent_step_def Let_def)
  have "execute_body demo_env 0 ''fees'' ''fees'' ''s'' None (Some ''fees'') s
      = (Inr (?a, extract_tool_calls (sv_loads (ce_sv demo_env)) ms, d), s')"
    using s1(1) step run add(1) by (simp add: execute_body_def tag_def full_prompt_def demo_guard Let_def)
  then have "execute_agent demo_env 0 ''fees'' ''s'' None (Some ''fees'') s
      = (Inr (?a, extract_tool_calls (sv_loads (ce_sv demo_env)) ms, d), s')"
    by (simp add: execute_agent_def demo_guard Let_def str_or_def)
  moreover have "others_same s s'"
    using s1(4) f add(3) by (simp add: run_frame_def others_same_def)
  moreover have "answers_same demo_env s s'" using kr add(4) by (rule answers_same_trans)
  ultimately show ?thesis using add(2) up' run by blast
qed

lemma demo_chat_run:
  "\<exists>resp s' k. chat demo_env demo_tokens 0 [] demo_req demo_chat = (Inr resp, s')
     \<and> cr_message resp = ''The fee is 100 [1].'' \<and> prefix (ac_prefix (ce_ac demo_env)) k
     \<and> srv_data (cs_redis s') k \<noteq> srv_data (cs_redis demo_chat) k"
proof -
  let ?a = "''The fee is 100 [1].''"
  obtain s1 where s1: "mem_open demo_env (Some ''s'') demo_chat = (Inr ''s'', s1)"
    "mem_same demo_env 0 demo_chat s1" "cs_redis s1 = empty_server" "others_same demo_chat s1"
    using mem_open_same [OF demo_ready(1,2), of "Some ''s''"] by (auto simp: str_or_def demo_chat_def)
  obtain s2 where s2: "mem_context 0 ''s'' s1 = (Inr [], s2)" "mem_same demo_env 0 demo_chat s2"
    "cs_redis s2 = empty_server" "others_same s1 s2" using demo_context [OF s1(2)] s1(3) by auto
  have look: "cached_answer demo_env 0 ''fees'' None s2 = (Inr None, s2)"
    by (simp add: cached_answer_def ac_get_def cache_fetch_def rget_def live_def s2(3) empty_server_def)
  obtain c st where c: "read_settings 0 s2 = (Inr c, s2\<lparr>cs_settings := st\<rparr>)" using read_settings_pg by blast
  let ?s = "s2\<lparr>cs_settings := st\<rparr>"
  have sc: "scope_check demo_env 0 ''fees'' [] s2 = (Inr InScope, ?s)"
    using c by (simp add: scope_check_def classify_query_scope_def demo_env_def)
  have m3: "mem_same demo_env 0 demo_chat ?s"
    using s2(2) by (simp add: mem_same_def mem_ready_def Let_def)
  obtain tools d s3 where e: "execute_agent demo_env 0 ''fees'' ''s'' None (Some ''fees'') ?s
      = (Inr (?a, tools, d), s3)" "ready demo_env 0 s3" "srv_up (cs_redis s3)" "others_same ?s s3"
    "answers_same demo_env ?s s3" "chunks_of d = [demo_chunk]" "selected_retrieval_tool d = Some ''hybrid_search''"
    using demo_execute [OF m3] s2(3) by auto
  have b: "cs_broker s3" using e(4) s2(4) s1(4) by (simp add: others_same_def demo_chat_def)
  obtain v where g: "chat_gate demo_env ?a d = (?a, v, True)"
  proof -
    obtain t' r g c where a: "answer_gate demo_env ?a (chunks_of d) = (t', r, g, c)" by (metis prod_cases4)
    with demo_gate [OF e(6,7)] demo_confident e(6,7) have "t' = ?a" "c" by (simp_all add: turn_gate_def)
    with a e(7) show thesis by (intro that) (simp add: chat_gate_def)
  qed
  obtain resp s4 where f: "chat_finish demo_env 0 False demo_req ''s'' ''fees'' ?a tools d s3 = (Inr resp, s4)"
    "cr_message resp = ?a" "cs_redis s4 = answer_set demo_env 0 ''fees'' None ?a (dump_tools tools) (cs_redis s3)"
    using finish_shape [OF e(2) b g, of False demo_req "''s''" "''fees''" tools] demo_confident e(6)
    by (auto simp: demo_req_def)
  have "chat_body demo_env demo_tokens 0 [] demo_req demo_chat = (Inr resp, s4)"
    using s1(1) s2(1) look sc e(1) f(1)
    by (simp add: chat_body_def demo_anonymous demo_rewrite Let_def hit_def)
      (simp add: demo_req_def demo_rewrite)
  then have run: "chat demo_env demo_tokens 0 [] demo_req demo_chat = (Inr resp, s4)" by (simp add: chat_def)
  let ?k = "ac_prefix (ce_ac demo_env) @ ac_raw (qc_version (sv_qc (ce_sv demo_env)) True (cs_redis s3) 0)
      (None, ''fees'')"
  have "py_strip ''fees'' = ''fees''" by code_simp
  then have "srv_data (cs_redis s4) ?k \<noteq> None"
    using e(3) by (simp add: f(3) answer_set_def ac_set_def demo_env_def demo_services_def default_ac_config_def
        cache_store_def rsetex_def)
  then have "srv_data (cs_redis s4) ?k \<noteq> srv_data (cs_redis demo_chat) ?k"
    by (simp add: demo_chat_def empty_server_def)
  with run f(2) show ?thesis by (metis prefixI)
qed

section \<open>Properties\<close>





end
