(* ===== verification/ChatStream.thy ===== *)
theory ChatStream
  imports ChatProps
begin

text \<open>
  \<open>/chat/stream\<close> of \<open>agent/api.py\<close>: the generator of server-sent events, branch by branch in
  the order of the code.  Its exception handler turns what escapes into an error event.
\<close>

section \<open>Events\<close>

fun emit_all :: "event list \<Rightarrow> unit turn_step" where
  "emit_all [] = reply ()"
| "emit_all (e # es) = hbind (emit e) (\<lambda>_. emit_all es)"

section \<open>Branches\<close>

definition stream_cached ::
  "chat_env \<Rightarrow> rat \<Rightarrow> string \<Rightarrow> string \<Rightarrow> json \<Rightarrow> unit turn_step" where
  "stream_cached ce now sid msg j =
     hbind (pure (payload_answer j)) (\<lambda>a.
     hbind (emit (TextEvent a)) (\<lambda>_.
     hbind (mem_add now sid msg a) (\<lambda>_.
     hbind (swallow (log_messages ce sid msg a [(''cache_hit'', JBool True)])) (\<lambda>_.
       emit EndEvent))))"

definition stream_declined :: "chat_env \<Rightarrow> rat \<Rightarrow> string \<Rightarrow> string \<Rightarrow> unit turn_step" where
  "stream_declined ce now sid msg =
     hbind (read_settings now) (\<lambda>c.
     hbind (emit (TextEvent (out_of_scope_message c))) (\<lambda>_.
     hbind (swallow (log_messages ce sid msg (out_of_scope_message c) [(''out_of_scope'', JBool True)])) (\<lambda>_.
       emit EndEvent)))"

definition weak_metadata :: "chat_env \<Rightarrow> string \<Rightarrow> meta" where
  "weak_metadata ce msg = debug_metadata (provenance ce [] [] msg ESCALATION)
     [(''selected_retrieval_tool'', JStr ''none''), (''retrieved_chunks'', JArr []), (''neo4j_results'', JArr []),
      (''redis_session_context'', JStr []), (''final_answer'', JStr ESCALATION),
      (''low_confidence_triggered'', JBool True)]"

definition stream_weak :: "chat_env \<Rightarrow> bool \<Rightarrow> string \<Rightarrow> string \<Rightarrow> unit turn_step" where
  "stream_weak ce admin sid msg =
     hbind (enqueue (NotifyAdmin sid msg)) (\<lambda>_.
     hbind (emit (TextEvent ESCALATION)) (\<lambda>_.
     hbind (swallow (log_messages ce sid msg ESCALATION (weak_metadata ce msg))) (\<lambda>_.
     hbind (if admin then emit (ToolsEvent [] (Some (weak_metadata ce msg))) else reply ()) (\<lambda>_.
       emit EndEvent))))"

text \<open>The gates of a stream: without a tool call the search counts as selected.\<close>

definition stream_gate ::
  "chat_env \<Rightarrow> string \<Rightarrow> AgentDependencies \<Rightarrow> string \<times> string \<times> string \<times> bool" where
  "stream_gate ce full deps =
     (if str_or (selected_retrieval_tool deps) ''hybrid_search'' = ''hybrid_search''
      then let (t, r, g, cacheable) = answer_gate ce (guard_output ce full) (chunks_of deps)
           in (t, cite_reason_str r, (case g of None \<Rightarrow> ''skipped'' | Some st \<Rightarrow> st), cacheable)
      else (guard_output ce full, ''skipped'', ''skipped'', False))"

definition stream_finish ::
  "chat_env \<Rightarrow> rat \<Rightarrow> bool \<Rightarrow> string \<Rightarrow> string option \<Rightarrow> string \<Rightarrow> string \<Rightarrow> string \<Rightarrow> ToolCall list
   \<Rightarrow> AgentDependencies \<Rightarrow> unit turn_step" where
  "stream_finish ce now admin sid uid msg q full tools deps =
     (let (guarded, cite, ground, cacheable) = stream_gate ce full deps;
          tool = str_or (selected_retrieval_tool deps) ''hybrid_search'' in
      hbind (if guarded \<noteq> full then emit (ReplaceEvent guarded) else reply ()) (\<lambda>_.
      hbind (mem_add now sid msg guarded) (\<lambda>_.
      hbind (if cacheable \<and> \<not> admin then store_answer ce now q uid guarded (dump_tools tools) else reply ()) (\<lambda>_.
      hbind (mem_context now sid) (\<lambda>context.
        let dbg = debug_metadata (provenance ce tool (chunks_of deps) msg guarded)
              (debug_fields tool deps context msg guarded
                [(''citation_check'', JStr cite), (''groundedness'', JStr ground)]) in
        hbind (swallow (log_messages ce sid msg guarded dbg)) (\<lambda>_.
        hbind (if admin then emit (ToolsEvent tools (Some dbg))
               else if tools \<noteq> [] then emit (ToolsEvent tools None) else reply ()) (\<lambda>_.
          emit EndEvent)))))))"

definition stream_answer ::
  "chat_env \<Rightarrow> rat \<Rightarrow> bool \<Rightarrow> string \<Rightarrow> string option \<Rightarrow> string \<Rightarrow> string \<Rightarrow> string \<Rightarrow> unit turn_step" where
  "stream_answer ce now admin sid uid msg history q =
     (let verdict = check_input (ce_guard ce) msg in
      if \<not> allowed verdict
      then let b = str_or (user_message verdict) BLOCKED_DEFAULT in
           hbind (emit (TextEvent b)) (\<lambda>_. hbind (mem_add now sid msg b) (\<lambda>_. emit EndEvent))
      else hbind (agent_step ce now (full_prompt history q) (start_deps sid uid)) (\<lambda>run.
           hbind (emit_all (map TextEvent (ar_deltas run))) (\<lambda>_.
           hbind (pure (ar_result run)) (\<lambda>(_, msgs).
             stream_finish ce now admin sid uid msg q (concat (ar_deltas run))
               (extract_tool_calls (sv_loads (ce_sv ce)) msgs) (ar_deps run)))))"

definition pre_search :: "chat_env \<Rightarrow> rat \<Rightarrow> string \<Rightarrow> string option \<Rightarrow> ChunkResult list turn_step" where
  "pre_search ce now q uid s =
     (let (cs, srv) = hybrid_search_tool (ce_sv ce) (cs_redis s) now q 10 (3 / 10) uid
      in (Inr cs, s\<lparr>cs_redis := srv\<rparr>))"

definition generate_stream ::
  "chat_env \<Rightarrow> rat \<Rightarrow> bool \<Rightarrow> string \<Rightarrow> ChatRequest \<Rightarrow> unit turn_step" where
  "generate_stream ce now admin sid req =
     (let msg = req_message req; uid = req_user_id req in
      hbind (emit (SessionEvent sid)) (\<lambda>_.
      hbind (swallow (db_session sid uid)) (\<lambda>_.
      hbind (mem_context now sid) (\<lambda>history.
        let q = condense (ce_rewrite ce) (ce_condense ce) history msg in
        hbind (if admin then reply None else cached_answer ce now q uid) (\<lambda>cached.
          if hit cached then stream_cached ce now sid msg (the cached)
          else hbind (scope_check ce now q history) (\<lambda>verdict.
            if verdict = OutOfScope then stream_declined ce now sid msg
            else hbind (pre_search ce now q uid) (\<lambda>pre.
              if is_low_confidence pre then stream_weak ce admin sid msg
              else stream_answer ce now admin sid uid msg history q)))))))"

definition chat_stream ::
  "chat_env \<Rightarrow> auth_env \<Rightarrow> rat \<Rightarrow> string \<Rightarrow> ChatRequest \<Rightarrow> (chat_state, unit) handler" where
  "chat_stream ce ae now hdr req =
     attempt (hbind (mem_open ce (req_session_id req)) (\<lambda>sid.
       attempt (generate_stream ce now (is_admin ae now hdr) sid req)
         (\<lambda>e. emit (ErrorEvent (ce_what ce e))))) (\<lambda>e. http_fail 500 (ce_what ce e))"

text \<open>What a client shows that appends texts and obeys replacements.\<close>

fun shown :: "string \<Rightarrow> event list \<Rightarrow> string" where
  "shown acc [] = acc"
| "shown acc (e # es) = shown (case e of TextEvent t \<Rightarrow> acc @ t | ReplaceEvent t \<Rightarrow> t | _ \<Rightarrow> acc) es"

end
