(* ===== verification/StreamProps.thy ===== *)
theory StreamProps
  imports ChatStream
begin

text \<open>
  What a stream guarantees: the shape of its event sequence, that the text a client ends up
  showing is the text the session memory records, and that an error leaves the memory alone.
  The last section shows what the stream memoises without a search.
\<close>

section \<open>Steps\<close>

lemma emit_simp [simp]: "emit e s = (Inr (), s\<lparr>cs_events := cs_events s @ [e]\<rparr>)"
  by (simp add: emit_def)

lemma emit_all_simp [simp]: "emit_all es s = (Inr (), s\<lparr>cs_events := cs_events s @ es\<rparr>)"
  by (induction es arbitrary: s) simp_all

lemma log_quiet: "\<exists>db. swallow (log_messages ce sid msg a m) s = (Inr (), s\<lparr>cs_pg := db\<rparr>)"
proof -
  obtain r db where "log_messages ce sid msg a m s = (r, s\<lparr>cs_pg := db\<rparr>)" using log_messages_pg by blast
  then show ?thesis by (cases r) (auto simp: swallow_def)
qed

lemma session_quiet: "\<exists>db. swallow (db_session sid uid) s = (Inr (), s\<lparr>cs_pg := db\<rparr>)"
proof (cases "ensure_session sid uid (cs_pg s)")
  case (Inl e)
  then have "swallow (db_session sid uid) s = (Inr (), s\<lparr>cs_pg := cs_pg s\<rparr>)"
    by (simp add: swallow_def db_session_def attempt_def)
  then show ?thesis by blast
qed (auto simp: swallow_def db_session_def attempt_def)

text \<open>\<open>silent\<close>: the histories and the events are as before and the memory is ready.\<close>

definition silent :: "chat_env \<Rightarrow> rat \<Rightarrow> chat_state \<Rightarrow> chat_state \<Rightarrow> bool" where
  "silent ce now s s' \<longleftrightarrow> ready ce now s' \<and> history_of now s' = history_of now s
     \<and> window_of s' = window_of s \<and> cs_events s' = cs_events s \<and> cs_broker s' = cs_broker s"

lemma silent_refl: "ready ce now s \<Longrightarrow> silent ce now s s"
  by (simp add: silent_def)

lemma silent_trans: "silent ce now a b \<Longrightarrow> silent ce now b c \<Longrightarrow> silent ce now a c"
  by (simp add: silent_def)

lemma silent_frame [simp]:
  "silent ce now s (s'\<lparr>cs_pg := db\<rparr>) = silent ce now s s'"
  "silent ce now s (s'\<lparr>cs_settings := st\<rparr>) = silent ce now s s'"
  by (simp_all add: silent_def)

lemma silent_mem: "mem_same ce now s s' \<Longrightarrow> others_same s s' \<Longrightarrow> silent ce now s s'"
  using mem_same_ready [of ce now s s'] mem_same_history [of ce now s s']
  by (simp add: silent_def) (simp add: mem_same_def others_same_def)

lemma silent_context:
  assumes "ready ce now s"
  shows "\<exists>h s'. mem_context now sid s = (Inr h, s') \<and> silent ce now s s' \<and> cs_redis s' = cs_redis s"
proof -
  obtain h s' where "mem_context now sid s = (Inr h, s')" "mem_same ce now s s'" "cs_redis s' = cs_redis s"
    "others_same s s'" using mem_context_same assms unfolding ready_def by blast
  then show ?thesis using silent_mem by blast
qed

lemma silent_search:
  assumes "ready ce now s"
  shows "\<exists>cs s'. pre_search ce now q uid s = (Inr cs, s') \<and> silent ce now s s'"
proof -
  let ?w = "\<lambda>k. prefix (qc_prefix (sv_qc (ce_sv ce))) k"
  obtain cs srv where r: "hybrid_search_tool (ce_sv ce) (cs_redis s) now q 10 (3 / 10) uid = (cs, srv)"
    by (metis prod.exhaust)
  then have "redis_frame ?w (cs_redis s) srv"
    using redis_frame_search [of ?w "ce_sv ce" "cs_redis s" now q 10 "3 / 10" uid] by simp
  then have "run_frame ce s (s\<lparr>cs_redis := srv\<rparr>)" by (simp add: run_frame_def others_same_def)
  from mem_same_run [OF this] assms have "mem_same ce now s (s\<lparr>cs_redis := srv\<rparr>)" by (simp add: ready_def)
  then have "silent ce now s (s\<lparr>cs_redis := srv\<rparr>)" by (rule silent_mem) (simp add: others_same_def)
  with r show ?thesis by (auto simp: pre_search_def)
qed

section \<open>The end of a stream\<close>

text \<open>\<open>closes admin es t\<close>: a well-formed rest of a stream whose text is \<open>t\<close>: texts, at most one
  replacement, at most one tools event, with debug data for administrators only, the end.\<close>

definition closes :: "bool \<Rightarrow> event list \<Rightarrow> string \<Rightarrow> bool" where
  "closes admin es t \<longleftrightarrow> (\<exists>texts rp tools. es = map TextEvent texts @ rp @ tools @ [EndEvent]
     \<and> (rp = [] \<and> t = concat texts \<or> rp = [ReplaceEvent t])
     \<and> (tools = [] \<or> (\<exists>ts m. tools = [ToolsEvent ts m] \<and> (m \<noteq> None \<longrightarrow> admin))))"

lemma closes_text: "closes admin [TextEvent t, EndEvent] t"
  unfolding closes_def by (intro exI [of _ "[t]"] exI [of _ "[]"]) simp

lemma shown_texts: "shown acc (map TextEvent ts @ es) = shown (acc @ concat ts) es"
  by (induction ts arbitrary: acc) simp_all

lemma closes_shown: "closes admin es t \<Longrightarrow> shown [] es = t"
  by (auto simp: closes_def shown_texts)

text \<open>One branch: it closes with the recorded text, closes without a record, or fails after
  some texts.\<close>

definition branch :: "chat_env \<Rightarrow> rat \<Rightarrow> bool \<Rightarrow> string \<Rightarrow> string \<Rightarrow> unit turn_step \<Rightarrow> chat_state \<Rightarrow> bool" where
  "branch ce now admin sid msg m s \<longleftrightarrow>
     (\<exists>s' es t. m s = (Inr (), s') \<and> cs_events s' = cs_events s @ es \<and> closes admin es t
        \<and> (recorded now sid msg t s s'
           \<or> history_of now s' = history_of now s \<and> (t = ESCALATION \<or> (\<exists>c :: AgentConfig. t = out_of_scope_message c))))
   \<or> (\<exists>e s' ts. m s = (Inl e, s') \<and> cs_events s' = cs_events s @ map TextEvent ts
        \<and> history_of now s' = history_of now s)"

lemma branch_silent:
  assumes "silent ce now s z" and "branch ce now admin sid msg m z" and "m' s = m z"
  shows "branch ce now admin sid msg m' s"
  using assms by (auto simp: branch_def silent_def recorded_def)

lemma recorded_frame [simp]:
  "recorded now sid msg a s (s'\<lparr>cs_events := es\<rparr>) = recorded now sid msg a s s'"
  "recorded now sid msg a s (s'\<lparr>cs_pg := db\<rparr>) = recorded now sid msg a s s'"
  "recorded now sid msg a (s\<lparr>cs_events := es\<rparr>) s' = recorded now sid msg a s s'"
  by (simp_all add: recorded_def)

lemma branch_cached:
  assumes "ready ce now s"
  shows "branch ce now admin sid msg (stream_cached ce now sid msg (ac_payload a ts)) s"
proof -
  let ?s = "s\<lparr>cs_events := cs_events s @ [TextEvent a]\<rparr>"
  have "ready ce now ?s" using assms by simp
  from record_done [OF this, of sid msg a] obtain s1 where s1: "mem_add now sid msg a ?s = (Inr (), s1)"
    "recorded now sid msg a ?s s1" "others_same ?s s1" by blast
  obtain db where l: "swallow (log_messages ce sid msg a [(''cache_hit'', JBool True)]) s1
      = (Inr (), s1\<lparr>cs_pg := db\<rparr>)" using log_quiet by blast
  let ?s' = "s1\<lparr>cs_pg := db, cs_events := cs_events s1 @ [EndEvent]\<rparr>"
  have "stream_cached ce now sid msg (ac_payload a ts) s = (Inr (), ?s')"
    using s1(1) l by (simp add: stream_cached_def)
  moreover have "cs_events ?s' = cs_events s @ [TextEvent a, EndEvent]" using s1(3) by (simp add: others_same_def)
  moreover have "recorded now sid msg a s ?s'" using s1(2) by (simp add: recorded_def)
  ultimately show ?thesis using closes_text unfolding branch_def by blast
qed

lemma branch_declined:
  assumes "ready ce now s"
  shows "branch ce now admin sid msg (stream_declined ce now sid msg) s"
proof -
  obtain c st where c: "read_settings now s = (Inr c, s\<lparr>cs_settings := st\<rparr>)" using read_settings_pg by blast
  let ?t = "out_of_scope_message c"
  let ?s1 = "(s\<lparr>cs_settings := st\<rparr>)\<lparr>cs_events := cs_events s @ [TextEvent ?t]\<rparr>"
  obtain db where l: "swallow (log_messages ce sid msg ?t [(''out_of_scope'', JBool True)]) ?s1
      = (Inr (), ?s1\<lparr>cs_pg := db\<rparr>)" using log_quiet by blast
  let ?s' = "?s1\<lparr>cs_pg := db, cs_events := cs_events s @ [TextEvent ?t, EndEvent]\<rparr>"
  have "stream_declined ce now sid msg s = (Inr (), ?s')" using c l by (simp add: stream_declined_def)
  moreover have "cs_events ?s' = cs_events s @ [TextEvent ?t, EndEvent]" by simp
  moreover have "history_of now ?s' = history_of now s" by (simp add: history_of_def fun_eq_iff Let_def)
  ultimately show ?thesis using closes_text unfolding branch_def by blast
qed

lemma branch_weak:
  assumes "cs_broker s"
  shows "branch ce now admin sid msg (stream_weak ce admin sid msg) s"
proof -
  let ?m = "weak_metadata ce msg" let ?es = "if admin then [ToolsEvent [] (Some ?m)] else []"
  let ?s1 = "s\<lparr>cs_tasks := cs_tasks s @ [NotifyAdmin sid msg], cs_events := cs_events s @ [TextEvent ESCALATION]\<rparr>"
  obtain db where l: "swallow (log_messages ce sid msg ESCALATION ?m) ?s1 = (Inr (), ?s1\<lparr>cs_pg := db\<rparr>)"
    using log_quiet by blast
  let ?s' = "?s1\<lparr>cs_pg := db, cs_events := cs_events s @ [TextEvent ESCALATION] @ ?es @ [EndEvent]\<rparr>"
  have "stream_weak ce admin sid msg s = (Inr (), ?s')"
    using assms l by (simp add: stream_weak_def enqueue_def)
  moreover have "cs_events ?s' = cs_events s @ ([TextEvent ESCALATION] @ ?es @ [EndEvent])" by simp
  moreover have "closes admin ([TextEvent ESCALATION] @ ?es @ [EndEvent]) ESCALATION"
    unfolding closes_def by (intro exI [of _ "[ESCALATION]"] exI [of _ "[]"] exI [of _ ?es]) simp
  moreover have "history_of now ?s' = history_of now s" by (simp add: history_of_def fun_eq_iff Let_def)
  ultimately show ?thesis unfolding branch_def by blast
qed

lemma stream_finish_shape:
  assumes "ready ce now s" and "stream_gate ce full d = (t, cite, ground, c)"
  shows "\<exists>s' (s1 :: chat_state) rp tl. stream_finish ce now admin sid uid msg q full tools d s = (Inr (), s')
     \<and> cs_events s' = cs_events s @ rp @ tl @ [EndEvent] \<and> (rp = [] \<and> t = full \<or> rp = [ReplaceEvent t])
     \<and> (tl = [] \<or> (\<exists>m. tl = [ToolsEvent tools m] \<and> (m \<noteq> None \<longrightarrow> admin)))
     \<and> recorded now sid msg t s s' \<and> srv_up (cs_redis s1) = srv_up (cs_redis s)
     \<and> cs_redis s' = (if c \<and> \<not> admin then answer_set ce now q uid t (dump_tools tools) (cs_redis s1) else cs_redis s1)"
proof -
  let ?rp = "if t \<noteq> full then [ReplaceEvent t] else []"
  let ?s0 = "if t \<noteq> full then s\<lparr>cs_events := cs_events s @ [ReplaceEvent t]\<rparr> else s"
  have "ready ce now ?s0" using assms(1) by simp
  from record_done [OF this, of sid msg t] obtain s1 where s1: "mem_add now sid msg t ?s0 = (Inr (), s1)"
    "recorded now sid msg t ?s0 s1" "ready ce now s1" "others_same ?s0 s1" by blast
  let ?s2 = "if c \<and> \<not> admin then s1\<lparr>cs_redis := answer_set ce now q uid t (dump_tools tools) (cs_redis s1)\<rparr> else s1"
  have st: "(if c \<and> \<not> admin then store_answer ce now q uid t (dump_tools tools) else reply ()) s1 = (Inr (), ?s2)"
    by (simp add: store_answer_def answer_set_def)
  have "mem_same ce now s1 s1" using s1(3) by (simp add: ready_def mem_same_refl)
  then have m2: "mem_same ce now s1 ?s2" using mem_same_answer [of ce now s1 s1 ?s2] by (cases "c \<and> \<not> admin") auto
  obtain ctx s3 where s3: "mem_context now sid ?s2 = (Inr ctx, s3)" "silent ce now ?s2 s3" "cs_redis s3 = cs_redis ?s2"
    using silent_context [OF mem_same_ready [OF m2]] by blast
  let ?tool = "str_or (selected_retrieval_tool d) ''hybrid_search''"
  let ?dbg = "debug_metadata (provenance ce ?tool (chunks_of d) msg t) (debug_fields ?tool d ctx msg t
      [(''citation_check'', JStr cite), (''groundedness'', JStr ground)])"
  obtain db where l: "swallow (log_messages ce sid msg t ?dbg) s3 = (Inr (), s3\<lparr>cs_pg := db\<rparr>)"
    using log_quiet by blast
  let ?tl = "if admin then [ToolsEvent tools (Some ?dbg)] else if tools \<noteq> [] then [ToolsEvent tools None] else []"
  let ?s' = "s3\<lparr>cs_pg := db, cs_events := cs_events s3 @ ?tl @ [EndEvent]\<rparr>"
  have rp: "(if t \<noteq> full then emit (ReplaceEvent t) else reply ()) s = (Inr (), ?s0)" by simp
  have f: "stream_finish ce now admin sid uid msg q full tools d s = (Inr (), ?s')"
    using rp s1(1) st s3(1) l assms(2) by (simp add: stream_finish_def Let_def)
  have ev: "cs_events ?s' = cs_events s @ ?rp @ ?tl @ [EndEvent]"
    using s3(2) s1(4) by (auto simp: silent_def others_same_def)
  have re: "recorded now sid msg t s ?s'"
  proof -
    have "history_of now ?s' = history_of now s1"
      using s3(2) mem_same_history [OF m2] by (simp add: silent_def history_of_def fun_eq_iff Let_def)
    with s1(2) show ?thesis by (auto simp: recorded_def split: if_splits)
  qed
  have up: "srv_up (cs_redis s1) = srv_up (cs_redis s)" using mem_add_up [OF s1(1)] by simp
  have red: "cs_redis ?s' = (if c \<and> \<not> admin then answer_set ce now q uid t (dump_tools tools) (cs_redis s1)
      else cs_redis s1)" using s3(3) by simp
  have rt: "?rp = [] \<and> t = full \<or> ?rp = [ReplaceEvent t]"
    and tt: "?tl = [] \<or> (\<exists>m. ?tl = [ToolsEvent tools m] \<and> (m \<noteq> None \<longrightarrow> admin))" by simp_all
  show ?thesis
    by (rule exI [of _ ?s'], rule exI [of _ s1], rule exI [of _ ?rp], rule exI [of _ ?tl],
        rule conjI [OF f conjI [OF ev conjI [OF rt conjI [OF tt conjI [OF re conjI [OF up red]]]]]])
qed

lemma branch_answer:
  assumes "ready ce now s"
  shows "branch ce now admin sid msg (stream_answer ce now admin sid uid msg history q) s"
proof (cases "allowed (check_input (ce_guard ce) msg)")
  case False
  let ?b = "str_or (user_message (check_input (ce_guard ce) msg)) BLOCKED_DEFAULT"
  let ?s = "s\<lparr>cs_events := cs_events s @ [TextEvent ?b]\<rparr>"
  have "ready ce now ?s" using assms by simp
  from record_done [OF this, of sid msg ?b] obtain s1 where s1: "mem_add now sid msg ?b ?s = (Inr (), s1)"
    "recorded now sid msg ?b ?s s1" "others_same ?s s1" by blast
  let ?s' = "s1\<lparr>cs_events := cs_events s1 @ [EndEvent]\<rparr>"
  have "stream_answer ce now admin sid uid msg history q s = (Inr (), ?s')"
    using s1(1) False by (simp add: stream_answer_def Let_def)
  moreover have "cs_events ?s' = cs_events s @ [TextEvent ?b, EndEvent]" using s1(3) by (simp add: others_same_def)
  moreover have "recorded now sid msg ?b s ?s'" using s1(2) by simp
  ultimately show ?thesis using closes_text unfolding branch_def by blast
next
  case True
  obtain run s1 where r: "agent_step ce now (full_prompt history q) (start_deps sid uid) s = (Inr run, s1)"
    "mem_same ce now s s1" "others_same s s1" using agent_step_done [OF assms] by blast
  have sil: "silent ce now s s1" by (rule silent_mem [OF r(2,3)])
  let ?ds = "ar_deltas run" let ?s2 = "s1\<lparr>cs_events := cs_events s1 @ map TextEvent ?ds\<rparr>"
  have ev: "cs_events ?s2 = cs_events s @ map TextEvent ?ds" using sil by (simp add: silent_def)
  show ?thesis
  proof (cases "ar_result run")
    case (Inl e)
    then have "stream_answer ce now admin sid uid msg history q s = (Inl e, ?s2)"
      using r(1) True by (simp add: stream_answer_def Let_def)
    moreover have "history_of now ?s2 = history_of now s" using sil by (simp add: silent_def)
    ultimately show ?thesis using ev unfolding branch_def by blast
  next
    case (Inr p)
    then obtain a msgs where p: "ar_result run = Inr (a, msgs)" by (cases p) auto
    let ?tools = "extract_tool_calls (sv_loads (ce_sv ce)) msgs" let ?full = "concat ?ds"
    obtain t cite ground c where g: "stream_gate ce ?full (ar_deps run) = (t, cite, ground, c)" by (metis prod_cases4)
    have "ready ce now ?s2" using sil by (simp add: silent_def)
    from stream_finish_shape [OF this g, of admin sid uid msg q ?tools] obtain s' s1' rp tl where
      f: "stream_finish ce now admin sid uid msg q ?full ?tools (ar_deps run) ?s2 = (Inr (), s')"
      "cs_events s' = cs_events ?s2 @ rp @ tl @ [EndEvent]" "rp = [] \<and> t = ?full \<or> rp = [ReplaceEvent t]"
      "tl = [] \<or> (\<exists>m. tl = [ToolsEvent ?tools m] \<and> (m \<noteq> None \<longrightarrow> admin))" "recorded now sid msg t ?s2 s'"
      by (elim exE conjE) (rule that; assumption)
    have "stream_answer ce now admin sid uid msg history q s = (Inr (), s')"
      using r(1) True p f(1) by (simp add: stream_answer_def Let_def)
    moreover have "cs_events s' = cs_events s @ (map TextEvent ?ds @ rp @ tl @ [EndEvent])"
      using f(2) ev by simp
    moreover have "closes admin (map TextEvent ?ds @ rp @ tl @ [EndEvent]) t"
      using f(3,4) unfolding closes_def by blast
    moreover have "recorded now sid msg t s s'" using f(5) sil by (simp add: recorded_def silent_def)
    ultimately show ?thesis unfolding branch_def by blast
  qed
qed

lemma generate_branch:
  assumes "ready ce now s" and "cs_broker s" and "cache_good ce now (cs_redis s)"
  shows "\<exists>s'. cs_events s' = cs_events s @ [SessionEvent sid] \<and> history_of now s' = history_of now s
     \<and> window_of s' = window_of s
     \<and> (\<exists>m. generate_stream ce now admin sid req s = m s' \<and> branch ce now admin sid (req_message req) m s')"
proof -
  let ?msg = "req_message req" let ?uid = "req_user_id req"
  let ?s0 = "s\<lparr>cs_events := cs_events s @ [SessionEvent sid]\<rparr>"
  obtain db where db: "swallow (db_session sid ?uid) ?s0 = (Inr (), ?s0\<lparr>cs_pg := db\<rparr>)" using session_quiet by blast
  let ?s1 = "?s0\<lparr>cs_pg := db\<rparr>"
  have r1: "ready ce now ?s1" using assms(1) by simp
  then obtain h s2 where s2: "mem_context now sid ?s1 = (Inr h, s2)" "silent ce now ?s1 s2" "cs_redis s2 = cs_redis ?s1"
    using silent_context by blast
  let ?q = "condense (ce_rewrite ce) (ce_condense ce) h ?msg"
  let ?c = "if admin then None else ac_get (ce_ac ce) (sv_qc (ce_sv ce)) (sv_sha (ce_sv ce))
      (sv_client (ce_sv ce)) (cs_redis s) now ?q ?uid"
  have look: "(if admin then reply None else cached_answer ce now ?q ?uid) s2 = (Inr ?c, s2)"
    using s2(3) by (simp add: cached_answer_def)
  have r2: "ready ce now s2" "cs_broker s2" using s2(2) assms(2) by (simp_all add: silent_def)
  have found: ?thesis if "generate_stream ce now admin sid req s = m s2"
    and "branch ce now admin sid ?msg m s2" for m
    using that s2(2) by (intro exI [of _ s2]) (auto simp: silent_def)
  show ?thesis
  proof (cases "hit ?c")
    case True
    then obtain j where j: "?c = Some j" "\<not> admin" by (auto simp: hit_def split: option.splits if_splits)
    with assms(3) obtain a ts where a: "j = ac_payload a (Some (dump_tools ts))"
      unfolding cache_good_def by (auto split: if_splits) blast
    have "generate_stream ce now admin sid req s = stream_cached ce now sid ?msg (ac_payload a (Some (dump_tools ts))) s2"
      using db s2(1) look True j a by (simp add: generate_stream_def Let_def)
    then show ?thesis by (rule found) (rule branch_cached [OF r2(1)])
  next
    case False
    obtain c st where c: "read_settings now s2 = (Inr c, s2\<lparr>cs_settings := st\<rparr>)" using read_settings_pg by blast
    let ?s3 = "s2\<lparr>cs_settings := st\<rparr>" let ?v = "classify_query_scope c (ce_scope ce) ?q (Some h)"
    have sc: "scope_check ce now ?q h s2 = (Inr ?v, ?s3)" using c by (simp add: scope_check_def)
    have s3: "silent ce now s2 ?s3" using r2(1) by (simp add: silent_refl)
    show ?thesis
    proof (cases "?v = OutOfScope")
      case True
      have "generate_stream ce now admin sid req s = stream_declined ce now sid ?msg ?s3"
        using db s2(1) look False sc True by (simp add: generate_stream_def Let_def)
      then show ?thesis
        by (intro found [of "\<lambda>_. stream_declined ce now sid ?msg ?s3"])
          (use branch_silent [OF s3 branch_declined] s3 in \<open>simp_all add: silent_def\<close>)
    next
      case inscope: False
      obtain pre s4 where s4: "pre_search ce now ?q ?uid ?s3 = (Inr pre, s4)" "silent ce now ?s3 s4"
        using silent_search s3 unfolding silent_def by blast
      have s24: "silent ce now s2 s4" using s3 s4(2) by (rule silent_trans)
      then have r4: "ready ce now s4" "cs_broker s4" using r2(2) by (simp_all add: silent_def)
      let ?m = "if is_low_confidence pre then stream_weak ce admin sid ?msg
        else stream_answer ce now admin sid ?uid ?msg h ?q"
      have "generate_stream ce now admin sid req s = ?m s4"
        using db s2(1) look False sc inscope s4(1) by (simp add: generate_stream_def Let_def)
      moreover have "branch ce now admin sid ?msg ?m s4"
        using branch_weak [OF r4(2)] branch_answer [OF r4(1)] by simp
      ultimately show ?thesis
        by (intro found [of "\<lambda>_. ?m s4"]) (use branch_silent [OF s24] in simp_all)
    qed
  qed
qed

section \<open>Answers without a search\<close>

text \<open>With no chunks there is nothing to cite, so the validator and the judge let pass what the
  model says on its own.\<close>

lemma gate_unretrieved:
  assumes "extract_citations t = []" and "is_substantive t" and "\<not> looks_like_abstention t"
  shows "answer_gate ce t [] = (t, Ok, Some STATUS_SKIPPED, True)"
proof -
  have "enforce_citations t [] = (t, Ok)"
    using assms by (simp add: enforce_citations_def validate_citations_def Let_def)
  moreover have "enforce_groundedness cfg render judge t [] = (t, STATUS_SKIPPED)" for cfg render judge
    by (simp add: enforce_groundedness_def assess_def verdict0_def Let_def)
  ultimately show ?thesis by (simp add: answer_gate_def CACHEABLE_STATUSES_def)
qed

lemma stored_answer_found:
  assumes "keys_ok ce m" and "srv_up srv" and "sv_client (ce_sv ce)" and "ac_enabled (ce_ac ce)"
    and "0 < ac_ttl (ce_ac ce)" and "a \<noteq> []" and "py_strip q \<noteq> []"
  shows "ac_get (ce_ac ce) (sv_qc (ce_sv ce)) (sv_sha (ce_sv ce)) True (answer_set ce now q uid a ts srv) now q uid
    = Some (ac_payload a (Some ts))"
proof -
  have "keys_apart (sv_qc (ce_sv ce)) (ce_ac ce)"
    using assms(1) by (simp add: keys_ok_def apart_def keys_apart_def)
  then have
    "qc_version (sv_qc (ce_sv ce)) True (answer_set ce now q uid a ts srv) now = qc_version (sv_qc (ce_sv ce)) True srv now"
    using assms(3) by (simp add: answer_set_def qc_version_ac_set)
  with assms show ?thesis
    by (simp add: ac_get_def) (simp add: answer_set_def ac_set_def cache_fetch_same)
qed

lemma agent_step_direct:
  assumes "\<forall>sys p. ce_model ce sys p [] = Answer [t]" and "ce_limit ce = Suc n"
  shows "\<exists>s'. agent_step ce now p (start_deps sid uid) s =
    (Inr \<lparr>ar_result = Inr (t, [[OtherPart]]), ar_deltas = [t], ar_deps = start_deps sid uid, ar_state = s'\<rparr>, s')
    \<and> cs_redis s' = cs_redis s"
  using assms by (cases "get_system_prompt (cs_sdb s) now (cs_settings s)")
    (simp add: agent_step_def agent_run_def)

definition demo_free :: chat_env where
  "demo_free = demo_env\<lparr>ce_model := \<lambda>_ _ _. Answer
     [''The yearly fee for every student of every single programme is two hundred euros'']\<rparr>"

section \<open>Properties\<close>



text \<open>C13: a stream memoises what the model makes up.  When the model answers a streamed question
  without calling a tool, a substantive text without any citation passes both gates, is
  recorded, and is stored in the answer cache, from where the next caller of the same scope
  gets it; the same answer would be escalated by \<open>/chat\<close> and withheld by a turn.\<close>

theorem stream_memoises_unretrieved:
  assumes "ready ce now s" and "srv_up (cs_redis s)" and "sv_client (ce_sv ce)"
    and "ac_enabled (ce_ac ce)" and "0 < ac_ttl (ce_ac ce)" and "py_strip q \<noteq> []"
    and "allowed (check_input (ce_guard ce) msg)" and "ce_limit ce = Suc n"
    and "\<forall>sys p. ce_model ce sys p [] = Answer [t]" and "guard_output ce t = t"
    and "extract_citations t = []" and "is_substantive t" and "\<not> looks_like_abstention t"
  shows "\<exists>s'. stream_answer ce now False sid uid msg history q s = (Inr (), s')
     \<and> recorded now sid msg t s s'
     \<and> ac_get (ce_ac ce) (sv_qc (ce_sv ce)) (sv_sha (ce_sv ce)) (sv_client (ce_sv ce)) (cs_redis s') now q uid
         = Some (ac_payload t (Some []))
     \<and> is_low_confidence (chunks_of (start_deps sid uid))"
proof -
  have empty: "chunks_of (start_deps sid uid) = []" "selected_retrieval_tool (start_deps sid uid) = None"
    by (simp_all add: start_deps_def chunks_of_def)
  let ?run = "\<lambda>z. \<lparr>ar_result = Inr (t, [[OtherPart]]), ar_deltas = [t], ar_deps = start_deps sid uid, ar_state = z\<rparr>"
  obtain z where z: "agent_step ce now (full_prompt history q) (start_deps sid uid) s = (Inr (?run z), z)"
    "cs_redis z = cs_redis s" using agent_step_direct [OF assms(9,8)] by blast
  obtain run' z' where z': "agent_step ce now (full_prompt history q) (start_deps sid uid) s = (Inr run', z')"
    "mem_same ce now s z'" using agent_step_done [OF assms(1)] by blast
  with z have same: "mem_same ce now s z" by simp
  let ?s = "z\<lparr>cs_events := cs_events z @ [TextEvent t]\<rparr>"
  have r: "ready ce now ?s" using mem_same_ready [OF same] by simp
  have g: "stream_gate ce t (start_deps sid uid) = (t, ''ok'', STATUS_SKIPPED, True)"
    using gate_unretrieved [OF assms(11-13), of ce] assms(10)
    by (simp add: stream_gate_def empty str_or_def cite_reason_str_def)
  have tools: "extract_tool_calls (sv_loads (ce_sv ce)) [[OtherPart]] = []"
    by (simp add: extract_tool_calls_def List.map_filter_def)
  have "\<exists>s' (s1 :: chat_state). stream_finish ce now False sid uid msg q t [] (start_deps sid uid) ?s = (Inr (), s')
     \<and> recorded now sid msg t ?s s' \<and> srv_up (cs_redis s1) = srv_up (cs_redis ?s)
     \<and> cs_redis s' = answer_set ce now q uid t [] (cs_redis s1)"
    using stream_finish_shape [OF r g, of False sid uid msg q "[]"]
    unfolding dump_tools_def simp_thms if_True list.map by (elim exE conjE) (intro exI conjI; assumption)
  then obtain s' and s1 :: chat_state where f: "stream_finish ce now False sid uid msg q t [] (start_deps sid uid) ?s = (Inr (), s')"
    "recorded now sid msg t ?s s'" "srv_up (cs_redis s1) = srv_up (cs_redis ?s)"
    "cs_redis s' = answer_set ce now q uid t [] (cs_redis s1)"
    by (elim exE conjE) (rule that; assumption)
  have "stream_answer ce now False sid uid msg history q s = (Inr (), s')"
    using z(1) f(1) tools assms(7) by (simp add: stream_answer_def Let_def)
  moreover have "recorded now sid msg t s s'"
    using f(2) same by (simp add: recorded_def mem_same_def fun_eq_iff)
  moreover have "t \<noteq> []" using assms(12) by (auto simp: is_substantive_def word_count_def findall_def)
  then have "ac_get (ce_ac ce) (sv_qc (ce_sv ce)) (sv_sha (ce_sv ce)) True (cs_redis s') now q uid
      = Some (ac_payload t (Some []))"
    using stored_answer_found [of ce "cs_mem s" "cs_redis s1" t q now uid "[]"] assms(1-6) f(3,4) z(2)
    by (simp add: ready_def)
  moreover have "is_low_confidence (chunks_of (start_deps sid uid))"
    by (simp add: empty is_low_confidence_def max_cosine_similarity_def CONFIDENCE_MIN_SIMILARITY_def)
  ultimately show ?thesis using assms(3) by simp
qed

theorem stream_memoises_unretrieved_witness:
  "\<exists>s'. stream_answer demo_free 0 False ''s'' None ''fees'' [] ''fees'' demo_chat = (Inr (), s')
     \<and> ac_get (ce_ac demo_free) (sv_qc (ce_sv demo_free)) id True (cs_redis s') 0 ''fees'' None
       = Some (ac_payload ''The yearly fee for every student of every single programme is two hundred euros'' (Some []))"
proof -
  let ?t = "''The yearly fee for every student of every single programme is two hundred euros''"
  have t: "extract_citations ?t = []" "is_substantive ?t" "\<not> looks_like_abstention ?t" "py_strip ''fees'' \<noteq> []"
    by code_simp+
  have "mem_ready 0 demo_chat" "keys_ok demo_free (cs_mem demo_chat)"
    using demo_ready(1,2) by (simp_all add: keys_ok_def demo_free_def)
  then have r: "ready demo_free 0 demo_chat" by (simp add: ready_def)
  have m: "\<forall>sys p. ce_model demo_free sys p [] = Answer [?t]" by (simp add: demo_free_def)
  have e: "srv_up (cs_redis demo_chat)" "sv_client (ce_sv demo_free)" "ac_enabled (ce_ac demo_free)"
    "0 < ac_ttl (ce_ac demo_free)" "sv_sha (ce_sv demo_free) = id"
    by (simp_all add: demo_chat_def empty_server_def demo_free_def demo_env_def demo_services_def default_ac_config_def)
  have g: "allowed (check_input (ce_guard demo_free) ''fees'')" "guard_output demo_free ?t = ?t"
    using demo_guard(1,3) by (simp_all add: demo_free_def guard_output_def)
  have l: "ce_limit demo_free = Suc 49" by (simp add: demo_free_def demo_env_def)
  show ?thesis
    using stream_memoises_unretrieved [OF r e(1-4) t(4) g(1) l m g(2) t(1-3), of "''s''" None "[]"] e(2,5) by auto
qed

end
