(* ===== verification/Worker.thy ===== *)
theory Worker
  imports IngestProps AgentRun GraphSearch
begin

text \<open>
  The background side: \<open>worker/bootstrap.py\<close>, \<open>worker/tasks.py\<close> and \<open>worker/celery_app.py\<close>.
  A worker process is the stores its tasks write together with the module state of the
  bootstrap: whether the initialisation was done, and whether the database client and the
  graph driver exist.  The event loop is never closed and is not part of the state.  A job is
  \<open>None\<close> when its coroutine does not end; the time limits that would kill it are not enforced.
\<close>

section \<open>Bootstrap\<close>

record worker =
  wk_world :: world
  wk_initialized :: bool
  wk_client :: bool
  wk_driver :: bool

record worker_env =
  we_url :: "string option"
  we_key :: "string option"
  we_graph_uri :: "string option"
  we_driver_ok :: bool

definition ensure_initialized :: "worker_env \<Rightarrow> worker \<Rightarrow> unit res \<times> worker" where
  "ensure_initialized we w =
     (if wk_initialized w \<and> wk_client w then (Inr (), w)
      else (case initialize_database (we_url we) (we_key we) of
              Inl e \<Rightarrow> (Inl e, w)
            | Inr client \<Rightarrow> (Inr (), w\<lparr>wk_client := client,
                wk_driver := initialize_graph (we_graph_uri we) (we_driver_ok we) (wk_driver w),
                wk_initialized := True\<rparr>)))"

type_synonym 'a coro = "world \<Rightarrow> ('a res \<times> world) option"

type_synonym 'a job = "worker \<Rightarrow> ('a res \<times> worker) option"

definition run_async :: "worker_env \<Rightarrow> 'a coro \<Rightarrow> 'a job" where
  "run_async we coro w =
     (case ensure_initialized we w of
        (Inl e, w) \<Rightarrow> Some (Inl e, w)
      | (Inr _, w) \<Rightarrow> map_option (\<lambda>(r, s). (r, w\<lparr>wk_world := s\<rparr>)) (coro (wk_world w)))"

section \<open>Tasks\<close>

definition count_json :: "nat \<Rightarrow> json" where
  "count_json n = JNum (of_nat n)"

definition maybe_json :: "string option \<Rightarrow> json" where
  "maybe_json x = (case x of None \<Rightarrow> JNull | Some s \<Rightarrow> JStr s)"

definition sweep_dict :: "IngestStats \<Rightarrow> meta" where
  "sweep_dict s = [(''inserted'', count_json (is_inserted s)), (''updated'', count_json (is_updated s)),
     (''skipped'', count_json (is_skipped s)), (''failed'', count_json (is_failed s)),
     (''total'', count_json (stats_total s))]"

definition bucket_dict :: "string \<Rightarrow> string \<Rightarrow> IngestStats \<Rightarrow> meta" where
  "bucket_dict bt pfx s = [(''bucket_type'', JStr bt), (''prefix'', JStr pfx),
     (''inserted'', count_json (is_inserted s)), (''updated'', count_json (is_updated s)),
     (''skipped'', count_json (is_skipped s)), (''failed'', count_json (is_failed s))]"

definition result_dict :: "IngestResult \<Rightarrow> meta" where
  "result_dict r = [(''source'', JStr (ir_source r)), (''status'', JStr (ir_status r)),
     (''document_id'', maybe_json (ir_document r)), (''chunks_created'', count_json (ir_chunks r)),
     (''error'', maybe_json (ir_error r))]"

abbreviation then_reply :: "'a job \<Rightarrow> ('a \<Rightarrow> meta) \<Rightarrow> meta job" where
  "then_reply j f w \<equiv> map_option (\<lambda>(r, w). (res_bind r (\<lambda>x. Inr (f x)), w)) (j w)"

definition ingest_all_task :: "worker_env \<Rightarrow> ingest_env \<Rightarrow> s3_env \<Rightarrow> meta job" where
  "ingest_all_task we ie s3 = then_reply (run_async we (ingest_all_s3_buckets ie s3)) sweep_dict"

definition ingest_bucket_task ::
  "worker_env \<Rightarrow> ingest_env \<Rightarrow> s3_env \<Rightarrow> string \<Rightarrow> string \<Rightarrow> meta job" where
  "ingest_bucket_task we ie s3 bucket_type pfx =
     then_reply (run_async we (ingest_from_s3 ie s3 bucket_type pfx)) (bucket_dict bucket_type pfx)"

definition ingest_single_s3_task ::
  "worker_env \<Rightarrow> ingest_env \<Rightarrow> s3_env \<Rightarrow> string \<Rightarrow> string \<Rightarrow> meta job" where
  "ingest_single_s3_task we ie s3 s3_key bucket =
     then_reply (run_async we (ingest_single_s3_object ie s3 s3_key bucket)) result_dict"

definition ingest_document_task ::
  "worker_env \<Rightarrow> ingest_env \<Rightarrow> string \<Rightarrow> string \<Rightarrow> string \<Rightarrow> meta \<Rightarrow> string \<Rightarrow> meta job" where
  "ingest_document_task we ie content src title m access =
     then_reply (run_async we
       (\<lambda>w. map_option (\<lambda>(r, w). (Inr r, w)) (ingest_document ie content src title m access w))) result_dict"

definition notify_admin_weak_context_task :: "string \<Rightarrow> string \<Rightarrow> meta job" where
  "notify_admin_weak_context_task sid q w =
     Some (Inr [(''status'', JStr ''notified''), (''session_id'', JStr sid), (''query'', JStr q)], w)"

text \<open>The message names the task; its arguments are those of the call that queued it.\<close>

fun run_task :: "worker_env \<Rightarrow> ingest_env \<Rightarrow> s3_env \<Rightarrow> task \<Rightarrow> meta job" where
  "run_task we ie s3 (NotifyAdmin sid q) = notify_admin_weak_context_task sid q"
| "run_task we ie s3 IngestAll = ingest_all_task we ie s3"
| "run_task we ie s3 (IngestBucket bt pfx) = ingest_bucket_task we ie s3 bt pfx"
| "run_task we ie s3 (IngestSingle key bucket) = ingest_single_s3_task we ie s3 key bucket"
| "run_task we ie s3 (IngestDocument content src title m access) =
     ingest_document_task we ie content src title m access"

section \<open>The retry policy\<close>

definition MAX_RETRIES :: nat where
  "MAX_RETRIES = 5"

definition retried :: "task \<Rightarrow> bool" where
  "retried t = (case t of NotifyAdmin _ _ \<Rightarrow> False | _ \<Rightarrow> True)"

text \<open>
  \<open>autoretry_for=(Exception,)\<close>: the queue runs a raising task again, at most \<open>n\<close> times.  The
  services of the k-th attempt are \<open>env k\<close>.
\<close>

fun attempts ::
  "(nat \<Rightarrow> worker_env \<times> ingest_env \<times> s3_env) \<Rightarrow> nat \<Rightarrow> nat \<Rightarrow> task \<Rightarrow> meta job" where
  "attempts env k n t w =
     (case env k of (we, ie, s3) \<Rightarrow>
        (case run_task we ie s3 t w of
           None \<Rightarrow> None
         | Some (Inr r, w') \<Rightarrow> Some (Inr r, w')
         | Some (Inl e, w') \<Rightarrow>
             (case n of 0 \<Rightarrow> Some (Inl e, w') | Suc m \<Rightarrow> attempts env (Suc k) m t w')))"

definition deliver :: "(nat \<Rightarrow> worker_env \<times> ingest_env \<times> s3_env) \<Rightarrow> task \<Rightarrow> meta job" where
  "deliver env t = attempts env 0 (if retried t then MAX_RETRIES else 0) t"

section \<open>Queues\<close>

definition broker_url :: "string option \<Rightarrow> string option \<Rightarrow> string" where
  "broker_url celery_url redis_url = str_or celery_url (str_or redis_url ''redis://localhost:6379/0'')"

definition task_name :: "task \<Rightarrow> string" where
  "task_name t = ''worker.tasks.'' @ (case t of
      NotifyAdmin _ _ \<Rightarrow> ''notify_admin_weak_context_task''
    | IngestAll \<Rightarrow> ''ingest_all_task''
    | IngestBucket _ _ \<Rightarrow> ''ingest_bucket_task''
    | IngestSingle _ _ \<Rightarrow> ''ingest_single_s3_task''
    | IngestDocument _ _ _ _ _ \<Rightarrow> ''ingest_document_task'')"

text \<open>\<open>task_routes\<close>; what it does not route goes to the default queue of Celery.\<close>

definition route :: "task \<Rightarrow> string" where
  "route t = (if prefix ''worker.tasks.ingest_'' (task_name t) then ''ingestion'' else ''celery'')"

text \<open>
  \<open>beat_schedule\<close>: the task, the interval in seconds, the queue, and after how many seconds an
  undelivered message expires.
\<close>

definition beat_schedule :: "string option \<Rightarrow> int \<Rightarrow> (task \<times> rat \<times> string \<times> int) option" where
  "beat_schedule auto_enabled minutes =
     (if py_lower (case auto_enabled of None \<Rightarrow> ''true'' | Some v \<Rightarrow> v) = ''true''
      then Some (IngestAll, of_int minutes * 60, ''ingestion'', minutes * 60) else None)"

text \<open>The queues the deployed worker is started with.\<close>

definition WORKER_QUEUES :: "string list" where
  "WORKER_QUEUES = [''ingestion'']"

text \<open>The oldest task of the given queues, and the other tasks.\<close>

fun take_task :: "string list \<Rightarrow> task list \<Rightarrow> (task \<times> task list) option" where
  "take_task qs [] = None"
| "take_task qs (t # ts) =
     (if route t \<in> set qs then Some (t, ts)
      else map_option (\<lambda>(u, us). (u, t # us)) (take_task qs ts))"

text \<open>The steps of the queue: someone queues a task, the worker takes one.\<close>

inductive queue_step :: "task list \<Rightarrow> task list \<Rightarrow> bool" where
  queued: "queue_step ts (ts @ [t])"
| taken: "take_task WORKER_QUEUES ts = Some (t, ts') \<Longrightarrow> queue_step ts ts'"

end
