(* ===== verification/DocsApi.thy ===== *)
theory DocsApi
  imports ChatApi Worker
begin

text \<open>
  The other endpoints of \<open>agent/api.py\<close>: health, search, documents, upload, sessions, and the
  queueing of ingestion.  The state is what the endpoints and the workers share: the stores,
  the session memory, the queue, the temporary files.  No endpoint here looks at who calls.
  An endpoint raises an \<open>HTTPException\<close> or another exception; the global handler answers the
  latter with a generic error.  Query times are left out of the responses.
\<close>

section \<open>State, errors\<close>

record site =
  st_world :: world
  st_mem :: memory_manager
  st_tasks :: "task list"
  st_broker :: bool
  st_temp :: "string list"
  st_next :: nat

record task_report =
  tr_state :: string
  tr_ready :: bool
  tr_successful :: bool
  tr_result :: json
  tr_error :: string

record site_env =
  se_sv :: services
  se_what :: "exc \<Rightarrow> string"
  se_uuid :: "nat \<Rightarrow> string"
  se_tmp :: "nat \<Rightarrow> string"
  se_unlink :: bool
  se_graph_uri :: "string option"
  se_graph_driver :: bool
  se_pages :: "string \<Rightarrow> (string list \<times> bool) res list"
  se_client :: bool
  se_ping :: "unit res"
  se_report :: "string \<Rightarrow> task_report"
  se_urlopen :: "string \<Rightarrow> unit res"

datatype failure = HttpExc http_error | Crash exc

type_synonym 'a endpoint = "(site, failure, 'a) prog"

definition fail_with :: "nat \<Rightarrow> string \<Rightarrow> 'a endpoint" where
  "fail_with code detail = raise (HttpExc (Http code detail))"

definition lift_res :: "'a res \<Rightarrow> 'a endpoint" where
  "lift_res r s = (case r of Inl e \<Rightarrow> (Inl (Crash e), s) | Inr x \<Rightarrow> (Inr x, s))"

definition on_pg :: "(pg \<Rightarrow> 'a res) \<Rightarrow> 'a endpoint" where
  "on_pg f s = lift_res (f (w_pg (st_world s))) s"

text \<open>\<open>except HTTPException: raise\<close>, \<open>except Exception as exc: raise HTTPException(500, str(exc))\<close>\<close>

definition guarded :: "(exc \<Rightarrow> string) \<Rightarrow> 'a endpoint \<Rightarrow> 'a endpoint" where
  "guarded what m = attempt m (\<lambda>e. case e of
      HttpExc h \<Rightarrow> raise (HttpExc h) | Crash x \<Rightarrow> fail_with 500 (what x))"

definition global_exception_handler :: "'a endpoint \<Rightarrow> (site, 'a) handler" where
  "global_exception_handler m = attempt m (\<lambda>e. case e of
      HttpExc h \<Rightarrow> raise h | Crash x \<Rightarrow> http_fail 500 ''Internal server error'')"

text \<open>\<open>try: m finally: f\<close>\<close>

definition cleanup :: "(site \<Rightarrow> site) \<Rightarrow> 'a endpoint \<Rightarrow> 'a endpoint" where
  "cleanup f m s = (case m s of (r, s') \<Rightarrow> (r, f s'))"

definition fresh_uuid :: "site_env \<Rightarrow> string endpoint" where
  "fresh_uuid se s = (Inr (se_uuid se (st_next s)), s\<lparr>st_next := Suc (st_next s)\<rparr>)"

text \<open>\<open>task.delay(...)\<close>: the identifier of the queued task.\<close>

definition delay :: "site_env \<Rightarrow> task \<Rightarrow> string endpoint" where
  "delay se t s =
     (if st_broker s
      then (Inr (se_uuid se (st_next s)), s\<lparr>st_tasks := st_tasks s @ [t], st_next := Suc (st_next s)\<rparr>)
      else (Inl (Crash (OtherError ''OperationalError'')), s))"

section \<open>Start and health\<close>

text \<open>\<open>lifespan\<close>: the database client and the graph driver; without the database the server does
  not start.  The search index that is built next is a no-operation; the shutdown closes both.\<close>

definition startup ::
  "string option \<Rightarrow> string option \<Rightarrow> string option \<Rightarrow> bool \<Rightarrow> bool \<Rightarrow> (bool \<times> bool) res" where
  "startup url key graph_uri driver_ok driver =
     res_bind (initialize_database url key) (\<lambda>client.
       Inr (client, initialize_graph graph_uri driver_ok driver))"

definition shutdown :: "bool \<times> bool \<Rightarrow> bool \<times> bool" where
  "shutdown = (\<lambda>(client, driver). (False, close_graph driver))"

record HealthStatus =
  hs_status :: string
  hs_database :: bool
  hs_graph :: bool

definition health_check :: "site_env \<Rightarrow> HealthStatus endpoint" where
  "health_check se s =
     (let db = test_connection (se_client se) (w_pg (st_world s));
          graph = test_graph_connection (sv_driver (se_sv se)) (se_ping se)
      in (Inr \<lparr>hs_status = (if db \<and> graph then ''healthy'' else if db \<or> graph then ''degraded''
                             else ''unhealthy''), hs_database = db, hs_graph = graph\<rparr>, s))"

section \<open>Search\<close>

record SearchResponse =
  sp_results :: "ChunkResult list"
  sp_graph_results :: "GraphSearchResult list"
  sp_total :: nat
  sp_type :: SearchType

text \<open>\<open>request.filters.get("user_id")\<close>, validated as an optional string.\<close>

definition filter_user :: "SearchRequest \<Rightarrow> string option endpoint" where
  "filter_user req = (case get_or (sr_filters req) ''user_id'' JNull of
      JNull \<Rightarrow> reply None
    | JStr u \<Rightarrow> reply (Some u)
    | _ \<Rightarrow> raise (Crash (ValueError ''user_id'')))"

definition search_vector :: "site_env \<Rightarrow> SearchRequest \<Rightarrow> SearchResponse endpoint" where
  "search_vector se req = guarded (se_what se) (hbind (filter_user req) (\<lambda>uid.
     let results = vector_search_tool (se_sv se) (sr_query req) (sr_limit req) uid
     in reply \<lparr>sp_results = results, sp_graph_results = [], sp_total = length results, sp_type = VECTOR\<rparr>))"

definition search_graph :: "site_env \<Rightarrow> SearchRequest \<Rightarrow> SearchResponse endpoint" where
  "search_graph se req =
     (let results = graph_search_tool (se_sv se) (sr_query req)
      in reply \<lparr>sp_results = [], sp_graph_results = results, sp_total = length results, sp_type = GRAPH\<rparr>)"

definition run_hybrid :: "site_env \<Rightarrow> rat \<Rightarrow> string \<Rightarrow> int \<Rightarrow> string option \<Rightarrow> ChunkResult list endpoint" where
  "run_hybrid se now q limit uid s =
     (let (cs, srv) = hybrid_search_tool (se_sv se) (w_redis (st_world s)) now q limit (3 / 10) uid
      in (Inr cs, s\<lparr>st_world := (st_world s)\<lparr>w_redis := srv\<rparr>\<rparr>))"

definition search_hybrid :: "site_env \<Rightarrow> rat \<Rightarrow> SearchRequest \<Rightarrow> SearchResponse endpoint" where
  "search_hybrid se now req = guarded (se_what se) (hbind (filter_user req) (\<lambda>uid.
     hbind (run_hybrid se now (sr_query req) (sr_limit req) uid) (\<lambda>results.
       reply \<lparr>sp_results = results, sp_graph_results = [], sp_total = length results, sp_type = HYBRID\<rparr>)))"

section \<open>Documents\<close>

definition list_documents_endpoint ::
  "int \<Rightarrow> int \<Rightarrow> string option \<Rightarrow> ((doc_row \<times> nat) list \<times> nat) endpoint" where
  "list_documents_endpoint limit offset uid s =
     (let ds = list_documents_tool limit offset uid (w_pg (st_world s)) in (Inr (ds, length ds), s))"

definition get_document_endpoint :: "string \<Rightarrow> (doc_row \<times> chunk_row list) endpoint" where
  "get_document_endpoint did s =
     (case get_document_tool did (w_pg (st_world s)) of
        None \<Rightarrow> fail_with 404 ''Document not found'' s
      | Some doc \<Rightarrow> (Inr doc, s))"

text \<open>\<open>delete_graph_document\<close> on the graph: the chunk nodes of the key with their edges.\<close>

definition detach_document :: "site_env \<Rightarrow> string \<Rightarrow> kgraph \<Rightarrow> kgraph" where
  "detach_document se key g =
     (if \<not> truthy (se_graph_uri se) \<or> \<not> se_graph_driver se then g
      else g\<lparr>g_chunks := filter (\<lambda>c. fst (fst c) \<noteq> key) (g_chunks g),
             g_from := filter (\<lambda>e. fst (snd e) \<noteq> key) (g_from g)\<rparr>)"

definition delete_stores :: "site_env \<Rightarrow> string \<Rightarrow> unit endpoint" where
  "delete_stores se did s =
     (let w = st_world s; on = sv_vespa_on (se_sv se) in
      case delete_document (detach_document se) on (delete_by_document on (se_pages se)) did
             (w_pg w) (w_graph w) (w_vespa w) of
        (r, db, g, v) \<Rightarrow> lift_res r (s\<lparr>st_world := w\<lparr>w_pg := db, w_graph := g, w_vespa := v\<rparr>\<rparr>))"

text \<open>The rebuilding of the search index afterwards does nothing.\<close>

definition delete_document_endpoint :: "site_env \<Rightarrow> string \<Rightarrow> string endpoint" where
  "delete_document_endpoint se did =
     guarded (se_what se) (hbind (on_pg (get_document did)) (\<lambda>doc.
       if doc = None then fail_with 404 ''Document not found''
       else hbind (delete_stores se did) (\<lambda>_. reply ''Document deleted successfully'')))"

section \<open>Upload\<close>

text \<open>The uploaded file: its name, whether it can be read, and what the parsers read from it.\<close>

record upload =
  up_filename :: string
  up_read :: "unit res"
  up_library :: library

record queued =
  qd_task_id :: string
  qd_title :: string
  qd_source :: string

definition unlink :: "site_env \<Rightarrow> string \<Rightarrow> site \<Rightarrow> site" where
  "unlink se p s = (if se_unlink se then s\<lparr>st_temp := remove1 p (st_temp s)\<rparr> else s)"

text \<open>The temporary file is made first, so that a file that cannot be read leaves it behind.\<close>

definition save_upload :: "site_env \<Rightarrow> upload \<Rightarrow> string endpoint" where
  "save_upload se up s =
     (let p = se_tmp se (st_next s) @ path_suffix (up_filename up);
          s = s\<lparr>st_temp := p # st_temp s, st_next := Suc (st_next s)\<rparr>
      in case up_read up of Inl e \<Rightarrow> (Inl (Crash e), s) | Inr _ \<Rightarrow> (Inr p, s))"

definition queue_upload :: "site_env \<Rightarrow> upload \<Rightarrow> string \<Rightarrow> string \<Rightarrow> queued endpoint" where
  "queue_upload se up access p =
     hbind (lift_res (parse_document p (up_library up) (se_what se))) (\<lambda>(content, file_meta).
       if py_strip content = [] then fail_with 400 ''Document contains no parseable text''
       else hbind (fresh_uuid se) (\<lambda>u.
         let source = ''upload://'' @ u @ ''/'' @ up_filename up; title = path_stem (up_filename up);
             m = dict_put ''file_name'' (JStr (up_filename up)) (dict_put ''uploaded'' (JBool True) file_meta)
         in hbind (delay se (IngestDocument content source title m access)) (\<lambda>tid.
              reply \<lparr>qd_task_id = tid, qd_title = title, qd_source = source\<rparr>)))"

definition upload_document_endpoint :: "site_env \<Rightarrow> upload \<Rightarrow> string \<Rightarrow> queued endpoint" where
  "upload_document_endpoint se up access =
     guarded (se_what se) (hbind (save_upload se up) (\<lambda>p.
       cleanup (unlink se p) (queue_upload se up access p)))"

section \<open>Sessions\<close>

definition get_session_info :: "rat \<Rightarrow> string \<Rightarrow> session_info_rec endpoint" where
  "get_session_info now sid s =
     (case session_exists (w_redis (st_world s)) now sid (st_mem s) of
        Inl e \<Rightarrow> (Inl (Crash e), s)
      | Inr (found, m) \<Rightarrow>
          if \<not> found then fail_with 404 ''Session not found'' (s\<lparr>st_mem := m\<rparr>)
          else (case session_info (w_redis (st_world s)) now sid m of
                  Inl e \<Rightarrow> (Inl (Crash e), s\<lparr>st_mem := m\<rparr>)
                | Inr (i, m) \<Rightarrow> (Inr i, s\<lparr>st_mem := m\<rparr>)))"

section \<open>Queueing ingestion\<close>

definition trigger_ingest :: "site_env \<Rightarrow> string endpoint" where
  "trigger_ingest se = delay se IngestAll"

definition ingest_s3_bucket :: "site_env \<Rightarrow> string \<Rightarrow> string \<Rightarrow> (string \<times> string \<times> string) endpoint" where
  "ingest_s3_bucket se bucket_type pfx =
     hbind (delay se (IngestBucket bucket_type pfx)) (\<lambda>tid. reply (tid, bucket_type, pfx))"

definition ingest_status :: "site_env \<Rightarrow> string \<Rightarrow> meta" where
  "ingest_status se tid =
     (let r = se_report se tid in
      [(''task_id'', JStr tid), (''state'', JStr (tr_state r)), (''ready'', JBool (tr_ready r)),
       (''successful'', if tr_ready r then JBool (tr_successful r) else JNull)]
      @ (if tr_ready r then [(''result'', if tr_successful r then tr_result r else JStr (tr_error r))] else []))"

section \<open>The S3 webhook\<close>

datatype webhook_reply = Confirmed | Accepted nat | Ignored

text \<open>\<open>d.get(k, default)\<close> and \<open>p in v\<close> on any value.\<close>

definition dget :: "json \<Rightarrow> string \<Rightarrow> json \<Rightarrow> json res" where
  "dget j k v = res_bind (as_obj j) (\<lambda>d. Inr (get_or d k v))"

definition in_json :: "string \<Rightarrow> json \<Rightarrow> bool res" where
  "in_json p j = (case j of
      JStr s \<Rightarrow> Inr (py_in p s) | JArr xs \<Rightarrow> Inr (JStr p \<in> set xs)
    | JObj d \<Rightarrow> Inr (p \<in> fst ` set d) | _ \<Rightarrow> Inl TypeError)"

definition as_str :: "json \<Rightarrow> string res" where
  "as_str j = (case j of JStr s \<Rightarrow> Inr s | _ \<Rightarrow> Inl TypeError)"

text \<open>Bucket, key and event name of a record.\<close>

definition event_record :: "json \<Rightarrow> (json \<times> json \<times> json) res" where
  "event_record r =
     res_bind (dget r ''s3'' (JObj [])) (\<lambda>s3.
     res_bind (dget s3 ''bucket'' (JObj [])) (\<lambda>b.
     res_bind (dget b ''name'' (JStr [])) (\<lambda>bucket.
     res_bind (dget s3 ''object'' (JObj [])) (\<lambda>ob.
     res_bind (dget ob ''key'' (JStr [])) (\<lambda>key.
     res_bind (dget r ''eventName'' (JStr [])) (\<lambda>event.
       Inr (bucket, key, event)))))))"

definition wanted :: "json \<Rightarrow> bool res" where
  "wanted event = res_bind (in_json ''ObjectCreated'' event) (\<lambda>c.
     if c then Inr True else in_json ''ObjectModified'' event)"

text \<open>The arguments of a task are strings; other values of a key or a bucket count as an error here.\<close>

fun queue_records :: "site_env \<Rightarrow> json list \<Rightarrow> nat \<Rightarrow> nat endpoint" where
  "queue_records se [] n = reply n"
| "queue_records se (r # rs) n =
     hbind (lift_res (event_record r)) (\<lambda>(bucket, key, event).
       if \<not> json_truthy key then queue_records se rs n
       else hbind (lift_res (wanted event)) (\<lambda>w.
         if \<not> w then queue_records se rs n
         else hbind (lift_res (as_str key)) (\<lambda>k. hbind (lift_res (as_str bucket)) (\<lambda>b.
              hbind (delay se (IngestSingle k b)) (\<lambda>_. queue_records se rs (n + 1))))))"

definition s3_event_webhook :: "site_env \<Rightarrow> json res \<Rightarrow> webhook_reply endpoint" where
  "s3_event_webhook se request_json =
     hbind (lift_res request_json) (\<lambda>j. hbind (lift_res (as_obj j)) (\<lambda>body.
       if get_or body ''Type'' JNull = JStr ''SubscriptionConfirmation''
       then hbind (lift_res (res_bind (load_str body ''SubscribeURL'') (se_urlopen se))) (\<lambda>_. reply Confirmed)
       else if get_or body ''Type'' JNull = JStr ''Notification''
       then hbind (lift_res (as_str (get_or body ''Message'' (JStr ''{}'')))) (\<lambda>text.
            case sv_loads (se_sv se) text of
              Inl _ \<Rightarrow> fail_with 400 ''Invalid SNS message body''
            | Inr message \<Rightarrow> hbind (lift_res (res_bind (dget message ''Records'' (JArr [])) iter_json)) (\<lambda>records.
                hbind (queue_records se records 0) (\<lambda>n. reply (Accepted n))))
       else reply Ignored))"

end
