(* ===== verification/WorkerProps.thy ===== *)
theory WorkerProps
  imports Worker
begin

text \<open>
  The properties of the background side: what a delivered ingest task returns, when it is
  retried, and that delivering it twice is harmless.
\<close>

section \<open>What a finished ingestion leaves\<close>

text \<open>\<open>stored\<close>: the document of a source is found, with the hash of the content.\<close>

definition stored :: "(string \<Rightarrow> string) \<Rightarrow> string \<Rightarrow> string \<Rightarrow> pg \<Rightarrow> bool" where
  "stored sha src content db \<longleftrightarrow>
     (\<exists>d. get_document_by_source src db = Inr (Some d) \<and> doc_hash d = sha content)"

lemma get_by_source_Inr: "get_document_by_source src db = Inr r \<longleftrightarrow>
   ''documents.select'' \<notin> set (pg_faults db) \<and> find (\<lambda>d. doc_source d = src) (documents db) = r"
  by (auto simp: get_document_by_source_def)

lemma stored_iff: "stored sha src c db \<longleftrightarrow> ''documents.select'' \<notin> set (pg_faults db)
   \<and> (\<exists>d. find (\<lambda>d. doc_source d = src) (documents db) = Some d \<and> doc_hash d = sha c)"
  by (auto simp: stored_def get_by_source_Inr)

lemma find_update_doc:
  "find (\<lambda>d. doc_source d = src) ds = Some d \<Longrightarrow> doc_id d = did \<Longrightarrow>
     find (\<lambda>d. doc_source d = src) (update_doc did t c h m ds)
       = Some (d\<lparr>doc_title := t, doc_content := c, doc_hash := h, doc_meta := m\<rparr>)"
  by (induction ds) (auto simp: update_doc_def split: if_splits)

lemma upsert_stored:
  assumes "upsert_document ids src t c (sha c) m a db = Inr (did, db')"
  shows "stored sha src c db'"
  using assms
proof (cases rule: upsert_cases)
  case (update d)
  then show ?thesis by (auto simp: stored_iff get_by_source_Inr find_update_doc)
next
  case insert
  then show ?thesis by (auto simp: stored_iff get_by_source_Inr find_snoc)
qed

lemma save_stored:
  "save_chunks sha ids did es db = Inr (rows, db') \<Longrightarrow> stored h src c db \<Longrightarrow> stored h src c db'"
  by (auto simp: save_chunks_def stored_iff Let_def split: if_splits)

abbreviation any :: "world \<Rightarrow> bool" where
  "any w \<equiv> True"

lemma triple_any: "triple P m Q E \<Longrightarrow> triple P m Q any"
  unfolding triple_def by (auto split: prod.splits sum.splits)

lemma stored_upsert_step:
  "triple P (upsert_step ie src t c m a) (\<lambda>_ w. stored (ie_sha ie) src c (w_pg w)) any"
  unfolding upsert_step_def by (rule triple_write) (auto split: sum.splits dest: upsert_stored)

lemma stored_embed_step:
  "triple (\<lambda>w. stored h src c (w_pg w)) (embed_step ie cs) (\<lambda>_ w. stored h src c (w_pg w)) any"
  by (rule triple_any) (rule triple_embed)

lemma stored_save_step:
  "triple (\<lambda>w. stored h src c (w_pg w)) (save_step ie did es) (\<lambda>_ w. stored h src c (w_pg w)) any"
  unfolding save_step_def by (rule triple_write) (auto split: sum.splits dest: save_stored)

lemma stored_finish:
  "triple (\<lambda>w. stored h src c (w_pg w)) (finish_ingest ie s t m a st did es rows)
     (\<lambda>_ w. stored h src c (w_pg w)) any"
  by (rule triple_any) (rule triple_finish)

lemma any_step: "triple any m (\<lambda>_. any) any"
  by (auto simp: triple_def split: prod.splits sum.splits)

lemmas stored_rules = stored_upsert_step stored_embed_step stored_save_step stored_finish

lemma insert_stored:
  "triple any (ingest_insert ie c src t m a cs) (\<lambda>_ w. stored (ie_sha ie) src c (w_pg w)) any"
  unfolding ingest_insert_def by (rule triple_bind stored_rules)+

lemma update_stored:
  "triple any (ingest_update ie c src t m a d cs) (\<lambda>_ w. stored (ie_sha ie) src c (w_pg w)) any"
  unfolding ingest_update_def Let_def
  apply (rule triple_bind [OF any_step])
  apply (rule triple_bind [OF any_step])
  by (rule triple_bind triple_if triple_return stored_rules | assumption)+

lemma ingest_stored:
  assumes "ingest_document ie c src t m a w = Some (r, w')" and "ir_status r \<noteq> ''failed''"
  shows "stored (ie_sha ie) src c (w_pg w')"
proof -
  obtain res where b: "ingest_body ie c src t m a w = Some (res, w')"
    and r: "r = (case res of Inr r \<Rightarrow> r | Inl e \<Rightarrow> mk_result src ''failed'' None 0 (Some (ie_what ie e)))"
    using assms(1) by (rule ingest_document_body)
  from r assms(2) have res: "res = Inr r" by (cases res) (simp_all add: mk_result_def)
  from b [unfolded res] show ?thesis
  proof (cases rule: ingest_body_cases)
    case (skipped d)
    then show ?thesis by (auto simp: stored_def)
  next
    case (update d cs)
    show ?thesis using tripleD(1) [OF update_stored _ update(4)] by simp
  next
    case (insert cs)
    show ?thesis using tripleD(1) [OF insert_stored _ insert(3)] by simp
  qed simp_all
qed

lemma stored_skips:
  assumes "stored (ie_sha ie) src c (w_pg w)"
  shows "\<exists>did. ingest_document ie c src t m a w = Some (mk_result src ''skipped'' (Some did) 0 None, w)"
proof -
  from assms obtain d where "get_document_by_source src (w_pg w) = Inr (Some d)" "doc_hash d = ie_sha ie c"
    by (auto simp: stored_def)
  then show ?thesis by (intro exI [of _ "doc_id d"]) (simp add: ingest_document_def ingest_body_def)
qed

section \<open>Delivery\<close>

text \<open>The data layer is ready, or can be made ready.\<close>

definition can_start :: "worker_env \<Rightarrow> worker \<Rightarrow> bool" where
  "can_start we w \<longleftrightarrow> wk_initialized w \<and> wk_client w \<or> truthy (we_url we) \<and> truthy (we_key we)"

definition started :: "bool \<Rightarrow> worker \<Rightarrow> worker" where
  "started d w = w\<lparr>wk_initialized := True, wk_client := True, wk_driver := d\<rparr>"

lemma started_frame [simp]: "wk_world (started d w) = wk_world w" "wk_initialized (started d w)"
  "wk_client (started d w)"
  by (simp_all add: started_def)

lemma ensure_ready: "wk_initialized w \<Longrightarrow> wk_client w \<Longrightarrow> ensure_initialized we w = (Inr (), w)"
  by (simp add: ensure_initialized_def)

lemma ensure_started:
  assumes "can_start we w"
  obtains d where "ensure_initialized we w = (Inr (), started d w)"
proof (cases "wk_initialized w \<and> wk_client w")
  case True
  then have "started (wk_driver w) w = w" by (simp add: started_def)
  with True show ?thesis by (intro that [of "wk_driver w"]) (simp add: ensure_ready)
next
  case False
  with assms have u: "truthy (we_url we)" "truthy (we_key we)" by (auto simp: can_start_def)
  have "ensure_initialized we w
      = (Inr (), started (initialize_graph (we_graph_uri we) (we_driver_ok we) (wk_driver w)) w)"
    using False u unfolding ensure_initialized_def initialize_database_def started_def by auto
  then show ?thesis by (rule that)
qed

definition document_job ::
  "ingest_env \<Rightarrow> string \<Rightarrow> string \<Rightarrow> string \<Rightarrow> meta \<Rightarrow> string \<Rightarrow> meta job" where
  "document_job ie c src t m a w = map_option (\<lambda>(x, s). (Inr (result_dict x), w\<lparr>wk_world := s\<rparr>))
     (ingest_document ie c src t m a (wk_world w))"

lemma document_job_reply: "document_job ie c src t m a w \<noteq> Some (Inl e, w')"
  by (auto simp: document_job_def)

lemma document_task_started:
  assumes "ensure_initialized we w = (Inr (), w0)"
  shows "ingest_document_task we ie c src t m a w = document_job ie c src t m a w0"
  by (cases "ingest_document ie c src t m a (wk_world w0)")
    (auto simp: ingest_document_task_def run_async_def document_job_def assms)

lemma attempts_first:
  "env k = (we, ie, s3) \<Longrightarrow> (\<And>e w'. run_task we ie s3 t w \<noteq> Some (Inl e, w')) \<Longrightarrow>
     attempts env k n t w = run_task we ie s3 t w"
  by (cases n) (auto split: option.splits sum.splits)

lemma deliver_document:
  assumes "env 0 = (we, ie, s3)" and "ensure_initialized we w = (Inr (), w0)"
  shows "deliver env (IngestDocument c src t m a) w = document_job ie c src t m a w0"
proof -
  have r: "run_task we ie s3 (IngestDocument c src t m a) w = document_job ie c src t m a w0"
    by (simp add: document_task_started [OF assms(2)])
  show ?thesis unfolding deliver_def r [symmetric]
    by (rule attempts_first [of env, OF assms(1)]) (simp only: r document_job_reply not_False_eq_True)
qed

lemma result_dict_status: "json_get (result_dict r) ''status'' = Some (JStr (ir_status r))"
  by (simp add: result_dict_def json_get_def)

section \<open>Delivering more than once\<close>

text \<open>Deliveries of one task, one after the other, each with its own services.\<close>

fun redeliver :: "('e \<Rightarrow> 'w \<Rightarrow> ('r \<times> 'w) option) \<Rightarrow> 'e list \<Rightarrow> 'w \<Rightarrow> ('r list \<times> 'w) option" where
  "redeliver run [] w = Some ([], w)"
| "redeliver run (e # es) w = (case run e w of
      None \<Rightarrow> None
    | Some (r, w) \<Rightarrow> map_option (\<lambda>(rs, w). (r # rs, w)) (redeliver run es w))"

text \<open>
  The contract of a task under at-least-once delivery: once its effect is settled, running it
  again with services that fit changes nothing.
\<close>

locale at_least_once =
  fixes run :: "'e \<Rightarrow> 'w \<Rightarrow> ('r \<times> 'w) option"
    and fits :: "'e \<Rightarrow> bool"
    and settled :: "'w \<Rightarrow> bool"
    and harmless :: "'r \<Rightarrow> bool"
  assumes again: "fits e \<Longrightarrow> settled w \<Longrightarrow> \<exists>r. run e w = Some (r, w) \<and> harmless r"
begin

lemma redeliveries:
  "list_all fits es \<Longrightarrow> settled w \<Longrightarrow> \<exists>rs. redeliver run es w = Some (rs, w) \<and> length rs = length es \<and> list_all harmless rs"
proof (induction es)
  case (Cons e es)
  with again [of e w] show ?case by fastforce
qed simp

end

definition skip_reply :: "string \<Rightarrow> meta res \<Rightarrow> bool" where
  "skip_reply src r \<longleftrightarrow> (\<exists>did. r = Inr (result_dict (mk_result src ''skipped'' (Some did) 0 None)))"

definition settled_document :: "(string \<Rightarrow> string) \<Rightarrow> string \<Rightarrow> string \<Rightarrow> worker \<Rightarrow> bool" where
  "settled_document h src c w \<longleftrightarrow> wk_initialized w \<and> wk_client w \<and> stored h src c (w_pg (wk_world w))"

definition hashes_with :: "(string \<Rightarrow> string) \<Rightarrow> (nat \<Rightarrow> worker_env \<times> ingest_env \<times> s3_env) \<Rightarrow> bool" where
  "hashes_with h env \<longleftrightarrow> ie_sha (fst (snd (env 0))) = h"

interpretation document_tasks: at_least_once "\<lambda>env. deliver env (IngestDocument c src t m a)" "hashes_with h"
  "settled_document h src c" "skip_reply src" for h c src t m a
proof unfold_locales
  fix env :: "nat \<Rightarrow> worker_env \<times> ingest_env \<times> s3_env" and w
  assume h: "hashes_with h env" and w: "settled_document h src c w"
  obtain we ie s3 where env: "env 0 = (we, ie, s3)" by (metis prod_cases3)
  with h w have "stored (ie_sha ie) src c (w_pg (wk_world w))" by (simp add: hashes_with_def settled_document_def)
  then obtain did where "ingest_document ie c src t m a (wk_world w)
      = Some (mk_result src ''skipped'' (Some did) 0 None, wk_world w)" using stored_skips by blast
  moreover have "ensure_initialized we w = (Inr (), w)"
    using w by (intro ensure_ready) (simp_all add: settled_document_def)
  ultimately show "\<exists>r. deliver env (IngestDocument c src t m a) w = Some (r, w) \<and> skip_reply src r"
    by (auto simp: deliver_document [of env, OF env] document_job_def skip_reply_def)
qed

section \<open>Queues\<close>

definition alerts :: "task list \<Rightarrow> task list" where
  "alerts ts = filter (\<lambda>t. \<not> retried t) ts"

lemma route_eq: "route t = (if retried t then ''ingestion'' else ''celery'')"
  by (cases t) (simp_all add: route_def task_name_def retried_def)

lemma take_task_alerts: "take_task WORKER_QUEUES ts = Some (t, ts') \<Longrightarrow> alerts ts' = alerts ts \<and> retried t"
  by (induction ts arbitrary: ts') (auto simp: alerts_def route_eq WORKER_QUEUES_def split: if_splits)

inductive_cases queue_stepE: "queue_step ts ts'"

lemma queue_step_alerts: "queue_step ts ts' \<Longrightarrow> prefix (alerts ts) (alerts ts')"
  by (erule queue_stepE) (auto simp: alerts_def prefix_def dest: take_task_alerts)

section \<open>Properties\<close>

text \<open>C8: the alerts for administrators are never delivered.  A weak answer queues an alert task and
  tells the user that an administrator was alerted; the route sends the task to the default
  queue, and the deployed worker serves the ingestion queue only: along every run of queueing
  and taking, the queued alerts stay in the queue, and every task taken is an ingestion.\<close>

theorem alerts_never_delivered:
  assumes "queue_step\<^sup>*\<^sup>* ts ts'"
  shows "prefix (alerts ts) (alerts ts') \<and> take_task WORKER_QUEUES ts' \<noteq> Some (NotifyAdmin sid q, rest)"
proof -
  from assms have "prefix (alerts ts) (alerts ts')"
  proof (induction rule: rtranclp_induct)
    case (step u v)
    from step.IH queue_step_alerts [OF step.hyps(2)] show ?case by (rule prefix_order.trans)
  qed simp
  moreover have "take_task WORKER_QUEUES ts' \<noteq> Some (NotifyAdmin sid q, rest)"
    using take_task_alerts [of ts' "NotifyAdmin sid q" rest] by (auto simp: retried_def)
  ultimately show ?thesis ..
qed

theorem alerts_never_delivered_witness:
  "take_task WORKER_QUEUES [NotifyAdmin ''s'' ''q'', IngestAll] = Some (IngestAll, [NotifyAdmin ''s'' ''q''])
   \<and> prefix (alerts [NotifyAdmin ''s'' ''q'', IngestAll]) (alerts [NotifyAdmin ''s'' ''q''])"
proof -
  have t: "take_task WORKER_QUEUES [NotifyAdmin ''s'' ''q'', IngestAll] = Some (IngestAll, [NotifyAdmin ''s'' ''q''])"
    by code_simp
  from alerts_never_delivered [OF r_into_rtranclp [of queue_step, OF queue_step.taken [OF t]]] t show ?thesis by blast
qed

text \<open>C28: a document task is never retried.  On a worker whose data layer is ready or can be
  made ready, the first attempt is the whole delivery, whatever the services of the later
  attempts would be: unless the chunker does not end, the task returns normally with the
  dictionary of what \<open>ingest_document\<close> returned, so that a failed ingestion is reported as
  a successful task and the declared retries with backoff never happen.\<close>

theorem document_task_not_retried:
  assumes "env 0 = (we, ie, s3)" and "can_start we w"
  shows "deliver env (IngestDocument c src t m a) w = run_task we ie s3 (IngestDocument c src t m a) w
     \<and> (case ingest_document ie c src t m a (wk_world w) of
          None \<Rightarrow> deliver env (IngestDocument c src t m a) w = None
        | Some (r, s) \<Rightarrow> \<exists>w'. deliver env (IngestDocument c src t m a) w = Some (Inr (result_dict r), w')
            \<and> wk_world w' = s)"
proof -
  obtain d where d: "ensure_initialized we w = (Inr (), started d w)" using ensure_started [OF assms(2)] .
  have r: "run_task we ie s3 (IngestDocument c src t m a) w = document_job ie c src t m a (started d w)"
    by (simp add: document_task_started [OF d])
  show ?thesis unfolding deliver_document [of env, OF assms(1) d] r
    by (simp add: document_job_def split: option.splits prod.splits)
qed

definition demo_worker :: "pg \<Rightarrow> worker" where
  "demo_worker db = \<lparr>wk_world = demo_world db, wk_initialized = False, wk_client = False, wk_driver = False\<rparr>"

definition demo_worker_env :: worker_env where
  "demo_worker_env = \<lparr>we_url = Some ''u'', we_key = Some ''k'', we_graph_uri = None, we_driver_ok = False\<rparr>"

lemma demo_can_start: "can_start demo_worker_env w"
  by (simp add: can_start_def demo_worker_env_def truthy_def)

text \<open>The database is down at the first attempt and would be up at the second.\<close>

theorem document_task_not_retried_witness:
  "\<exists>r w'. deliver (\<lambda>_. (demo_worker_env, demo_ingest, demo_s3)) (IngestDocument ''new'' ''b.txt'' ''T'' [] ''public'')
       (demo_worker (demo_pg\<lparr>pg_faults := [''documents.select'']\<rparr>)) = Some (Inr (result_dict r), w')
     \<and> ir_status r = ''failed''"
proof -
  let ?s = "demo_world (demo_pg\<lparr>pg_faults := [''documents.select'']\<rparr>)"
  have i: "ingest_document demo_ingest ''new'' ''b.txt'' ''T'' [] ''public'' ?s
      = Some (mk_result ''b.txt'' ''failed'' None 0 (Some (ie_what demo_ingest (OtherError ''documents.select''))), ?s)"
    by (simp add: ingest_document_def ingest_body_def get_document_by_source_def request_def demo_world_def)
  have "wk_world (demo_worker (demo_pg\<lparr>pg_faults := [''documents.select'']\<rparr>)) = ?s"
    by (simp add: demo_worker_def)
  with i conjunct2 [OF document_task_not_retried [of "\<lambda>_. (demo_worker_env, demo_ingest, demo_s3)", OF refl demo_can_start,
      of "''new''" "''b.txt''" "''T''" "[]" "''public''" "demo_worker (demo_pg\<lparr>pg_faults := [''documents.select'']\<rparr>)"]]
  obtain w' where "deliver (\<lambda>_. (demo_worker_env, demo_ingest, demo_s3)) (IngestDocument ''new'' ''b.txt'' ''T'' [] ''public'')
      (demo_worker (demo_pg\<lparr>pg_faults := [''documents.select'']\<rparr>)) = Some (Inr (result_dict
        (mk_result ''b.txt'' ''failed'' None 0 (Some (ie_what demo_ingest (OtherError ''documents.select''))))), w')"
    by auto
  moreover have "ir_status (mk_result ''b.txt'' ''failed'' None 0 (Some (ie_what demo_ingest (OtherError ''documents.select''))))
      = ''failed''" by (simp add: mk_result_def)
  ultimately show ?thesis by (intro exI conjI)
qed

text \<open>C19: delivering a document task again is harmless.  Tasks are acknowledged late, so that a
  task whose worker died is delivered again: when a delivery reported anything but a
  failure, any number of further deliveries, with whatever services that use the same hash
  function, all report \<open>skipped\<close> and leave every store and the worker as they are.\<close>

theorem redelivery_harmless:
  assumes "env 0 = (we, ie, s3)" and "can_start we w"
    and "deliver env (IngestDocument c src t m a) w = Some (Inr r, w1)"
    and "json_get r ''status'' \<noteq> Some (JStr ''failed'')"
    and "list_all (hashes_with (ie_sha ie)) envs"
  shows "\<exists>rs. redeliver (\<lambda>env. deliver env (IngestDocument c src t m a)) envs w1 = Some (rs, w1)
     \<and> length rs = length envs \<and> list_all (skip_reply src) rs"
proof -
  obtain d where d: "ensure_initialized we w = (Inr (), started d w)" using ensure_started [OF assms(2)] .
  from assms(3) obtain x s where x: "ingest_document ie c src t m a (wk_world w) = Some (x, s)"
    and r: "r = result_dict x" and w1: "w1 = (started d w)\<lparr>wk_world := s\<rparr>"
    unfolding deliver_document [of env, OF assms(1) d] by (auto simp: document_job_def)
  from assms(4) have "ir_status x \<noteq> ''failed''" by (simp add: r result_dict_status)
  with x have "settled_document (ie_sha ie) src c w1" by (simp add: settled_document_def ingest_stored w1)
  with assms(5) show ?thesis by (rule document_tasks.redeliveries)
qed

theorem redelivery_harmless_witness:
  "\<exists>r w1 x. let t = IngestDocument ''new'' ''a.txt'' ''T'' [] ''public'';
         env = (\<lambda>_. (demo_worker_env, demo_ingest, demo_s3))
     in deliver env t (demo_worker demo_pg) = Some (Inr r, w1)
        \<and> json_get r ''status'' = Some (JStr ''updated'')
        \<and> deliver env t w1 = Some (x, w1) \<and> skip_reply ''a.txt'' x"
proof -
  let ?t = "IngestDocument ''new'' ''a.txt'' ''T'' [] ''public''" let ?env = "\<lambda>_::nat. (demo_worker_env, demo_ingest, demo_s3)"
  have h: "pg_faults (w_pg (demo_world demo_pg)) = []" by (simp add: demo_world_def demo_pg_def empty_pg_def)
  obtain c where "await_chunks demo_ingest ''new'' ''T'' ''a.txt'' [] = Some (Inr [c])"
    using demo_chunks by blast
  from ingest_completes_aux [OF h this demo_api, of "''public''"] obtain x s where
    i: "ingest_document demo_ingest ''new'' ''a.txt'' ''T'' [] ''public'' (demo_world demo_pg) = Some (x, s)"
    and st: "ir_status x = ''updated''"
    by (auto simp: demo_world_def demo_pg_def demo_doc_def demo_ingest_def)
  obtain d where d: "ensure_initialized demo_worker_env (demo_worker demo_pg) = (Inr (), started d (demo_worker demo_pg))"
    using ensure_started [OF demo_can_start] .
  obtain w1 where del: "deliver ?env ?t (demo_worker demo_pg) = Some (Inr (result_dict x), w1)"
    using i unfolding deliver_document [of ?env, OF refl d] by (simp add: document_job_def demo_worker_def)
  have s: "json_get (result_dict x) ''status'' = Some (JStr ''updated'')" by (simp add: result_dict_status st)
  then have "json_get (result_dict x) ''status'' \<noteq> Some (JStr ''failed'')" by simp
  moreover have "list_all (hashes_with (ie_sha demo_ingest)) [?env]" by (simp add: hashes_with_def)
  ultimately obtain x where "deliver ?env ?t w1 = Some (x, w1)" "skip_reply ''a.txt'' x"
    using redelivery_harmless [of ?env, OF refl demo_can_start del, of "[?env]"]
    by (auto split: option.splits)
  with del s show ?thesis unfolding Let_def by blast
qed

end
