(* ===== verification/DocsProps.thy ===== *)
theory DocsProps
  imports DocsApi ChatProps WorkerProps
begin

text \<open>
  The properties of the remaining endpoints, and of an endpoint together with the worker that
  runs what it queued: uploading, deleting, and the S3 webhook.
\<close>

section \<open>Rules\<close>

lemma lift_res_simps [simp]: "lift_res (Inr x) s = (Inr x, s)" "lift_res (Inl e) s = (Inl (Crash e), s)"
  by (simp_all add: lift_res_def)

lemma fail_with_simp [simp]: "fail_with n d s = (Inl (HttpExc (Http n d)), s)"
  by (simp add: fail_with_def)

lemma cleanup_simp [simp]: "m s = (r, s') \<Longrightarrow> cleanup f m s = (r, f s')"
  by (simp add: cleanup_def)

lemma guarded_simps [simp]:
  "m s = (Inr x, s') \<Longrightarrow> guarded what m s = (Inr x, s')"
  "m s = (Inl (HttpExc h), s') \<Longrightarrow> guarded what m s = (Inl (HttpExc h), s')"
  "m s = (Inl (Crash e), s') \<Longrightarrow> guarded what m s = (Inl (HttpExc (Http 500 (what e))), s')"
  by (simp_all add: guarded_def)

lemma handler_simps [simp]:
  "m s = (Inr x, s') \<Longrightarrow> global_exception_handler m s = (Inr x, s')"
  "m s = (Inl (HttpExc h), s') \<Longrightarrow> global_exception_handler m s = (Inl h, s')"
  "m s = (Inl (Crash e), s') \<Longrightarrow> global_exception_handler m s = (Inl (Http 500 ''Internal server error''), s')"
  by (simp_all add: global_exception_handler_def)

lemma delay_simps [simp]:
  "st_broker s \<Longrightarrow> delay se t s
     = (Inr (se_uuid se (st_next s)), s\<lparr>st_tasks := st_tasks s @ [t], st_next := Suc (st_next s)\<rparr>)"
  "\<not> st_broker s \<Longrightarrow> delay se t s = (Inl (Crash (OtherError ''OperationalError'')), s)"
  by (simp_all add: delay_def)

section \<open>Upload\<close>

text \<open>The names an upload draws, and the task it queues.\<close>

definition tmp_path :: "site_env \<Rightarrow> upload \<Rightarrow> site \<Rightarrow> string" where
  "tmp_path se up s = se_tmp se (st_next s) @ path_suffix (up_filename up)"

definition upload_source :: "site_env \<Rightarrow> upload \<Rightarrow> site \<Rightarrow> string" where
  "upload_source se up s = ''upload://'' @ se_uuid se (Suc (st_next s)) @ ''/'' @ up_filename up"

definition upload_meta :: "upload \<Rightarrow> meta \<Rightarrow> meta" where
  "upload_meta up fm = dict_put ''file_name'' (JStr (up_filename up)) (dict_put ''uploaded'' (JBool True) fm)"

definition upload_task :: "site_env \<Rightarrow> upload \<Rightarrow> site \<Rightarrow> string \<Rightarrow> meta \<Rightarrow> string \<Rightarrow> task" where
  "upload_task se up s content fm access =
     IngestDocument content (upload_source se up s) (path_stem (up_filename up)) (upload_meta up fm) access"

lemma upload_queued:
  assumes "up_read up = Inr u" and "parse_document (tmp_path se up s) (up_library up) (se_what se) = Inr (content, fm)"
    and "py_strip content \<noteq> []" and "st_broker s"
  shows "\<exists>q s'. upload_document_endpoint se up access s = (Inr q, s')
     \<and> qd_source q = upload_source se up s
     \<and> st_tasks s' = st_tasks s @ [upload_task se up s content fm access]
     \<and> st_world s' = st_world s \<and> (se_unlink se \<longrightarrow> st_temp s' = st_temp s)"
proof -
  let ?p = "tmp_path se up s"
  let ?s1 = "s\<lparr>st_temp := ?p # st_temp s, st_next := Suc (st_next s)\<rparr>"
  have a: "save_upload se up s = (Inr ?p, ?s1)"
    using assms(1) by (simp add: save_upload_def tmp_path_def Let_def)
  let ?t = "upload_task se up s content fm access"
  let ?s2 = "?s1\<lparr>st_next := Suc (Suc (st_next s))\<rparr>"
  let ?s3 = "?s2\<lparr>st_tasks := st_tasks s @ [?t], st_next := Suc (Suc (Suc (st_next s)))\<rparr>"
  let ?q = "\<lparr>qd_task_id = se_uuid se (Suc (Suc (st_next s))), qd_title = path_stem (up_filename up),
    qd_source = upload_source se up s\<rparr>"
  have d: "delay se ?t ?s2 = (Inr (se_uuid se (Suc (Suc (st_next s)))), ?s3)" using assms(4) by simp
  have b: "queue_upload se up access ?p ?s1 = (Inr ?q, ?s3)"
    using assms(2,3) d by (simp add: queue_upload_def fresh_uuid_def hbind_def upload_task_def upload_source_def
      upload_meta_def Let_def)
  have "hbind (save_upload se up) (\<lambda>p. cleanup (unlink se p) (queue_upload se up access p)) s
      = (Inr ?q, unlink se ?p ?s3)"
    unfolding hbind_simps(2) [of "save_upload se up" s, OF a] by (rule cleanup_simp) (rule b)
  then have "upload_document_endpoint se up access s = (Inr ?q, unlink se ?p ?s3)"
    unfolding upload_document_endpoint_def by (rule guarded_simps(1))
  then show ?thesis by (intro exI conjI) (assumption | simp add: unlink_def)+
qed

text \<open>The row of a new document.\<close>

definition has_row :: "string \<Rightarrow> string \<Rightarrow> string \<Rightarrow> string \<Rightarrow> pg \<Rightarrow> bool" where
  "has_row src t c a db \<longleftrightarrow> (\<exists>d\<in>set (documents db). doc_source d = src \<and> doc_title d = t
     \<and> doc_content d = c \<and> doc_access d = a)"

lemma save_chunks_docs: "save_chunks sha ids did es db = Inr (rows, db') \<Longrightarrow> documents db' = documents db"
  by (drule save_chunks_cases) simp

lemma insert_has_row:
  "triple (\<lambda>w. find (\<lambda>d. doc_source d = src) (documents (w_pg w)) = None)
     (ingest_insert ie c src t m a cs) (\<lambda>_ w. has_row src t c a (w_pg w)) any"
  unfolding ingest_insert_def
proof (rule triple_bind)
  show "triple (\<lambda>w. find (\<lambda>d. doc_source d = src) (documents (w_pg w)) = None)
      (upsert_step ie src t c m a) (\<lambda>_ w. has_row src t c a (w_pg w)) any"
    unfolding upsert_step_def by (rule triple_write)
      (auto simp: has_row_def get_by_source_Inr split: sum.splits elim!: upsert_cases)
next
  fix did
  show "triple (\<lambda>w. has_row src t c a (w_pg w)) (\<lambda>w. step_bind (embed_step ie cs w) (\<lambda>es w.
      step_bind (save_step ie did es w) (\<lambda>rows. finish_ingest ie src t m a ''inserted'' did es rows)))
      (\<lambda>_ w. has_row src t c a (w_pg w)) any"
  proof (rule triple_bind)
    show "triple (\<lambda>w. has_row src t c a (w_pg w)) (embed_step ie cs) (\<lambda>_ w. has_row src t c a (w_pg w)) any"
      by (rule triple_any) (rule triple_embed)
  next
    fix es
    show "triple (\<lambda>w. has_row src t c a (w_pg w)) (\<lambda>w. step_bind (save_step ie did es w)
        (\<lambda>rows. finish_ingest ie src t m a ''inserted'' did es rows)) (\<lambda>_ w. has_row src t c a (w_pg w)) any"
    proof (rule triple_bind)
      show "triple (\<lambda>w. has_row src t c a (w_pg w)) (save_step ie did es) (\<lambda>_ w. has_row src t c a (w_pg w)) any"
        unfolding save_step_def
        by (rule triple_write) (simp add: has_row_def save_chunks_docs split: sum.splits prod.splits)
    qed (rule triple_any, rule triple_finish)
  qed
qed

lemma new_document_row:
  assumes "find (\<lambda>d. doc_source d = src) (documents (w_pg w)) = None" and "pg_faults (w_pg w) = []"
    and "await_chunks ie c t src m = Some (Inr cs)" and "api_complete (ie_api ie)"
    and "0 < gc_batch_size (ie_gen ie)" and "\<not> isl (ge_driver (ie_graph ie))"
  shows "\<exists>r w'. ingest_document ie c src t m a w = Some (r, w') \<and> ir_status r = ''inserted''
     \<and> has_row src t c a (w_pg w')"
proof -
  obtain res w' where i: "ingest_insert ie c src t m a cs w = (res, w')"
    by (cases "ingest_insert ie c src t m a cs w")
  from i tripleD [OF healthy_insert [OF assms(4-6)], of w c src t m a cs] assms(2)
  obtain r where r: "res = Inr r" "ir_status r = ''inserted''" by (cases res) auto
  have "has_row src t c a (w_pg w')"
    using tripleD(1) [OF insert_has_row assms(1) i [unfolded r(1)]] .
  moreover have "ingest_document ie c src t m a w = Some (r, w')"
    using assms(1-3) i r(1) by (simp add: ingest_document_def ingest_body_def get_document_by_source_def)
  ultimately show ?thesis using r(2) by blast
qed

section \<open>The webhook\<close>

text \<open>A record as S3 writes it, the ones that announce a write, and their tasks.\<close>

fun event_json :: "string \<times> string \<times> string \<Rightarrow> json" where
  "event_json (bucket, key, event) = JObj [(''eventName'', JStr event),
     (''s3'', JObj [(''bucket'', JObj [(''name'', JStr bucket)]), (''object'', JObj [(''key'', JStr key)])])]"

fun is_write :: "string \<times> string \<times> string \<Rightarrow> bool" where
  "is_write (bucket, key, event) \<longleftrightarrow> key \<noteq> [] \<and> (py_in ''ObjectCreated'' event \<or> py_in ''ObjectModified'' event)"

fun event_task :: "string \<times> string \<times> string \<Rightarrow> task" where
  "event_task (bucket, key, event) = IngestSingle key bucket"

lemma event_record_json: "event_record (event_json (b, k, e)) = Inr (JStr b, JStr k, JStr e)"
  by (simp add: event_record_def dget_def get_or_def json_get_def)

lemma wanted_JStr: "wanted (JStr e) = Inr (py_in ''ObjectCreated'' e \<or> py_in ''ObjectModified'' e)"
  by (simp add: wanted_def in_json_def)

lemma queue_record:
  "queue_records se (event_json ev # rs) n s =
     (if is_write ev then hbind (delay se (event_task ev)) (\<lambda>_. queue_records se rs (n + 1)) s
      else queue_records se rs n s)"
  by (cases ev) (simp add: event_record_json wanted_JStr as_str_def del: event_json.simps)

lemma queue_records_up:
  "st_broker s \<Longrightarrow> \<exists>k. queue_records se (map event_json evs) n s = (Inr (n + length (filter is_write evs)),
     s\<lparr>st_tasks := st_tasks s @ map event_task (filter is_write evs), st_next := k\<rparr>)"
proof (induction evs arbitrary: n s)
  case Nil
  then show ?case by (intro exI [of _ "st_next s"]) simp
next
  case (Cons ev evs)
  show ?case
  proof (cases "is_write ev")
    case False
    then show ?thesis using Cons by (simp add: queue_record del: queue_records.simps)
  next
    case True
    let ?s = "s\<lparr>st_tasks := st_tasks s @ [event_task ev], st_next := Suc (st_next s)\<rparr>"
    from Cons.prems have "st_broker ?s" by simp
    from Cons.IH [OF this, of "n + 1"] True Cons.prems show ?thesis
      by (simp add: queue_record del: queue_records.simps)
  qed
qed

lemma queue_records_down:
  "\<not> st_broker s \<Longrightarrow> queue_records se (map event_json evs) n s
     = (if filter is_write evs = [] then Inr n else Inl (Crash (OtherError ''OperationalError'')), s)"
proof (induction evs)
  case (Cons ev evs)
  then show ?case by (simp add: queue_record hbind_def del: queue_records.simps)
qed simp

definition notification :: "string \<Rightarrow> json" where
  "notification text = JObj [(''Type'', JStr ''Notification''), (''Message'', JStr text)]"

lemma webhook_notification:
  assumes "sv_loads (se_sv se) text = Inr (JObj [(''Records'', JArr (map event_json evs))])"
  shows "s3_event_webhook se (Inr (notification text))
     = hbind (queue_records se (map event_json evs) 0) (\<lambda>n. reply (Accepted n))"
  using assms by (intro ext) (simp add: s3_event_webhook_def notification_def get_or_def json_get_def
    as_str_def dget_def iter_json_def)

section \<open>Demo\<close>

definition demo_loads :: "string \<Rightarrow> json res" where
  "demo_loads text = (if text = ''m'' then Inr (JObj [(''Records'', JArr (map event_json
     [(''b'', ''a.txt'', ''ObjectCreated:Put''), (''b'', ''c.txt'', ''ObjectRemoved:Delete'')]))])
     else Inl TypeError)"

definition demo_site_env :: site_env where
  "demo_site_env = \<lparr>se_sv = (demo_services (Inr None))\<lparr>sv_loads := demo_loads\<rparr>, se_what = (\<lambda>_. []),
     se_uuid = (\<lambda>n. replicate n CHR ''u''), se_tmp = (\<lambda>_. ''t''), se_unlink = True, se_graph_uri = None,
     se_graph_driver = False, se_pages = (\<lambda>_. []), se_client = True, se_ping = Inr (),
     se_report = (\<lambda>_. \<lparr>tr_state = [], tr_ready = False, tr_successful = False, tr_result = JNull, tr_error = []\<rparr>),
     se_urlopen = (\<lambda>_. Inr ())\<rparr>"

definition demo_site :: site where
  "demo_site = \<lparr>st_world = demo_world demo_pg, st_mem = cs_mem demo_chat, st_tasks = [], st_broker = True,
     st_temp = [], st_next = 0\<rparr>"

definition demo_upload :: upload where
  "demo_upload = \<lparr>up_filename = ''f.txt'', up_read = Inr (),
     up_library = \<lparr>lb_text = Inr ''new'', lb_pdf = NotInstalled, lb_docx = NotInstalled,
       lb_excel = NotInstalled, lb_pptx = NotInstalled, lb_rows = (\<lambda>_. Inl TypeError),
       lb_json = Inl TypeError, lb_lines = Inl TypeError, lb_relines = (\<lambda>_. None),
       lb_html = NotInstalled\<rparr>\<rparr>"

lemma demo_parsed:
  "\<exists>fm. parse_document (tmp_path demo_site_env demo_upload demo_site) (up_library demo_upload)
     (se_what demo_site_env) = Inr (''new'', fm)"
proof -
  have k: "path_suffix ''f.txt'' = ''.txt''" "py_lower (path_suffix ''t.txt'') = ''.txt''" by code_simp+
  have p: "tmp_path demo_site_env demo_upload demo_site = ''t.txt''"
    by (simp add: tmp_path_def demo_site_env_def demo_upload_def k)
  show ?thesis unfolding p
    by (simp add: parse_document_def k parser_for_def parse_text_def Let_def fmt_def demo_upload_def)
qed

section \<open>Properties\<close>

text \<open>C9: an uploaded document is indexed.  A readable file with text is accepted: exactly one
  task is queued, the stores are untouched and no temporary file is left.  When a worker runs
  that task without faults, it reports \<open>inserted\<close>, and the documents contain a row with the
  source the reply named, the parsed text, the stem of the file name as its title, and the
  access level the form asked for, whatever that was.\<close>

theorem upload_then_indexed:
  assumes "up_read up = Inr u" and "parse_document (tmp_path se up s) (up_library up) (se_what se) = Inr (content, fm)"
    and "py_strip content \<noteq> []" and "st_broker s" and "se_unlink se"
    and "find (\<lambda>d. doc_source d = upload_source se up s) (documents (w_pg (st_world s))) = None"
    and "pg_faults (w_pg (st_world s)) = []"
    and "await_chunks ie content (path_stem (up_filename up)) (upload_source se up s) (upload_meta up fm) = Some (Inr cs)"
    and "api_complete (ie_api ie)" and "0 < gc_batch_size (ie_gen ie)" and "\<not> isl (ge_driver (ie_graph ie))"
    and "env 0 = (we, ie, s3)" and "can_start we w" and "wk_world w = st_world s"
  shows "\<exists>q s' t r w'. global_exception_handler (upload_document_endpoint se up access) s = (Inr q, s')
     \<and> st_tasks s' = st_tasks s @ [t] \<and> st_world s' = st_world s \<and> st_temp s' = st_temp s
     \<and> deliver env t w = Some (Inr r, w') \<and> json_get r ''status'' = Some (JStr ''inserted'')
     \<and> has_row (qd_source q) (path_stem (up_filename up)) content access (w_pg (wk_world w'))"
proof -
  let ?t = "upload_task se up s content fm access"
  obtain q s' where q: "upload_document_endpoint se up access s = (Inr q, s')"
    "qd_source q = upload_source se up s" "st_tasks s' = st_tasks s @ [?t]" "st_world s' = st_world s"
    "se_unlink se \<longrightarrow> st_temp s' = st_temp s"
    using upload_queued [OF assms(1-4), of access] by blast
  obtain r v where r: "ingest_document ie content (upload_source se up s) (path_stem (up_filename up))
      (upload_meta up fm) access (st_world s) = Some (r, v)" "ir_status r = ''inserted''"
    "has_row (upload_source se up s) (path_stem (up_filename up)) content access (w_pg v)"
    using new_document_row [OF assms(6-11)] by blast
  obtain d where d: "ensure_initialized we w = (Inr (), started d w)" using ensure_started [OF assms(13)] .
  have "deliver env ?t w = Some (Inr (result_dict r), (started d w)\<lparr>wk_world := v\<rparr>)"
    unfolding upload_task_def deliver_document [of env, OF assms(12) d]
    by (simp add: document_job_def assms(14) r(1))
  moreover have "json_get (result_dict r) ''status'' = Some (JStr ''inserted'')" by (simp add: result_dict_status r(2))
  moreover have "has_row (qd_source q) (path_stem (up_filename up)) content access
      (w_pg (wk_world ((started d w)\<lparr>wk_world := v\<rparr>)))" using r(3) q(2) by simp
  moreover have "global_exception_handler (upload_document_endpoint se up access) s = (Inr q, s')"
    using q(1) by simp
  moreover have "st_temp s' = st_temp s" using q(5) assms(5) by simp
  ultimately show ?thesis using q(3,4) by (intro exI conjI)
qed

theorem upload_then_indexed_witness:
  "\<exists>q s' t r w'. global_exception_handler (upload_document_endpoint demo_site_env demo_upload ''secret'') demo_site = (Inr q, s')
     \<and> st_tasks s' = [t] \<and> deliver (\<lambda>_. (demo_worker_env, demo_ingest, demo_s3)) t (demo_worker demo_pg) = Some (Inr r, w')
     \<and> json_get r ''status'' = Some (JStr ''inserted'')
     \<and> has_row (qd_source q) ''f'' ''new'' ''secret'' (w_pg (wk_world w'))"
proof -
  obtain fm where fm: "parse_document (tmp_path demo_site_env demo_upload demo_site) (up_library demo_upload)
     (se_what demo_site_env) = Inr (''new'', fm)" using demo_parsed by blast
  have st: "path_stem (up_filename demo_upload) = ''f''" unfolding demo_upload_def by code_simp
  have ne: "py_strip ''new'' \<noteq> []" by code_simp
  obtain c where c: "await_chunks demo_ingest ''new'' (path_stem (up_filename demo_upload))
      (upload_source demo_site_env demo_upload demo_site) (upload_meta demo_upload fm) = Some (Inr [c])"
    using demo_chunks by blast
  have f: "find (\<lambda>d. doc_source d = upload_source demo_site_env demo_upload demo_site)
      (documents (w_pg (st_world demo_site))) = None"
    by (simp add: demo_site_def demo_world_def demo_pg_def demo_doc_def upload_source_def)
  have b: "st_broker demo_site" "se_unlink demo_site_env" "pg_faults (w_pg (st_world demo_site)) = []"
    "up_read demo_upload = Inr ()" "wk_world (demo_worker demo_pg) = st_world demo_site" "st_tasks demo_site = []"
    by (simp_all add: demo_site_def demo_site_env_def demo_world_def demo_pg_def empty_pg_def demo_upload_def
        demo_worker_def)
  from upload_then_indexed [of demo_upload "()" demo_site_env demo_site, OF b(4) fm ne b(1,2) f b(3) c demo_api,
      of "\<lambda>_. (demo_worker_env, demo_ingest, demo_s3)", OF refl demo_can_start b(5), of "''secret''"]
  show ?thesis unfolding st b(6) append_Nil by blast
qed

text \<open>C33: what a webhook call queues.  For a notification with records as S3 writes them, exactly the
  records that have a key and announce a created or modified object are queued, one task
  each, in their order, and their number is reported; when the queue does not take tasks,
  a call with such a record fails with the generic error and queues nothing.  Nothing else
  changes: removals are ignored, and repeated calls queue the same tasks again.\<close>

theorem webhook_queues:
  assumes "sv_loads (se_sv se) text = Inr (JObj [(''Records'', JArr (map event_json evs))])"
  shows "\<exists>k. global_exception_handler (s3_event_webhook se (Inr (notification text))) s =
     (if st_broker s \<or> filter is_write evs = []
      then (Inr (Accepted (length (filter is_write evs))),
            s\<lparr>st_tasks := st_tasks s @ map event_task (filter is_write evs), st_next := k\<rparr>)
      else (Inl (Http 500 ''Internal server error''), s))"
proof (cases "st_broker s")
  case True
  then obtain k where "queue_records se (map event_json evs) 0 s = (Inr (0 + length (filter is_write evs)),
      s\<lparr>st_tasks := st_tasks s @ map event_task (filter is_write evs), st_next := k\<rparr>)"
    using queue_records_up by blast
  with True show ?thesis by (intro exI [of _ k]) (simp add: webhook_notification [OF assms])
next
  case False
  note q = queue_records_down [OF False, of se evs 0]
  show ?thesis
  proof (cases "filter is_write evs = []")
    case True
    with q show ?thesis by (intro exI [of _ "st_next s"]) (simp add: webhook_notification [OF assms])
  next
    case ev: False
    with q False show ?thesis by (simp add: webhook_notification [OF assms])
  qed
qed

theorem webhook_queues_witness:
  "\<exists>k. global_exception_handler (s3_event_webhook demo_site_env (Inr (notification ''m''))) demo_site =
     (Inr (Accepted 1), demo_site\<lparr>st_tasks := [IngestSingle ''a.txt'' ''b''], st_next := k\<rparr>)"
proof -
  let ?evs = "[(''b'', ''a.txt'', ''ObjectCreated:Put''), (''b'', ''c.txt'', ''ObjectRemoved:Delete'')]"
  have l: "sv_loads (se_sv demo_site_env) ''m'' = Inr (JObj [(''Records'', JArr (map event_json ?evs))])"
    by (simp add: demo_site_env_def demo_loads_def)
  have f: "filter is_write ?evs = [(''b'', ''a.txt'', ''ObjectCreated:Put'')]" by code_simp
  from webhook_queues [OF l, of demo_site] show ?thesis unfolding f by (simp add: demo_site_def)
qed

text \<open>C20: what deleting a document reaches.  Without faults, an unknown identifier is answered with
  404 and changes nothing; a known one is deleted: the document and its chunks are gone from
  the database, every other row stays, and the next request for it is answered with 404.
  But the retrieval cache is not invalidated: a question it holds an answer for is still
  answered with the same chunks, those of the deleted document included.\<close>

theorem delete_document_effect:
  assumes "pg_faults (w_pg (st_world s)) = []"
  shows "case find (\<lambda>d. doc_id d = did) (documents (w_pg (st_world s))) of
      None \<Rightarrow> global_exception_handler (delete_document_endpoint se did) s = (Inl (Http 404 ''Document not found''), s)
    | Some d \<Rightarrow> \<exists>s'. global_exception_handler (delete_document_endpoint se did) s = (Inr ''Document deleted successfully'', s')
        \<and> documents (w_pg (st_world s')) = filter (\<lambda>d. doc_id d \<noteq> did) (documents (w_pg (st_world s)))
        \<and> chunk_rows (w_pg (st_world s')) = filter (\<lambda>c. ck_doc c \<noteq> did) (chunk_rows (w_pg (st_world s)))
        \<and> global_exception_handler (get_document_endpoint did) s' = (Inl (Http 404 ''Document not found''), s')
        \<and> (\<forall>now q limit uid cs. qc_get (sv_qc (se_sv se)) (sv_sha (se_sv se)) (sv_client (se_sv se))
              (w_redis (st_world s)) now q uid limit = Some cs \<longrightarrow> run_hybrid se now q limit uid s' = (Inr cs, s'))"
proof (cases "find (\<lambda>d. doc_id d = did) (documents (w_pg (st_world s)))")
  case None
  have "on_pg (get_document did) s = (Inr None, s)"
    using assms None by (simp add: on_pg_def get_document_def)
  with None show ?thesis by (simp add: delete_document_endpoint_def)
next
  case (Some d)
  let ?w = "st_world s" let ?db = "w_pg ?w" let ?on = "sv_vespa_on (se_sv se)"
  let ?del = "delete_by_document ?on (se_pages se)"
  let ?g = "if doc_source d = [] then w_graph ?w else detach_document se (doc_source d) (w_graph ?w)"
  let ?v = "if ?on then ?del did (w_vespa ?w) else w_vespa ?w"
  let ?db' = "?db\<lparr>chunk_rows := filter (\<lambda>c. ck_doc c \<noteq> did) (chunk_rows ?db),
    documents := filter (\<lambda>d. doc_id d \<noteq> did) (documents ?db)\<rparr>"
  let ?s = "s\<lparr>st_world := ?w\<lparr>w_pg := ?db', w_graph := ?g, w_vespa := ?v\<rparr>\<rparr>"
  have g: "on_pg (get_document did) s = (Inr (Some d), s)"
    using assms Some by (simp add: on_pg_def get_document_def)
  have "delete_document (detach_document se) ?on ?del did ?db (w_graph ?w) (w_vespa ?w) = (Inr (), ?db', ?g, ?v)"
    using assms Some by (simp add: delete_document_def get_document_def delete_document_chunks_def Let_def)
  then have "delete_stores se did s = (Inr (), ?s)" by (simp add: delete_stores_def Let_def)
  with g have "global_exception_handler (delete_document_endpoint se did) s = (Inr ''Document deleted successfully'', ?s)"
    by (simp add: delete_document_endpoint_def)
  moreover have "global_exception_handler (get_document_endpoint did) ?s = (Inl (Http 404 ''Document not found''), ?s)"
  proof -
    have "find (\<lambda>d. doc_id d = did) (filter (\<lambda>d. doc_id d \<noteq> did) (documents ?db)) = None"
      by (simp add: find_None_iff)
    then have "get_document_tool did ?db' = None"
      using assms by (simp add: get_document_tool_def get_document_def)
    then show ?thesis by (simp add: get_document_endpoint_def)
  qed
  moreover have "run_hybrid se now q limit uid ?s = (Inr cs, ?s)"
    if "qc_get (sv_qc (se_sv se)) (sv_sha (se_sv se)) (sv_client (se_sv se)) (w_redis ?w) now q uid limit = Some cs"
    for now q limit uid cs
    using that by (simp add: run_hybrid_def hybrid_search_tool_def)
  ultimately have "\<exists>s'. global_exception_handler (delete_document_endpoint se did) s = (Inr ''Document deleted successfully'', s')
        \<and> documents (w_pg (st_world s')) = filter (\<lambda>d. doc_id d \<noteq> did) (documents ?db)
        \<and> chunk_rows (w_pg (st_world s')) = filter (\<lambda>c. ck_doc c \<noteq> did) (chunk_rows ?db)
        \<and> global_exception_handler (get_document_endpoint did) s' = (Inl (Http 404 ''Document not found''), s')
        \<and> (\<forall>now q limit uid cs. qc_get (sv_qc (se_sv se)) (sv_sha (se_sv se)) (sv_client (se_sv se))
              (w_redis ?w) now q uid limit = Some cs \<longrightarrow> run_hybrid se now q limit uid s' = (Inr cs, s'))"
    by (intro exI [of _ ?s]) simp
  with Some show ?thesis by simp
qed

theorem delete_document_effect_witness:
  "\<exists>s'. global_exception_handler (delete_document_endpoint demo_site_env ''i'') demo_site
       = (Inr ''Document deleted successfully'', s')
     \<and> documents (w_pg (st_world s')) = [] \<and> chunk_rows (w_pg (st_world s')) = []"
proof -
  have f: "pg_faults (w_pg (st_world demo_site)) = []"
    by (simp add: demo_site_def demo_world_def demo_pg_def empty_pg_def)
  have d: "find (\<lambda>d. doc_id d = ''i'') (documents (w_pg (st_world demo_site))) = Some demo_doc"
    "filter (\<lambda>d. doc_id d \<noteq> ''i'') (documents (w_pg (st_world demo_site))) = []"
    "filter (\<lambda>c. ck_doc c \<noteq> ''i'') (chunk_rows (w_pg (st_world demo_site))) = []"
    by (simp_all add: demo_site_def demo_world_def demo_pg_def demo_doc_def)
  from delete_document_effect [OF f, of demo_site_env "''i''"] show ?thesis
    unfolding d option.case by blast
qed

end
