(* ===== verification/AdminApi.thy ===== *)
theory AdminApi
  imports UsersRouter SettingsStore RedisStore
begin

text \<open>
  \<open>agent/settings_router.py\<close> and the avatars of \<open>agent/users_router.py\<close>.  The state joins the
  accounts, the settings with their cache, the local avatar directory, the avatar objects in
  the private bucket, and the Redis server.  A byte is a character, a file a string.  Under
  the avatar keys of Redis only avatars are stored, as \<open>RJson (JStr bytes)\<close>.
\<close>

section \<open>State\<close>

record portal =
  po_auth :: auth_db
  po_settings :: settings_state
  po_sdb :: settings_db
  po_files :: "string \<rightharpoonup> string"
  po_s3 :: "string \<rightharpoonup> string"
  po_redis :: redis_server

record portal_env =
  pe_auth :: auth_env
  pe_defaults :: settings_row
  pe_disk_write :: bool
  pe_disk_read :: bool
  pe_s3_put :: bool
  pe_s3_get :: bool
  pe_client :: bool

definition on_auth :: "(auth_db, 'a) handler \<Rightarrow> (portal, 'a) handler" where
  "on_auth m s = (case m (po_auth s) of (r, a) \<Rightarrow> (r, s\<lparr>po_auth := a\<rparr>))"

section \<open>Settings\<close>

definition get_agent_settings :: "portal_env \<Rightarrow> rat \<Rightarrow> string \<Rightarrow> (portal, AgentConfig) handler" where
  "get_agent_settings pe now hdr =
     hbind (on_auth (get_current_active_user (pe_auth pe) \<lfloor>now\<rfloor> hdr)) (\<lambda>_ s.
       case get_config (po_sdb s) now True (po_settings s) of
         (c, st) \<Rightarrow> (Inr c, s\<lparr>po_settings := st\<rparr>))"

text \<open>The longest values the request model takes; a longer one is refused before the handler.\<close>

definition valid_patch :: "settings_patch \<Rightarrow> bool" where
  "valid_patch p \<longleftrightarrow>
     (\<forall>x. new_assistant_name p = Some x \<longrightarrow> length x \<le> 120)
   \<and> (\<forall>x. new_system_prompt p = Some x \<longrightarrow> length x \<le> 20000)
   \<and> (\<forall>x. new_scope_description p = Some x \<longrightarrow> length x \<le> 4000)
   \<and> (\<forall>x. new_out_of_scope_message p = Some x \<longrightarrow> length x \<le> 2000)"

definition empty_patch :: "settings_patch \<Rightarrow> bool" where
  "empty_patch p \<longleftrightarrow> new_assistant_name p = None \<and> new_system_prompt p = None
     \<and> new_scope_description p = None \<and> new_enforce_scope p = None \<and> new_out_of_scope_message p = None"

definition update_agent_settings ::
  "portal_env \<Rightarrow> rat \<Rightarrow> string \<Rightarrow> settings_patch \<Rightarrow> (portal, AgentConfig) handler" where
  "update_agent_settings pe now hdr patch =
     hbind (on_auth (admin_only (pe_auth pe) \<lfloor>now\<rfloor> hdr)) (\<lambda>_.
     hbind (demand (\<not> empty_patch patch) 400 ''No fields to update'') (\<lambda>_ s.
       case update_config (pe_defaults pe) patch (po_sdb s) now (po_settings s) of
         Inl _ \<Rightarrow> (Inl (Http 500 ''Failed to update settings''), s)
       | Inr (c, db, st) \<Rightarrow> (Inr c, s\<lparr>po_sdb := db, po_settings := st\<rparr>)))"

section \<open>Avatars\<close>

definition avatar_file :: "string \<Rightarrow> string" where
  "avatar_file uid = ''data/avatars/'' @ uid @ ''.jpg''"

definition avatar_key :: "string \<Rightarrow> string" where
  "avatar_key uid = ''uchenab:avatar:'' @ uid"

definition avatar_object :: "string \<Rightarrow> string" where
  "avatar_object uid = ''avatars/'' @ uid @ ''.jpg''"

definition avatar_url :: "string \<Rightarrow> string" where
  "avatar_url uid = ''/api/v1/users/'' @ uid @ ''/avatar''"

definition AVATAR_TTL :: int where
  "AVATAR_TTL = 86400"

definition AVATAR_FAILED :: http_error where
  "AVATAR_FAILED = Http 500 ''Avatar upload failed''"

record avatar =
  av_type :: "string option"
  av_content :: "string res"

definition is_image :: "string option \<Rightarrow> bool" where
  "is_image t \<longleftrightarrow> \<not> truthy t \<or> prefix ''image/'' (str_or t [])"

text \<open>An exception of the user query ends the upload; the other stores are best effort.\<close>

definition user_exists :: "string \<Rightarrow> (portal, unit) handler" where
  "user_exists uid s =
     (if ''users.select'' \<in> set (a_faults (po_auth s)) then (Inl AVATAR_FAILED, s)
      else demand (find_user uid (po_auth s) \<noteq> None) 404 ''User not found'' s)"

definition read_upload :: "avatar \<Rightarrow> (portal, string) handler" where
  "read_upload av s = (case av_content av of Inl _ \<Rightarrow> (Inl AVATAR_FAILED, s) | Inr c \<Rightarrow> (Inr c, s))"

definition save_local :: "portal_env \<Rightarrow> string \<Rightarrow> string \<Rightarrow> (portal, unit) handler" where
  "save_local pe uid c s =
     (if pe_disk_write pe then (Inr (), s\<lparr>po_files := (po_files s)(avatar_file uid \<mapsto> c)\<rparr>)
      else (Inl AVATAR_FAILED, s))"

definition put_object :: "portal_env \<Rightarrow> string \<Rightarrow> string \<Rightarrow> portal \<Rightarrow> portal" where
  "put_object pe uid c s =
     (if pe_s3_put pe then s\<lparr>po_s3 := (po_s3 s)(avatar_object uid \<mapsto> c)\<rparr> else s)"

definition set_avatar_url :: "string \<Rightarrow> portal \<Rightarrow> portal" where
  "set_avatar_url uid s =
     s\<lparr>po_auth := snd (exec ''users.update''
         (update_user_row uid (\<lambda>u. u\<lparr>u_avatar := Some (avatar_url uid)\<rparr>)) (po_auth s))\<rparr>"

definition drop_cached :: "portal_env \<Rightarrow> string \<Rightarrow> portal \<Rightarrow> portal" where
  "drop_cached pe uid s =
     (if pe_client pe \<and> srv_up (po_redis s)
      then s\<lparr>po_redis := (po_redis s)\<lparr>srv_data := (srv_data (po_redis s))(avatar_key uid := None)\<rparr>\<rparr>
      else s)"

definition upload_user_avatar ::
  "portal_env \<Rightarrow> rat \<Rightarrow> string \<Rightarrow> string \<Rightarrow> avatar \<Rightarrow> (portal, string) handler" where
  "upload_user_avatar pe now hdr uid av =
     hbind (on_auth (get_current_active_user (pe_auth pe) \<lfloor>now\<rfloor> hdr)) (\<lambda>(u, rs).
     hbind (demand (u_id u = uid \<or> ''admin'' \<in> set rs) 403 ''Access denied'') (\<lambda>_.
     hbind (demand (is_image (av_type av)) 400 ''Avatar must be an image file'') (\<lambda>_.
     hbind (user_exists uid) (\<lambda>_.
     hbind (read_upload av) (\<lambda>c.
     hbind (save_local pe uid c) (\<lambda>_ s.
       (Inr (avatar_url uid), drop_cached pe uid (set_avatar_url uid (put_object pe uid c s)))))))))"

definition cached_avatar :: "portal_env \<Rightarrow> rat \<Rightarrow> string \<Rightarrow> portal \<Rightarrow> string" where
  "cached_avatar pe now uid s =
     (if \<not> pe_client pe then []
      else case rget (po_redis s) now (avatar_key uid) of
        Inr (Some (RJson (JStr b))) \<Rightarrow> b | _ \<Rightarrow> [])"

definition stored_avatar :: "portal_env \<Rightarrow> string \<Rightarrow> portal \<Rightarrow> string" where
  "stored_avatar pe uid s =
     (let c = (case po_files s (avatar_file uid) of
                 Some c \<Rightarrow> if pe_disk_read pe then c else [] | None \<Rightarrow> [])
      in if c \<noteq> [] then c
         else if pe_s3_get pe then (case po_s3 s (avatar_object uid) of Some c \<Rightarrow> c | None \<Rightarrow> []) else [])"

definition cache_avatar :: "portal_env \<Rightarrow> rat \<Rightarrow> string \<Rightarrow> string \<Rightarrow> portal \<Rightarrow> portal" where
  "cache_avatar pe now uid c s =
     (if \<not> pe_client pe then s
      else case rsetex (po_redis s) now (avatar_key uid) AVATAR_TTL (RJson (JStr c)) of
        Inl _ \<Rightarrow> s | Inr srv \<Rightarrow> s\<lparr>po_redis := srv\<rparr>)"

text \<open>Every avatar is answered as \<open>image/jpeg\<close>; the caller is not asked for.\<close>

definition get_user_avatar :: "portal_env \<Rightarrow> rat \<Rightarrow> string \<Rightarrow> (portal, string) handler" where
  "get_user_avatar pe now uid s =
     (let b = cached_avatar pe now uid s in
      if b \<noteq> [] then (Inr b, s)
      else let c = stored_avatar pe uid s in
           if c \<noteq> [] then (Inr c, cache_avatar pe now uid c s)
           else (Inl (Http 404 ''Avatar not found''), s))"

section \<open>Lemmas\<close>

lemma on_auth_Inr [simp]: "on_auth m s = (Inr x, s') \<longleftrightarrow> (\<exists>a. m (po_auth s) = (Inr x, a) \<and> s' = s\<lparr>po_auth := a\<rparr>)"
  by (auto simp: on_auth_def split: prod.splits)

lemma demand_ok [simp]: "demand c n d s = (Inr x, s') \<longleftrightarrow> c \<and> s' = s"
  by (auto simp: demand_def)

lemma step_Inr [simp]:
  "user_exists uid s = (Inr x, s') \<longleftrightarrow>
     ''users.select'' \<notin> set (a_faults (po_auth s)) \<and> find_user uid (po_auth s) \<noteq> None \<and> s' = s"
  "read_upload av s = (Inr c, s') \<longleftrightarrow> av_content av = Inr c \<and> s' = s"
  "save_local pe uid c s = (Inr x, s') \<longleftrightarrow>
     pe_disk_write pe \<and> s' = s\<lparr>po_files := (po_files s)(avatar_file uid \<mapsto> c)\<rparr>"
  by (auto simp: user_exists_def read_upload_def save_local_def split: sum.splits)

text \<open>What a finished upload has done.\<close>

lemma upload_done:
  assumes "upload_user_avatar pe now hdr uid av s = (Inr url, s')"
  obtains u rs a c where "get_current_active_user (pe_auth pe) \<lfloor>now\<rfloor> hdr (po_auth s) = (Inr (u, rs), a)"
    and "u_id u = uid \<or> ''admin'' \<in> set rs" and "is_image (av_type av)" and "find_user uid a \<noteq> None"
    and "av_content av = Inr c" and "po_files s' = (po_files s)(avatar_file uid \<mapsto> c)"
    and "po_redis s' = (if pe_client pe \<and> srv_up (po_redis s)
      then (po_redis s)\<lparr>srv_data := (srv_data (po_redis s))(avatar_key uid := None)\<rparr> else po_redis s)"
proof -
  from assms obtain u rs a c where r: "get_current_active_user (pe_auth pe) \<lfloor>now\<rfloor> hdr (po_auth s) = (Inr (u, rs), a)"
    "u_id u = uid \<or> ''admin'' \<in> set rs" "is_image (av_type av)" "find_user uid a \<noteq> None" "av_content av = Inr c"
    and s': "s' = drop_cached pe uid (set_avatar_url uid (put_object pe uid c
       (s\<lparr>po_auth := a, po_files := (po_files s)(avatar_file uid \<mapsto> c)\<rparr>)))"
    by (auto simp: upload_user_avatar_def hbind_Inr simp del: not_None_eq)
  show ?thesis using that [OF r] s'
    by (simp add: drop_cached_def set_avatar_url_def put_object_def split: if_splits)
qed

end
