(* ===== verification/AdminProps.thy ===== *)
theory AdminProps
  imports AdminApi AuthProps
begin

text \<open>
  The properties of the settings endpoints and of the avatars, over the joined state.
\<close>

section \<open>Avatars\<close>

lemma cached_none: "live (srv_data srv) now k = None \<Longrightarrow> rget srv now k = (if srv_up srv then Inr None else Inl redis_down)"
  by (simp add: rget_def)

lemma get_stored:
  assumes "cached_avatar pe now uid s = []" and "stored_avatar pe uid s = c" and "c \<noteq> []"
  shows "get_user_avatar pe now uid s = (Inr c, cache_avatar pe now uid c s)"
  using assms by (simp add: get_user_avatar_def)

lemma stored_cache [simp]: "stored_avatar pe uid (cache_avatar pe now uid' c s) = stored_avatar pe uid s"
  by (simp add: stored_avatar_def cache_avatar_def Let_def split: sum.splits)

text \<open>\<open>fresh_cache\<close>: the cache holds the avatar \<open>c\<close> of the user or none.\<close>

definition fresh_cache :: "string \<Rightarrow> string \<Rightarrow> portal \<Rightarrow> bool" where
  "fresh_cache uid c s \<longleftrightarrow> (\<forall>now. live (srv_data (po_redis s)) now (avatar_key uid) \<in> {None, Some (RJson (JStr c))})"

lemma cached_fresh:
  "fresh_cache uid c s \<Longrightarrow> cached_avatar pe now uid s \<in> {[], c}"
  by (auto simp: fresh_cache_def cached_avatar_def rget_def dest!: spec [of _ now])

lemma cache_fresh: "fresh_cache uid c s \<Longrightarrow> fresh_cache uid c (cache_avatar pe now uid c s)"
  by (auto simp: fresh_cache_def cache_avatar_def rsetex_def live_def AVATAR_TTL_def split: option.splits)

lemma get_fresh:
  assumes "fresh_cache uid c s" and "stored_avatar pe uid s = c" and "c \<noteq> []"
  shows "\<exists>s'. get_user_avatar pe now uid s = (Inr c, s') \<and> fresh_cache uid c s' \<and> stored_avatar pe uid s' = c"
proof (cases "cached_avatar pe now uid s = []")
  case True
  with assms get_stored [OF True assms(2,3)] cache_fresh [OF assms(1), of pe now] show ?thesis by simp
next
  case False
  with cached_fresh [OF assms(1), of pe now] have "cached_avatar pe now uid s = c" by simp
  with assms show ?thesis by (simp add: get_user_avatar_def)
qed

text \<open>Any number of reads, at any times.\<close>

fun read_avatars :: "portal_env \<Rightarrow> string \<Rightarrow> rat list \<Rightarrow> portal \<Rightarrow> (http_error + string) list" where
  "read_avatars pe uid [] s = []"
| "read_avatars pe uid (t # ts) s = (case get_user_avatar pe t uid s of (r, s') \<Rightarrow> r # read_avatars pe uid ts s')"

lemma read_fresh:
  "fresh_cache uid c s \<Longrightarrow> stored_avatar pe uid s = c \<Longrightarrow> c \<noteq> [] \<Longrightarrow>
     read_avatars pe uid ts s = replicate (length ts) (Inr c)"
proof (induction ts arbitrary: s)
  case (Cons t ts)
  obtain s' where "get_user_avatar pe t uid s = (Inr c, s')" "fresh_cache uid c s'" "stored_avatar pe uid s' = c"
    using get_fresh [OF Cons.prems] by blast
  with Cons.IH [of s'] Cons.prems(3) show ?case by simp
qed simp

section \<open>Properties\<close>

text \<open>C34: avatars round trip.  An upload succeeds only for the user itself or for a caller whose
  token carries the admin role, and only for an existing user; when the file was not empty
  and Redis answers or is not used, every later sequence of reads, at whatever times and by
  whomever, answers exactly the uploaded bytes, from the cache or from the disk.\<close>

theorem avatar_roundtrip:
  assumes "upload_user_avatar pe now hdr uid av s = (Inr url, s')" and "av_content av = Inr c" and "c \<noteq> []"
    and "pe_disk_read pe" and "\<not> pe_client pe \<or> srv_up (po_redis s)"
  shows "read_avatars pe uid ts s' = replicate (length ts) (Inr c)
     \<and> (\<exists>u rs a. get_current_active_user (pe_auth pe) \<lfloor>now\<rfloor> hdr (po_auth s) = (Inr (u, rs), a)
          \<and> (u_id u = uid \<or> ''admin'' \<in> set rs) \<and> find_user uid a \<noteq> None)"
proof -
  obtain u rs a c' where d: "get_current_active_user (pe_auth pe) \<lfloor>now\<rfloor> hdr (po_auth s) = (Inr (u, rs), a)"
    "u_id u = uid \<or> ''admin'' \<in> set rs" "find_user uid a \<noteq> None"
    "av_content av = Inr c'" "po_files s' = (po_files s)(avatar_file uid \<mapsto> c')"
    "po_redis s' = (if pe_client pe \<and> srv_up (po_redis s)
      then (po_redis s)\<lparr>srv_data := (srv_data (po_redis s))(avatar_key uid := None)\<rparr> else po_redis s)"
    using upload_done [OF assms(1)] .
  have st: "stored_avatar pe uid s' = c" using d(4,5) assms(2-4) by (simp add: stored_avatar_def)
  have "read_avatars pe uid ts s' = replicate (length ts) (Inr c)"
  proof (cases "pe_client pe")
    case True
    with d(6) assms(5) have "fresh_cache uid c s'" by (simp add: fresh_cache_def live_def)
    then show ?thesis using st assms(3) by (rule read_fresh)
  next
    case False
    then have "get_user_avatar pe t uid s' = (Inr c, s')" for t
      using st assms(3) by (simp add: get_user_avatar_def cached_avatar_def cache_avatar_def Let_def)
    then show ?thesis by (induction ts) simp_all
  qed
  with d(1-3) show ?thesis by blast
qed

definition demo_portal :: portal where
  "demo_portal = \<lparr>po_auth = demo_db, po_settings = \<lparr>cfg_cache = None, cfg_cache_at = 0\<rparr>,
     po_sdb = \<lparr>db_client = True, db_fails = False, db_row = None\<rparr>, po_files = Map.empty, po_s3 = Map.empty,
     po_redis = empty_server\<rparr>"

definition demo_portal_env :: portal_env where
  "demo_portal_env = \<lparr>pe_auth = demo_auth, pe_defaults = \<lparr>row_assistant_name = Some ''A'',
     row_system_prompt = None, row_scope_description = None, row_enforce_scope = None,
     row_out_of_scope_message = None\<rparr>, pe_disk_write = True, pe_disk_read = True, pe_s3_put = False,
     pe_s3_get = False, pe_client = True\<rparr>"

lemma demo_caller: "get_current_active_user demo_auth 0 ''Bearer jwt'' demo_db = (Inr (demo_user, [''admin'']), demo_db)"
  by (simp add: get_current_active_user_def get_current_user_def bearer_token_def demo_auth_def query_def
      demo_find truthy_def str_or_def find_user_def demo_db_def demo_user_def empty_auth_def)

theorem avatar_roundtrip_witness:
  "\<exists>s'. upload_user_avatar demo_portal_env 0 ''Bearer jwt'' ''u'' \<lparr>av_type = Some ''image/png'', av_content = Inr ''png''\<rparr>
       demo_portal = (Inr (avatar_url ''u''), s')
     \<and> read_avatars demo_portal_env ''u'' [0, 5, 100000] s' = [Inr ''png'', Inr ''png'', Inr ''png'']"
proof -
  let ?av = "\<lparr>av_type = Some ''image/png'', av_content = Inr ''png''\<rparr>"
  let ?s = "demo_portal\<lparr>po_files := [avatar_file ''u'' \<mapsto> ''png'']\<rparr>"
  let ?s' = "drop_cached demo_portal_env ''u'' (set_avatar_url ''u'' (put_object demo_portal_env ''u'' ''png'' ?s))"
  have "find_user ''u'' demo_db = Some demo_user" "is_image (Some ''image/png'')"
    by (simp_all add: find_user_def demo_db_def demo_user_def is_image_def truthy_def str_or_def)
  then have u: "upload_user_avatar demo_portal_env 0 ''Bearer jwt'' ''u'' ?av demo_portal = (Inr (avatar_url ''u''), ?s')"
    using demo_caller
    by (simp add: upload_user_avatar_def on_auth_def user_exists_def read_upload_def save_local_def hbind_def
        demo_portal_def demo_portal_env_def demo_find demo_user_def)
  have "pe_disk_read demo_portal_env" "\<not> pe_client demo_portal_env \<or> srv_up (po_redis demo_portal)"
    by (simp_all add: demo_portal_env_def demo_portal_def empty_server_def)
  from avatar_roundtrip [OF u _ _ this, of "''png''" "[0, 5, 100000]"] u show ?thesis by (simp add: numeral_3_eq_3)
qed

text \<open>What a settings update does.  It succeeds only for an active caller whose token carries
  the admin role and with at least one field; the reply is the stored row overlaid with the
  given fields, and from then on every read, with or without force and at whatever time,
  gives this configuration in this process.\<close>

theorem settings_update_effect:
  assumes "update_agent_settings pe now hdr patch s = (Inr c, s')"
  shows "(\<exists>u rs a. get_current_active_user (pe_auth pe) \<lfloor>now\<rfloor> hdr (po_auth s) = (Inr (u, rs), a) \<and> ''admin'' \<in> set rs)
     \<and> \<not> empty_patch patch
     \<and> c = row_to_config (apply_patch patch (case db_row (po_sdb s) of Some row \<Rightarrow> row | None \<Rightarrow> pe_defaults pe))
     \<and> fst (get_config (po_sdb s') now' force (po_settings s')) = c"
proof -
  from assms obtain x a where a: "admin_only (pe_auth pe) \<lfloor>now\<rfloor> hdr (po_auth s) = (Inr x, a)"
    and p: "\<not> empty_patch patch"
    and up: "(case update_config (pe_defaults pe) patch (po_sdb s) now (po_settings s) of
         Inl _ \<Rightarrow> (Inl (Http 500 ''Failed to update settings''), s\<lparr>po_auth := a\<rparr>)
       | Inr (c, db, st) \<Rightarrow> (Inr c, s\<lparr>po_auth := a, po_sdb := db, po_settings := st\<rparr>)) = (Inr c, s')"
    by (auto simp: update_agent_settings_def hbind_Inr)
  from a have "\<exists>u rs. get_current_active_user (pe_auth pe) \<lfloor>now\<rfloor> hdr (po_auth s) = (Inr (u, rs), a) \<and> ''admin'' \<in> set rs"
    by (auto simp: admin_only_def require_roles_def hbind_Inr)
  moreover have "c = row_to_config (apply_patch patch (case db_row (po_sdb s) of Some row \<Rightarrow> row | None \<Rightarrow> pe_defaults pe))
     \<and> fst (get_config (po_sdb s') now' force (po_settings s')) = c"
    using up by (auto simp: update_config_def get_config_def Let_def cache_or_default_def split: if_splits)
  ultimately show ?thesis using p by blast
qed

theorem settings_update_effect_witness:
  "\<exists>c s'. update_agent_settings demo_portal_env 0 ''Bearer jwt'' \<lparr>new_assistant_name = Some ''B'', new_system_prompt = None,
       new_scope_description = None, new_enforce_scope = None, new_out_of_scope_message = None\<rparr> demo_portal = (Inr c, s')
     \<and> assistant_name (fst (get_config (po_sdb s') 1000 True (po_settings s'))) = ''B''"
proof -
  let ?p = "\<lparr>new_assistant_name = Some ''B'', new_system_prompt = None,
       new_scope_description = None, new_enforce_scope = None, new_out_of_scope_message = None\<rparr>"
  have adm: "admin_only demo_auth 0 ''Bearer jwt'' demo_db = (Inr (demo_user, [''admin'']), demo_db)"
    by (simp add: admin_only_def require_roles_def demo_caller)
  then obtain c s' where u: "update_agent_settings demo_portal_env 0 ''Bearer jwt'' ?p demo_portal = (Inr c, s')"
    by (simp add: update_agent_settings_def on_auth_def demo_portal_def demo_portal_env_def hbind_def empty_patch_def
        update_config_def get_config_def Let_def)
  from settings_update_effect [OF u, of 1000 True] have
    "fst (get_config (po_sdb s') 1000 True (po_settings s')) = row_to_config (apply_patch ?p (pe_defaults demo_portal_env))"
    by (simp add: demo_portal_def)
  with u show ?thesis by (auto simp: row_to_config_def apply_patch_def str_or_def or_else_def)
qed

end
