(* ===== verification/Backfill.thy ===== *)
theory Backfill
  imports IngestProps
begin

text \<open>
  \<open>scripts/backfill_vespa.py\<close> and \<open>scripts/backfill_graph.py\<close>: rebuilding the search index and
  the knowledge graph from the stored chunks.  A request returns at most \<open>cap\<close> rows, the
  server's own limit.  The Vespa backfill pages through the chunks in the order of their
  identifiers and stops at the first empty page.
\<close>

section \<open>Reading the chunks\<close>

definition doc_of :: "pg \<Rightarrow> chunk_row \<Rightarrow> doc_row option" where
  "doc_of db c = find (\<lambda>d. doc_id d = ck_doc c) (documents db)"

definition page :: "nat \<Rightarrow> nat \<Rightarrow> nat \<Rightarrow> 'a list \<Rightarrow> 'a list" where
  "page cap offset batch rows = take (min cap batch) (drop offset rows)"

section \<open>Vespa\<close>

text \<open>A chunk of a missing document gets empty titles and the label \<open>public\<close>.\<close>

definition backfill_record :: "pg \<Rightarrow> chunk_row \<Rightarrow> meta" where
  "backfill_record db r =
     (let doc = doc_of db r; field = (\<lambda>f d. JStr (case doc of None \<Rightarrow> d | Some x \<Rightarrow> f x)) in
      [(''id'', JStr (ck_id r)), (''document_id'', JStr (ck_doc r)), (''content'', JStr (ck_content r)),
       (''embedding'', case ck_embedding r of None \<Rightarrow> JNull | Some e \<Rightarrow> JArr (map JNum e)),
       (''chunk_index'', JNum (of_int (ck_index r))), (''metadata'', JObj (ck_meta r)),
       (''document_title'', field doc_title []), (''document_source'', field doc_source []),
       (''access_level'', field doc_access ''public'')])"

text \<open>\<open>rank\<close> is the order of the identifiers on the server.\<close>

definition ordered_chunks :: "(string \<Rightarrow> nat) \<Rightarrow> pg \<Rightarrow> chunk_row list" where
  "ordered_chunks rank db = sort_key (\<lambda>r. rank (ck_id r)) (chunk_rows db)"

function backfill_loop ::
  "(meta list \<Rightarrow> vespa_index \<Rightarrow> nat res \<times> vespa_index) \<Rightarrow> nat \<Rightarrow> nat \<Rightarrow> meta list \<Rightarrow> nat \<Rightarrow> nat
   \<Rightarrow> vespa_index \<Rightarrow> nat res \<times> vespa_index" where
  "backfill_loop feed cap batch rows offset fed_so_far ix =
     (if page cap offset batch rows = [] then (Inr fed_so_far, ix)
      else case feed (page cap offset batch rows) ix of
             (Inl e, ix) \<Rightarrow> (Inl e, ix)
           | (Inr fed, ix) \<Rightarrow> backfill_loop feed cap batch rows (offset + batch) (fed_so_far + fed) ix)"
  by pat_completeness auto

termination
  by (relation "measure (\<lambda>(feed, cap, batch, rows, offset, fed_so_far, ix). length rows - offset)")
    (auto simp: page_def)

declare backfill_loop.simps [simp del]

definition feed_records ::
  "ingest_env \<Rightarrow> meta list \<Rightarrow> vespa_index \<Rightarrow> nat res \<times> vespa_index" where
  "feed_records ie = feed_chunks (ie_vespa_on ie) (ie_loads ie) (ie_dumps ie) (ie_render ie) (ie_post ie)"

text \<open>\<open>ready\<close> is whether the database client could be made.\<close>

definition backfill ::
  "ingest_env \<Rightarrow> unit res \<Rightarrow> (string \<Rightarrow> nat) \<Rightarrow> nat \<Rightarrow> nat \<Rightarrow> pg \<Rightarrow> vespa_index \<Rightarrow> nat res \<times> vespa_index" where
  "backfill ie ready rank cap batch db ix =
     (if \<not> ie_vespa_on ie then (Inr 0, ix)
      else case res_bind ready (\<lambda>_. request ''chunks.select'' db) of
             Inl e \<Rightarrow> (Inl e, ix)
           | Inr _ \<Rightarrow> backfill_loop (feed_records ie) cap batch
               (map (backfill_record db) (ordered_chunks rank db)) 0 0 ix)"

section \<open>Graph\<close>

fun rebuild ::
  "graph_env \<Rightarrow> pg \<Rightarrow> chunk_row list \<Rightarrow> nat \<Rightarrow> kgraph \<Rightarrow> nat res \<times> kgraph" where
  "rebuild ge db [] built g = (Inr built, g)"
| "rebuild ge db (r # rs) built g =
     (let content = py_strip (ck_content r) in
      case doc_of db r of
        None \<Rightarrow> rebuild ge db rs built g
      | Some d \<Rightarrow>
          if content = [] \<or> doc_source d = [] then rebuild ge db rs built g
          else (case build_knowledge_graph ge content (doc_source d)
                       [(''access_level'', JStr (doc_access d))] g of
                  (Inl e, g) \<Rightarrow> (Inl e, g)
                | (Inr _, g) \<Rightarrow> rebuild ge db rs (built + 1) g))"

text \<open>One unpaged request; without a driver nothing is touched (\<open>None\<close>); \<open>cleared\<close> is whether the
  deletion of all nodes succeeds.\<close>

definition backfill_graph ::
  "graph_env \<Rightarrow> unit res \<Rightarrow> unit res \<Rightarrow> nat \<Rightarrow> pg \<Rightarrow> kgraph \<Rightarrow> nat option res \<times> kgraph" where
  "backfill_graph ge ready cleared cap db g =
     (case res_bind ready (\<lambda>_. request ''chunks.select'' db) of
        Inl e \<Rightarrow> (Inl e, g)
      | Inr _ \<Rightarrow> (case ge_driver ge of
            Inl e \<Rightarrow> (Inl e, g)
          | Inr False \<Rightarrow> (Inr None, g)
          | Inr True \<Rightarrow> (case cleared of
                Inl e \<Rightarrow> (Inl e, g)
              | Inr _ \<Rightarrow> (case rebuild ge db (take cap (chunk_rows db)) 0 empty_graph of
                    (r, g) \<Rightarrow> (res_bind r (\<lambda>n. Inr (Some n)), g)))))"

section \<open>Paging\<close>

lemma feed_rows_from:
  "feed_rows loads dumps render post rows (k + fed) ix =
     (case feed_rows loads dumps render post rows fed ix of
        (Inl e, ix) \<Rightarrow> (Inl e, ix) | (Inr n, ix) \<Rightarrow> (Inr (k + n), ix))"
proof (induction rows arbitrary: fed ix)
  case (Cons row rows)
  have "feed_rows loads dumps render post rows (Suc (k + fed)) ix =
     (case feed_rows loads dumps render post rows (Suc fed) ix of
        (Inl e, ix) \<Rightarrow> (Inl e, ix) | (Inr n, ix) \<Rightarrow> (Inr (k + n), ix))" for ix
    using Cons.IH [of "Suc fed" ix] by simp
  with Cons.IH show ?case by (simp split: sum.splits)
qed simp

lemma feed_rows_append:
  "feed_rows loads dumps render post (xs @ ys) fed ix =
     (case feed_rows loads dumps render post xs fed ix of
        (Inl e, ix) \<Rightarrow> (Inl e, ix) | (Inr n, ix) \<Rightarrow> feed_rows loads dumps render post ys n ix)"
  by (induction xs arbitrary: fed ix) (simp_all split: sum.splits)

lemma feed_records_append:
  assumes "ie_vespa_on ie"
  shows "feed_records ie (xs @ ys) ix = (case feed_records ie xs ix of
     (Inl e, ix) \<Rightarrow> (Inl e, ix)
   | (Inr n, ix) \<Rightarrow> (case feed_records ie ys ix of (Inl e, ix) \<Rightarrow> (Inl e, ix) | (Inr k, ix) \<Rightarrow> (Inr (n + k), ix)))"
proof -
  have f: "feed_records ie zs ix = feed_rows (ie_loads ie) (ie_dumps ie) (ie_render ie) (ie_post ie) zs 0 ix" for zs ix
    using assms by (simp add: feed_records_def feed_chunks_def)
  obtain r ix' where xs: "feed_rows (ie_loads ie) (ie_dumps ie) (ie_render ie) (ie_post ie) xs 0 ix = (r, ix')"
    by fastforce
  show ?thesis
  proof (cases r)
    case (Inl e)
    with xs show ?thesis by (simp add: f feed_rows_append)
  next
    case (Inr n)
    with xs feed_rows_from [of "ie_loads ie" "ie_dumps ie" "ie_render ie" "ie_post ie" ys n 0 ix']
    show ?thesis by (simp add: f feed_rows_append)
  qed
qed

lemma loop_feeds_all:
  assumes "ie_vespa_on ie" and "0 < batch" and "batch \<le> cap"
  shows "backfill_loop (feed_records ie) cap batch rows off fed_so_far ix = (case feed_records ie (drop off rows) ix of
     (Inl e, ix) \<Rightarrow> (Inl e, ix) | (Inr n, ix) \<Rightarrow> (Inr (fed_so_far + n), ix))"
proof (induction "length rows - off" arbitrary: off fed_so_far ix rule: less_induct)
  case less
  note step = backfill_loop.simps [of "feed_records ie" cap batch rows off fed_so_far ix]
  have p: "page cap off batch rows = take batch (drop off rows)" using assms(3) by (simp add: page_def)
  show ?case
  proof (cases "off < length rows")
    case False
    then show ?thesis unfolding step p by (simp add: feed_records_def feed_chunks_def)
  next
    case True
    with assms(2) have ne: "take batch (drop off rows) \<noteq> []" by simp
    have l: "length rows - (off + batch) < length rows - off" using True assms(2) by simp
    have "drop off rows = take batch (drop off rows) @ drop (off + batch) rows"
      by (metis add.commute append_take_drop_id drop_drop)
    then have d: "feed_records ie (drop off rows) ix
        = feed_records ie (take batch (drop off rows) @ drop (off + batch) rows) ix" by simp
    show ?thesis unfolding step p d feed_records_append [OF assms(1)]
      using ne less [OF l] by (auto split: prod.splits sum.splits)
  qed
qed

section \<open>What the index holds\<close>

lemma record_fields: "\<exists>flds. to_doc_fields loads dumps render (backfill_record db r) = Inr flds"
  by (simp add: to_doc_fields_def backfill_record_def row_id_def json_get_def get_or_def json_or_def
      VespaClient.iter_json_def Let_def split: option.splits)

lemma record_id: "row_id render (backfill_record db r) = Inr (ck_id r)"
  by (simp add: backfill_record_def row_id_def json_get_def Let_def)

lemma feed_records_accepted:
  assumes "\<And>cid. \<exists>st. post cid = Inr st \<and> st < (300 :: nat)"
  shows "\<exists>ix'. feed_rows loads dumps render post (map (backfill_record db) rs) fed ix = (Inr (fed + length rs), ix')
     \<and> fst ` set ix' = ck_id ` set rs \<union> fst ` set ix"
proof (induction rs arbitrary: fed ix)
  case (Cons r rs)
  obtain flds where f: "to_doc_fields loads dumps render (backfill_record db r) = Inr flds"
    using record_fields by blast
  obtain st where st: "post (ck_id r) = Inr st" "st < 300" using assms by blast
  have "feed_rows loads dumps render post (map (backfill_record db) (r # rs)) fed ix
      = feed_rows loads dumps render post (map (backfill_record db) rs) (fed + 1) (dict_put (ck_id r) flds ix)"
    using f st by (simp add: record_id)
  with Cons.IH [of "fed + 1" "dict_put (ck_id r) flds ix"] show ?case by auto
qed simp

section \<open>Property\<close>

text \<open>C37: the backfill reaches every chunk.  With a page size the server grants, paging is the same
  as feeding all chunks in one call, in the order of the identifiers: no chunk is lost or
  fed twice, whatever the engine answers; when it accepts every document, the count is the
  number of stored chunks and the index holds every one of them besides what it held.\<close>

theorem backfill_complete:
  assumes "ie_vespa_on ie" and "\<not> isl ready" and "''chunks.select'' \<notin> set (pg_faults db)"
    and "0 < batch" and "batch \<le> cap"
  shows "backfill ie ready rank cap batch db ix
       = feed_records ie (map (backfill_record db) (ordered_chunks rank db)) ix
     \<and> ((\<forall>cid. \<exists>st. ie_post ie cid = Inr st \<and> st < 300) \<longrightarrow>
          (\<exists>ix'. backfill ie ready rank cap batch db ix = (Inr (length (chunk_rows db)), ix')
             \<and> fst ` set ix' = ck_id ` set (chunk_rows db) \<union> fst ` set ix))"
proof -
  let ?rows = "map (backfill_record db) (ordered_chunks rank db)"
  obtain u where "ready = Inr u" using assms(2) by (cases ready) auto
  then have eq: "backfill ie ready rank cap batch db ix = feed_records ie ?rows ix"
    using assms(1,3) loop_feeds_all [OF assms(1,4,5), of ?rows 0 0 ix]
    by (simp add: backfill_def request_def split: prod.splits sum.splits)
  moreover have "\<exists>ix'. feed_records ie ?rows ix = (Inr (length (chunk_rows db)), ix')
      \<and> fst ` set ix' = ck_id ` set (chunk_rows db) \<union> fst ` set ix"
    if acc: "\<forall>cid. \<exists>st. ie_post ie cid = Inr st \<and> st < 300"
  proof -
    obtain ix' where "feed_rows (ie_loads ie) (ie_dumps ie) (ie_render ie) (ie_post ie) ?rows 0 ix
        = (Inr (0 + length (ordered_chunks rank db)), ix')"
      "fst ` set ix' = ck_id ` set (ordered_chunks rank db) \<union> fst ` set ix"
      using feed_records_accepted [of "ie_post ie" "ie_loads ie" "ie_dumps ie" "ie_render ie" db
          "ordered_chunks rank db" 0 ix] acc by blast
    then show ?thesis using assms(1)
      by (auto simp: feed_records_def feed_chunks_def ordered_chunks_def)
  qed
  ultimately show ?thesis by simp
qed

theorem backfill_complete_witness:
  "\<exists>ix'. backfill (demo_ingest\<lparr>ie_vespa_on := True, ie_post := \<lambda>_. Inr 200\<rparr>) (Inr ()) length 1000 500 demo_pg []
     = (Inr 1, ix') \<and> fst ` set ix' = {''ii''}"
proof -
  let ?ie = "demo_ingest\<lparr>ie_vespa_on := True, ie_post := \<lambda>_. Inr 200\<rparr>"
  have a: "ie_vespa_on ?ie" "\<not> isl (Inr () :: unit res)" "''chunks.select'' \<notin> set (pg_faults demo_pg)"
    "0 < (500 :: nat)" "500 \<le> (1000 :: nat)" by (simp_all add: demo_pg_def empty_pg_def)
  have p: "\<forall>cid. \<exists>st. ie_post ?ie cid = Inr st \<and> st < 300" by simp
  have c: "length (chunk_rows demo_pg) = 1" "ck_id ` set (chunk_rows demo_pg) \<union> fst ` set [] = {''ii''}"
    by (simp_all add: demo_pg_def)
  from mp [OF conjunct2 [OF backfill_complete [OF a, of length "[]"]] p] show ?thesis unfolding c .
qed

end
