(* ===== verification/EvalRag.thy ===== *)
theory EvalRag
  imports Retrieval Citations
begin

text \<open>
  \<open>scripts/eval_rag.py\<close>: the retrieval evaluation.  Each chunk is asked for with a generated
  question; both retrieval legs are ranked against it; off-domain probes and a sweep over
  thresholds judge the confidence gate.  The report is the value of the model instead of
  printed lines.
\<close>

section \<open>Ranks\<close>

text \<open>1-based rank of the target, 0 when it is absent.\<close>

fun rank_from :: "nat \<Rightarrow> string \<Rightarrow> ('a \<Rightarrow> string res) \<Rightarrow> 'a list \<Rightarrow> nat res" where
  "rank_from i target key [] = Inr 0"
| "rank_from i target key (r # rs) =
     res_bind (key r) (\<lambda>k. if k = target then Inr i else rank_from (i + 1) target key rs)"

definition rank_of :: "string \<Rightarrow> 'a list \<Rightarrow> ('a \<Rightarrow> string res) \<Rightarrow> nat res" where
  "rank_of target rows key = rank_from 1 target key rows"

section \<open>Metrics\<close>

record leg =
  hits1 :: nat
  hits5 :: nat
  mrr :: rat

definition empty_leg :: leg where
  "empty_leg = \<lparr>hits1 = 0, hits5 = 0, mrr = 0\<rparr>"

definition score_rank :: "nat \<Rightarrow> leg \<Rightarrow> leg" where
  "score_rank r l = \<lparr>hits1 = (if r = 1 then hits1 l + 1 else hits1 l),
     hits5 = (if r \<noteq> 0 \<and> r \<le> 5 then hits5 l + 1 else hits5 l),
     mrr = (if r \<noteq> 0 then mrr l + 1 / of_nat r else mrr l)\<rparr>"

record tally =
  ta_n :: nat
  ta_vec :: leg
  ta_hyb :: leg
  ta_sims :: "rat list"
  ta_tops :: "rat list"
  ta_suppressed :: nat

definition empty_tally :: tally where
  "empty_tally = \<lparr>ta_n = 0, ta_vec = empty_leg, ta_hyb = empty_leg, ta_sims = [], ta_tops = [], ta_suppressed = 0\<rparr>"

record eval_env =
  ee_sv :: services
  ee_llm :: "string \<Rightarrow> string option res"
  ee_top_k :: int
  ee_legacy :: rat
  ee_cosine :: rat
  ee_sample :: nat
  ee_pick :: "nat \<Rightarrow> (string \<times> string) list \<Rightarrow> (string \<times> string) list"

text \<open>The model is shown the first 1500 characters.\<close>

definition gen_question :: "eval_env \<Rightarrow> string \<Rightarrow> string res" where
  "gen_question ee content =
     res_bind (ee_llm ee (take 1500 content)) (\<lambda>r. Inr (py_strip (str_or r [])))"

text \<open>\<open>float(vrows[0].get("similarity", 0.0))\<close>\<close>

definition top_similarity :: "meta \<Rightarrow> rat res" where
  "top_similarity r = py_float (get_or r ''similarity'' (JNum 0))"

definition top_score :: "ChunkResult list \<Rightarrow> rat" where
  "top_score cs = (case cs of [] \<Rightarrow> 0 | c # _ \<Rightarrow> score c)"

definition vector_leg :: "eval_env \<Rightarrow> string \<Rightarrow> meta list res" where
  "vector_leg ee q = res_bind (sv_embed (ee_sv ee) q)
     (\<lambda>emb. Inr (vector_search (sv_match (ee_sv ee)) emb (ee_top_k ee) None))"

definition hybrid_leg :: "eval_env \<Rightarrow> rat \<Rightarrow> string \<Rightarrow> redis_server \<Rightarrow> ChunkResult list \<times> redis_server" where
  "hybrid_leg ee now q srv = hybrid_search_tool (ee_sv ee) srv now q (ee_top_k ee) (3 / 10) None"

text \<open>One chunk; an empty question skips it.\<close>

definition eval_chunk ::
  "eval_env \<Rightarrow> rat \<Rightarrow> string \<times> string \<Rightarrow> tally \<times> redis_server \<Rightarrow> (tally \<times> redis_server) res" where
  "eval_chunk ee now = (\<lambda>(cid, content) (t, srv).
     res_bind (gen_question ee content) (\<lambda>q.
       if q = [] then Inr (t, srv)
       else res_bind (vector_leg ee q) (\<lambda>vrows.
            res_bind (rank_of cid vrows (\<lambda>r. req_str (sv_render (ee_sv ee)) r ''chunk_id'')) (\<lambda>vrank.
            res_bind (case vrows of [] \<Rightarrow> Inr [] | r # _ \<Rightarrow> res_bind (top_similarity r) (\<lambda>x. Inr [x])) (\<lambda>sim.
            case hybrid_leg ee now q srv of (hres, srv) \<Rightarrow>
            res_bind (rank_of cid hres (\<lambda>c. Inr (chunk_id c))) (\<lambda>hrank.
              Inr (\<lparr>ta_n = ta_n t + 1, ta_vec = score_rank vrank (ta_vec t), ta_hyb = score_rank hrank (ta_hyb t),
                    ta_sims = ta_sims t @ sim, ta_tops = ta_tops t @ [top_score hres],
                    ta_suppressed = (if top_score hres < ee_legacy ee then ta_suppressed t + 1
                                     else ta_suppressed t)\<rparr>, srv)))))))"

fun eval_chunks ::
  "eval_env \<Rightarrow> rat \<Rightarrow> (string \<times> string) list \<Rightarrow> tally \<times> redis_server \<Rightarrow> (tally \<times> redis_server) res" where
  "eval_chunks ee now [] st = Inr st"
| "eval_chunks ee now (r # rs) st = res_bind (eval_chunk ee now r st) (eval_chunks ee now rs)"

section \<open>Off-domain probes\<close>

definition NEGATIVE_QUERIES :: "string list" where
  "NEGATIVE_QUERIES = [''What is the capital of France?'', ''How do I cook chicken biryani at home?'',
     ''Who won the football world cup in 2018?'', ''Write me a Python function to reverse a linked list.'',
     ''What's the weather like in Tokyo today?'', ''Give me a recipe for chocolate cake.'']"

fun probe ::
  "eval_env \<Rightarrow> rat \<Rightarrow> string list \<Rightarrow> rat list \<times> rat list \<times> redis_server \<Rightarrow> (rat list \<times> rat list) res" where
  "probe ee now [] (negs, rrf, srv) = Inr (negs, rrf)"
| "probe ee now (q # qs) (negs, rrf, srv) =
     res_bind (vector_leg ee q) (\<lambda>vrows.
     res_bind (case vrows of [] \<Rightarrow> Inr 0 | r # _ \<Rightarrow> top_similarity r) (\<lambda>x.
     case hybrid_leg ee now q srv of (hres, srv) \<Rightarrow>
       probe ee now qs (negs @ [x], rrf @ [top_score hres], srv)))"

section \<open>The sweep\<close>

definition thresholds :: "rat list" where
  "thresholds = map (\<lambda>i. 1 / 10 + 1 / 40 * of_nat i) [0..<21]"

definition kept :: "rat \<Rightarrow> rat list \<Rightarrow> rat" where
  "kept t xs = of_nat (length (filter (\<lambda>x. t \<le> x) xs)) / of_nat (max (length xs) 1)"

definition youden :: "rat list \<Rightarrow> rat list \<Rightarrow> rat \<Rightarrow> rat" where
  "youden sims negs t = kept t sims - kept t negs"

fun sweep :: "rat list \<Rightarrow> rat list \<Rightarrow> rat list \<Rightarrow> rat \<times> rat \<Rightarrow> rat \<times> rat" where
  "sweep sims negs [] best = best"
| "sweep sims negs (t # ts) (best_t, best_j) =
     (let j = youden sims negs t
      in sweep sims negs ts (if best_j < j then (t, j) else (best_t, best_j)))"

definition recommend :: "rat \<Rightarrow> rat list \<Rightarrow> rat list \<Rightarrow> rat \<times> rat" where
  "recommend current sims negs = sweep sims negs thresholds (current, - 1)"

section \<open>The report\<close>

definition below :: "rat \<Rightarrow> rat list \<Rightarrow> nat" where
  "below g xs = length (filter (\<lambda>x. x < g) xs)"

record report =
  rp_tally :: tally
  rp_pos_cosine :: nat
  rp_pos_legacy :: nat
  rp_neg_cosine :: nat
  rp_neg_legacy :: nat
  rp_recommended :: "rat \<times> rat"

text \<open>
  \<open>None\<close>: no question was generated.  The ranges are printed with \<open>min\<close>, which raises when
  no vector search found anything.
\<close>

definition eval_main ::
  "eval_env \<Rightarrow> rat \<Rightarrow> (string \<times> string) list \<Rightarrow> redis_server \<Rightarrow> report option res" where
  "eval_main ee now chunks srv =
     (let rows = filter (\<lambda>r. py_strip (snd r) \<noteq> []) chunks;
          rows = (if ee_sample ee \<noteq> 0 \<and> ee_sample ee < length rows then ee_pick ee (ee_sample ee) rows else rows)
      in res_bind (eval_chunks ee now rows (empty_tally, srv)) (\<lambda>(t, srv).
         if ta_n t = 0 then Inr None
         else res_bind (probe ee now NEGATIVE_QUERIES ([], [], srv)) (\<lambda>(negs, rrf).
              if ta_sims t = [] then Inl (ValueError ''min() iterable argument is empty'')
              else Inr (Some \<lparr>rp_tally = t, rp_pos_cosine = below (ee_cosine ee) (ta_sims t),
                rp_pos_legacy = ta_suppressed t, rp_neg_cosine = below (ee_cosine ee) negs,
                rp_neg_legacy = below (ee_legacy ee) rrf,
                rp_recommended = recommend (ee_cosine ee) (ta_sims t) negs\<rparr>))))"

section \<open>Whole turns\<close>

text \<open>The optional part: a turn answers a question in a session of its own.\<close>

definition says_nothing :: "string \<Rightarrow> bool" where
  "says_nothing ans \<longleftrightarrow> py_strip ans = py_strip ABSTAIN_MESSAGE \<or> py_in ''don't have'' (py_lower ans)"

definition declines :: "string \<Rightarrow> bool" where
  "declines ans \<longleftrightarrow> says_nothing ans \<or> py_in ''scope'' (py_lower ans) \<or> py_in ''couldn't find'' (py_lower ans)"

text \<open>Cited and abstained answers to questions that have one.\<close>

fun cite_positives ::
  "eval_env \<Rightarrow> (string \<Rightarrow> string \<Rightarrow> 's \<Rightarrow> string \<times> 's) \<Rightarrow> nat \<Rightarrow> string list \<Rightarrow> nat \<times> nat \<Rightarrow> 's
   \<Rightarrow> ((nat \<times> nat) \<times> 's) res" where
  "cite_positives ee turn i [] acc s = Inr (acc, s)"
| "cite_positives ee turn i (content # cs) (cited, abstained) s =
     res_bind (gen_question ee content) (\<lambda>q.
       if q = [] then cite_positives ee turn (i + 1) cs (cited, abstained) s
       else case turn q (''eval-pos-'' @ dec i) s of
              (ans, s) \<Rightarrow> cite_positives ee turn (i + 1) cs
                (if says_nothing ans then (cited, abstained + 1)
                 else if extract_citations ans \<noteq> [] then (cited + 1, abstained) else (cited, abstained)) s)"

fun decline_negatives ::
  "(string \<Rightarrow> string \<Rightarrow> 's \<Rightarrow> string \<times> 's) \<Rightarrow> nat \<Rightarrow> string list \<Rightarrow> nat \<Rightarrow> 's \<Rightarrow> nat \<times> 's" where
  "decline_negatives turn i [] k s = (k, s)"
| "decline_negatives turn i (q # qs) k s =
     (case turn q (''eval-neg-'' @ dec i) s of
        (ans, s) \<Rightarrow> decline_negatives turn (i + 1) qs (if declines ans then k + 1 else k) s)"

end
