(* ===== verification/EvalProps.thy ===== *)
theory EvalProps
  imports EvalRag
begin

text \<open>The properties of the evaluation: its measures are measures, its recommendation is optimal.\<close>

section \<open>Ranks\<close>

lemma rank_from_bound:
  "rank_from i target key rs = Inr n \<Longrightarrow> 0 < i \<Longrightarrow> n = 0 \<or> i \<le> n \<and> n < i + length rs"
  by (induction rs arbitrary: i) (fastforce split: if_splits)+

section \<open>The tally\<close>

text \<open>A leg over \<open>n\<close> questions, and a tally.\<close>

definition leg_ok :: "nat \<Rightarrow> leg \<Rightarrow> bool" where
  "leg_ok n l \<longleftrightarrow> hits1 l \<le> hits5 l \<and> hits5 l \<le> n \<and> of_nat (hits1 l) \<le> mrr l \<and> mrr l \<le> of_nat n"

lemma leg_ok_empty: "leg_ok 0 empty_leg"
  by (simp add: leg_ok_def empty_leg_def)

lemma leg_ok_score:
  assumes "leg_ok n l"
  shows "leg_ok (n + 1) (score_rank r l)"
proof (cases "r = 0")
  case True
  with assms show ?thesis by (simp add: leg_ok_def score_rank_def)
next
  case False
  then have x: "(0 :: rat) \<le> 1 / of_nat r" "(1 :: rat) / of_nat r \<le> 1" by simp_all
  have "of_nat (hits1 l) \<le> mrr l + 1 / of_nat r" "mrr l + 1 / of_nat r \<le> of_nat n + 1"
    using assms x unfolding leg_ok_def by linarith+
  with assms False show ?thesis by (auto simp: leg_ok_def score_rank_def add.commute)
qed

definition tally_ok :: "tally \<Rightarrow> bool" where
  "tally_ok t \<longleftrightarrow> leg_ok (ta_n t) (ta_vec t) \<and> leg_ok (ta_n t) (ta_hyb t) \<and> length (ta_sims t) \<le> ta_n t
     \<and> length (ta_tops t) = ta_n t \<and> ta_suppressed t \<le> ta_n t"

lemma tally_ok_chunk:
  assumes "tally_ok t" and "eval_chunk ee now r (t, srv) = Inr (t', srv')"
  shows "tally_ok t' \<and> ta_n t' \<le> ta_n t + 1"
proof -
  obtain cid content where r: "r = (cid, content)" by fastforce
  obtain q where q: "gen_question ee content = Inr q" using assms(2) by (auto simp: eval_chunk_def r)
  show ?thesis
  proof (cases "q = []")
    case True
    with assms q show ?thesis by (simp add: eval_chunk_def r)
  next
    case False
    obtain hres srv1 where h: "hybrid_leg ee now q srv = (hres, srv1)" by fastforce
    from assms(2) q h False obtain vrows vrank sim hrank where
      sim: "(case vrows of [] \<Rightarrow> Inr [] | r # _ \<Rightarrow> res_bind (top_similarity r) (\<lambda>x. Inr [x])) = Inr sim"
      and t': "t' = \<lparr>ta_n = ta_n t + 1, ta_vec = score_rank vrank (ta_vec t), ta_hyb = score_rank hrank (ta_hyb t),
            ta_sims = ta_sims t @ sim, ta_tops = ta_tops t @ [top_score hres],
            ta_suppressed = (if top_score hres < ee_legacy ee then ta_suppressed t + 1 else ta_suppressed t)\<rparr>"
      by (auto simp: eval_chunk_def r split: prod.splits)
    from sim have "length sim \<le> 1" by (auto split: list.splits)
    with assms(1) show ?thesis unfolding t' using leg_ok_score by (simp add: tally_ok_def)
  qed
qed

lemma tally_ok_chunks:
  "tally_ok t \<Longrightarrow> eval_chunks ee now rs (t, srv) = Inr (t', srv') \<Longrightarrow>
     tally_ok t' \<and> ta_n t' \<le> ta_n t + length rs"
proof (induction rs arbitrary: t srv)
  case (Cons r rs)
  from Cons.prems(2) obtain t1 srv1 where r: "eval_chunk ee now r (t, srv) = Inr (t1, srv1)"
    and rs: "eval_chunks ee now rs (t1, srv1) = Inr (t', srv')" by auto
  note a = tally_ok_chunk [OF Cons.prems(1) r]
  with Cons.IH [OF _ rs] show ?case by simp
qed simp

section \<open>The sweep\<close>

lemma sweep_best:
  assumes "sweep sims negs ts (b, j) = (b', j')"
  shows "j \<le> j' \<and> (\<forall>t\<in>set ts. youden sims negs t \<le> j')
     \<and> (b' = b \<and> j' = j \<or> j < j' \<and> j' = youden sims negs b'
          \<and> (\<exists>xs ys. ts = xs @ b' # ys \<and> (\<forall>t\<in>set xs. youden sims negs t < j')))"
  using assms
proof (induction ts arbitrary: b j)
  case (Cons t ts)
  let ?j = "youden sims negs t"
  have later: "\<exists>xs ys. t # ts = xs @ b' # ys \<and> (\<forall>t\<in>set xs. youden sims negs t < j')"
    if "?j < j'" "\<exists>xs ys. ts = xs @ b' # ys \<and> (\<forall>t\<in>set xs. youden sims negs t < j')"
    using that by (metis append_Cons set_ConsD)
  show ?case
  proof (cases "j < ?j")
    case True
    with Cons.prems have "sweep sims negs ts (t, ?j) = (b', j')" by simp
    note a = Cons.IH [OF this]
    show ?thesis
    proof (cases "b' = t \<and> j' = ?j")
      case at: True
      then have "\<exists>xs ys. t # ts = xs @ b' # ys \<and> (\<forall>t\<in>set xs. youden sims negs t < j')"
        by (intro exI [of _ "[]"] exI [of _ ts]) simp
      with a at True show ?thesis by auto
    next
      case False
      with a later True show ?thesis by auto
    qed
  next
    case False
    with Cons.prems have "sweep sims negs ts (b, j) = (b', j')" by simp
    note a = Cons.IH [OF this]
    show ?thesis
    proof (cases "b' = b \<and> j' = j")
      case True
      with a False show ?thesis by auto
    next
      case new: False
      with a have "j < j'" by blast
      with a new later False show ?thesis by auto
    qed
  qed
qed simp

lemma kept_bounds: "0 \<le> kept t xs" "kept t xs \<le> 1"
  by (simp_all add: kept_def divide_le_eq le_max_iff_disj)

lemma kept_anti: "t \<le> u \<Longrightarrow> kept u xs \<le> kept t xs"
proof -
  assume "t \<le> u"
  then have "length (filter (\<lambda>x. u \<le> x) xs) \<le> length (filter (\<lambda>x. t \<le> x) xs)"
    by (induction xs) auto
  then show ?thesis by (simp add: kept_def divide_right_mono)
qed

lemma probe_lengths:
  "probe ee now qs (cs, rrf, srv) = Inr (cs', rrf') \<Longrightarrow>
     length cs' = length cs + length qs \<and> length rrf' = length rrf + length qs"
proof (induction qs arbitrary: cs rrf srv)
  case (Cons q qs)
  from Cons.prems obtain vrows x where "vector_leg ee q = Inr vrows"
    "(case vrows of [] \<Rightarrow> Inr 0 | r # _ \<Rightarrow> top_similarity r) = Inr x" by auto
  with Cons show ?case by (auto split: prod.splits)
qed simp

lemma below_le: "below g xs \<le> length xs"
  by (simp add: below_def)

section \<open>A concrete run\<close>

definition demo_eval :: eval_env where
  "demo_eval = \<lparr>ee_sv = demo_services (Inr (Some [demo_row])), ee_llm = (\<lambda>c. Inr (Some c)), ee_top_k = 5,
     ee_legacy = 3 / 200, ee_cosine = 1 / 4, ee_sample = 0, ee_pick = (\<lambda>_ xs. xs)\<rparr>"

lemma demo_leg: "vector_leg demo_eval q = Inr [demo_row]" "top_similarity demo_row = Inr (1 / 2)"
  by (simp_all add: vector_leg_def demo_eval_def demo_services_def vector_search_def rpc_rows_def
      top_similarity_def demo_row_def get_or_def json_get_def)

lemma rank_total: "\<exists>n. rank_from i target (\<lambda>c. Inr (f c)) rs = Inr n"
  by (induction rs arbitrary: i) auto

lemma demo_probe: "\<exists>r. probe demo_eval now qs (cs, rrf, srv) = Inr r"
proof (induction qs arbitrary: cs rrf srv)
  case (Cons q qs)
  then show ?case by (simp add: demo_leg split: prod.splits)
qed simp

lemma demo_eval_run: "\<exists>rp. eval_main demo_eval 0 [(''c1'', ''fees'')] empty_server = Inr (Some rp)"
proof -
  have f: "filter (\<lambda>r. py_strip (snd r) \<noteq> []) [(''c1'', ''fees'')] = [(''c1'', ''fees'')]" by code_simp
  obtain hres srv where h: "hybrid_leg demo_eval 0 ''fees'' empty_server = (hres, srv)" by fastforce
  obtain n where n: "rank_of ''c1'' hres (\<lambda>c. Inr (chunk_id c)) = Inr n"
    using rank_total [of 1 "''c1''" chunk_id hres] by (auto simp: rank_of_def)
  have r: "rank_of ''c1'' [demo_row] (\<lambda>r. req_str (sv_render (ee_sv demo_eval)) r ''chunk_id'') = Inr 1"
    by (simp add: rank_of_def req_str_def demo_row_def json_get_def)
  have "py_strip ''fees'' = ''fees''" by code_simp
  then have q: "gen_question demo_eval ''fees'' = Inr ''fees''"
    by (simp add: gen_question_def demo_eval_def str_or_def)
  define t where "t = \<lparr>ta_n = 1, ta_vec = score_rank 1 empty_leg, ta_hyb = score_rank n empty_leg,
     ta_sims = [1 / 2], ta_tops = [top_score hres], ta_suppressed = (if top_score hres < ee_legacy demo_eval then 1 else 0)\<rparr>"
  have t: "eval_chunks demo_eval 0 [(''c1'', ''fees'')] (empty_tally, empty_server) = Inr (t, srv)"
    "ta_n t = 1" "ta_sims t = [1 / 2]"
    by (simp_all add: t_def eval_chunk_def demo_leg h n r q) (simp add: empty_tally_def)
  obtain c rrf where "probe demo_eval 0 NEGATIVE_QUERIES ([], [], srv) = Inr (c, rrf)"
    using demo_probe by (metis surj_pair)
  with t show ?thesis unfolding eval_main_def f by (simp add: demo_eval_def Let_def del: eval_chunks.simps)
qed

section \<open>Property\<close>

text \<open>What an evaluation reports.  A report rests on at least one question; for both legs the
  number of first places is at most that of the first five and at most the sum of the
  reciprocal ranks, and both are at most the number of questions; no count of suppressed
  answers exceeds its total.  The recommended threshold is the smallest of the 21 candidates
  at which the separation of relevant from off-domain questions is largest, or the current
  one when no candidate separates at all.\<close>

theorem eval_report:
  assumes "eval_main ee now chunks srv = Inr (Some rp)"
  shows "0 < ta_n (rp_tally rp) \<and> leg_ok (ta_n (rp_tally rp)) (ta_vec (rp_tally rp))
     \<and> leg_ok (ta_n (rp_tally rp)) (ta_hyb (rp_tally rp))
     \<and> rp_pos_cosine rp \<le> ta_n (rp_tally rp) \<and> rp_pos_legacy rp \<le> ta_n (rp_tally rp)
     \<and> rp_neg_cosine rp \<le> 6 \<and> rp_neg_legacy rp \<le> 6
     \<and> (\<exists>negs. length negs = 6 \<and>
          (let y = youden (ta_sims (rp_tally rp)) negs; (b, j) = rp_recommended rp in
           (\<forall>t\<in>set thresholds. y t \<le> j)
           \<and> (b = ee_cosine ee \<and> j = - 1
              \<or> (\<exists>xs ys. thresholds = xs @ b # ys \<and> y b = j \<and> (\<forall>t\<in>set xs. y t < j)))))"
proof -
  from assms obtain rows t srv1 negs rrf where
    t: "eval_chunks ee now rows (empty_tally, srv) = Inr (t, srv1)" "ta_n t \<noteq> 0"
    and p: "probe ee now NEGATIVE_QUERIES ([], [], srv1) = Inr (negs, rrf)"
    and rp: "rp = \<lparr>rp_tally = t, rp_pos_cosine = below (ee_cosine ee) (ta_sims t), rp_pos_legacy = ta_suppressed t,
        rp_neg_cosine = below (ee_cosine ee) negs, rp_neg_legacy = below (ee_legacy ee) rrf,
        rp_recommended = recommend (ee_cosine ee) (ta_sims t) negs\<rparr>"
    by (auto simp: eval_main_def Let_def split: if_splits)
  have "tally_ok empty_tally" by (simp add: tally_ok_def empty_tally_def leg_ok_empty)
  from tally_ok_chunks [OF this t(1)] have ok: "tally_ok t" ..
  from probe_lengths [OF p] have l: "length negs = 6" "length rrf = 6" by (simp_all add: NEGATIVE_QUERIES_def)
  obtain b j where b: "recommend (ee_cosine ee) (ta_sims t) negs = (b, j)" by fastforce
  note best = sweep_best [OF b [unfolded recommend_def]]
  have "\<exists>negs. length negs = 6 \<and> (let y = youden (ta_sims t) negs; (b, j) = (b, j) in
       (\<forall>t\<in>set thresholds. y t \<le> j) \<and> (b = ee_cosine ee \<and> j = - 1
          \<or> (\<exists>xs ys. thresholds = xs @ b # ys \<and> y b = j \<and> (\<forall>t\<in>set xs. y t < j))))"
    using best l(1) by (intro exI [of _ negs]) (simp add: Let_def, metis)
  moreover have "below (ee_cosine ee) (ta_sims t) \<le> ta_n t" "below (ee_cosine ee) negs \<le> 6" "below (ee_legacy ee) rrf \<le> 6"
    using ok l below_le [of "ee_cosine ee" "ta_sims t"] below_le [of "ee_cosine ee" negs] below_le [of "ee_legacy ee" rrf]
    by (simp_all add: tally_ok_def)
  ultimately show ?thesis using ok t(2) unfolding rp b by (simp add: tally_ok_def)
qed

theorem eval_report_witness:
  "\<exists>rp. eval_main demo_eval 0 [(''c1'', ''fees'')] empty_server = Inr (Some rp)
     \<and> 0 < ta_n (rp_tally rp) \<and> rp_neg_cosine rp \<le> 6"
proof -
  obtain rp where "eval_main demo_eval 0 [(''c1'', ''fees'')] empty_server = Inr (Some rp)"
    using demo_eval_run by blast
  with eval_report [OF this] show ?thesis by blast
qed

end
