(* ===== verification/Confidential.thy ===== *)
theory Confidential
  imports ChatProps
begin

text \<open>
  What an anonymous caller gets to see.  The search engines filter as they are asked to
  (\<open>filtered\<close>); the retrieval cache stands between them and the caller and is written by every
  caller.  \<open>caching\<close> is everything that happens to the cache: chunks retrieved for some caller
  are stored later, the version is bumped, and anything else leaves or evicts its entries.
\<close>

section \<open>Engines that filter\<close>

text \<open>The hits of an answer and the identifier of a hit, as \<open>vespa_client.search\<close> reads them.\<close>

definition answer_hits :: "json \<Rightarrow> json list res" where
  "answer_hits data =
     res_bind (as_obj data) (\<lambda>d.
     res_bind (as_obj (json_or (get_or d ''root'' (JObj [])) (JObj []))) (\<lambda>root.
       iter_json (json_or (get_or root ''children'' (JArr [])) (JArr []))))"

definition hit_chunk_id :: "json \<Rightarrow> json res" where
  "hit_chunk_id x =
     res_bind (as_obj x) (\<lambda>h.
     res_bind (as_obj (json_or (get_or h ''fields'' (JObj [])) (JObj []))) (\<lambda>flds.
       Inr (get_or flds ''chunk_id'' (JStr []))))"

definition row_in :: "string set \<Rightarrow> services \<Rightarrow> meta \<Rightarrow> bool" where
  "row_in pub sv r \<longleftrightarrow> (\<forall>i. req_str (sv_render sv) r ''chunk_id'' = Inr i \<longrightarrow> i \<in> pub)"

text \<open>
  The documented behaviour of the engines: a query that ends in the filter of anonymous
  callers is answered with chunks of \<open>pub\<close>, and so is the stored procedure called without
  a user.
\<close>

definition filtered :: "string set \<Rightarrow> services \<Rightarrow> bool" where
  "filtered pub sv \<longleftrightarrow>
     (\<forall>b data hits h j. suffix (access_clause None) (vq_yql b) \<longrightarrow> sv_http sv b = Inr data \<longrightarrow>
        answer_hits data = Inr hits \<longrightarrow> h \<in> set hits \<longrightarrow> hit_chunk_id h = Inr j \<longrightarrow>
        py_str (sv_render sv) j \<in> pub)
   \<and> (\<forall>q e n w rows. sv_rpc sv q e n w None = Inr (Some rows) \<longrightarrow> (\<forall>r\<in>set rows. row_in pub sv r))"

definition ids :: "ChunkResult list \<Rightarrow> string set" where
  "ids cs = chunk_id ` set cs"

lemma map_hit_id:
  assumes "map_hit loads cosf h = Inr r"
  shows "\<exists>j. hit_chunk_id h = Inr j \<and> json_get r ''chunk_id'' = Some j"
  using assms by (auto simp: map_hit_def hit_chunk_id_def json_get_def)

lemma vespa_rows:
  assumes "filtered pub sv" and "vespa_search (sv_vespa_on sv) (sv_http sv) (sv_loads sv) (sv_cos sv) q e n None = Inr rows"
    and "r \<in> set rows"
  shows "row_in pub sv r"
proof -
  from assms(2) obtain data hits where d: "sv_http sv (vespa_body q e n None) = Inr data"
    "answer_hits data = Inr hits" "map_res (map_hit (sv_loads sv) (sv_cos sv)) hits = Inr rows"
    by (auto simp: vespa_search_def answer_hits_def split: if_splits)
  from d(3) assms(3) obtain h where h: "h \<in> set hits" "map_hit (sv_loads sv) (sv_cos sv) h = Inr r"
    by (auto dest: map_res_memD)
  obtain j where j: "hit_chunk_id h = Inr j" "json_get r ''chunk_id'' = Some j"
    using map_hit_id [OF h(2)] by blast
  have "suffix (access_clause None) (vq_yql (vespa_body q e n None))"
    by (simp add: access_clause_anonymous truthy_def)
  with assms(1) d h j have "py_str (sv_render sv) j \<in> pub" unfolding filtered_def by blast
  with j show ?thesis by (simp add: row_in_def req_str_def)
qed

lemma rpc_rows_in:
  assumes "filtered pub sv" and "r \<in> set (hybrid_search (sv_rpc sv) e q n w None)"
  shows "row_in pub sv r"
proof -
  from assms(2) obtain rows where "sv_rpc sv q e n w None = Inr (Some rows)" "r \<in> set rows"
    by (cases "sv_rpc sv q e n w None") (auto simp: hybrid_search_def rpc_rows_def split: option.splits)
  with assms(1) show ?thesis unfolding filtered_def by blast
qed

lemma with_cosine_in: "with_cosine r = Inr r' \<Longrightarrow> row_in pub sv r \<Longrightarrow> row_in pub sv r'"
  by (auto simp: with_cosine_def row_in_def req_str_def json_get_def)

lemma postgres_in:
  assumes "filtered pub sv" and "postgres_fallback sv q e n None = Inr rows" and "r \<in> set rows"
  shows "row_in pub sv r"
proof -
  from assms(2,3) obtain r0 where "r0 \<in> set (hybrid_search (sv_rpc sv) e q n (3 / 10) None)" "with_cosine r0 = Inr r"
    by (auto simp: postgres_fallback_def dest: map_res_memD)
  with rpc_rows_in [OF assms(1)] show ?thesis by (blast intro: with_cosine_in)
qed

lemma retrieve_in:
  assumes "filtered pub sv" and "retrieve sv q e n None = Inr rows" and "r \<in> set rows"
  shows "row_in pub sv r"
  using assms vespa_rows [OF assms(1)] postgres_in [OF assms(1)]
  by (auto simp: retrieve_def split: if_splits sum.splits)

lemma row_chunk_id: "row_chunk render r s c m = Inr x \<Longrightarrow> req_str render r ''chunk_id'' = Inr (chunk_id x)"
  by (auto simp: row_chunk_def)

lemma candidates_in:
  assumes "filtered pub sv" and "hybrid_candidates sv q e n w None = Inr cs"
  shows "ids cs \<subseteq> pub"
proof
  fix i assume "i \<in> ids cs"
  then obtain c where c: "c \<in> set cs" "i = chunk_id c" by (auto simp: ids_def)
  let ?m = "candidate_pool_size (sv_rr sv) n"
  let ?rows = "py_try (retrieve sv q e ?m None) (hybrid_search (sv_rpc sv) e q ?m w None)"
  from assms(2) c obtain r where r: "r \<in> set ?rows" "hybrid_row (sv_render sv) r = Inr c"
    by (auto simp: hybrid_candidates_def Let_def dest: map_res_memD)
  have "row_in pub sv r"
    using r(1) retrieve_in [OF assms(1)] rpc_rows_in [OF assms(1)]
    by (cases "retrieve sv q e ?m None") auto
  with row_chunk_id r(2) c show "i \<in> pub" unfolding hybrid_row_def row_in_def by blast
qed

lemma rerank_ids: "ids (rerank cfg voyage q cs n) \<subseteq> ids cs"
  using rerank_same same_but_score_fields unfolding ids_def by fastforce

section \<open>The cache\<close>

text \<open>
  Chunks are stored for a user some time after they were retrieved for that user.  The
  identifier \<open>public\<close> is the name of the anonymous scope, and the empty one belongs to it
  too: both are no users here.
\<close>

definition proper_user :: "string option \<Rightarrow> bool" where
  "proper_user u \<longleftrightarrow> u \<noteq> Some [] \<and> u \<noteq> Some ''public''"

inductive caching :: "qc_config \<Rightarrow> (string \<Rightarrow> string) \<Rightarrow> string set \<Rightarrow> redis_server \<Rightarrow> redis_server \<Rightarrow> bool"
  for cfg sha pub where
  stored: "filtered pub sv \<Longrightarrow> proper_user u \<Longrightarrow> hybrid_candidates sv q e n w u = Inr cs \<Longrightarrow>
     caching cfg sha pub srv
       (qc_set cfg sha client srv now q u n (rerank (sv_rr sv) (sv_voyage sv) q cs n))"
| bumped: "caching cfg sha pub srv (bump_version cfg client srv now)"
| other: "(\<And>k. prefix (qc_prefix cfg) k \<Longrightarrow> srv_data srv' k = srv_data srv k \<or> srv_data srv' k = None) \<Longrightarrow>
     caching cfg sha pub srv srv'"

text \<open>Under the keys of the anonymous scope there are chunks of \<open>pub\<close> only.\<close>

definition clean :: "qc_config \<Rightarrow> (string \<Rightarrow> string) \<Rightarrow> string set \<Rightarrow> redis_server \<Rightarrow> bool" where
  "clean cfg sha pub srv \<longleftrightarrow>
     (\<forall>v u l q j e cs. cache_scope u = ''public'' \<longrightarrow>
        srv_data srv (qc_prefix cfg @ sha (qc_raw v (u, l, q))) = Some (RJson j, e) \<longrightarrow>
        load_chunks j = Inr cs \<longrightarrow> ids cs \<subseteq> pub)"

lemma cleanD:
  assumes "clean cfg sha pub srv" and "cache_scope u = ''public''"
    and "srv_data srv (qc_prefix cfg @ sha (qc_raw v (u, l, q))) = Some (RJson j, e)"
    and "load_chunks j = Inr cs"
  shows "ids cs \<subseteq> pub"
  using assms unfolding clean_def by blast

lemma load_dump_ids:
  assumes "load_chunks (dump_chunks cs) = Inr cs'"
  shows "ids cs' = ids cs"
proof -
  from assms have "map_res load_chunk (map dump_chunk cs) = Inr cs'"
    by (simp add: load_chunks_def dump_chunks_def)
  then have "map chunk_id cs' = map chunk_id cs"
    by (induction cs arbitrary: cs') (auto simp: load_dump_chunk)
  then show ?thesis by (metis ids_def list.set_map)
qed

lemma scope_public: "proper_user u \<Longrightarrow> cache_scope u = ''public'' \<Longrightarrow> u = None"
  by (cases u) (auto simp: proper_user_def cache_scope_def str_or_def split: if_splits)

lemma qc_set_data:
  "srv_data (qc_set cfg sha client srv now q u n cs) k = srv_data srv k
   \<or> k = qc_prefix cfg @ sha (qc_raw (qc_version cfg client srv now) (u, n, q))
      \<and> (\<exists>e. srv_data (qc_set cfg sha client srv now q u n cs) k = Some (RJson (dump_chunks cs), e))"
  by (auto simp: qc_set_def cache_store_def rsetex_def)

lemma clean_set:
  assumes "inj sha" and "clean cfg sha pub srv" and "proper_user u" and "u = None \<Longrightarrow> ids cs \<subseteq> pub"
  shows "clean cfg sha pub (qc_set cfg sha client srv now q u n cs)"
  unfolding clean_def
proof (intro allI impI)
  fix v u' l' q' j e cs'
  let ?k = "qc_prefix cfg @ sha (qc_raw v (u', l', q'))"
  assume u': "cache_scope u' = ''public''" and d: "srv_data (qc_set cfg sha client srv now q u n cs) ?k = Some (RJson j, e)"
    and l: "load_chunks j = Inr cs'"
  show "ids cs' \<subseteq> pub"
  proof (cases "srv_data (qc_set cfg sha client srv now q u n cs) ?k = srv_data srv ?k")
    case True
    with d have "srv_data srv ?k = Some (RJson j, e)" by simp
    from cleanD [OF assms(2) u' this l] show ?thesis .
  next
    case False
    with qc_set_data [of cfg sha client srv now q u n cs ?k] d
    have k: "?k = qc_prefix cfg @ sha (qc_raw (qc_version cfg client srv now) (u, n, q))" and j: "j = dump_chunks cs"
      by auto
    from k assms(1) have "qc_same (u', l', q') (u, n, q)" by (simp add: inj_eq qc_raw_eq)
    with u' have "u = None" using scope_public [OF assms(3)] by simp
    with assms(4) load_dump_ids l j show ?thesis by simp
  qed
qed

lemma bump_data:
  "srv_data (bump_version cfg client srv now) k = srv_data srv k
   \<or> (\<exists>n e. srv_data (bump_version cfg client srv now) k = Some (RInt n, e))"
  by (auto simp: bump_version_def rincr_def split: sum.splits option.splits rval.splits if_splits)

lemma clean_frame:
  assumes "clean cfg sha pub srv"
    and "\<And>k j e. prefix (qc_prefix cfg) k \<Longrightarrow> srv_data srv' k = Some (RJson j, e) \<Longrightarrow> srv_data srv k = srv_data srv' k"
  shows "clean cfg sha pub srv'"
  unfolding clean_def
proof (intro allI impI)
  fix v u l q j e cs
  let ?k = "qc_prefix cfg @ sha (qc_raw v (u, l, q))"
  assume u: "cache_scope u = ''public''" and d: "srv_data srv' ?k = Some (RJson j, e)" and l: "load_chunks j = Inr cs"
  have "srv_data srv ?k = Some (RJson j, e)" using assms(2) [OF _ d] d by simp
  from cleanD [OF assms(1) u this l] show "ids cs \<subseteq> pub" .
qed

lemma clean_caching:
  assumes "inj sha" and "caching cfg sha pub srv srv'" and "clean cfg sha pub srv"
  shows "clean cfg sha pub srv'"
  using assms(2)
proof cases
  case (stored sv u q e n w cs client now)
  show ?thesis unfolding stored(1)
  proof (rule clean_set [OF assms(1,3) stored(3)])
    assume "u = None"
    with candidates_in [OF stored(2)] stored(4) rerank_ids show "ids (rerank (sv_rr sv) (sv_voyage sv) q cs n) \<subseteq> pub"
      by blast
  qed
next
  case (bumped client now)
  show ?thesis unfolding bumped
    by (rule clean_frame [OF assms(3)]) (metis bump_data option.inject prod.inject rval.distinct(1))
next
  case other
  show ?thesis by (rule clean_frame [OF assms(3)]) (metis other option.distinct(1))
qed

lemma clean_runs:
  "(caching cfg sha pub)\<^sup>*\<^sup>* srv srv' \<Longrightarrow> inj sha \<Longrightarrow> clean cfg sha pub srv \<Longrightarrow> clean cfg sha pub srv'"
  by (induction rule: rtranclp_induct) (auto intro: clean_caching)

section \<open>Searches and turns\<close>

lemma get_clean:
  assumes "clean cfg sha pub srv" and "cache_scope u = ''public''" and "qc_get cfg sha client srv now q u n = Some cs"
  shows "ids cs \<subseteq> pub"
proof -
  let ?k = "qc_prefix cfg @ sha (qc_raw (qc_version cfg client srv now) (u, n, q))"
  from assms(3) obtain j where j: "rget srv now ?k = Inr (Some (RJson j))" "load_chunks j = Inr cs"
    by (auto simp: qc_get_def cache_fetch_def split: if_splits sum.splits option.splits rval.splits)
  from j(1) obtain e where "srv_data srv ?k = Some (RJson j, e)"
    by (auto simp: rget_def live_def split: if_splits option.splits rval.splits)
  from cleanD [OF assms(1,2) this j(2)] show ?thesis .
qed

definition calm :: "string set \<Rightarrow> services \<Rightarrow> redis_server \<Rightarrow> bool" where
  "calm pub sv srv \<longleftrightarrow> inj (sv_sha sv) \<and> filtered pub sv \<and> clean (sv_qc sv) (sv_sha sv) pub srv"

lemma search_calm:
  assumes "calm pub sv srv" and "hybrid_search_tool sv srv now q n w None = (cs, srv')"
  shows "calm pub sv srv' \<and> ids cs \<subseteq> pub"
proof (cases "qc_get (sv_qc sv) (sv_sha sv) (sv_client sv) srv now q None n")
  case (Some cached)
  from get_clean [OF _ _ Some, of pub] assms Some show ?thesis
    by (simp add: hybrid_search_tool_def calm_def cache_scope_def str_or_def)
next
  case None
  note miss = None
  show ?thesis
  proof (cases "res_bind (sv_embed sv q) (\<lambda>e. hybrid_candidates sv q e n w None)")
    case (Inl e)
    with miss assms show ?thesis by (simp add: hybrid_search_tool_def ids_def)
  next
    case (Inr cands)
    then obtain e where c: "hybrid_candidates sv q e n w None = Inr cands" by auto
    let ?cs = "rerank (sv_rr sv) (sv_voyage sv) q cands n"
    have r: "cs = ?cs" "srv' = qc_set (sv_qc sv) (sv_sha sv) (sv_client sv) srv now q None n ?cs"
      using assms(2) unfolding hybrid_search_tool_def miss option.case Inr by (auto simp: Let_def)
    have f: "filtered pub sv" and i: "inj (sv_sha sv)" and cl: "clean (sv_qc sv) (sv_sha sv) pub srv"
      using assms(1) by (simp_all add: calm_def)
    have "proper_user None" by (simp add: proper_user_def)
    from clean_caching [OF i caching.stored [OF f this c] cl] r
    have "calm pub sv srv'" using f i by (simp add: calm_def)
    moreover have "ids cs \<subseteq> pub" using candidates_in [OF f c] rerank_ids r by blast
    ultimately show ?thesis ..
  qed
qed

abbreviation calm_state :: "string set \<Rightarrow> chat_env \<Rightarrow> chat_state \<Rightarrow> bool" where
  "calm_state pub ce s \<equiv> calm pub (ce_sv ce) (cs_redis s)"

definition sees :: "string set \<Rightarrow> AgentDependencies \<Rightarrow> bool" where
  "sees pub d \<longleftrightarrow> dep_user_id d = None \<and> ids (chunks_of d) \<subseteq> pub"

lemma ids_append [simp]: "ids (cs @ ds) = ids cs \<union> ids ds"
  by (auto simp: ids_def)

lemma run_call_calm:
  assumes "run_call ce now c deps s = (out, deps', s')" and "calm_state pub ce s" and "sees pub deps"
  shows "calm_state pub ce s' \<and> sees pub deps'"
proof (cases c)
  case (SearchDocuments q n)
  obtain cs srv where h: "hybrid_search_tool (ce_sv ce) (cs_redis s) now q n (3 / 10) None = (cs, srv)"
    by (metis prod.exhaust)
  from search_calm [OF assms(2) h] SearchDocuments assms h show ?thesis
    by (auto simp: run_call_def search_documents_def Let_def sees_def chunks_of_def)
next
  case (GraphFacts q)
  with assms show ?thesis
    by (auto simp: run_call_def search_knowledge_graph_facts_def Let_def sees_def chunks_of_def)
next
  case (ListDocuments n)
  with assms show ?thesis by (simp add: run_call_def)
qed

lemma run_calls_calm:
  "run_calls ce now cs deps s = (outs, deps', s') \<Longrightarrow> calm_state pub ce s \<Longrightarrow> sees pub deps \<Longrightarrow>
     calm_state pub ce s' \<and> sees pub deps'"
proof (induction cs arbitrary: outs deps s)
  case (Cons c cs)
  then show ?case by (auto simp: Let_def split: prod.splits dest!: run_call_calm)
qed simp

lemma agent_loop_calm:
  "calm_state pub ce s \<Longrightarrow> sees pub deps \<Longrightarrow>
     calm_state pub ce (ar_state (agent_loop ce now sys prompt n msgs ds outs deps s))
   \<and> sees pub (ar_deps (agent_loop ce now sys prompt n msgs ds outs deps s))"
proof (induction n arbitrary: msgs ds outs deps s)
  case (Suc n)
  show ?case
  proof (cases "ce_model ce sys prompt outs")
    case (CallTools d calls)
    obtain outs' deps' s' where r: "run_calls ce now (map snd calls) deps s = (outs', deps', s')"
      by (metis prod_cases3)
    from run_calls_calm [OF r Suc.prems] Suc.IH [of s' deps'] CallTools r show ?thesis by auto
  qed (use Suc.prems in auto)
qed simp

lemma agent_run_calm:
  assumes "calm_state pub ce s"
  shows "sees pub (ar_deps (agent_run ce now prompt (start_deps sid None) s))"
proof -
  have "sees pub (start_deps sid None)"
    by (simp add: sees_def start_deps_def new_deps_def chunks_of_def ids_def)
  with assms show ?thesis
    by (auto simp: agent_run_def agent_loop_calm split: prod.splits)
qed

section \<open>Turns\<close>

text \<open>The steps before the agent leave Redis as it is.\<close>

lemma keeps_redis:
  assumes "\<And>s r s'. m s = (r, s') \<Longrightarrow> cs_redis s' = cs_redis s"
  shows "keeps (calm_state pub ce) m"
  using assms by (force simp: serves_def split: prod.splits sum.splits)

lemma keeps_open: "keeps (calm_state pub ce) (mem_open ce sid)"
  by (rule keeps_redis) (auto simp: mem_open_def split: prod.splits)

lemma keeps_context: "keeps (calm_state pub ce) (mem_context now sid)"
  by (rule keeps_redis) (auto simp: mem_context_def split: sum.splits prod.splits)

lemma keeps_lookup: "keeps (calm_state pub ce) (cached_answer ce now q u)"
  by (rule keeps_redis) (auto simp: cached_answer_def)

lemma serves_any: "(\<And>s x s'. P s \<Longrightarrow> m s = (Inr x, s') \<Longrightarrow> Q x) \<Longrightarrow> serves P m (\<lambda>x _. Q x) (\<lambda>_. True)"
  by (auto simp: serves_def split: prod.splits sum.splits)

lemma serves_loosen:
  "serves P m Q E \<Longrightarrow> (\<And>s. R s \<Longrightarrow> P s) \<Longrightarrow> (\<And>x s. Q x s \<Longrightarrow> Q' x s) \<Longrightarrow> serves R m Q' (\<lambda>_. True)"
  using serves_weaken [of P m Q E R Q' "\<lambda>_. True"] by blast

lemma serves_agent:
  "serves (calm_state pub ce) (agent_step ce now p (start_deps sid None))
     (\<lambda>run _. sees pub (ar_deps run)) (\<lambda>_. True)"
  by (simp add: serves_def agent_step_def Let_def agent_run_calm)

lemma sees_new: "sees pub (new_deps sid None)" "sees pub (start_deps sid None)"
  by (simp_all add: sees_def start_deps_def new_deps_def chunks_of_def ids_def)

lemma turn_answer_sees:
  "serves (calm_state pub ce) (turn_answer ce now msg h sid None q) (\<lambda>r _. sees pub (snd r)) (\<lambda>_. True)"
  unfolding turn_answer_def
  apply (rule serves_bind [OF serves_agent])
  by (rule serves_any) (auto simp: hbind_Inr reply_def Let_def split: prod.splits, metis surj_pair)

lemma turn_body_sees:
  "serves (calm_state pub ce) (turn_body ce now msg safe sid None) (\<lambda>r _. sees pub (snd r)) (\<lambda>_. True)"
  unfolding turn_body_def
  apply (rule serves_bind [OF serves_loosen [OF keeps_context]], assumption, assumption)
  apply (subst Let_def)
  apply (rule serves_bind [OF serves_loosen [OF keeps_lookup]], assumption, assumption)
  apply (split if_split, intro conjI impI)
   apply (rule serves_any, auto simp: hbind_Inr reply_def sees_new)[1]
  by (rule turn_answer_sees)

lemma run_agent_turn_sees:
  "serves (calm_state pub ce) (run_agent_turn ce now msg sid0 None) (\<lambda>r _. sees pub (snd r)) (\<lambda>_. True)"
  unfolding run_agent_turn_def
  apply (rule serves_bind [OF serves_loosen [OF keeps_open]], assumption, assumption)
  apply (simp add: Let_def, intro conjI impI)
   apply (rule serves_any, auto simp: hbind_Inr reply_def sees_new)[1]
  apply (rule serves_attempt [OF turn_body_sees])
  by (rule serves_any, auto simp: hbind_Inr reply_def sees_new)

text \<open>\<open>execute_agent\<close> returns the dependencies also of a failed run.\<close>

lemma execute_body_deps:
  assumes "execute_body ce now msg safe sid None q s = (res, s')" and "calm_state pub ce s"
  shows "case res of Inl (d, _) \<Rightarrow> sees pub d | Inr (_, _, d) \<Rightarrow> sees pub d"
proof (cases "mem_context now sid s")
  case (Pair r s1)
  have c: "calm_state pub ce s1"
    using Pair assms(2) by (auto simp: mem_context_def split: sum.splits prod.splits)
  show ?thesis
  proof (cases r)
    case (Inl e)
    with Pair assms(1) show ?thesis
      by (auto simp: execute_body_def hbind_def tag_def attempt_def raise_def sees_new)
  next
    case (Inr h)
    let ?q = "case q of Some q \<Rightarrow> q | None \<Rightarrow> condense (ce_rewrite ce) (ce_condense ce) h safe"
    let ?run = "agent_run ce now (full_prompt h ?q) (start_deps sid None) s1"
    have "sees pub (ar_deps ?run)" by (rule agent_run_calm [OF c])
    with Pair Inr assms(1) show ?thesis
      by (auto simp: execute_body_def Let_def tag_def attempt_def hbind_def agent_step_def raise_def reply_def
          split: prod.splits sum.splits)
  qed
qed

lemma execute_agent_sees:
  assumes "execute_agent ce now msg sid None q s = (Inr (r, tools, d), s')" and "calm_state pub ce s"
  shows "sees pub d"
proof (cases "allowed (check_input (ce_guard ce) msg)")
  case False
  with assms(1) show ?thesis by (auto simp: execute_agent_def Let_def hbind_Inr reply_def sees_new)
next
  case True
  let ?safe = "str_or (sanitized_input (check_input (ce_guard ce) msg)) msg"
  obtain res s1 where b: "execute_body ce now msg ?safe sid None q s = (res, s1)" by (metis prod.exhaust)
  from execute_body_deps [OF b assms(2)] b True assms(1) show ?thesis
    by (cases res) (auto simp: execute_agent_def Let_def attempt_def hbind_Inr reply_def)
qed

section \<open>Properties\<close>

text \<open>A search of a proper user is a step of the cache, so that every history of searches is a run.\<close>

lemma search_caching:
  assumes "filtered pub sv" and "proper_user u"
  shows "caching (sv_qc sv) (sv_sha sv) pub srv (snd (hybrid_search_tool sv srv now q n w u))"
proof -
  let ?r = "res_bind (sv_embed sv q) (\<lambda>e. hybrid_candidates sv q e n w u)"
  have same: "caching (sv_qc sv) (sv_sha sv) pub srv srv" by (rule caching.other) simp
  show ?thesis
  proof (cases ?r)
    case (Inl e)
    with same show ?thesis by (simp add: hybrid_search_tool_def split: option.splits)
  next
    case (Inr cs)
    then obtain e where "hybrid_candidates sv q e n w u = Inr cs" by auto
    from caching.stored [OF assms this] same show ?thesis
      unfolding hybrid_search_tool_def Inr by (simp add: Let_def split: option.splits)
  qed
qed

text \<open>C6: anonymous callers see public chunks only, also through the cache.  Suppose the search
  engines honour the filter they are asked for, the hash of the cache keys does not collide,
  and the cache was empty once.  After any history of searches by any users, with any
  delay between retrieving and storing, of version bumps, evictions, outages and writes
  elsewhere in Redis, an anonymous search, the chunks an anonymous turn ends with, and
  those of an anonymous \<open>/chat\<close> agent run are public.  The identifier \<open>public\<close> must not be
  among the users: it names the anonymous scope.\<close>

theorem anonymous_sees_public:
  assumes "inj (sv_sha (ce_sv ce))" and "filtered pub (ce_sv ce)"
    and "\<forall>k. prefix (qc_prefix (sv_qc (ce_sv ce))) k \<longrightarrow> srv_data srv0 k = None"
    and "(caching (sv_qc (ce_sv ce)) (sv_sha (ce_sv ce)) pub)\<^sup>*\<^sup>* srv0 (cs_redis s)"
  shows "ids (fst (hybrid_search_tool (ce_sv ce) (cs_redis s) now q n w None)) \<subseteq> pub
     \<and> (\<forall>r d s'. run_agent_turn ce now msg sid None s = (Inr (r, d), s') \<longrightarrow> ids (chunks_of d) \<subseteq> pub)
     \<and> (\<forall>r tools d s'. execute_agent ce now msg sid None sq s = (Inr (r, tools, d), s') \<longrightarrow> ids (chunks_of d) \<subseteq> pub)"
proof -
  have "clean (sv_qc (ce_sv ce)) (sv_sha (ce_sv ce)) pub srv0" using assms(3) by (simp add: clean_def)
  from clean_runs [OF assms(4,1) this] assms(1,2) have c: "calm_state pub ce s" by (simp add: calm_def)
  have "ids (fst (hybrid_search_tool (ce_sv ce) (cs_redis s) now q n w None)) \<subseteq> pub"
    using search_calm [OF c] by (metis prod.collapse)
  moreover have "ids (chunks_of d) \<subseteq> pub" if "run_agent_turn ce now msg sid None s = (Inr (r, d), s')" for r d s'
    using servesD [OF run_agent_turn_sees c that] by (simp add: sees_def)
  moreover have "ids (chunks_of d) \<subseteq> pub"
    if "execute_agent ce now msg sid None sq s = (Inr (r, tools, d), s')" for r tools d s'
    using execute_agent_sees [OF that c] by (simp add: sees_def)
  ultimately show ?thesis by blast
qed

text \<open>An engine with a public and a private chunk.\<close>

definition demo_hit :: "string \<Rightarrow> json" where
  "demo_hit i = JObj [(''fields'', JObj [(''chunk_id'', JStr i), (''document_id'', JStr ''d''),
     (''content'', JStr ''text''), (''document_title'', JStr ''T''), (''document_source'', JStr ''t.pdf'')])]"

definition demo_http :: "vespa_query \<Rightarrow> json res" where
  "demo_http b = Inr (JObj [(''root'', JObj [(''children'', JArr
     (if suffix (access_clause None) (vq_yql b) then [demo_hit ''c1''] else [demo_hit ''p1'']))])])"

definition demo_engine :: services where
  "demo_engine = (demo_services (Inr None))\<lparr>sv_vespa_on := True, sv_http := demo_http\<rparr>"

lemma demo_filtered: "filtered {''c1''} demo_engine"
  by (auto simp: filtered_def demo_engine_def demo_services_def demo_http_def demo_hit_def answer_hits_def
      hit_chunk_id_def get_or_def json_get_def json_or_def iter_json_def)

definition demo_found :: "string \<Rightarrow> ChunkResult" where
  "demo_found i = mk_chunk_result i ''d'' ''text'' 0 0 [] ''T'' ''t.pdf''"

lemma demo_map_hit: "map_hit loads cosf (demo_hit i) = Inr [(''chunk_id'', JStr i), (''document_id'', JStr ''d''),
    (''content'', JStr ''text''), (''similarity'', JNum 0), (''cosine_similarity'', JNum 0),
    (''combined_score'', JNum 0), (''bm25_score'', JNum 0), (''document_title'', JStr ''T''),
    (''document_source'', JStr ''t.pdf''), (''metadata'', JObj [])]"
  by (simp add: map_hit_def demo_hit_def get_or_def json_get_def json_or_def norm_features_def hit_cosine_def
      float_or_0_def hit_meta_def)

lemma user_unfiltered: "truthy u \<Longrightarrow> \<not> suffix (access_clause None) (vq_yql (vespa_body q e n u))"
proof
  assume u: "truthy u" and s: "suffix (access_clause None) (vq_yql (vespa_body q e n u))"
  have "last (access_clause None) = CHR 0x22" "access_clause None \<noteq> []"
    by (simp_all add: access_clause_def truthy_def)
  moreover have "last (vq_yql (vespa_body q e n u)) = CHR '')''" using u by (simp add: vespa_body_def access_clause_def)
  ultimately show False using s by (auto simp: suffix_def)
qed

lemma demo_candidates:
  "hybrid_candidates demo_engine q e n w u = Inr [demo_found (if truthy u then ''p1'' else ''c1'')]"
proof -
  have s: "suffix (access_clause None) (vq_yql (vespa_body q e n u)) \<longleftrightarrow> \<not> truthy u" for n
    using user_unfiltered access_clause_anonymous by blast
  show ?thesis
    by (simp add: hybrid_candidates_def Let_def retrieve_def vespa_search_def demo_engine_def demo_services_def
      demo_http_def s get_or_def json_get_def json_or_def iter_json_def demo_map_hit hybrid_row_def row_chunk_def
      req_str_def load_str_def float_or_0_def demo_found_def)
qed

lemma demo_off: "\<not> rerank_enabled (sv_rr demo_engine)" "sv_qc demo_engine = default_qc_config"
  "sv_sha demo_engine = id" "sv_client demo_engine" "sv_embed demo_engine q = Inr [1]"
  by (simp_all add: demo_engine_def demo_services_def rerank_enabled_def default_rerank_config_def)

text \<open>A user searches a private chunk, which the cache then holds; an anonymous caller asks the same.\<close>

definition demo_history :: "string \<Rightarrow> redis_server" where
  "demo_history u = snd (hybrid_search_tool demo_engine empty_server 0 ''salary'' 5 (3 / 10) (Some u))"

lemma demo_history_set:
  "u \<noteq> [] \<Longrightarrow> demo_history u = qc_set default_qc_config id True empty_server 0 ''salary'' (Some u) 5 [demo_found ''p1'']"
proof -
  assume "u \<noteq> []"
  have g: "qc_get default_qc_config id True empty_server 0 ''salary'' (Some u) 5 = None"
    by (simp add: qc_get_def cache_fetch_def rget_def live_def empty_server_def)
  with \<open>u \<noteq> []\<close> show ?thesis
    by (simp add: demo_history_def hybrid_search_tool_def demo_off g demo_candidates truthy_def rerank_def Let_def)
qed

lemma demo_cached:
  assumes "u \<noteq> []" and "cache_scope u' = u"
  shows "fst (hybrid_search_tool demo_engine (demo_history u) 10 ''salary'' 5 (3 / 10) u') = [demo_found ''p1'']"
proof -
  have v: "ver_of default_qc_config empty_server = 0" "ver_ok default_qc_config empty_server"
    by (simp_all add: ver_of_def ver_ok_def empty_server_def)
  have k: "id (qc_raw 0 (Some u, 5, ''salary'')) \<noteq> ''ver''"
    by (simp add: qc_raw.simps str_int_def dec.simps digit_char_def)
  have "qc_get default_qc_config id True (demo_history u) 10 ''salary'' u' 5 = Some [demo_found ''p1'']"
    unfolding demo_history_set [OF assms(1)]
    using qc_fetch_set [of default_qc_config empty_server "[demo_found ''p1'']" id "Some u" 5 "''salary''" u' "''salary''" 0 10]
      v k assms
    by (simp add: default_qc_config_def valid_chunk_def demo_found_def empty_server_def cache_scope_def str_or_def)
  then show ?thesis by (simp add: hybrid_search_tool_def demo_off)
qed

theorem anonymous_sees_public_witness:
  "fst (hybrid_search_tool demo_engine (demo_history ''hr'') 10 ''salary'' 5 (3 / 10) (Some ''hr'')) = [demo_found ''p1'']
   \<and> ids (fst (hybrid_search_tool demo_engine (demo_history ''hr'') 10 ''salary'' 5 (3 / 10) None)) \<subseteq> {''c1''}"
proof -
  let ?ce = "demo_env\<lparr>ce_sv := demo_engine\<rparr>" let ?s = "demo_chat\<lparr>cs_redis := demo_history ''hr''\<rparr>"
  have "caching default_qc_config id {''c1''} empty_server (demo_history ''hr'')"
    using search_caching [OF demo_filtered, of "Some ''hr''" empty_server 0 "''salary''" 5 "3 / 10"]
    by (simp add: demo_history_def demo_off proper_user_def)
  then have "(caching default_qc_config id {''c1''})\<^sup>*\<^sup>* empty_server (demo_history ''hr'')" by (rule r_into_rtranclp)
  then have "ids (fst (hybrid_search_tool demo_engine (demo_history ''hr'') 10 ''salary'' 5 (3 / 10) None)) \<subseteq> {''c1''}"
    using conjunct1 [OF anonymous_sees_public [of ?ce "{''c1''}" empty_server ?s 10 "''salary''" 5 "3 / 10"]]
    by (simp add: demo_off demo_filtered empty_server_def)
  then show ?thesis using demo_cached [of "''hr''" "Some ''hr''"] by (simp add: cache_scope_def str_or_def)
qed

text \<open>
  Who calls himself \<open>public\<close> is a user to the search engine and shares the cache of the
  anonymous callers: what he finds they are served, private chunks included.
\<close>

theorem identifier_public_leaks:
  "fst (hybrid_search_tool demo_engine (demo_history ''public'') 10 ''salary'' 5 (3 / 10) None) = [demo_found ''p1'']
   \<and> fst (hybrid_search_tool demo_engine empty_server 10 ''salary'' 5 (3 / 10) None) = [demo_found ''c1'']"
proof -
  have g: "qc_get default_qc_config id True empty_server 10 ''salary'' None 5 = None"
    by (simp add: qc_get_def cache_fetch_def rget_def live_def empty_server_def)
  have "fst (hybrid_search_tool demo_engine empty_server 10 ''salary'' 5 (3 / 10) None) = [demo_found ''c1'']"
    by (simp add: hybrid_search_tool_def demo_off g demo_candidates truthy_def rerank_def Let_def)
  then show ?thesis using demo_cached [of "''public''" None] by (simp add: cache_scope_def str_or_def)
qed

end
