(* ===== verification/Providers.thy ===== *)
theory Providers
  imports PyString
begin

text \<open>
  \<open>agent/providers.py\<close>: the model names, the API key and the clients of the OpenAI library.  A
  client is the key it was made with and the number of its construction, so that two
  clients can be told apart; the module state are the two cached clients.
\<close>

section \<open>Configuration\<close>

record provider_env =
  pv_llm :: "string option"
  pv_ingestion :: "string option"
  pv_embedding :: "string option"
  pv_openai_key :: "string option"
  pv_llm_key :: "string option"
  pv_embedding_key :: "string option"

text \<open>\<open>os.getenv(name, default)\<close>: a variable that is set to the empty string counts as set.\<close>

definition getenv :: "string option \<Rightarrow> string \<Rightarrow> string" where
  "getenv v d = (case v of None \<Rightarrow> d | Some s \<Rightarrow> s)"

definition LLM_CHOICE :: "provider_env \<Rightarrow> string" where
  "LLM_CHOICE pv = getenv (pv_llm pv) ''gpt-4o-mini''"

definition INGESTION_LLM_CHOICE :: "provider_env \<Rightarrow> string" where
  "INGESTION_LLM_CHOICE pv = getenv (pv_ingestion pv) (LLM_CHOICE pv)"

definition get_embedding_model :: "provider_env \<Rightarrow> string" where
  "get_embedding_model pv = getenv (pv_embedding pv) ''text-embedding-3-large''"

definition get_ingestion_model :: "provider_env \<Rightarrow> string" where
  "get_ingestion_model pv = ''openai:'' @ INGESTION_LLM_CHOICE pv"

text \<open>\<open>getenv(a) or getenv(b) or getenv(c) or ""\<close>\<close>

definition OPENAI_API_KEY :: "provider_env \<Rightarrow> string" where
  "OPENAI_API_KEY pv = str_or (pv_openai_key pv) (str_or (pv_llm_key pv) (str_or (pv_embedding_key pv) []))"

section \<open>Clients\<close>

record openai_client =
  oc_key :: string
  oc_serial :: nat

record provider_state =
  ps_llm :: "openai_client option"
  ps_embedding :: "openai_client option"
  ps_made :: nat

definition new_client :: "provider_env \<Rightarrow> provider_state \<Rightarrow> openai_client \<times> provider_state" where
  "new_client pv s = (\<lparr>oc_key = OPENAI_API_KEY pv, oc_serial = ps_made s\<rparr>, s\<lparr>ps_made := Suc (ps_made s)\<rparr>)"

definition get_embedding_client :: "provider_env \<Rightarrow> provider_state \<Rightarrow> openai_client \<times> provider_state" where
  "get_embedding_client = new_client"

definition get_llm_client :: "provider_env \<Rightarrow> provider_state \<Rightarrow> openai_client \<times> provider_state" where
  "get_llm_client = new_client"

definition get_cached_llm :: "provider_env \<Rightarrow> provider_state \<Rightarrow> openai_client \<times> provider_state" where
  "get_cached_llm pv s = (case ps_llm s of
      Some c \<Rightarrow> (c, s)
    | None \<Rightarrow> (case get_llm_client pv s of (c, s) \<Rightarrow> (c, s\<lparr>ps_llm := Some c\<rparr>)))"

definition get_cached_embedding :: "provider_env \<Rightarrow> provider_state \<Rightarrow> openai_client \<times> provider_state" where
  "get_cached_embedding pv s = (case ps_embedding s of
      Some c \<Rightarrow> (c, s)
    | None \<Rightarrow> (case get_embedding_client pv s of (c, s) \<Rightarrow> (c, s\<lparr>ps_embedding := Some c\<rparr>)))"

section \<open>One client of each kind\<close>

datatype provider_call = CachedLLM | CachedEmbedding

fun provide :: "provider_env \<Rightarrow> provider_call \<Rightarrow> provider_state \<Rightarrow> openai_client \<times> provider_state" where
  "provide pv CachedLLM = get_cached_llm pv"
| "provide pv CachedEmbedding = get_cached_embedding pv"

definition provide_all :: "provider_env \<Rightarrow> provider_call list \<Rightarrow> provider_state \<Rightarrow> provider_state" where
  "provide_all pv cs s = fold (\<lambda>c s. snd (provide pv c s)) cs s"

definition cached_as :: "provider_call \<Rightarrow> provider_state \<Rightarrow> openai_client option" where
  "cached_as c s = (case c of CachedLLM \<Rightarrow> ps_llm s | CachedEmbedding \<Rightarrow> ps_embedding s)"

lemma provide_caches: "provide pv c s = (x, s') \<Longrightarrow> cached_as c s' = Some x"
  by (cases c) (auto simp: get_cached_llm_def get_cached_embedding_def get_llm_client_def get_embedding_client_def
      new_client_def cached_as_def split: option.splits)

lemma provide_hit: "cached_as c s = Some x \<Longrightarrow> provide pv c s = (x, s)"
  by (cases c) (simp_all add: get_cached_llm_def get_cached_embedding_def cached_as_def)

lemma provide_keeps: "cached_as c s = Some x \<Longrightarrow> cached_as c (snd (provide pv d s)) = Some x"
  by (cases c; cases d) (auto simp: get_cached_llm_def get_cached_embedding_def get_llm_client_def
      get_embedding_client_def new_client_def cached_as_def split: option.splits)

lemma provide_all_keeps: "cached_as c s = Some x \<Longrightarrow> cached_as c (provide_all pv cs s) = Some x"
proof (induction cs arbitrary: s)
  case (Cons d cs)
  from Cons.IH [OF provide_keeps [OF Cons.prems]] show ?case by (simp add: provide_all_def)
qed (simp add: provide_all_def)

text \<open>Whatever is asked for in between, the second request of a kind gets the client of the
  first, and no client is made for it.\<close>

lemma provide_again:
  assumes "provide pv c s = (x, s')"
  shows "provide pv c (provide_all pv cs s') = (x, provide_all pv cs s')"
  using provide_hit [OF provide_all_keeps [OF provide_caches [OF assms]]] .

end
