(* ===== verification/DeployVespa.thy ===== *)
theory DeployVespa
  imports PyString "HOL-Library.Char_ord" "HOL-Library.List_Lexorder"
begin

text \<open>
  \<open>scripts/deploy_vespa.py\<close>: waiting for the config server, zipping the application package
  and posting it.  The network is a parameter: a probe at a time answers or raises and takes
  some time, which is not negative.  The clock is advanced by probes and by sleeping.  The
  package directory is the list of its files with their contents, or missing.  A zip is the
  list of its entries.  Printed lines are left out.
\<close>

section \<open>Waiting\<close>

type_synonym probe = "rat \<Rightarrow> (nat \<times> string) res \<times> rat"

definition health_up :: "(nat \<times> string) res \<Rightarrow> bool" where
  "health_up r = (case r of
      Inl _ \<Rightarrow> False
    | Inr (status, body) \<Rightarrow> status = 200 \<and> py_in ([CHR 0x22] @ ''up'' @ [CHR 0x22]) body)"

text \<open>The result and the time at which the loop ends.\<close>

function wait_healthy :: "probe \<Rightarrow> rat \<Rightarrow> rat \<Rightarrow> bool \<times> rat" where
  "wait_healthy probe deadline t =
     (if t < deadline
      then (case probe t of (r, d) \<Rightarrow>
              if health_up r then (True, t + max 0 d)
              else wait_healthy probe deadline (t + max 0 d + 3))
      else (False, t))"
  by pat_completeness auto
termination
proof (relation "measure (\<lambda>(_, deadline, t). nat \<lceil>deadline - t\<rceil>)")
  fix probe :: probe and deadline t :: rat and x r d
  assume t: "t < deadline"
  have "\<lceil>deadline - (t + max 0 d + 3)\<rceil> \<le> \<lceil>deadline - t - 3\<rceil>" by (rule ceiling_mono) simp
  also have "\<dots> = \<lceil>deadline - t\<rceil> - 3" by (metis ceiling_diff_numeral)
  finally have "\<lceil>deadline - (t + max 0 d + 3)\<rceil> < \<lceil>deadline - t\<rceil>" by simp
  moreover have "0 < \<lceil>deadline - t\<rceil>" using t by simp
  ultimately show "((probe, deadline, t + max 0 d + 3), probe, deadline, t)
      \<in> measure (\<lambda>(_, deadline, t). nat \<lceil>deadline - t\<rceil>)" by simp
qed simp

declare wait_healthy.simps [simp del]

section \<open>The package\<close>

type_synonym files = "(string \<times> string) list"

text \<open>\<open>schemas.glob("*.sd")\<close>: the names directly below \<open>schemas\<close> that end in \<open>.sd\<close>.\<close>

definition schema_names :: "files \<Rightarrow> string list" where
  "schema_names fs = filter (\<lambda>n. CHR ''/'' \<notin> set n \<and> suffix ''.sd'' n)
     (map (drop 8) (filter (prefix ''schemas/'') (map fst fs)))"

definition zip_app :: "files \<Rightarrow> files" where
  "zip_app fs =
     (let entry = (\<lambda>n. case map_of fs n of None \<Rightarrow> [] | Some c \<Rightarrow> [(n, c)])
      in concat (map entry [''services.xml'', ''hosts.xml''])
         @ concat (map (\<lambda>n. entry (''schemas/'' @ n)) (sort (schema_names fs))))"

section \<open>Deploying\<close>

text \<open>An answer, an error status of the server, or an exception of the connection.\<close>

datatype post_result = Answered nat string | HttpStatusError nat string | ConnectionFailed exc

definition deploy :: "(files \<Rightarrow> post_result) \<Rightarrow> files \<Rightarrow> (nat \<times> string) res" where
  "deploy post z = (case post z of
      Answered status body \<Rightarrow> Inr (status, body)
    | HttpStatusError code body \<Rightarrow> Inr (code, body)
    | ConnectionFailed e \<Rightarrow> Inl e)"

record deploy_env =
  de_config :: probe
  de_query :: probe
  de_wait :: rat
  de_app :: "files option"
  de_post :: "files \<Rightarrow> post_result"
  de_took :: rat

text \<open>The exit status or the exception, the packages posted and the final time.\<close>

definition main :: "deploy_env \<Rightarrow> rat \<Rightarrow> nat res \<times> files list \<times> rat" where
  "main de t =
     (case wait_healthy (de_config de) (t + de_wait de) t of
        (False, t) \<Rightarrow> (Inr 1, [], t)
      | (True, t) \<Rightarrow>
          (case de_app de of
             None \<Rightarrow> (Inr 1, [], t)
           | Some fs \<Rightarrow>
               let z = zip_app fs; t = t + max 0 (de_took de) in
               (case deploy (de_post de) z of
                  Inl e \<Rightarrow> (Inl e, [z], t)
                | Inr (status, body) \<Rightarrow>
                    if status \<noteq> 200 then (Inr 1, [z], t)
                    else (Inr 0, [z], snd (wait_healthy (de_query de) (t + 120) t)))))"

section \<open>Facts\<close>

text \<open>The waiting ends after the deadline at most by one probe and one pause.\<close>

lemma wait_bound:
  "(\<And>u. snd (probe u) \<le> D) \<Longrightarrow> 0 \<le> D \<Longrightarrow> snd (wait_healthy probe deadline t) \<le> max t (deadline + D + 3)"
proof (induction probe deadline t rule: wait_healthy.induct)
  case (1 probe deadline t)
  obtain r d where p: "probe t = (r, d)" by (cases "probe t")
  with 1(2) [of t] have d: "max 0 d \<le> D" using 1(3) by simp
  show ?case
  proof (cases "t < deadline")
    case False
    then show ?thesis by (simp add: wait_healthy.simps [of probe deadline t])
  next
    case True
    with d have "t + max 0 d + 3 \<le> deadline + D + 3" by linarith
    moreover from this have "snd (wait_healthy probe deadline (t + max 0 d + 3)) \<le> deadline + D + 3"
      if "\<not> health_up r" using 1(1) [OF True p [symmetric] that 1(2,3)] by simp
    ultimately show ?thesis using True p by (simp add: wait_healthy.simps [of probe deadline t])
  qed
qed

text \<open>The times of the probes; the waiting succeeds when one of them before the deadline is healthy.\<close>

fun probe_time :: "probe \<Rightarrow> rat \<Rightarrow> nat \<Rightarrow> rat" where
  "probe_time probe t 0 = t"
| "probe_time probe t (Suc n) = probe_time probe (t + max 0 (snd (probe t)) + 3) n"

lemma probe_time_ge: "t \<le> probe_time probe t n"
proof (induction n arbitrary: t)
  case (Suc n)
  have "t \<le> t + max 0 (snd (probe t)) + 3" by simp
  also have "\<dots> \<le> probe_time probe (t + max 0 (snd (probe t)) + 3) n" by (rule Suc.IH)
  finally show ?case by simp
qed simp

lemma wait_healthy_iff:
  "fst (wait_healthy probe deadline t) \<longleftrightarrow>
     (\<exists>n. probe_time probe t n < deadline \<and> health_up (fst (probe (probe_time probe t n))))"
proof (induction probe deadline t rule: wait_healthy.induct)
  case (1 probe deadline t)
  obtain r d where p: "probe t = (r, d)" by (cases "probe t")
  show ?case
  proof (cases "t < deadline \<and> \<not> health_up r")
    case True
    then have "fst (wait_healthy probe deadline t) \<longleftrightarrow> fst (wait_healthy probe deadline (t + max 0 d + 3))"
      using p by (simp add: wait_healthy.simps [of probe deadline t])
    also have "\<dots> \<longleftrightarrow> (\<exists>n. probe_time probe t (Suc n) < deadline \<and> health_up (fst (probe (probe_time probe t (Suc n)))))"
      using 1 [of r d] True p by simp
    also have "\<dots> \<longleftrightarrow> (\<exists>n. probe_time probe t n < deadline \<and> health_up (fst (probe (probe_time probe t n))))"
      using True p by (metis fst_conv not0_implies_Suc probe_time.simps(1))
    finally show ?thesis .
  next
    case False
    show ?thesis
    proof (cases "t < deadline")
      case True
      with False p have "fst (wait_healthy probe deadline t)" "health_up (fst (probe (probe_time probe t 0)))"
        by (simp_all add: wait_healthy.simps [of probe deadline t])
      with True show ?thesis by (metis probe_time.simps(1))
    next
      case late: False
      then have "\<not> fst (wait_healthy probe deadline t)" by (simp add: wait_healthy.simps [of probe deadline t])
      moreover have "\<not> probe_time probe t n < deadline" for n
        using late probe_time_ge [of t probe n] by linarith
      ultimately show ?thesis by blast
    qed
  qed
qed

definition packaged :: "string \<Rightarrow> bool" where
  "packaged n \<longleftrightarrow> n = ''services.xml'' \<or> n = ''hosts.xml''
     \<or> (\<exists>m. n = ''schemas/'' @ m \<and> CHR ''/'' \<notin> set m \<and> suffix ''.sd'' m)"

text \<open>The package holds exactly the two configuration files and the schemas, with their contents.\<close>

lemma map_of_entries:
  "map_of (concat (map (\<lambda>n. case map_of fs (f n) of None \<Rightarrow> [] | Some c \<Rightarrow> [(f n, c)]) ns)) k
     = (if k \<in> f ` set ns then map_of fs k else None)"
  by (induction ns) (auto simp: map_add_def split: option.splits)

lemma zip_app_map: "map_of (zip_app fs) n = (if packaged n then map_of fs n else None)"
proof -
  have s: "n \<in> (@) ''schemas/'' ` set (schema_names fs) \<longleftrightarrow>
      n \<in> fst ` set fs \<and> (\<exists>m. n = ''schemas/'' @ m \<and> CHR ''/'' \<notin> set m \<and> suffix ''.sd'' m)"
    by (force simp: schema_names_def image_iff prefix_def)
  have a: "map_of (zip_app fs) n = (case (if n \<in> (@) ''schemas/'' ` set (schema_names fs) then map_of fs n else None) of
      None \<Rightarrow> (if n = ''services.xml'' \<or> n = ''hosts.xml'' then map_of fs n else None) | Some c \<Rightarrow> Some c)"
    using map_of_entries [where fs=fs and f="\<lambda>n. n" and ns="[''services.xml'', ''hosts.xml'']" and k=n]
      map_of_entries [where fs=fs and f="(@) ''schemas/''" and ns="sort (schema_names fs)" and k=n]
    unfolding zip_app_def Let_def by (auto simp: map_add_def split: option.splits)
  have "n \<notin> fst ` set fs \<Longrightarrow> map_of fs n = None" by (simp add: map_of_eq_None_iff)
  then show ?thesis unfolding a s packaged_def by (auto split: option.splits)
qed

text \<open>When the script succeeds, and what it has posted then.\<close>

theorem deploy_outcome:
  "(fst (main de t) = Inr 0 \<longleftrightarrow>
      (\<exists>n. probe_time (de_config de) t n < t + de_wait de \<and> health_up (fst (de_config de (probe_time (de_config de) t n))))
      \<and> (\<exists>fs body. de_app de = Some fs \<and> deploy (de_post de) (zip_app fs) = Inr (200, body)))
   \<and> (\<forall>z\<in>set (fst (snd (main de t))). \<exists>fs. de_app de = Some fs
        \<and> (\<forall>n. map_of z n = (if packaged n then map_of fs n else None)))
   \<and> length (fst (snd (main de t))) \<le> 1"
proof -
  obtain b u where w: "wait_healthy (de_config de) (t + de_wait de) t = (b, u)" by (metis prod.exhaust)
  with wait_healthy_iff [of "de_config de" "t + de_wait de" t] have b: "b \<longleftrightarrow> (\<exists>n. probe_time (de_config de) t n
      < t + de_wait de \<and> health_up (fst (de_config de (probe_time (de_config de) t n))))" by simp
  show ?thesis
    unfolding b [symmetric]
    by (auto simp: main_def w Let_def zip_app_map split: bool.splits option.splits sum.splits prod.splits)
qed

end
