(* ===== verification/QueueConf.thy ===== *)
theory QueueConf
  imports Worker
begin

text \<open>
  The configuration of the queue in \<open>worker/celery_app.py\<close>: brokers, serialisation,
  reliability, limits and the schedule, from the environment.  Numbers are read by Python's
  \<open>int\<close>; one that does not parse ends the start of the process.
\<close>

section \<open>Numbers in the environment\<close>

text \<open>\<open>int(s)\<close>: white space around, a sign, and digits with single underscores between them.\<close>

definition py_int_of :: "string \<Rightarrow> int res" where
  "py_int_of s =
     (let t = py_strip s;
          (negative, d) = (case t of [] \<Rightarrow> (False, [])
            | c # r \<Rightarrow> if c = CHR ''-'' then (True, r) else if c = CHR ''+'' then (False, r) else (False, t));
          parts = py_split ''_'' d
      in if list_all (\<lambda>p. p \<noteq> [] \<and> list_all py_digit p) parts
         then Inr ((if negative then -1 else 1) * int (int_of_dec (concat parts)))
         else Inl (ValueError ''int''))"

definition env_int :: "string option \<Rightarrow> int \<Rightarrow> int res" where
  "env_int v d = (case v of None \<Rightarrow> Inr d | Some s \<Rightarrow> py_int_of s)"

section \<open>The configuration\<close>

record celery_env =
  cv_redis :: "string option"
  cv_broker :: "string option"
  cv_backend :: "string option"
  cv_interval :: "string option"
  cv_auto :: "string option"
  cv_timezone :: "string option"
  cv_expires :: "string option"
  cv_soft :: "string option"
  cv_hard :: "string option"

record celery_conf =
  cc_broker :: string
  cc_backend :: string
  cc_task_serializer :: string
  cc_result_serializer :: string
  cc_accept :: "string list"
  cc_timezone :: string
  cc_utc :: bool
  cc_acks_late :: bool
  cc_reject_on_worker_lost :: bool
  cc_prefetch :: nat
  cc_track_started :: bool
  cc_result_expires :: int
  cc_soft_limit :: int
  cc_time_limit :: int
  cc_retry_on_startup :: bool
  cc_beat :: "(task \<times> rat \<times> string \<times> int) option"
  cc_route :: "task \<Rightarrow> string"

definition mk_celery_conf :: "celery_env \<Rightarrow> celery_conf res" where
  "mk_celery_conf cv =
     res_bind (env_int (cv_interval cv) 15) (\<lambda>minutes.
     res_bind (env_int (cv_expires cv) 86400) (\<lambda>expires.
     res_bind (env_int (cv_soft cv) 1500) (\<lambda>soft.
     res_bind (env_int (cv_hard cv) 1800) (\<lambda>hard.
       Inr \<lparr>cc_broker = broker_url (cv_broker cv) (cv_redis cv),
         cc_backend = broker_url (cv_backend cv) (cv_redis cv),
         cc_task_serializer = ''json'', cc_result_serializer = ''json'', cc_accept = [''json''],
         cc_timezone = (case cv_timezone cv of None \<Rightarrow> ''UTC'' | Some z \<Rightarrow> z), cc_utc = True,
         cc_acks_late = True, cc_reject_on_worker_lost = True, cc_prefetch = 1, cc_track_started = True,
         cc_result_expires = expires, cc_soft_limit = soft, cc_time_limit = hard, cc_retry_on_startup = True,
         cc_beat = beat_schedule (cv_auto cv) minutes, cc_route = route\<rparr>))))"

section \<open>Facts\<close>

lemma split_without: "c \<notin> set s \<Longrightarrow> split_acc [c] acc s = [rev acc @ s]"
proof (induction s arbitrary: acc)
  case (Cons d s)
  then show ?case by (auto simp: py_startswith_iff)
qed simp

lemma digit_facts: "py_digit c \<Longrightarrow> \<not> py_space c \<and> c \<notin> {CHR ''-'', CHR ''+'', CHR ''_''}"
  by (auto simp: py_digit_def py_space_def Let_def)

lemma dec_ends: "\<not> py_space (hd (dec n)) \<and> \<not> py_space (last (dec n))
    \<and> hd (dec n) \<notin> {CHR ''-'', CHR ''+''} \<and> CHR ''_'' \<notin> set (dec n)"
  using digit_facts dec_digits by (metis dec_nonempty hd_in_set insert_iff last_in_set)

text \<open>Every number that Python prints is read back.\<close>

lemma py_int_of_dec: "py_split ''_'' (dec n) = [dec n]" "list_all py_digit (dec n)"
  using dec_ends [of n] dec_digits by (auto simp: py_split_def split_without list_all_iff)

lemma py_int_of_str_int: "py_int_of (str_int i) = Inr i"
proof (cases "i < 0")
  case True
  have "py_strip (CHR ''-'' # dec (nat (- i))) = CHR ''-'' # dec (nat (- i))"
    using dec_ends [of "nat (- i)"] by (intro py_strip_id) (auto simp: py_space_def)
  with True show ?thesis by (simp add: py_int_of_def str_int_def py_int_of_dec Let_def)
next
  case False
  have s: "py_strip (dec (nat i)) = dec (nat i)"
    using dec_ends [of "nat i"] by (intro py_strip_id) auto
  obtain c r where d: "dec (nat i) = c # r" using dec_nonempty by (metis neq_Nil_conv)
  with dec_ends [of "nat i"] have "c \<noteq> CHR ''-''" "c \<noteq> CHR ''+''" by auto
  with False s d have "py_int_of (str_int i) = (if py_split ''_'' (dec (nat i)) = [dec (nat i)] then Inr i else Inl TypeError)"
    using py_int_of_dec [of "nat i"] int_of_dec_dec [of "nat i"] by (simp add: py_int_of_def str_int_def Let_def)
  then show ?thesis by (simp add: py_int_of_dec)
qed

text \<open>The process starts when every number that is set parses.\<close>

lemma conf_starts_iff:
  "(\<exists>cc. mk_celery_conf cv = Inr cc) \<longleftrightarrow>
     (\<forall>s. Some s \<in> {cv_interval cv, cv_expires cv, cv_soft cv, cv_hard cv} \<longrightarrow> (\<exists>i. py_int_of s = Inr i))"
proof -
  have e: "(\<exists>i. env_int v d = Inr i) \<longleftrightarrow> (\<forall>s. v = Some s \<longrightarrow> (\<exists>i. py_int_of s = Inr i))" for v d
    by (auto simp: env_int_def split: option.splits)
  have "(\<exists>cc. mk_celery_conf cv = Inr cc) \<longleftrightarrow> (\<exists>i. env_int (cv_interval cv) 15 = Inr i)
      \<and> (\<exists>i. env_int (cv_expires cv) 86400 = Inr i) \<and> (\<exists>i. env_int (cv_soft cv) 1500 = Inr i)
      \<and> (\<exists>i. env_int (cv_hard cv) 1800 = Inr i)"
    by (auto simp: mk_celery_conf_def)
  then show ?thesis unfolding e by auto
qed

text \<open>A sweep expires when the next one is queued, so that sweeps never pile up: at every time
  at most one message of the scheduler is alive.\<close>

lemma one_live_sweep:
  assumes "beat_schedule auto m = Some (tk, every, queue, expires)" and "0 < m"
    and "of_nat j * every \<le> t" and "t < of_nat j * every + of_int expires"
    and "of_nat k * every \<le> t" and "t < of_nat k * every + of_int expires"
  shows "j = k \<and> route tk = queue \<and> queue \<in> set WORKER_QUEUES"
proof -
  from assms(1) have b: "tk = IngestAll" "every = of_int m * 60" "queue = ''ingestion''" "of_int expires = every"
    by (auto simp: beat_schedule_def split: if_splits)
  have pos: "0 < every" using assms(2) by (simp add: b)
  have step: "a < b + (1 :: rat)" if "a * every \<le> t" "t < b * every + every" for a b
  proof -
    from that have "a * every < (b + 1) * every" by (simp add: distrib_right)
    then show ?thesis using pos by simp
  qed
  have "(of_nat j :: rat) < of_nat k + 1" using assms(3,6) unfolding b(4) by (rule step)
  moreover have "(of_nat k :: rat) < of_nat j + 1" using assms(5,4) unfolding b(4) by (rule step)
  ultimately have "j = k" by linarith
  moreover have "route IngestAll = ''ingestion''" by code_simp
  ultimately show ?thesis by (simp add: b WORKER_QUEUES_def)
qed

end
