(* ===== verification/Spec2Isabelle.thy ===== *)
theory Spec2Isabelle
  imports Groundedness Guardrails QueryRewriter AnswerCache SessionMemory AgentTools IngestProps AuthProps StreamProps DocsProps AdminProps Backfill EvalProps
    Confidential Providers DeployVespa QueueConf
begin

text \<open>
  A retrieval-augmented chat service: documents are parsed, split, embedded and stored
  (\<open>src/ingestion\<close>), questions are answered by a language model that searches them
  (\<open>src/agent\<close>), long jobs run on queue workers (\<open>src/worker\<close>), and four scripts deploy
  the search engine, rebuild the indexes and evaluate the retrieval (\<open>src/scripts\<close>).

  \<^bold>\<open>How a request runs.\<close>  \<open>/chat\<close> and \<open>/chat/stream\<close> of \<open>agent/api.py\<close> screen the message
  (\<open>guardrails\<close>), rewrite a follow-up question (\<open>query_rewriter\<close>), look for a stored answer
  (\<open>answer_cache\<close>), and otherwise run the agent, whose tools search Vespa or Postgres
  through the retrieval cache and the reranker.  What the model says passes the citation gate
  and the groundedness gate; what is verified is stored again, and each turn is recorded in
  the session memory.  Uploads, the S3 webhook and the ingest endpoints put tasks on a queue;
  a worker runs them with the ingest service, which writes the database, the search index
  and the knowledge graph and bumps the version both caches have in their keys.

  \<^bold>\<open>Theories and sources.\<close>
  \<^item> \<open>Prelude\<close>, \<open>PyString\<close>, \<open>PyRegex\<close>, \<open>JsonOps\<close>, \<open>Http\<close>: exceptions as values, Python's strings,
    the part of \<open>re\<close> the patterns use, JSON values, and programs over a state that reply or
    raise, with the triples their properties are proved by.
  \<^item> \<open>Models\<close>: \<open>agent/models.py\<close>.  \<open>SettingsStore\<close>, \<open>QueryRewriter\<close>, \<open>Guardrails\<close>, \<open>Citations\<close>,
    \<open>Groundedness\<close>: the modules of these names, one definition per function.
  \<^item> \<open>RedisStore\<close>, \<open>KeyScheme\<close>, \<open>QueryCache\<close>, \<open>AnswerCache\<close>, \<open>SessionMemory\<close>: \<open>redis_utils.py\<close>,
    what the two caches share, the caches, and the two backends of the session memory.
  \<^item> \<open>AccessControl\<close>, \<open>GraphSearch\<close>, \<open>Database\<close>, \<open>VespaClient\<close>, \<open>Reranker\<close>, \<open>Retrieval\<close>,
    \<open>AgentTools\<close>: \<open>access_control.py\<close>, \<open>graph_utils.py\<close>, \<open>db_utils.py\<close>, \<open>vespa_client.py\<close>,
    \<open>reranker.py\<close>, \<open>retriever.py\<close> with \<open>tools.py\<close>, and \<open>agent.py\<close>.
  \<^item> \<open>Chunker\<close>, \<open>ChunkerFacts\<close>, \<open>Embedder\<close>, \<open>FileParsers\<close>, \<open>GraphBuilder\<close>, \<open>Ingest\<close>, \<open>IngestFacts\<close>,
    \<open>IngestProps\<close>: \<open>src/ingestion\<close>; \<open>FileParsers\<close> also holds \<open>s3_utils.py\<close>.
  \<^item> \<open>Auth\<close>, \<open>AuthRouter\<close>, \<open>UsersRouter\<close>, \<open>AuthSteps\<close>, \<open>AuthInvariants\<close>, \<open>AuthProps\<close>: \<open>auth_utils.py\<close>,
    \<open>auth_deps.py\<close>, \<open>auth_router.py\<close>, \<open>users_router.py\<close>, everything they can do to the database as
    a step relation, and what holds in every reachable state.
  \<^item> \<open>AgentRun\<close>, \<open>Conversation\<close>, \<open>ChatMemory\<close>, \<open>ConversationProps\<close>: the run of the agent and
    \<open>run_agent_turn\<close> of \<open>conversation.py\<close>.  \<open>ChatApi\<close>, \<open>ChatStream\<close>, \<open>ChatProps\<close>, \<open>StreamProps\<close>:
    the chat endpoints of \<open>api.py\<close>; \<open>Confidential\<close>: what an anonymous caller gets to see, over
    all of them.  \<open>DocsApi\<close>, \<open>DocsProps\<close>: its other endpoints.  \<open>AdminApi\<close>,
    \<open>AdminProps\<close>: \<open>settings_router.py\<close> and the avatars of \<open>users_router.py\<close>.
  \<^item> \<open>Worker\<close>, \<open>QueueConf\<close>, \<open>WorkerProps\<close>: \<open>src/worker\<close> and the queues of
    \<open>docker-compose.yml\<close>.  \<open>Backfill\<close>, \<open>EvalRag\<close>, \<open>EvalProps\<close>, \<open>DeployVespa\<close>: \<open>src/scripts\<close>.
    \<open>Providers\<close>: \<open>agent/providers.py\<close>.

  \<^bold>\<open>State.\<close>  Each store is a value: Redis is a map with expiry times (or down), the database
  is a record of tables as lists of rows, the search index a dictionary of documents, the
  graph a record of nodes and edges, the queue a list of tasks.  A turn runs on \<open>chat_state\<close>,
  the ingest service on \<open>world\<close>, the other endpoints on \<open>site\<close>, the accounts on \<open>auth_db\<close>;
  an operation returns the state it leaves, also when it raises.

  \<^bold>\<open>Interfaces.\<close>  \<open>versioned_keys\<close>: what a key scheme must satisfy so that scopes are separate
  and a version bump hides every entry; both caches interpret it.  \<open>session_backend\<close>: a store
  in which a turn appends two messages and keeps a window; both backends interpret it, and
  their equivalence follows.  \<open>numbered_chunks\<close>: chunks are numbered from 0 and carry their total;
  both chunkers interpret it.  \<open>auth_invariant\<close>: a predicate that single writes keep is kept
  by every run of the endpoints; four invariants interpret it.  \<open>at_least_once\<close>: a job after
  whose success another delivery changes nothing; the document task interprets it.

  \<^bold>\<open>What is shown.\<close>  Gates: only retrieved chunks are cited, what each stage lets through, what
  is stored in the caches and for whom.  Streams: the protocol of the events, and that the
  client ends with the recorded text.  Access: which rows a caller can see, and that
  after any history of searches an anonymous caller retrieves public chunks only, through the
  filter, the fallback, the shared cache and the reranker.  Accounts: unique
  keys, single use of refresh and reset tokens, what a login opens and what ends an access.
  Ingestion: the chunk-level difference of an update, the consistency of the database over
  whole bulk runs, splitting as a cover of the text, retries that keep every chunk.
  Queues: redelivery is harmless, sweeps do not pile up, and which tasks
  nobody serves.  Where the code does not do
  what it means to, the theorem states what it does: a configuration on which the splitting
  never ends, a failed save that is skipped forever, a password reset without a credential,
  alerts nobody delivers, an identifier under which private chunks reach anonymous callers.

  \<^bold>\<open>Loops.\<close>  \<open>split_loop\<close> may run forever: it is a partial function whose value is \<open>None\<close> then,
  and so is that of whatever calls it; it is proved for which configurations it ends, and that
  an ingestion without faults does.  The rounds of the agent are bounded
  by \<open>ce_limit\<close>, the request limit of the agent library (its default is 50); at the limit the
  library raises.  Retries are bounded by the code's own constants (\<open>MAX_RETRIES\<close>, the
  embedder's attempts).  The paging loop of the backfill recurses on the rows that are left; the
  waiting loop of the deployment ends because every pause advances the clock.
  All other recursion is structural or has its measure.

  \<^bold>\<open>Parameters.\<close>  Language models, the embedding and rerank providers, Vespa's ranking, the remote
  search procedures, parsers, bcrypt, hashes, the JWT library, random sources and clocks
  are arguments; properties name what they need of them (that a decoded token is the encoded
  one, that a hash is injective on the keys at hand), and their witnesses supply functions.

  \<^bold>\<open>Abstractions.\<close>  Floating-point numbers are exact rationals and have no NaN; a character is
  one of 256, so that text outside Latin-1 is not represented, and dashes in messages are
  written \<open>-\<close>; bytes are lists of characters.  Time does not pass during a turn.  Log lines, sleeping,
  query times and client disconnects are left out.

  \<^bold>\<open>Not modelled.\<close>  The prompts, the CORS and compression middleware of the application,
  index creation in the graph, the two index builders of the retriever that do nothing, printed
  reports, classes of \<open>agent/models.py\<close> that nothing constructs, the demo mains, the tests,
  the configuration of the search engine and the other services of \<open>docker-compose.yml\<close>.  The
  time limits of a task are configured but not enforced: a task that does not end is \<open>None\<close>.
\<close>

end
